(* ===== verification/Pdb_Prelude.thy ===== *)
theory Pdb_Prelude
  imports Main "HOL-Library.Word"
begin

text \<open>
  Shared vocabulary of the development: the result type of the library's functions, the
  pieces of the C standard library the sources use (character classes, decimal printing,
  the \<open>strtol\<close> family, truncating division), and generic lemmas on lists that several
  components need.

  C strings are \<^typ>\<open>string\<close>s; the terminating NUL is the end of the list, so a character
  list that stands for a C string never holds \<open>CHR 0x00\<close>.
\<close>

named_theorems pdb_string \<open>rules that reassociate and normalise string building\<close>
named_theorems pdb_ctype \<open>the character classes of ctype.h\<close>

section \<open>Results: a negative return code or a value\<close>

text \<open>
  The library's functions return a negative \<open>int\<close> on error. A call is a sum: \<open>Inl\<close> of the
  error or \<open>Inr\<close> of what the function returns or stores on success. \<open>res_bind\<close> is the
  idiom \<open>ret = f(...); if ( ret < 0 ) return ret;\<close>.
\<close>

definition res_bind :: "'e + 'a \<Rightarrow> ('a \<Rightarrow> 'e + 'b) \<Rightarrow> 'e + 'b" where
  "res_bind r f = (case r of Inl e \<Rightarrow> Inl e | Inr x \<Rightarrow> f x)"

lemma res_bind_simps [simp]:
  "res_bind (Inl e) f = Inl e"
  "res_bind (Inr x) f = f x"
  by (simp_all add: res_bind_def)

lemma res_bind_Inr_iff: "res_bind r f = Inr y \<longleftrightarrow> (\<exists>x. r = Inr x \<and> f x = Inr y)"
  by (cases r) auto

lemma res_bind_InrE [elim]:
  assumes "res_bind r f = Inr y"
  obtains x where "r = Inr x" "f x = Inr y"
  using assms by (cases r) auto

definition is_ok :: "'e + 'a \<Rightarrow> bool" where
  "is_ok r = (case r of Inl _ \<Rightarrow> False | Inr _ \<Rightarrow> True)"

lemma is_ok_simps [simp]: "is_ok (Inr x)" "\<not> is_ok (Inl e)"
  by (simp_all add: is_ok_def)

lemma is_ok_iff: "is_ok r \<longleftrightarrow> (\<exists>x. r = Inr x)"
  by (cases r) auto

section \<open>Character classes of the C locale\<close>

definition isspace :: "char \<Rightarrow> bool" where
  "isspace c \<longleftrightarrow> c \<in> {CHR '' '', CHR 0x09, CHR 0x0A, CHR 0x0B, CHR 0x0C, CHR 0x0D}"

definition isdigit :: "char \<Rightarrow> bool" where
  "isdigit c \<longleftrightarrow> 48 \<le> (of_char c :: nat) \<and> (of_char c :: nat) \<le> 57"

definition isalpha :: "char \<Rightarrow> bool" where
  "isalpha c \<longleftrightarrow> (65 \<le> (of_char c :: nat) \<and> (of_char c :: nat) \<le> 90) \<or>
                (97 \<le> (of_char c :: nat) \<and> (of_char c :: nat) \<le> 122)"

definition isalnum :: "char \<Rightarrow> bool" where
  "isalnum c \<longleftrightarrow> isalpha c \<or> isdigit c"

definition tolower :: "char \<Rightarrow> char" where
  "tolower c = (let n = (of_char c :: nat) in if 65 \<le> n \<and> n \<le> 90 then char_of (n + 32) else c)"

text \<open>\<open>strcasecmp(a, b) == 0\<close> and \<open>strncasecmp(a, b, n) == 0\<close>.\<close>

definition strcase_eq :: "string \<Rightarrow> string \<Rightarrow> bool" where
  "strcase_eq a b \<longleftrightarrow> map tolower a = map tolower b"

definition strncase_eq :: "string \<Rightarrow> string \<Rightarrow> nat \<Rightarrow> bool" where
  "strncase_eq a b n \<longleftrightarrow> map tolower (take n a) = map tolower (take n b)"

text \<open>What a function that takes a C string sees of a buffer.\<close>

definition c_str :: "string \<Rightarrow> string" where
  "c_str s = takeWhile (\<lambda>c. c \<noteq> CHR 0x00) s"

text \<open>What \<open>snprintf\<close> leaves in a buffer of \<open>n\<close> bytes.\<close>

definition snprintf_buf :: "nat \<Rightarrow> string \<Rightarrow> string" where
  "snprintf_buf n s = take (n - 1) s"

lemma isspace_space [simp, pdb_ctype]: "isspace (CHR '' '')"
  by (simp add: isspace_def)

lemma isalnum_not_space [pdb_ctype]: "isalnum c \<Longrightarrow> \<not> isspace c"
  by (auto simp: isalnum_def isalpha_def isdigit_def isspace_def)

lemma isdigit_not_space [pdb_ctype]: "isdigit c \<Longrightarrow> \<not> isspace c"
  by (auto simp: isdigit_def isspace_def)

section \<open>Decimal printing: \<open>%d\<close> and \<open>%u\<close>\<close>

definition digit_char :: "nat \<Rightarrow> char" where
  "digit_char n = char_of (48 + n)"

definition digit_val :: "char \<Rightarrow> nat" where
  "digit_val c = of_char c - 48"

fun dec_nat :: "nat \<Rightarrow> string" where
  "dec_nat n = (if n < 10 then [digit_char n] else dec_nat (n div 10) @ [digit_char (n mod 10)])"

declare dec_nat.simps [simp del]

definition dec_int :: "int \<Rightarrow> string" where
  "dec_int i = (if i < 0 then CHR ''-'' # dec_nat (nat (- i)) else dec_nat (nat i))"

lemma of_char_digit_char: "n < 10 \<Longrightarrow> (of_char (digit_char n) :: nat) = 48 + n"
  by (simp add: digit_char_def)

lemma digit_val_digit_char [simp]: "n < 10 \<Longrightarrow> digit_val (digit_char n) = n"
  by (simp add: digit_val_def of_char_digit_char)

lemma isdigit_digit_char [simp]: "n < 10 \<Longrightarrow> isdigit (digit_char n)"
  by (simp add: isdigit_def of_char_digit_char)

definition dec_value :: "string \<Rightarrow> nat" where
  "dec_value s = foldl (\<lambda>a c. a * 10 + digit_val c) 0 s"

lemma dec_value_append1: "dec_value (s @ [c]) = dec_value s * 10 + digit_val c"
  by (simp add: dec_value_def)

lemma dec_nat_nonempty [simp]: "dec_nat n \<noteq> []"
  by (subst dec_nat.simps) simp

lemma dec_nat_digits: "\<forall>c \<in> set (dec_nat n). isdigit c"
proof (induction n rule: dec_nat.induct)
  case (1 n)
  then show ?case by (cases "n < 10") (auto simp: dec_nat.simps [of n])
qed

lemma dec_value_dec_nat [simp]: "dec_value (dec_nat n) = n"
proof (induction n rule: dec_nat.induct)
  case (1 n)
  then show ?case
    by (cases "n < 10") (simp_all add: dec_nat.simps [of n] dec_value_append1, simp add: dec_value_def)
qed

lemma dec_nat_inj: "dec_nat m = dec_nat n \<longleftrightarrow> m = n"
  by (metis dec_value_dec_nat)

lemma minus_not_digit: "\<not> isdigit (CHR ''-'')"
  by (simp add: isdigit_def)

lemma dec_nat_no_minus: "dec_nat n \<noteq> CHR ''-'' # s"
  using dec_nat_digits [of n] minus_not_digit by auto

lemma dec_int_inj: "dec_int i = dec_int j \<longleftrightarrow> i = j"
  by (auto simp: dec_int_def dec_nat_inj dec_nat_no_minus dec_nat_no_minus [symmetric])

lemma dec_int_of_nat [simp]: "dec_int (int n) = dec_nat n"
  by (simp add: dec_int_def)

section \<open>The \<open>strtol\<close> family, base 10\<close>

text \<open>
  Leading white space, an optional sign, the longest run of digits. The result is the sign,
  the magnitude and the text at the end pointer; with no digit there is no conversion, the
  value is 0 and the end pointer is the start of the string.
\<close>

definition strto_scan :: "string \<Rightarrow> bool \<times> nat \<times> string" where
  "strto_scan s =
     (let t = dropWhile isspace s;
          neg = (case t of c # _ \<Rightarrow> c = CHR ''-'' | [] \<Rightarrow> False);
          u = (case t of c # t' \<Rightarrow> if c = CHR ''-'' \<or> c = CHR ''+'' then t' else t | [] \<Rightarrow> t)
      in if takeWhile isdigit u = [] then (False, 0, s)
         else (neg, dec_value (takeWhile isdigit u), dropWhile isdigit u))"

text \<open>
  \<open>strtol\<close>/\<open>strtoll\<close> into a signed type of \<open>w\<close> bits and \<open>strtoul\<close>/\<open>strtoull\<close> into an
  unsigned one: the value, the end pointer's text and whether \<open>errno\<close> is ERANGE. An
  out-of-range value is clamped; the unsigned functions negate modulo \<open>2 ^ w\<close>.
\<close>

definition strtol_w :: "nat \<Rightarrow> string \<Rightarrow> int \<times> string \<times> bool" where
  "strtol_w w s =
     (let (neg, m, rest) = strto_scan s; v = (if neg then - int m else int m)
      in if v < - (2 ^ (w - 1)) then (- (2 ^ (w - 1)), rest, True)
         else if v > 2 ^ (w - 1) - 1 then (2 ^ (w - 1) - 1, rest, True)
         else (v, rest, False))"

definition strtoul_w :: "nat \<Rightarrow> string \<Rightarrow> int \<times> string \<times> bool" where
  "strtoul_w w s =
     (let (neg, m, rest) = strto_scan s
      in if int m > 2 ^ w - 1 then (2 ^ w - 1, rest, True)
         else if neg then ((- int m) mod 2 ^ w, rest, False)
         else (int m, rest, False))"

lemma takeWhile_digits_append:
  assumes "\<forall>c \<in> set ds. isdigit c" "rest = [] \<or> \<not> isdigit (hd rest)"
  shows "takeWhile isdigit (ds @ rest) = ds" "dropWhile isdigit (ds @ rest) = rest"
  using assms by (cases rest; simp add: takeWhile_append2 dropWhile_append2)+

lemma strto_scan_dec_nat [simp]: "strto_scan (dec_nat n) = (False, n, [])"
proof -
  obtain c cs where cs: "dec_nat n = c # cs" by (cases "dec_nat n") auto
  with dec_nat_digits [of n] have c: "isdigit c" by auto
  then have nosign: "c \<noteq> CHR ''-''" "c \<noteq> CHR ''+''" "\<not> isspace c"
    by (auto simp: isdigit_def isspace_def)
  have tw: "takeWhile isdigit (dec_nat n) = dec_nat n" "dropWhile isdigit (dec_nat n) = []"
    using takeWhile_digits_append [of "dec_nat n" "[]"] dec_nat_digits by auto
  have "strto_scan (dec_nat n) =
      (if takeWhile isdigit (dec_nat n) = [] then (False, 0, dec_nat n)
       else (False, dec_value (takeWhile isdigit (dec_nat n)), dropWhile isdigit (dec_nat n)))"
    unfolding strto_scan_def cs using nosign by simp
  then show ?thesis by (simp add: tw)
qed

lemma strto_scan_dec_int [simp]:
  "strto_scan (dec_int i) = (i < 0, nat \<bar>i\<bar>, [])"
proof (cases "i < 0")
  case True
  let ?n = "nat (- i)"
  have tw: "takeWhile isdigit (dec_nat ?n) = dec_nat ?n" "dropWhile isdigit (dec_nat ?n) = []"
    using takeWhile_digits_append [of "dec_nat ?n" "[]"] dec_nat_digits by auto
  have "\<not> isspace (CHR ''-'')" by (simp add: isspace_def)
  with True show ?thesis by (simp add: dec_int_def strto_scan_def Let_def tw)
next
  case False
  then show ?thesis by (simp add: dec_int_def)
qed

section \<open>C integer division\<close>

definition c_div :: "int \<Rightarrow> int \<Rightarrow> int" where
  "c_div a b = sgn a * sgn b * (\<bar>a\<bar> div \<bar>b\<bar>)"

definition c_mod :: "int \<Rightarrow> int \<Rightarrow> int" where
  "c_mod a b = a - c_div a b * b"

lemma c_div_nonneg: "0 \<le> a \<Longrightarrow> 0 < b \<Longrightarrow> c_div a b = a div b"
  by (cases "a = 0") (simp_all add: c_div_def sgn_if)

lemma c_mod_nonneg: "0 \<le> a \<Longrightarrow> 0 < b \<Longrightarrow> c_mod a b = a mod b"
  by (simp add: c_mod_def c_div_nonneg minus_div_mult_eq_mod)

section \<open>Joining with a separator\<close>

text \<open>
  Many builders of the library add a separator when the buffer is not empty and then the
  item. \<open>sep_cat\<close> is that step, \<open>join_sep\<close> what a run of steps builds.
\<close>

definition sep_cat :: "string \<Rightarrow> string \<Rightarrow> string \<Rightarrow> string" where
  "sep_cat sep buf item = (if buf = [] then item else buf @ sep @ item)"

fun join_sep :: "string \<Rightarrow> string list \<Rightarrow> string" where
  "join_sep sep [] = []"
| "join_sep sep [x] = x"
| "join_sep sep (x # y # zs) = x @ sep @ join_sep sep (y # zs)"

lemma join_sep_append1:
  "xs \<noteq> [] \<Longrightarrow> join_sep sep (xs @ [x]) = join_sep sep xs @ sep @ x"
proof (induction xs)
  case (Cons y ys)
  then show ?case by (cases ys) auto
qed simp

lemma join_sep_Cons_concat: "join_sep sep (x # xs) = x @ concat (map (\<lambda>y. sep @ y) xs)"
  by (induction xs arbitrary: x) simp_all

lemma join_sep_empty_iff: "\<forall>x \<in> set xs. x \<noteq> [] \<Longrightarrow> join_sep sep xs = [] \<longleftrightarrow> xs = []"
  by (induction sep xs rule: join_sep.induct) auto

lemma sep_cat_join_sep:
  assumes "\<forall>x \<in> set xs. x \<noteq> []"
  shows "sep_cat sep (join_sep sep xs) x = join_sep sep (xs @ [x])"
  using assms by (cases "xs = []") (auto simp: sep_cat_def join_sep_append1 join_sep_empty_iff)

lemma foldl_sep_cat_join_sep:
  assumes "\<forall>x \<in> set (xs @ ys). x \<noteq> []"
  shows "foldl (sep_cat sep) (join_sep sep xs) ys = join_sep sep (xs @ ys)"
  using assms
proof (induction ys arbitrary: xs)
  case (Cons y ys)
  then show ?case using Cons.IH [of "xs @ [y]"] by (simp add: sep_cat_join_sep)
qed simp

end
