(* ===== verification/Pdb_Error.thy ===== *)
theory Pdb_Error
  imports Pdb_Prelude
begin

text \<open>
  Error values (src/include/preludedb-error.h, src/preludedb-error.c). A negative return code
  packs a source, a code and a "verbose" bit that says a message was stored for the thread;
  here it is a datatype with the message as an optional component. Some functions return a
  plain \<open>-1\<close> instead, which carries none of these: \<open>RawError\<close>. \<open>Undefined\<close> marks a branch
  in which the C code has no defined behaviour.
\<close>

datatype error_code =
    PRELUDEDB_ERROR_NO_ERROR
  | PRELUDEDB_ERROR_GENERIC
  | PRELUDEDB_ERROR_INVALID_SETTINGS_STRING
  | PRELUDEDB_ERROR_CONNECTION
  | PRELUDEDB_ERROR_QUERY
  | PRELUDEDB_ERROR_INVALID_COLUMN_NUM
  | PRELUDEDB_ERROR_INVALID_COLUMN_NAME
  | PRELUDEDB_ERROR_INVALID_VALUE
  | PRELUDEDB_ERROR_INVALID_VALUE_TYPE
  | PRELUDEDB_ERROR_UNKNOWN_SQL_PLUGIN
  | PRELUDEDB_ERROR_UNKNOWN_FORMAT_PLUGIN
  | PRELUDEDB_ERROR_ALREADY_IN_TRANSACTION
  | PRELUDEDB_ERROR_NOT_IN_TRANSACTION
  | PRELUDEDB_ERROR_INVALID_MESSAGE_IDENT
  | PRELUDEDB_ERROR_INVALID_SELECTED_OBJECT_STRING
  | PRELUDEDB_ERROR_INVALID_OBJECT_SELECTION
  | PRELUDEDB_ERROR_SCHEMA_VERSION_TOO_OLD
  | PRELUDEDB_ERROR_SCHEMA_VERSION_TOO_RECENT
  | PRELUDEDB_ERROR_SCHEMA_VERSION_INVALID
  | PRELUDEDB_ERROR_CANNOT_LOAD_SQL_PLUGIN
  | PRELUDEDB_ERROR_CANNOT_LOAD_FORMAT_PLUGIN
  | PRELUDEDB_ERROR_INDEX
  | PRELUDE_ERROR_ENOSYS \<comment> \<open>libprelude's code for ENOSYS\<close>
  | Lib_code nat \<comment> \<open>any other code of libprelude\<close>

datatype error_source = SOURCE_PRELUDEDB | SOURCE_PRELUDE

datatype db_error =
    Err (err_source: error_source) (err_code: error_code) (err_msg: "string option")
  | RawError
  | Undefined

definition preludedb_error :: "error_code \<Rightarrow> db_error" where
  "preludedb_error c = Err SOURCE_PRELUDEDB c None"

definition preludedb_error_verbose :: "error_code \<Rightarrow> string \<Rightarrow> db_error" where
  "preludedb_error_verbose c m = Err SOURCE_PRELUDEDB c (Some m)"

text \<open>libprelude's own constructor, which some functions of this library call instead.\<close>

abbreviation prelude_error_verbose :: "error_code \<Rightarrow> string \<Rightarrow> db_error" where
  "prelude_error_verbose c m \<equiv> Err SOURCE_PRELUDE c (Some m)"

definition preludedb_error_check :: "db_error \<Rightarrow> error_code \<Rightarrow> bool" where
  "preludedb_error_check e c = (case e of Err src k _ \<Rightarrow> src = SOURCE_PRELUDEDB \<and> k = c | _ \<Rightarrow> False)"

text \<open>The numbers of the enum; libprelude's number for ENOSYS is a parameter.\<close>

fun error_code_num :: "nat \<Rightarrow> error_code \<Rightarrow> nat" where
  "error_code_num _ PRELUDEDB_ERROR_NO_ERROR = 0"
| "error_code_num _ PRELUDEDB_ERROR_GENERIC = 1"
| "error_code_num _ PRELUDEDB_ERROR_INVALID_SETTINGS_STRING = 2"
| "error_code_num _ PRELUDEDB_ERROR_CONNECTION = 3"
| "error_code_num _ PRELUDEDB_ERROR_QUERY = 4"
| "error_code_num _ PRELUDEDB_ERROR_INVALID_COLUMN_NUM = 5"
| "error_code_num _ PRELUDEDB_ERROR_INVALID_COLUMN_NAME = 6"
| "error_code_num _ PRELUDEDB_ERROR_INVALID_VALUE = 7"
| "error_code_num _ PRELUDEDB_ERROR_INVALID_VALUE_TYPE = 8"
| "error_code_num _ PRELUDEDB_ERROR_UNKNOWN_SQL_PLUGIN = 9"
| "error_code_num _ PRELUDEDB_ERROR_UNKNOWN_FORMAT_PLUGIN = 10"
| "error_code_num _ PRELUDEDB_ERROR_ALREADY_IN_TRANSACTION = 11"
| "error_code_num _ PRELUDEDB_ERROR_NOT_IN_TRANSACTION = 12"
| "error_code_num _ PRELUDEDB_ERROR_INVALID_MESSAGE_IDENT = 13"
| "error_code_num _ PRELUDEDB_ERROR_INVALID_SELECTED_OBJECT_STRING = 14"
| "error_code_num _ PRELUDEDB_ERROR_INVALID_OBJECT_SELECTION = 15"
| "error_code_num _ PRELUDEDB_ERROR_SCHEMA_VERSION_TOO_OLD = 16"
| "error_code_num _ PRELUDEDB_ERROR_SCHEMA_VERSION_TOO_RECENT = 17"
| "error_code_num _ PRELUDEDB_ERROR_SCHEMA_VERSION_INVALID = 18"
| "error_code_num _ PRELUDEDB_ERROR_CANNOT_LOAD_SQL_PLUGIN = 19"
| "error_code_num _ PRELUDEDB_ERROR_CANNOT_LOAD_FORMAT_PLUGIN = 20"
| "error_code_num _ PRELUDEDB_ERROR_INDEX = 21"
| "error_code_num enosys PRELUDE_ERROR_ENOSYS = enosys"
| "error_code_num _ (Lib_code n) = n"

definition error_strings :: "string list" where
  "error_strings =
    [''Successful'', ''Unknown generic error'', ''Invalid SQL settings string'',
     ''Connection error'', ''Query error'', ''Invalid column num'', ''Invalid column name'',
     ''Invalid value'', ''Invalid value type'', ''Unknown sql plugin'', ''Unknown format plugin'',
     ''Already in transaction'', ''Not in transaction'', ''Invalid message ident'',
     ''Invalid selected path string'', ''Invalid path selection'',
     ''Database schema version too old'', ''Database schema version too recent'',
     ''Database schema version invalid'', ''Cannot load sql plugin'',
     ''Cannot load format plugin'', ''Invalid index'']"

text \<open>
  \<open>thread_error\<close> is the message stored for the thread (\<open>_prelude_thread_get_error()\<close>),
  \<open>prelude_strerror\<close> libprelude's own function for errors of another source.
\<close>

definition preludedb_strerror ::
    "nat \<Rightarrow> (db_error \<Rightarrow> string) \<Rightarrow> string \<Rightarrow> db_error \<Rightarrow> string" where
  "preludedb_strerror enosys prelude_strerror thread_error e =
     (case e of
        Err src c (Some _) \<Rightarrow> thread_error
      | Err SOURCE_PRELUDEDB c None \<Rightarrow>
          (if error_code_num enosys c \<ge> length error_strings then ''Unknown error code''
           else error_strings ! error_code_num enosys c)
      | _ \<Rightarrow> prelude_strerror e)"

definition preludedb_codes :: "error_code list" where
  "preludedb_codes =
    [PRELUDEDB_ERROR_NO_ERROR, PRELUDEDB_ERROR_GENERIC, PRELUDEDB_ERROR_INVALID_SETTINGS_STRING,
     PRELUDEDB_ERROR_CONNECTION, PRELUDEDB_ERROR_QUERY, PRELUDEDB_ERROR_INVALID_COLUMN_NUM,
     PRELUDEDB_ERROR_INVALID_COLUMN_NAME, PRELUDEDB_ERROR_INVALID_VALUE,
     PRELUDEDB_ERROR_INVALID_VALUE_TYPE, PRELUDEDB_ERROR_UNKNOWN_SQL_PLUGIN,
     PRELUDEDB_ERROR_UNKNOWN_FORMAT_PLUGIN, PRELUDEDB_ERROR_ALREADY_IN_TRANSACTION,
     PRELUDEDB_ERROR_NOT_IN_TRANSACTION, PRELUDEDB_ERROR_INVALID_MESSAGE_IDENT,
     PRELUDEDB_ERROR_INVALID_SELECTED_OBJECT_STRING, PRELUDEDB_ERROR_INVALID_OBJECT_SELECTION,
     PRELUDEDB_ERROR_SCHEMA_VERSION_TOO_OLD, PRELUDEDB_ERROR_SCHEMA_VERSION_TOO_RECENT,
     PRELUDEDB_ERROR_SCHEMA_VERSION_INVALID, PRELUDEDB_ERROR_CANNOT_LOAD_SQL_PLUGIN,
     PRELUDEDB_ERROR_CANNOT_LOAD_FORMAT_PLUGIN, PRELUDEDB_ERROR_INDEX]"

lemma error_check_simps [simp]:
  "preludedb_error_check (preludedb_error c) k \<longleftrightarrow> c = k"
  "preludedb_error_check (preludedb_error_verbose c m) k \<longleftrightarrow> c = k"
  "\<not> preludedb_error_check RawError k"
  "\<not> preludedb_error_check (prelude_error_verbose c m) k"
  by (simp_all add: preludedb_error_check_def preludedb_error_def preludedb_error_verbose_def)

text \<open>The table has one message per code, in the order of the enum.\<close>

lemma error_strings_in_enum_order:
  "map (preludedb_strerror n ps te \<circ> preludedb_error) preludedb_codes = error_strings"
  by (simp add: preludedb_codes_def preludedb_strerror_def preludedb_error_def error_strings_def)

end
