(* ===== verification/Path_Selection.thy ===== *)
theory Path_Selection
  imports Pdb_Error
begin

text \<open>
  IDMEF paths as libprelude hands them out, and path selections
  (src/preludedb-path-selection.c). A path is the data its accessors return: for every
  element its name, its class and its index, and the type of the value the path leads to.
  A class id is named by libprelude's name of the class. Objects are trees here;
  \<open>Object_Heap\<close> has them in memory with their reference counts.
\<close>

section \<open>IDMEF paths\<close>

datatype path_index = Index int | Index_undefined | Index_forbidden

type_synonym idmef_class = string

datatype value_type =
    VALUE_TYPE_TIME | VALUE_TYPE_DATA | VALUE_TYPE_ENUM | VALUE_TYPE_STRING | VALUE_TYPE_UINT32
  | VALUE_TYPE_INT64 | VALUE_TYPE_FLOAT | VALUE_TYPE_OTHER

record path_elem =
  pe_name :: string
  pe_class :: idmef_class
  pe_index :: path_index

record idmef_path =
  path_elems :: "path_elem list"
  path_type :: value_type

definition path_depth :: "idmef_path \<Rightarrow> nat" where
  "path_depth p = length (path_elems p)"

text \<open>Accessors; outside the path they return an error, which no class or name equals.\<close>

definition path_class :: "idmef_path \<Rightarrow> nat \<Rightarrow> idmef_class" where
  "path_class p d = (if d < path_depth p then pe_class (path_elems p ! d) else [])"

definition path_name :: "idmef_path \<Rightarrow> nat \<Rightarrow> string" where
  "path_name p d = (if d < path_depth p then pe_name (path_elems p ! d) else [])"

definition path_get_index :: "idmef_path \<Rightarrow> nat \<Rightarrow> path_index" where
  "path_get_index p d = (if d < path_depth p then pe_index (path_elems p ! d) else Index_undefined)"

definition path_leaf :: "idmef_path \<Rightarrow> string" where
  "path_leaf p = path_name p (path_depth p - 1)"

text \<open>The class that holds the last element.\<close>

definition path_parent_class :: "idmef_path \<Rightarrow> idmef_class" where
  "path_parent_class p = path_class p (path_depth p - 2)"

section \<open>Selected objects\<close>

datatype object_function =
    OBJECT_MIN | OBJECT_MAX | OBJECT_AVG | OBJECT_COUNT | OBJECT_INTERVAL | OBJECT_EXTRACT
  | OBJECT_TIMEZONE

datatype selected_object =
    Object_string string
  | Object_int int
  | Object_path idmef_path
  | Object_function object_function "selected_object list"

definition preludedb_selected_object_is_function :: "selected_object \<Rightarrow> bool" where
  "preludedb_selected_object_is_function ob =
     (case ob of Object_string s \<Rightarrow> False | Object_path p \<Rightarrow> False | Object_int i \<Rightarrow> False
      | Object_function f args \<Rightarrow> True)"

definition preludedb_selected_object_push_arg :: "selected_object \<Rightarrow> selected_object \<Rightarrow> selected_object" where
  "preludedb_selected_object_push_arg ob arg =
     (case ob of Object_function f args \<Rightarrow> Object_function f (args @ [arg]) | _ \<Rightarrow> ob)"

definition preludedb_selected_object_get_arg :: "selected_object \<Rightarrow> nat \<Rightarrow> selected_object option" where
  "preludedb_selected_object_get_arg ob i =
     (case ob of
        Object_function f args \<Rightarrow> if i \<ge> length args then None else Some (args ! i)
      | _ \<Rightarrow> None)"

text \<open>
  The type of the value and the object the type was taken from; the functions MIN, MAX and
  AVG have the type of their argument, whose absence is undefined.
\<close>

fun preludedb_selected_object_get_value_type ::
    "selected_object \<Rightarrow> db_error + value_type \<times> selected_object" where
  "preludedb_selected_object_get_value_type (Object_path p) = Inr (path_type p, Object_path p)"
| "preludedb_selected_object_get_value_type (Object_int i) = Inr (VALUE_TYPE_UINT32, Object_int i)"
| "preludedb_selected_object_get_value_type (Object_string s) = Inr (VALUE_TYPE_STRING, Object_string s)"
| "preludedb_selected_object_get_value_type (Object_function f args) =
     (case f of
        OBJECT_COUNT \<Rightarrow> Inr (VALUE_TYPE_UINT32, Object_function f args)
      | OBJECT_EXTRACT \<Rightarrow> Inr (VALUE_TYPE_UINT32, Object_function f args)
      | OBJECT_INTERVAL \<Rightarrow> Inr (VALUE_TYPE_TIME, Object_function f args)
      | OBJECT_TIMEZONE \<Rightarrow> Inr (VALUE_TYPE_TIME, Object_function f args)
      | _ \<Rightarrow> (case args of
                [] \<Rightarrow> Inl Undefined
              | arg # _ \<Rightarrow> preludedb_selected_object_get_value_type arg))"

section \<open>Selected paths and selections\<close>

record path_flags =
  group_by :: bool
  order_asc :: bool
  order_desc :: bool

record selected_path =
  sp_flags :: path_flags
  sp_idx :: nat
  sp_position :: nat
  sp_column_count :: nat
  sp_object :: selected_object

definition preludedb_selected_path_new :: "selected_object \<Rightarrow> path_flags \<Rightarrow> selected_path" where
  "preludedb_selected_path_new ob flags =
     \<lparr>sp_flags = flags, sp_idx = 0, sp_position = 0, sp_column_count = 1, sp_object = ob\<rparr>"

definition preludedb_selected_path_set_column_count :: "selected_path \<Rightarrow> nat \<Rightarrow> selected_path" where
  "preludedb_selected_path_set_column_count sp n = sp\<lparr>sp_column_count := n\<rparr>"

definition preludedb_selected_path_get_column_index :: "selected_path \<Rightarrow> nat" where
  "preludedb_selected_path_get_column_index sp = sp_position sp"

record path_selection =
  selecteds :: "selected_path list"
  sel_count :: nat
  numpos :: nat

definition preludedb_path_selection_new :: path_selection where
  "preludedb_path_selection_new = \<lparr>selecteds = [], sel_count = 0, numpos = 0\<rparr>"

text \<open>
  \<open>cc\<close> is the format plugin's \<open>get_path_column_count\<close>, asked only while the count is still
  its initial value. The counters are \<open>unsigned int\<close>, so the tests for negative values never
  hold.
\<close>

definition preludedb_path_selection_add ::
    "(selected_path \<Rightarrow> nat) \<Rightarrow> path_selection \<Rightarrow> selected_path \<Rightarrow> path_selection" where
  "preludedb_path_selection_add cc sel sp =
     (let sp1 = sp\<lparr>sp_idx := sel_count sel, sp_position := numpos sel\<rparr>;
          sp2 = (if sp_column_count sp1 = 1 then sp1\<lparr>sp_column_count := cc sp1\<rparr> else sp1)
      in \<lparr>selecteds = selecteds sel @ [sp2], sel_count = (sel_count sel + 1) mod 2 ^ 32,
          numpos = (numpos sel + sp_column_count sp2) mod 2 ^ 32\<rparr>)"

definition preludedb_path_selection_get_selected :: "path_selection \<Rightarrow> nat \<Rightarrow> db_error + selected_path" where
  "preludedb_path_selection_get_selected sel index =
     (if index \<ge> sel_count sel
      then Inl (preludedb_error_verbose PRELUDEDB_ERROR_INDEX
                  (''Invalid index '' @ CHR 0x27 # dec_nat index @ CHR 0x27 # '' for path selection''))
      else Inr (selecteds sel ! index))"

definition preludedb_path_selection_get_next ::
    "path_selection \<Rightarrow> selected_path option \<Rightarrow> selected_path option" where
  "preludedb_path_selection_get_next sel sp =
     (case preludedb_path_selection_get_selected sel (case sp of None \<Rightarrow> 0 | Some p \<Rightarrow> sp_idx p + 1) of
        Inl e \<Rightarrow> None
      | Inr p \<Rightarrow> Some p)"

definition preludedb_path_selection_get_count :: "path_selection \<Rightarrow> nat" where
  "preludedb_path_selection_get_count sel = sel_count sel"

definition preludedb_path_selection_get_column_count :: "path_selection \<Rightarrow> nat" where
  "preludedb_path_selection_get_column_count sel = numpos sel"

section \<open>Facts\<close>

text \<open>
  What a selection built by additions looks like: indexes count up, positions are the sums of
  the column counts before, \<open>numpos\<close> is their total.
\<close>

definition selection_ok :: "path_selection \<Rightarrow> bool" where
  "selection_ok sel \<longleftrightarrow>
     sel_count sel = length (selecteds sel) \<and> length (selecteds sel) < 2 ^ 32 \<and>
     numpos sel = sum_list (map sp_column_count (selecteds sel)) \<and>
     (\<forall>i < length (selecteds sel).
        sp_idx (selecteds sel ! i) = i \<and>
        sp_position (selecteds sel ! i) = sum_list (map sp_column_count (take i (selecteds sel))))"

lemma selection_ok_new: "selection_ok preludedb_path_selection_new"
  by (simp add: selection_ok_def preludedb_path_selection_new_def)

lemma selection_ok_add:
  assumes "selection_ok sel" "length (selecteds sel) + 1 < 2 ^ 32"
    and "numpos sel + (if sp_column_count sp = 1
        then cc (sp\<lparr>sp_idx := sel_count sel, sp_position := numpos sel\<rparr>) else sp_column_count sp) < 2 ^ 32"
  shows "selection_ok (preludedb_path_selection_add cc sel sp)"
proof -
  let ?sel = "preludedb_path_selection_add cc sel sp"
  obtain sp2 where s: "selecteds ?sel = selecteds sel @ [sp2]" "sp_idx sp2 = sel_count sel"
    "sp_position sp2 = numpos sel" "numpos ?sel = (numpos sel + sp_column_count sp2) mod 2 ^ 32"
    "sel_count ?sel = (sel_count sel + 1) mod 2 ^ 32"
    "sp_column_count sp2 = (if sp_column_count sp = 1
        then cc (sp\<lparr>sp_idx := sel_count sel, sp_position := numpos sel\<rparr>) else sp_column_count sp)"
    by (simp add: preludedb_path_selection_add_def Let_def)
  show ?thesis
    using assms s by (auto simp: selection_ok_def nth_append less_Suc_eq)
qed

text \<open>Walking a selection with \<open>get_next\<close> visits its members in order.\<close>

lemma get_next_none: "selection_ok sel \<Longrightarrow>
    preludedb_path_selection_get_next sel None =
      (case selecteds sel of [] \<Rightarrow> None | sp # _ \<Rightarrow> Some sp)"
  by (auto simp: preludedb_path_selection_get_next_def preludedb_path_selection_get_selected_def
      selection_ok_def split: list.splits)

lemma get_next_some:
  assumes "selection_ok sel" "i < length (selecteds sel)"
  shows "preludedb_path_selection_get_next sel (Some (selecteds sel ! i)) =
    (if Suc i < length (selecteds sel) then Some (selecteds sel ! Suc i) else None)"
  using assms
  by (auto simp: preludedb_path_selection_get_next_def preludedb_path_selection_get_selected_def
      selection_ok_def)

end
