(* ===== verification/Classic_Join.thy ===== *)
theory Classic_Join
  imports Path_Selection
begin

text \<open>
  The joins of the classic format (plugins/format/classic/classic-sql-join.c): the tables
  a query needs beside the message table, one per resolved path, with the constraints that
  tie a row to its message, its parent and its index. Comparing paths is libprelude's:
  \<open>path_compare\<close> and \<open>path_ncompare\<close> say whether \<open>idmef_path_compare\<close> and
  \<open>idmef_path_ncompare\<close> return 0.
\<close>

record path_lib =
  path_compare :: "idmef_path \<Rightarrow> idmef_path \<Rightarrow> bool"
  path_ncompare :: "idmef_path \<Rightarrow> idmef_path \<Rightarrow> nat \<Rightarrow> bool"

text \<open>libprelude's class ids, by the names of the classes.\<close>

abbreviation CLASS_ALERT :: idmef_class where "CLASS_ALERT \<equiv> ''alert''"
abbreviation CLASS_HEARTBEAT :: idmef_class where "CLASS_HEARTBEAT \<equiv> ''heartbeat''"
abbreviation CLASS_PROCESS :: idmef_class where "CLASS_PROCESS \<equiv> ''process''"
abbreviation CLASS_SNMP_SERVICE :: idmef_class where "CLASS_SNMP_SERVICE \<equiv> ''snmp_service''"
abbreviation CLASS_WEB_SERVICE :: idmef_class where "CLASS_WEB_SERVICE \<equiv> ''web_service''"
abbreviation CLASS_CHECKSUM :: idmef_class where "CLASS_CHECKSUM \<equiv> ''checksum''"
abbreviation CLASS_FILE :: idmef_class where "CLASS_FILE \<equiv> ''file''"
abbreviation CLASS_FILE_ACCESS :: idmef_class where "CLASS_FILE_ACCESS \<equiv> ''file_access''"
abbreviation CLASS_ADDITIONAL_DATA :: idmef_class where "CLASS_ADDITIONAL_DATA \<equiv> ''additional_data''"
abbreviation CLASS_CLASSIFICATION :: idmef_class where "CLASS_CLASSIFICATION \<equiv> ''classification''"
abbreviation CLASS_ASSESSMENT :: idmef_class where "CLASS_ASSESSMENT \<equiv> ''assessment''"
abbreviation CLASS_OVERFLOW_ALERT :: idmef_class where "CLASS_OVERFLOW_ALERT \<equiv> ''overflow_alert''"
abbreviation CLASS_TOOL_ALERT :: idmef_class where "CLASS_TOOL_ALERT \<equiv> ''tool_alert''"
abbreviation CLASS_CORRELATION_ALERT :: idmef_class where "CLASS_CORRELATION_ALERT \<equiv> ''correlation_alert''"
abbreviation CLASS_SOURCE :: idmef_class where "CLASS_SOURCE \<equiv> ''source''"
abbreviation CLASS_TARGET :: idmef_class where "CLASS_TARGET \<equiv> ''target''"
abbreviation CLASS_USER_ID :: idmef_class where "CLASS_USER_ID \<equiv> ''user_id''"
abbreviation CLASS_ALERTIDENT :: idmef_class where "CLASS_ALERTIDENT \<equiv> ''alertident''"

record joined_table =
  jt_path :: idmef_path
  jt_name :: string
  jt_alias :: string
  jt_parent_type :: "char option"
  jt_constraints :: string

record sql_join =
  top_class :: "idmef_class option"
  jtables :: "joined_table list"
  next_id :: nat

definition classic_sql_join_new :: sql_join where
  "classic_sql_join_new = \<lparr>top_class = None, jtables = [], next_id = 0\<rparr>"

definition classic_sql_join_set_top_class :: "sql_join \<Rightarrow> idmef_class \<Rightarrow> sql_join" where
  "classic_sql_join_set_top_class join c = join\<lparr>top_class := Some c\<rparr>"

section \<open>Looking a path up\<close>

definition last_element_is_listed :: "idmef_path \<Rightarrow> bool" where
  "last_element_is_listed p \<longleftrightarrow> path_get_index p (path_depth p - 1) \<noteq> Index_forbidden"

definition table_serves :: "path_lib \<Rightarrow> idmef_path \<Rightarrow> joined_table \<Rightarrow> bool" where
  "table_serves lib p t \<longleftrightarrow>
     path_depth p = path_depth (jt_path t) \<and>
     (if last_element_is_listed p \<or> (path_type p = VALUE_TYPE_TIME \<and> path_parent_class p \<noteq> CLASS_FILE)
      then path_compare lib p (jt_path t)
      else path_ncompare lib p (jt_path t) (path_depth p - 1))"

definition classic_sql_join_lookup_table :: "path_lib \<Rightarrow> sql_join \<Rightarrow> idmef_path \<Rightarrow> joined_table option" where
  "classic_sql_join_lookup_table lib join p = find (table_serves lib p) (jtables join)"

section \<open>The parent type\<close>

definition resolve_file_parent_type :: "idmef_path \<Rightarrow> char option" where
  "resolve_file_parent_type p =
     (if path_class p 3 = CLASS_FILE_ACCESS \<and> path_class p 4 = CLASS_USER_ID then Some (CHR ''F'') else None)"

definition resolve_target_parent_type :: "idmef_path \<Rightarrow> char option" where
  "resolve_target_parent_type p =
     (if path_depth p = 3 then None
      else if path_class p 2 = CLASS_FILE then resolve_file_parent_type p
      else Some (CHR ''T''))"

definition resolve_source_parent_type :: "idmef_path \<Rightarrow> char option" where
  "resolve_source_parent_type p = (if path_depth p > 3 then Some (CHR ''S'') else None)"

definition resolve_tool_alert_parent_type :: "idmef_path \<Rightarrow> char option" where
  "resolve_tool_alert_parent_type p = (if path_class p 2 = CLASS_ALERTIDENT then Some (CHR ''T'') else None)"

definition resolve_correlation_alert_parent_type :: "idmef_path \<Rightarrow> char option" where
  "resolve_correlation_alert_parent_type p =
     (if path_class p 2 = CLASS_ALERTIDENT then Some (CHR ''C'') else None)"

definition resolve_alert_parent_type :: "idmef_path \<Rightarrow> char option" where
  "resolve_alert_parent_type p =
     (let c = path_class p 1
      in if c = CLASS_CLASSIFICATION \<or> c = CLASS_ASSESSMENT \<or> c = CLASS_OVERFLOW_ALERT then None
         else if c = CLASS_TOOL_ALERT then resolve_tool_alert_parent_type p
         else if c = CLASS_CORRELATION_ALERT then resolve_correlation_alert_parent_type p
         else if c = CLASS_SOURCE then resolve_source_parent_type p
         else if c = CLASS_TARGET then resolve_target_parent_type p
         else if path_leaf p = ''detect_time'' then None
         else Some (CHR ''A''))"

definition resolve_parent_type :: "idmef_path \<Rightarrow> char option" where
  "resolve_parent_type p =
     (if path_class p 0 = CLASS_HEARTBEAT then Some (CHR ''H'') else resolve_alert_parent_type p)"

section \<open>Index constraints\<close>

text \<open>
  An index of -1 or more is compared with \<open>=\<close>; no index at all excludes the row that marks
  the end of a list, whose index is -1.
\<close>

definition index_comparison :: "path_index \<Rightarrow> string \<times> int" where
  "index_comparison index =
     (case index of
        Index i \<Rightarrow> if i \<ge> -1 then (''='', i) else (''!='', -1)
      | _ \<Rightarrow> (''!='', -1))"

definition add_index_constraint :: "string \<Rightarrow> string \<Rightarrow> int \<Rightarrow> path_index \<Rightarrow> string" where
  "add_index_constraint alias constraints parent_level index =
     (let (oper, i) = index_comparison index
      in sep_cat '' AND '' constraints
           (if parent_level = -1 then alias @ ''._index '' @ oper @ '' '' @ dec_int i
            else alias @ ''._parent'' @ dec_int parent_level @ ''_index '' @ oper @ '' '' @ dec_int i))"

text \<open>The loop over the elements between the message and the last two.\<close>

fun resolve_indexes_loop :: "idmef_path \<Rightarrow> string \<Rightarrow> nat list \<Rightarrow> nat \<Rightarrow> string \<Rightarrow> string" where
  "resolve_indexes_loop p alias [] parent_level constraints = constraints"
| "resolve_indexes_loop p alias (d # ds) parent_level constraints =
     (if path_get_index p d = Index_forbidden
      then resolve_indexes_loop p alias ds parent_level constraints
      else resolve_indexes_loop p alias ds (parent_level + 1)
             (add_index_constraint alias constraints (int parent_level) (path_get_index p d)))"

definition resolve_indexes :: "idmef_path \<Rightarrow> string \<Rightarrow> db_error + string" where
  "resolve_indexes p alias =
     (let max_depth = path_depth p
      in if max_depth < 2 then Inl (preludedb_error PRELUDEDB_ERROR_QUERY)
         else (let c = resolve_indexes_loop p alias [1..<max_depth - 2] 0 [];
                   index1 = path_get_index p (max_depth - 1);
                   index2 = path_get_index p (max_depth - 2)
               in Inr (if index1 \<noteq> Index_forbidden then add_index_constraint alias c (-1) index1
                       else if index2 \<noteq> Index_forbidden then add_index_constraint alias c (-1) index2
                       else c)))"

section \<open>Joining a table\<close>

definition alias_of :: "nat \<Rightarrow> string" where
  "alias_of n = CHR ''t'' # dec_nat n"

definition classic_sql_join_new_table ::
    "sql_join \<Rightarrow> idmef_path \<Rightarrow> string \<Rightarrow> sql_join \<times> (db_error + joined_table)" where
  "classic_sql_join_new_table join p name =
     (let tc = path_class p 0
      in if top_class join \<noteq> None \<and> top_class join \<noteq> Some tc then (join, Inl RawError)
         else (let alias = alias_of (next_id join);
                   join1 = join\<lparr>top_class := Some tc, next_id := next_id join + 1\<rparr>
               in case resolve_indexes p alias of
                    Inl e \<Rightarrow> (join1, Inl e)
                  | Inr c \<Rightarrow>
                      (let t = \<lparr>jt_path = p, jt_name = name, jt_alias = alias,
                                jt_parent_type = resolve_parent_type p, jt_constraints = c\<rparr>
                       in (join1\<lparr>jtables := jtables join @ [t]\<rparr>, Inr t))))"

definition classic_joined_table_to_string :: "joined_table \<Rightarrow> string" where
  "classic_joined_table_to_string t =
     '' LEFT JOIN '' @ jt_name t @ '' AS '' @ jt_alias t @ '' ON ('' @
     (case jt_parent_type t of
        None \<Rightarrow> [] | Some c \<Rightarrow> jt_alias t @ ''._parent_type='' @ CHR 0x27 # c # CHR 0x27 # '' AND '') @
     jt_alias t @ ''._message_ident=top_table._ident'' @
     (if jt_constraints t = [] then [] else '' AND '' @ jt_constraints t) @ '')''"

definition classic_sql_join_to_string :: "sql_join \<Rightarrow> string \<Rightarrow> string" where
  "classic_sql_join_to_string join output =
     output @ (if top_class join = Some CLASS_ALERT then ''Prelude_Alert'' else ''Prelude_Heartbeat'') @
     '' AS top_table'' @ concat (map classic_joined_table_to_string (jtables join))"

section \<open>Facts\<close>

text \<open>
  The invariant of a join: table \<open>i\<close> has the alias \<open>ti\<close>, its constraints are those of its
  path, and every table belongs to a path of the top class.
\<close>

definition join_ok :: "sql_join \<Rightarrow> bool" where
  "join_ok join \<longleftrightarrow>
     next_id join = length (jtables join) \<and>
     (\<forall>i < length (jtables join).
        (let t = jtables join ! i
         in jt_alias t = alias_of i \<and> resolve_indexes (jt_path t) (jt_alias t) = Inr (jt_constraints t) \<and>
            jt_parent_type t = resolve_parent_type (jt_path t) \<and>
            top_class join = Some (path_class (jt_path t) 0) \<and> 2 \<le> path_depth (jt_path t)))"

lemma join_ok_new: "join_ok classic_sql_join_new"
  by (simp add: join_ok_def classic_sql_join_new_def)

lemma join_ok_set_top_class: "join_ok (classic_sql_join_set_top_class classic_sql_join_new c)"
  by (simp add: join_ok_def classic_sql_join_new_def classic_sql_join_set_top_class_def)

lemma resolve_indexes_ok: "2 \<le> path_depth p \<Longrightarrow> \<exists>c. resolve_indexes p alias = Inr c"
  by (auto simp: resolve_indexes_def Let_def)

text \<open>When a path can be joined at all.\<close>

definition join_accepts :: "sql_join \<Rightarrow> idmef_path \<Rightarrow> bool" where
  "join_accepts join p \<longleftrightarrow>
     2 \<le> path_depth p \<and> (top_class join = None \<or> top_class join = Some (path_class p 0))"

lemma new_table_ok:
  assumes "join_accepts join p"
  shows "\<exists>t. snd (classic_sql_join_new_table join p name) = Inr t \<and>
    jtables (fst (classic_sql_join_new_table join p name)) = jtables join @ [t] \<and>
    next_id (fst (classic_sql_join_new_table join p name)) = next_id join + 1 \<and>
    top_class (fst (classic_sql_join_new_table join p name)) = Some (path_class p 0) \<and>
    jt_alias t = alias_of (next_id join) \<and> jt_path t = p \<and> jt_name t = name \<and>
    jt_parent_type t = resolve_parent_type p \<and>
    resolve_indexes p (alias_of (next_id join)) = Inr (jt_constraints t)"
proof -
  obtain c where "resolve_indexes p (alias_of (next_id join)) = Inr c"
    using resolve_indexes_ok assms join_accepts_def by blast
  then show ?thesis
    using assms by (auto simp: join_accepts_def classic_sql_join_new_table_def Let_def)
qed

lemma new_table_join_ok:
  assumes "join_ok join" "join_accepts join p"
  shows "join_ok (fst (classic_sql_join_new_table join p name))"
proof -
  obtain t where t: "jtables (fst (classic_sql_join_new_table join p name)) = jtables join @ [t]"
    "next_id (fst (classic_sql_join_new_table join p name)) = next_id join + 1"
    "top_class (fst (classic_sql_join_new_table join p name)) = Some (path_class p 0)"
    "jt_alias t = alias_of (next_id join)" "jt_path t = p" "jt_parent_type t = resolve_parent_type p"
    "resolve_indexes p (alias_of (next_id join)) = Inr (jt_constraints t)"
    using new_table_ok [OF assms(2), of name] by blast
  show ?thesis
    unfolding join_ok_def Let_def
  proof (intro conjI allI impI)
    show "next_id (fst (classic_sql_join_new_table join p name)) =
        length (jtables (fst (classic_sql_join_new_table join p name)))"
      using assms(1) t by (simp add: join_ok_def)
  qed (use assms t in \<open>auto simp: join_ok_def Let_def nth_append less_Suc_eq join_accepts_def\<close>)
qed

lemma alias_of_inj: "alias_of i = alias_of j \<longleftrightarrow> i = j"
  by (simp add: alias_of_def dec_nat_inj)

lemma join_ok_alias: "join_ok join \<Longrightarrow> i < length (jtables join) \<Longrightarrow> jt_alias (jtables join ! i) = alias_of i"
  unfolding join_ok_def Let_def by blast

lemma join_ok_aliases: "join_ok join \<Longrightarrow> map jt_alias (jtables join) = map alias_of [0..<length (jtables join)]"
  by (rule nth_equalityI) (simp_all add: join_ok_alias)

lemma join_ok_distinct:
  assumes "join_ok join"
  shows "distinct (map jt_alias (jtables join))"
  unfolding join_ok_aliases [OF assms] by (simp add: distinct_map inj_on_def alias_of_inj)

text \<open>A table that was just joined serves its path, if comparing a path with itself succeeds.\<close>

lemma lookup_after_new:
  assumes "join_accepts join p" "path_compare lib p p" "path_ncompare lib p p (path_depth p - 1)"
    and "classic_sql_join_lookup_table lib join p = None"
  shows "classic_sql_join_lookup_table lib (fst (classic_sql_join_new_table join p name)) p =
    (case snd (classic_sql_join_new_table join p name) of Inr t \<Rightarrow> Some t | Inl e \<Rightarrow> None)"
proof -
  obtain t where t: "snd (classic_sql_join_new_table join p name) = Inr t"
    "jtables (fst (classic_sql_join_new_table join p name)) = jtables join @ [t]" "jt_path t = p"
    using new_table_ok [OF assms(1), of name] by blast
  have s: "table_serves lib p t" using assms(2,3) t(3) by (simp add: table_serves_def)
  have "find (table_serves lib p) xs = None \<Longrightarrow> find (table_serves lib p) (xs @ [t]) = Some t" for xs
    using s by (induction xs) (auto split: if_splits)
  then have "find (table_serves lib p) (jtables join @ [t]) = Some t"
    using assms(4) by (simp add: classic_sql_join_lookup_table_def)
  then show ?thesis using t by (simp add: classic_sql_join_lookup_table_def)
qed

text \<open>\<open>char aliased_table_name[16]\<close>: the alias and its NUL fit for every \<open>unsigned int\<close>.\<close>

lemma dec_nat_length: "n < 10 ^ k \<Longrightarrow> 0 < k \<Longrightarrow> length (dec_nat n) \<le> k"
proof (induction n arbitrary: k rule: dec_nat.induct)
  case (1 n)
  show ?case
  proof (cases "n < 10")
    case True
    then show ?thesis using 1 by (simp add: dec_nat.simps [of n])
  next
    case False
    then obtain j where j: "k = Suc j" "0 < j" using 1 by (cases k; cases "k - 1") auto
    then have "n div 10 < 10 ^ j" using 1 by (simp add: less_mult_imp_div_less)
    then show ?thesis using False 1 j by (simp add: dec_nat.simps [of n])
  qed
qed

lemma alias_fits: "n < 2 ^ 32 \<Longrightarrow> length (alias_of n) < 16"
  using dec_nat_length [of n 10] by (simp add: alias_of_def)

end
