(* ===== verification/Sql_Settings.thy ===== *)
theory Sql_Settings
  imports Pdb_Error
begin

text \<open>
  The settings string of a database connection (src/preludedb-sql-settings.c): a scanner for
  \<open>name=value\<close> pairs with optional quotes and backslash escapes, and the typed accessors.
  The hash table of libprelude is a map from names to values. The \<open>char **str\<close> cursor of
  the C functions is the remaining text, returned beside the result.
\<close>

type_synonym settings = "string \<rightharpoonup> string"

definition preludedb_sql_settings_new :: settings where
  "preludedb_sql_settings_new = Map.empty"

definition preludedb_sql_settings_set :: "settings \<Rightarrow> string \<Rightarrow> string \<Rightarrow> settings" where
  "preludedb_sql_settings_set m name v = m(name \<mapsto> v)"

definition preludedb_sql_settings_get :: "settings \<Rightarrow> string \<Rightarrow> string option" where
  "preludedb_sql_settings_get m name = m name"

section \<open>The scanner\<close>

definition skip_spaces :: "string \<Rightarrow> string" where
  "skip_spaces str = dropWhile isspace str"

definition name_char :: "char \<Rightarrow> bool" where
  "name_char c \<longleftrightarrow> isalnum c \<or> c = CHR ''_''"

text \<open>\<open>Inr None\<close> is the return value 0: the string is used up.\<close>

definition get_name :: "string \<Rightarrow> db_error + (string \<times> string) option" where
  "get_name str =
     (let start = skip_spaces str
      in if start = [] then Inr None
         else let name = takeWhile name_char start; rest = dropWhile name_char start
              in case rest of
                   [] \<Rightarrow> Inl (preludedb_error PRELUDEDB_ERROR_INVALID_SETTINGS_STRING)
                 | c # rest' \<Rightarrow>
                     if c \<noteq> CHR ''='' \<or> name = []
                     then Inl (preludedb_error PRELUDEDB_ERROR_INVALID_SETTINGS_STRING)
                     else Inr (Some (name, rest')))"

text \<open>The \<open>while ( **str )\<close> loop: \<open>eos\<close> is \<open>end_of_string\<close>; the collected value and the cursor.\<close>

fun get_value_loop :: "char \<Rightarrow> bool \<Rightarrow> string \<Rightarrow> string \<times> string" where
  "get_value_loop eos escaped [] = ([], [])"
| "get_value_loop eos escaped (c # cs) =
     (if escaped then (let (v, r) = get_value_loop eos False cs in (c # v, r))
      else if c = CHR 0x5C then get_value_loop eos True cs
      else if c = eos then ([], cs)
      else (let (v, r) = get_value_loop eos False cs in (c # v, r)))"

definition is_quote :: "char \<Rightarrow> bool" where
  "is_quote c \<longleftrightarrow> c = CHR 0x27 \<or> c = CHR 0x22"

definition get_value :: "string \<Rightarrow> db_error + (string \<times> string)" where
  "get_value str =
     (let (eos, s) = (case str of c # cs \<Rightarrow> if is_quote c then (c, cs) else (CHR '' '', str)
                                | [] \<Rightarrow> (CHR '' '', str));
          (v, rest) = get_value_loop eos False s
      in if rest = [] \<and> is_quote eos
         then Inl (preludedb_error PRELUDEDB_ERROR_INVALID_SETTINGS_STRING)
         else Inr (v, rest))"

lemma get_value_loop_len:
  "get_value_loop eos esc s = (v, r) \<Longrightarrow> length v + length r \<le> length s"
proof -
  have "length (fst (get_value_loop eos esc s)) + length (snd (get_value_loop eos esc s)) \<le> length s"
    by (induction eos esc s rule: get_value_loop.induct) (auto simp: case_prod_beta Let_def)
  then show "get_value_loop eos esc s = (v, r) \<Longrightarrow> length v + length r \<le> length s"
    by simp
qed

lemma get_name_shorter: "get_name s = Inr (Some (n, r)) \<Longrightarrow> length r < length s"
proof -
  assume a: "get_name s = Inr (Some (n, r))"
  let ?t = "dropWhile name_char (dropWhile isspace s)"
  from a have "length r < length ?t"
    by (auto simp: get_name_def skip_spaces_def Let_def split: if_splits list.splits)
  moreover have "length ?t \<le> length s"
    by (meson le_trans length_dropWhile_le)
  ultimately show ?thesis by simp
qed

lemma get_value_shorter: "get_value s = Inr (v, r) \<Longrightarrow> length v + length r \<le> length s"
  by (auto simp: get_value_def Let_def dest!: get_value_loop_len split: if_splits list.splits prod.splits)

text \<open>
  The result carries the settings also on error: pairs read before the error stay set.
\<close>

function preludedb_sql_settings_set_from_string ::
    "settings \<Rightarrow> string \<Rightarrow> settings \<times> (db_error + unit)" where
  "preludedb_sql_settings_set_from_string m str =
     (case get_name str of
        Inl e \<Rightarrow> (m, Inl e)
      | Inr None \<Rightarrow> (m, Inr ())
      | Inr (Some (name, rest)) \<Rightarrow>
          (case get_value rest of
             Inl e \<Rightarrow> (m, Inl e)
           | Inr (v, rest') \<Rightarrow>
               preludedb_sql_settings_set_from_string (preludedb_sql_settings_set m name v) rest'))"
  by pat_completeness auto
termination
  by (relation "measure (\<lambda>(m, s). length s)")
     (auto dest!: get_name_shorter get_value_shorter)

declare preludedb_sql_settings_set_from_string.simps [simp del]

definition preludedb_sql_settings_new_from_string :: "string \<Rightarrow> db_error + settings" where
  "preludedb_sql_settings_new_from_string str =
     (case preludedb_sql_settings_set_from_string preludedb_sql_settings_new str of
        (m, Inl e) \<Rightarrow> Inl e
      | (m, Inr _) \<Rightarrow> Inr m)"

section \<open>The accessors of the macro \<open>convenient_functions\<close>\<close>

datatype setting_key = SQL_SETTING_HOST | SQL_SETTING_PORT | SQL_SETTING_NAME | SQL_SETTING_USER | SQL_SETTING_PASS | SQL_SETTING_TYPE | SQL_SETTING_FILE | SQL_SETTING_LOG

fun setting_string :: "setting_key \<Rightarrow> string" where
  "setting_string SQL_SETTING_HOST = ''host''"
| "setting_string SQL_SETTING_PORT = ''port''"
| "setting_string SQL_SETTING_NAME = ''name''"
| "setting_string SQL_SETTING_USER = ''user''"
| "setting_string SQL_SETTING_PASS = ''pass''"
| "setting_string SQL_SETTING_TYPE = ''type''"
| "setting_string SQL_SETTING_FILE = ''file''"
| "setting_string SQL_SETTING_LOG = ''log''"

definition setting_default :: "setting_key \<Rightarrow> string option" where
  "setting_default k = (if k = SQL_SETTING_NAME then Some ''prelude'' else None)"

definition settings_set_key :: "setting_key \<Rightarrow> settings \<Rightarrow> string \<Rightarrow> settings" where
  "settings_set_key k m v = preludedb_sql_settings_set m (setting_string k) v"

definition settings_get_key :: "setting_key \<Rightarrow> settings \<Rightarrow> string option" where
  "settings_get_key k m =
     (case preludedb_sql_settings_get m (setting_string k) of Some v \<Rightarrow> Some v | None \<Rightarrow> setting_default k)"

lemma setting_string_inj: "setting_string j = setting_string k \<longleftrightarrow> j = k"
  by (cases j; cases k) simp_all

lemma settings_get_set_key:
  "settings_get_key j (settings_set_key k m v) = (if j = k then Some v else settings_get_key j m)"
  by (simp add: settings_get_key_def settings_set_key_def preludedb_sql_settings_get_def
      preludedb_sql_settings_set_def setting_string_inj)

section \<open>Reading back what a writer quotes\<close>

definition valid_name :: "string \<Rightarrow> bool" where
  "valid_name n \<longleftrightarrow> n \<noteq> [] \<and> (\<forall>c \<in> set n. name_char c)"

definition esc_char :: "char \<Rightarrow> string" where
  "esc_char c = (if c = CHR 0x22 \<or> c = CHR 0x5C then [CHR 0x5C, c] else [c])"

definition quote_value :: "string \<Rightarrow> string" where
  "quote_value v = CHR 0x22 # concat (map esc_char v) @ [CHR 0x22]"

definition setting_pair :: "string \<Rightarrow> string \<Rightarrow> string" where
  "setting_pair n v = n @ ''='' @ quote_value v"

lemma get_value_loop_esc:
  "get_value_loop (CHR 0x22) False (concat (map esc_char v) @ CHR 0x22 # r) = (v, r)"
  by (induction v) (auto simp: esc_char_def)

lemma get_value_quote_value:
  "get_value (quote_value v @ r) =
     (if r = [] then Inl (preludedb_error PRELUDEDB_ERROR_INVALID_SETTINGS_STRING) else Inr (v, r))"
  by (simp add: get_value_def quote_value_def is_quote_def get_value_loop_esc)

lemma name_char_not_space: "name_char c \<Longrightarrow> \<not> isspace c"
  by (auto simp: name_char_def isspace_def dest: isalnum_not_space)

lemma name_char_not_eq: "\<not> name_char (CHR ''='')"
  by (simp add: name_char_def isalnum_def isalpha_def isdigit_def)

lemma get_name_pair:
  assumes "valid_name n" "\<forall>c \<in> set sp. isspace c"
  shows "get_name (sp @ n @ ''='' @ r) = Inr (Some (n, r))"
proof -
  from assms obtain c cs where n: "n = c # cs" "name_char c" "\<forall>x \<in> set n. name_char x"
    by (cases n) (auto simp: valid_name_def)
  have drop: "skip_spaces (sp @ n @ ''='' @ r) = n @ ''='' @ r"
    using assms(2) n name_char_not_space by (simp add: skip_spaces_def dropWhile_append2)
  have "takeWhile name_char (n @ ''='' @ r) = n" "dropWhile name_char (n @ ''='' @ r) = CHR ''='' # r"
    using n(3) name_char_not_eq by (simp_all add: takeWhile_append2 dropWhile_append2)
  then show ?thesis using n(1) unfolding get_name_def drop by (simp add: Let_def)
qed

lemma get_name_spaces: "\<forall>c \<in> set sp. isspace c \<Longrightarrow> get_name sp = Inr None"
  by (simp add: get_name_def skip_spaces_def Let_def dropWhile_eq_Nil_conv)

lemma set_from_string_pair:
  assumes "valid_name n" "\<forall>c \<in> set sp. isspace c" "r \<noteq> []"
  shows "preludedb_sql_settings_set_from_string m (sp @ setting_pair n v @ r) =
         preludedb_sql_settings_set_from_string (m(n \<mapsto> v)) r"
proof -
  have "get_name (sp @ setting_pair n v @ r) = Inr (Some (n, quote_value v @ r))"
    using get_name_pair [OF assms(1,2), of "quote_value v @ r"] by (simp add: setting_pair_def)
  moreover have "get_value (quote_value v @ r) = Inr (v, r)"
    using assms(3) by (simp add: get_value_quote_value)
  ultimately show ?thesis
    by (subst preludedb_sql_settings_set_from_string.simps) (simp add: preludedb_sql_settings_set_def)
qed

lemma set_from_string_spaces:
  "\<forall>c \<in> set sp. isspace c \<Longrightarrow> preludedb_sql_settings_set_from_string m sp = (m, Inr ())"
  by (subst preludedb_sql_settings_set_from_string.simps) (simp add: get_name_spaces)

text \<open>A settings string as a list of quoted pairs, each followed by a blank.\<close>

definition settings_text :: "(string \<times> string) list \<Rightarrow> string" where
  "settings_text kvs = concat (map (\<lambda>(n, v). setting_pair n v @ '' '') kvs)"

lemma set_from_string_settings_text:
  assumes "\<forall>(n, v) \<in> set kvs. valid_name n" "sp = [] \<or> sp = '' ''"
  shows "preludedb_sql_settings_set_from_string m (sp @ settings_text kvs) = (m ++ map_of (rev kvs), Inr ())"
  using assms
proof (induction kvs arbitrary: m sp)
  case Nil
  then show ?case by (auto simp: settings_text_def intro!: set_from_string_spaces)
next
  case (Cons kv kvs)
  obtain n v where kv: "kv = (n, v)" by (cases kv)
  have split: "sp @ settings_text (kv # kvs) = sp @ setting_pair n v @ ('' '' @ settings_text kvs)"
    by (simp add: settings_text_def kv)
  have "preludedb_sql_settings_set_from_string m (sp @ settings_text (kv # kvs)) =
        preludedb_sql_settings_set_from_string (m(n \<mapsto> v)) ('' '' @ settings_text kvs)"
    unfolding split using Cons.prems kv by (intro set_from_string_pair) (auto simp: isspace_def)
  also have "\<dots> = (m(n \<mapsto> v) ++ map_of (rev kvs), Inr ())"
    using Cons.IH [of "'' ''"] Cons.prems by simp
  finally show ?case by (simp add: kv map_add_def fun_eq_iff split: option.splits)
qed

text \<open>The closing quote of a value must not be the last character.\<close>

lemma set_from_string_quote_at_end:
  assumes "\<forall>(n, v) \<in> set kvs. valid_name n" "valid_name n" "sp = [] \<or> sp = '' ''"
  shows "snd (preludedb_sql_settings_set_from_string m (sp @ settings_text kvs @ setting_pair n v)) =
    Inl (preludedb_error PRELUDEDB_ERROR_INVALID_SETTINGS_STRING)"
  using assms
proof (induction kvs arbitrary: m sp)
  case Nil
  then have "get_name (sp @ setting_pair n v) = Inr (Some (n, quote_value v))"
    using get_name_pair [of n sp "quote_value v"] by (auto simp: setting_pair_def)
  moreover have "get_value (quote_value v) = Inl (preludedb_error PRELUDEDB_ERROR_INVALID_SETTINGS_STRING)"
    using get_value_quote_value [of v "[]"] by simp
  ultimately show ?case
    by (subst preludedb_sql_settings_set_from_string.simps) (simp add: settings_text_def)
next
  case (Cons kv kvs)
  obtain k x where kv: "kv = (k, x)" by (cases kv)
  let ?r = "'' '' @ settings_text kvs @ setting_pair n v"
  have split: "sp @ settings_text (kv # kvs) @ setting_pair n v = sp @ setting_pair k x @ ?r"
    by (simp add: settings_text_def kv)
  show ?case
    unfolding split using Cons.IH [of "'' ''"] Cons.prems kv
    by (subst set_from_string_pair) (auto simp: isspace_def)
qed

end
