(* ===== verification/Sql_Field.thy ===== *)
theory Sql_Field
  imports Pdb_Error
begin

text \<open>
  Typed access to the text of a result field (the macro \<open>preludedb_sql_field_to\<close> and its
  instances in src/preludedb-sql.c). \<open>long\<close> and \<open>long long\<close> have 64 bits. A field is the
  bytes of its value and the length recorded beside them.
\<close>

record sql_field =
  fvalue :: string
  flen :: nat
  findex :: nat

definition preludedb_sql_field_get_value :: "sql_field \<Rightarrow> string" where
  "preludedb_sql_field_get_value field = fvalue field"

definition preludedb_sql_field_get_len :: "sql_field \<Rightarrow> nat" where
  "preludedb_sql_field_get_len field = flen field"

definition preludedb_sql_field_to_string :: "sql_field \<Rightarrow> string \<Rightarrow> string" where
  "preludedb_sql_field_to_string field out = out @ take (flen field) (fvalue field)"

section \<open>The integer conversions\<close>

text \<open>
  The macro body with \<open>min < 0\<close> and \<open>func\<close> one of \<open>strtol\<close>, \<open>strtoll\<close>, and the one with
  \<open>min = 0\<close> and \<open>func\<close> one of \<open>strtoul\<close>, \<open>strtoull\<close>; \<open>w\<close> is the width of the result.
\<close>

definition field_to_signed :: "nat \<Rightarrow> string \<Rightarrow> db_error + int" where
  "field_to_signed w val =
     (let (tmp, eptr, erange) = strtol_w 64 val
      in if tmp < - (2 ^ (w - 1)) \<or> tmp > 2 ^ (w - 1) - 1 \<or> eptr \<noteq> [] \<or> erange
         then Inl (preludedb_error PRELUDEDB_ERROR_INVALID_VALUE)
         else Inr tmp)"

definition starts_with_minus :: "string \<Rightarrow> bool" where
  "starts_with_minus val = (case val of c # _ \<Rightarrow> c = CHR ''-'' | [] \<Rightarrow> False)"

definition field_to_unsigned :: "nat \<Rightarrow> string \<Rightarrow> db_error + int" where
  "field_to_unsigned w val =
     (if starts_with_minus val then Inl (preludedb_error PRELUDEDB_ERROR_INVALID_VALUE)
      else let (tmp, eptr, erange) = strtoul_w 64 val
           in if tmp > 2 ^ w - 1 \<or> eptr \<noteq> [] \<or> erange
              then Inl (preludedb_error PRELUDEDB_ERROR_INVALID_VALUE)
              else Inr tmp)"

definition preludedb_sql_field_to_int8 :: "sql_field \<Rightarrow> db_error + int" where
  "preludedb_sql_field_to_int8 field = field_to_signed 8 (fvalue field)"

definition preludedb_sql_field_to_uint8 :: "sql_field \<Rightarrow> db_error + int" where
  "preludedb_sql_field_to_uint8 field = field_to_unsigned 8 (fvalue field)"

definition preludedb_sql_field_to_int16 :: "sql_field \<Rightarrow> db_error + int" where
  "preludedb_sql_field_to_int16 field = field_to_signed 16 (fvalue field)"

definition preludedb_sql_field_to_uint16 :: "sql_field \<Rightarrow> db_error + int" where
  "preludedb_sql_field_to_uint16 field = field_to_unsigned 16 (fvalue field)"

definition preludedb_sql_field_to_int32 :: "sql_field \<Rightarrow> db_error + int" where
  "preludedb_sql_field_to_int32 field = field_to_signed 32 (fvalue field)"

definition preludedb_sql_field_to_uint32 :: "sql_field \<Rightarrow> db_error + int" where
  "preludedb_sql_field_to_uint32 field = field_to_unsigned 32 (fvalue field)"

definition preludedb_sql_field_to_int64 :: "sql_field \<Rightarrow> db_error + int" where
  "preludedb_sql_field_to_int64 field = field_to_signed 64 (fvalue field)"

definition preludedb_sql_field_to_uint64 :: "sql_field \<Rightarrow> db_error + int" where
  "preludedb_sql_field_to_uint64 field = field_to_unsigned 64 (fvalue field)"

text \<open>
  The two floating point conversions: \<open>strtof\<close> and \<open>strtod\<close> are parameters that return the
  number, the text at the end pointer and whether \<open>errno\<close> is ERANGE.
\<close>

definition field_to_real :: "(string \<Rightarrow> 'f \<times> string \<times> bool) \<Rightarrow> sql_field \<Rightarrow> db_error + 'f" where
  "field_to_real strto field =
     (let (v, eptr, erange) = strto (preludedb_sql_field_get_value field)
      in if eptr \<noteq> [] \<or> erange then Inl (preludedb_error PRELUDEDB_ERROR_INVALID_VALUE) else Inr v)"

lemmas field_conversions =
  preludedb_sql_field_to_int8_def preludedb_sql_field_to_uint8_def
  preludedb_sql_field_to_int16_def preludedb_sql_field_to_uint16_def
  preludedb_sql_field_to_int32_def preludedb_sql_field_to_uint32_def
  preludedb_sql_field_to_int64_def preludedb_sql_field_to_uint64_def

section \<open>What the conversions accept\<close>

lemma field_to_signed_bounds:
  "field_to_signed w val = Inr v \<Longrightarrow> - (2 ^ (w - 1)) \<le> v \<and> v \<le> 2 ^ (w - 1) - 1"
  by (auto simp: field_to_signed_def split: prod.splits if_splits)

lemma strtoul_w_nonneg: "strtoul_w w s = (v, r, e) \<Longrightarrow> 0 \<le> v"
  by (auto simp: strtoul_w_def split: prod.splits if_splits)

lemma field_to_unsigned_bounds: "field_to_unsigned w val = Inr v \<Longrightarrow> 0 \<le> v \<and> v \<le> 2 ^ w - 1"
  by (auto simp: field_to_unsigned_def dest: strtoul_w_nonneg split: prod.splits if_splits)

lemma pow_le_63: "w \<le> 64 \<Longrightarrow> (2::int) ^ (w - 1) \<le> 2 ^ 63"
  by (rule power_increasing) auto

lemma field_to_signed_dec_int:
  assumes "w \<le> 64"
  shows "field_to_signed w (dec_int i) =
         (if - (2 ^ (w - 1)) \<le> i \<and> i \<le> 2 ^ (w - 1) - 1 then Inr i
          else Inl (preludedb_error PRELUDEDB_ERROR_INVALID_VALUE))"
  using pow_le_63 [OF assms] by (auto simp: field_to_signed_def strtol_w_def)

lemma starts_with_minus_dec_int: "starts_with_minus (dec_int i) \<longleftrightarrow> i < 0"
  using dec_nat_no_minus
  by (auto simp: starts_with_minus_def dec_int_def split: list.splits)

lemma field_to_unsigned_dec_int:
  assumes "w \<le> 64"
  shows "field_to_unsigned w (dec_int i) =
         (if 0 \<le> i \<and> i \<le> 2 ^ w - 1 then Inr i
          else Inl (preludedb_error PRELUDEDB_ERROR_INVALID_VALUE))"
proof -
  have "(2::int) ^ w \<le> 2 ^ 64" using assms by (rule power_increasing) auto
  then show ?thesis
    by (auto simp: field_to_unsigned_def strtoul_w_def starts_with_minus_dec_int)
qed

lemma strto_scan_skip:
  assumes "\<forall>c \<in> set sp. isspace c" "strto_scan s \<noteq> (False, 0, s)"
  shows "strto_scan (sp @ s) = strto_scan s"
  using assms by (auto simp: strto_scan_def Let_def dropWhile_append2 split: if_splits)

lemma dec_int_nonempty [simp]: "dec_int i \<noteq> []" "[] \<noteq> dec_int i"
  using dec_nat_nonempty by (auto simp: dec_int_def split: if_splits dest: sym)

lemma strto_scan_blank_dec_int:
  "\<forall>c \<in> set sp. isspace c \<Longrightarrow> strto_scan (sp @ dec_int i) = (i < 0, nat \<bar>i\<bar>, [])"
  by (subst strto_scan_skip) auto

text \<open>
  A minus sign is looked for in the first byte only, but \<open>strtoul\<close> skips blanks first: a
  negative number behind a blank reaches it and comes back reduced modulo \<open>2 ^ 64\<close>.
\<close>

lemma field_to_unsigned_blank_negative:
  assumes "sp \<noteq> []" "\<forall>c \<in> set sp. isspace c" "0 < n" "n \<le> 2 ^ 64 - 1" "w \<le> 64"
  shows "field_to_unsigned w (sp @ dec_int (- n)) =
         (if 2 ^ 64 - n \<le> 2 ^ w - 1 then Inr (2 ^ 64 - n)
          else Inl (preludedb_error PRELUDEDB_ERROR_INVALID_VALUE))"
proof -
  have "\<not> starts_with_minus (sp @ dec_int (- n))"
    using assms(1,2) by (cases sp) (auto simp: starts_with_minus_def isspace_def)
  moreover have "(- n) mod 2 ^ 64 = 2 ^ 64 - n"
    using assms(3,4) by (simp add: zmod_zminus1_eq_if)
  ultimately show ?thesis
    using assms by (auto simp: field_to_unsigned_def strtoul_w_def strto_scan_blank_dec_int)
qed

end
