(* ===== verification/Sql_Table.thy ===== *)
theory Sql_Table
  imports Sql_Field
begin

text \<open>
  Result tables (src/preludedb-sql.c): a table caches the rows a plugin has produced, a row
  the fields it has produced, and both are reference counted. A row is named by its index in
  its table and a field by its column, as \<open>row->index\<close> and \<open>field->index\<close> do in the C code;
  \<open>rows[i] = NULL\<close> is \<open>None\<close>. \<open>'d\<close> is the plugin's own result handle; a row's \<open>data\<close> pointer
  leads to a row inside it, named by its number there.
\<close>

text \<open>The \<open>value\<close> pointer of a field: NULL, \<open>SQL_NULL_FIELD\<close>, or the bytes and their length.\<close>

datatype field_slot = Unset | SQL_NULL_FIELD | Field string nat

record sql_row =
  row_data :: nat
  row_refcount :: "32 word"
  row_fields :: "field_slot list"

record 'd sql_table =
  tdata :: 'd
  rows :: "sql_row option list"
  row_count :: nat
  column_count :: nat
  refcount :: "16 word"
  tdone :: bool

definition nrow :: "'d sql_table \<Rightarrow> nat" where
  "nrow t = length (rows t)"

definition preludedb_sql_table_new :: "'d \<Rightarrow> 'd sql_table" where
  "preludedb_sql_table_new d =
     \<lparr>tdata = d, rows = [], row_count = 0, column_count = 0, refcount = 1, tdone = False\<rparr>"

definition preludedb_sql_table_get_data :: "'d sql_table \<Rightarrow> 'd" where
  "preludedb_sql_table_get_data t = tdata t"

definition preludedb_sql_table_get_fetched_row_count :: "'d sql_table \<Rightarrow> nat" where
  "preludedb_sql_table_get_fetched_row_count t = nrow t"

text \<open>
  The column count is asked of the plugin (\<open>cc\<close>, its \<open>get_column_count\<close>) once and cached.
\<close>

definition preludedb_sql_table_get_column_count ::
    "('d \<Rightarrow> nat) \<Rightarrow> 'd sql_table \<Rightarrow> 'd sql_table \<times> nat" where
  "preludedb_sql_table_get_column_count cc t =
     (let t' = (if column_count t = 0 then t\<lparr>column_count := cc (tdata t)\<rparr> else t)
      in (t', column_count t'))"

text \<open>
  \<open>nrow\<close> and \<open>row_index\<close> are \<open>unsigned int\<close>: at the largest index \<open>MAX(row_index, nrow) + 1\<close>
  wraps to 0 and the store that follows is out of bounds.
\<close>

definition row_at :: "'d sql_table \<Rightarrow> nat \<Rightarrow> sql_row option" where
  "row_at t i = (if i < nrow t then rows t ! i else None)"

definition preludedb_sql_table_new_row ::
    "('d \<Rightarrow> nat) \<Rightarrow> 'd sql_table \<Rightarrow> nat \<Rightarrow> db_error + 'd sql_table" where
  "preludedb_sql_table_new_row cc t row_index =
     (let (t1, n) = preludedb_sql_table_get_column_count cc t;
          nindex = max row_index (nrow t) + 1;
          row = \<lparr>row_data = 0, row_refcount = 1, row_fields = replicate n Unset\<rparr>
      in if row_index \<ge> nrow t \<and> nindex \<ge> 2 ^ 32 then Inl Undefined
         else let rs = (if row_index \<ge> nrow t then rows t1 @ replicate (nindex - nrow t) None else rows t1)
              in Inr (t1\<lparr>rows := rs[row_index := Some row]\<rparr>))"

definition preludedb_sql_row_set_data :: "sql_row \<Rightarrow> nat \<Rightarrow> sql_row" where
  "preludedb_sql_row_set_data row d = row\<lparr>row_data := d\<rparr>"

definition preludedb_sql_row_get_data :: "sql_row \<Rightarrow> nat" where
  "preludedb_sql_row_get_data row = row_data row"

text \<open>Storing a field: a NULL value is remembered as such. The result is the return value.\<close>

definition preludedb_sql_row_new_field ::
    "sql_row \<Rightarrow> nat \<Rightarrow> (string \<times> nat) option \<Rightarrow> sql_row \<times> nat" where
  "preludedb_sql_row_new_field row num v =
     (case v of
        None \<Rightarrow> (row\<lparr>row_fields := (row_fields row)[num := SQL_NULL_FIELD]\<rparr>, 0)
      | Some (s, l) \<Rightarrow> (row\<lparr>row_fields := (row_fields row)[num := Field s l]\<rparr>, 1))"

definition set_row :: "'d sql_table \<Rightarrow> nat \<Rightarrow> sql_row option \<Rightarrow> 'd sql_table" where
  "set_row t i r = t\<lparr>rows := (rows t)[i := r]\<rparr>"

lemma nrow_simps [simp]:
  "nrow (set_row t i r) = nrow t"
  "nrow (t\<lparr>tdone := b\<rparr>) = nrow t"
  "nrow (t\<lparr>tdata := d\<rparr>) = nrow t"
  "nrow (t\<lparr>column_count := n\<rparr>) = nrow t"
  "nrow (t\<lparr>row_count := n\<rparr>) = nrow t"
  "nrow (t\<lparr>refcount := c\<rparr>) = nrow t"
  by (simp_all add: nrow_def set_row_def)

lemma set_row_simps [simp]:
  "tdata (set_row t i r) = tdata t"
  "column_count (set_row t i r) = column_count t"
  "refcount (set_row t i r) = refcount t"
  "tdone (set_row t i r) = tdone t"
  "row_count (set_row t i r) = row_count t"
  by (simp_all add: set_row_def)

lemma row_at_set_row [simp]:
  "i < nrow t \<Longrightarrow> row_at (set_row t i r) j = (if j = i then r else row_at t j)"
  by (auto simp: row_at_def set_row_def nrow_def)

lemma row_at_update [simp]:
  "row_at (t\<lparr>tdone := b\<rparr>) j = row_at t j"
  "row_at (t\<lparr>tdata := d\<rparr>) j = row_at t j"
  "row_at (t\<lparr>column_count := n\<rparr>) j = row_at t j"
  "row_at (t\<lparr>row_count := n\<rparr>) j = row_at t j"
  "row_at (t\<lparr>refcount := c\<rparr>) j = row_at t j"
  by (simp_all add: row_at_def nrow_def)

text \<open>A new row at the end of the table, which is how the sequential plugins append.\<close>

lemma new_row_append:
  assumes "nrow t + 1 < 2 ^ 32"
  shows "preludedb_sql_table_new_row cc t (nrow t) =
    (let (t1, n) = preludedb_sql_table_get_column_count cc t
     in Inr (t1\<lparr>rows := rows t @ [Some \<lparr>row_data = 0, row_refcount = 1, row_fields = replicate n Unset\<rparr>]\<rparr>))"
  using assms
  by (auto simp: preludedb_sql_table_new_row_def preludedb_sql_table_get_column_count_def Let_def nrow_def)

lemma new_row_ok:
  assumes "i + 1 < 2 ^ 32"
  shows "\<exists>t'. preludedb_sql_table_new_row cc t i = Inr t'"
proof (cases "nrow t \<le> i")
  case True
  then show ?thesis using assms by (auto simp: preludedb_sql_table_new_row_def Let_def split_beta max_def)
next
  case False
  then show ?thesis by (auto simp: preludedb_sql_table_new_row_def Let_def split_beta)
qed

lemma new_row_row_at:
  assumes "preludedb_sql_table_new_row cc t i = Inr t'"
  shows "row_at t' j = (if j = i then Some \<lparr>row_data = 0, row_refcount = 1,
             row_fields = replicate (snd (preludedb_sql_table_get_column_count cc t)) Unset\<rparr>
           else row_at t j)"
  using assms
  by (auto simp: preludedb_sql_table_new_row_def preludedb_sql_table_get_column_count_def Let_def
      row_at_def nrow_def nth_append nth_list_update split: if_splits)

lemma new_row_nrow:
  "preludedb_sql_table_new_row cc t i = Inr t' \<Longrightarrow> nrow t' = max (nrow t) (i + 1)"
  by (auto simp: preludedb_sql_table_new_row_def preludedb_sql_table_get_column_count_def Let_def
      nrow_def split: if_splits)

lemma new_row_frame:
  "preludedb_sql_table_new_row cc t i = Inr t' \<Longrightarrow>
     tdata t' = tdata t \<and> tdone t' = tdone t \<and> refcount t' = refcount t \<and> row_count t' = row_count t"
  by (auto simp: preludedb_sql_table_new_row_def preludedb_sql_table_get_column_count_def Let_def
      split: if_splits)

section \<open>Reference counting\<close>

text \<open>
  \<open>Freed d\<close> is a table whose memory was released; \<open>d\<close> lists the rows that survive it because
  someone still holds them, and whose \<open>table\<close> pointer dangles from then on.
\<close>

datatype 'd table_state = Live "'d sql_table" | Freed "nat list"

definition preludedb_sql_table_ref :: "'d sql_table \<Rightarrow> 'd sql_table" where
  "preludedb_sql_table_ref t = t\<lparr>refcount := refcount t + 1\<rparr>"

definition surviving_rows :: "'d sql_table \<Rightarrow> nat list" where
  "surviving_rows t =
     filter (\<lambda>i. case row_at t i of Some r \<Rightarrow> row_refcount r - 1 > 0 | None \<Rightarrow> False) [0..<nrow t]"

definition preludedb_sql_table_destroy :: "'d sql_table \<Rightarrow> 'd table_state" where
  "preludedb_sql_table_destroy t =
     (let t' = t\<lparr>refcount := refcount t - 1\<rparr>
      in if refcount t' > 0 then Live t' else Freed (surviving_rows t'))"

text \<open>Taking a second reference to a row takes one to its table; giving it back releases both.\<close>

definition preludedb_sql_row_ref :: "'d sql_table \<Rightarrow> nat \<Rightarrow> 'd sql_table" where
  "preludedb_sql_row_ref t i =
     (case row_at t i of
        None \<Rightarrow> t
      | Some row \<Rightarrow>
          let t' = (if row_refcount row = 1 then preludedb_sql_table_ref t else t)
          in set_row t' i (Some (row\<lparr>row_refcount := row_refcount row + 1\<rparr>)))"

definition preludedb_sql_row_destroy :: "'d sql_table \<Rightarrow> nat \<Rightarrow> 'd table_state" where
  "preludedb_sql_row_destroy t i =
     (case row_at t i of
        None \<Rightarrow> Live t
      | Some row \<Rightarrow>
          let row' = row\<lparr>row_refcount := row_refcount row - 1\<rparr>
          in if row_refcount row' > 0
             then (if row_refcount row' = 1
                   then preludedb_sql_table_destroy (set_row t i (Some row'))
                   else Live (set_row t i (Some row')))
             else Live (set_row t i None))"

definition preludedb_sql_field_ref :: "'d sql_table \<Rightarrow> nat \<Rightarrow> 'd sql_table" where
  "preludedb_sql_field_ref t i = preludedb_sql_row_ref t i"

definition preludedb_sql_field_destroy :: "'d sql_table \<Rightarrow> nat \<Rightarrow> nat \<Rightarrow> 'd table_state" where
  "preludedb_sql_field_destroy t i c =
     (case row_at t i of
        None \<Rightarrow> Live t
      | Some row \<Rightarrow>
          if row_fields row ! c = SQL_NULL_FIELD then Live t else preludedb_sql_row_destroy t i)"

text \<open>
  What the counters mean: \<open>ext\<close> references to the table are held by clients, and \<open>rext i\<close>
  references to row \<open>i\<close> beside the table's own.
\<close>

definition held_rows :: "'d sql_table \<Rightarrow> (nat \<Rightarrow> nat) \<Rightarrow> nat set" where
  "held_rows t rext = {i. i < nrow t \<and> row_at t i \<noteq> None \<and> 0 < rext i}"

definition counts_ok :: "'d sql_table \<Rightarrow> nat \<Rightarrow> (nat \<Rightarrow> nat) \<Rightarrow> bool" where
  "counts_ok t ext rext \<longleftrightarrow>
     unat (refcount t) = ext + card (held_rows t rext) \<and>
     (\<forall>i row. row_at t i = Some row \<longrightarrow> unat (row_refcount row) = 1 + rext i) \<and>
     (\<forall>i. row_at t i = None \<longrightarrow> rext i = 0)"

lemma row_at_nrow: "row_at t i = Some row \<Longrightarrow> i < nrow t"
  by (simp add: row_at_def split: if_splits)

lemma finite_held_rows [simp]: "finite (held_rows t rext)"
  by (simp add: held_rows_def)

lemma card_held_rows: "card (held_rows t rext) \<le> nrow t"
  using card_mono [of "{..<nrow t}" "held_rows t rext"] by (auto simp: held_rows_def)

lemma unat_plus_one_16: "unat (w :: 16 word) + 1 < 2 ^ 16 \<Longrightarrow> unat (w + 1) = unat w + 1"
  by (simp add: unat_word_ariths)

lemma unat_plus_one_32: "unat (w :: 32 word) + 1 < 2 ^ 32 \<Longrightarrow> unat (w + 1) = unat w + 1"
  by (simp add: unat_word_ariths)

lemma unat_minus_one_pos: "0 < unat (w :: 'a::len word) \<Longrightarrow> unat (w - 1) = unat w - 1"
  by (metis One_nat_def less_irrefl unat_0 unat_minus_one)

lemma counts_ok_row: "counts_ok t ext rext \<Longrightarrow> row_at t i = Some row \<Longrightarrow> unat (row_refcount row) = 1 + rext i"
  by (simp add: counts_ok_def)

lemma counts_ok_refcount: "counts_ok t ext rext \<Longrightarrow> unat (refcount t) = ext + card (held_rows t rext)"
  by (simp add: counts_ok_def)

lemma held_rows_refcount [simp]: "held_rows (t\<lparr>refcount := c\<rparr>) rext = held_rows t rext"
  by (simp add: held_rows_def)

lemma held_rows_set_row:
  "row_at t i \<noteq> None \<Longrightarrow> held_rows (set_row t i (Some r)) rext = held_rows t rext"
  by (auto simp: held_rows_def row_at_nrow split: if_splits)

lemma held_rows_upd:
  "row_at t i \<noteq> None \<Longrightarrow>
     held_rows t (rext(i := n)) = (if 0 < n then insert i (held_rows t rext) else held_rows t rext - {i})"
  by (auto simp: held_rows_def row_at_nrow)

lemma counts_ok_table_ref:
  assumes "counts_ok t ext rext" "ext + card (held_rows t rext) + 1 < 2 ^ 16"
  shows "counts_ok (preludedb_sql_table_ref t) (ext + 1) rext"
  using assms by (simp add: counts_ok_def preludedb_sql_table_ref_def unat_plus_one_16)

lemma counts_ok_row_ref:
  assumes ok: "counts_ok t ext rext" and row: "row_at t i = Some row"
    and b: "ext + card (held_rows t rext) + 1 < 2 ^ 16" "rext i + 2 < 2 ^ 32"
  shows "counts_ok (preludedb_sql_row_ref t i) ext (rext(i := rext i + 1))"
proof -
  have i: "i < nrow t" using row by (rule row_at_nrow)
  have rc: "unat (row_refcount row) = 1 + rext i" using ok row by (rule counts_ok_row)
  then have rc': "unat (row_refcount row + 1) = 2 + rext i"
    using b(2) by (simp add: unat_plus_one_32)
  have one: "row_refcount row = 1 \<longleftrightarrow> rext i = 0"
    using rc by (metis One_nat_def add.commute add_cancel_right_right unat_1 word_unat_eq_iff)
  have held: "i \<in> held_rows t rext \<longleftrightarrow> 0 < rext i"
    using i row by (simp add: held_rows_def)
  let ?t = "preludedb_sql_row_ref t i"
  have rows: "row_at ?t j = (if j = i then Some (row\<lparr>row_refcount := row_refcount row + 1\<rparr>) else row_at t j)" for j
    using i row by (simp add: preludedb_sql_row_ref_def preludedb_sql_table_ref_def)
  have "held_rows ?t (rext(i := rext i + 1)) = insert i (held_rows t rext)"
    using i row rows by (auto simp: held_rows_def preludedb_sql_row_ref_def preludedb_sql_table_ref_def)
  moreover have "unat (refcount ?t) = unat (refcount t) + (if rext i = 0 then 1 else 0)"
    using row one b(1) counts_ok_refcount [OF ok]
    by (simp add: preludedb_sql_row_ref_def preludedb_sql_table_ref_def unat_plus_one_16)
  ultimately have "unat (refcount ?t) = ext + card (held_rows ?t (rext(i := rext i + 1)))"
    using counts_ok_refcount [OF ok] held by (simp add: card_insert_if)
  then show ?thesis
    using ok rc' rows by (simp add: counts_ok_def)
qed

lemma counts_ok_no_survivors:
  assumes "\<forall>i row. row_at t i = Some row \<longrightarrow> row_refcount row = 1"
  shows "surviving_rows t = []"
  using assms by (auto simp: surviving_rows_def filter_empty_conv split: option.splits)

lemma counts_ok_table_destroy:
  assumes ok: "counts_ok t ext rext" and ext: "0 < ext"
  shows "if ext = 1 \<and> held_rows t rext = {} then preludedb_sql_table_destroy t = Freed []
         else \<exists>t'. preludedb_sql_table_destroy t = Live t' \<and> counts_ok t' (ext - 1) rext"
proof -
  have u: "unat (refcount t - 1) = ext + card (held_rows t rext) - 1"
    using counts_ok_refcount [OF ok] ext by (simp add: unat_minus_one_pos)
  show ?thesis
  proof (cases "ext = 1 \<and> held_rows t rext = {}")
    case True
    then have "refcount t - 1 = 0" using u by (simp add: unat_eq_zero)
    moreover have "\<forall>i row. row_at t i = Some row \<longrightarrow> row_refcount row = 1"
    proof (intro allI impI)
      fix i row assume r: "row_at t i = Some row"
      then have "rext i = 0" using True by (auto simp: held_rows_def dest: row_at_nrow)
      then show "row_refcount row = 1" using counts_ok_row [OF ok r]
        by (metis add_cancel_left_right unat_1 word_unat_eq_iff)
    qed
    ultimately show ?thesis
      using True counts_ok_no_survivors [of "t\<lparr>refcount := 0\<rparr>"]
      by (simp add: preludedb_sql_table_destroy_def)
  next
    case False
    then have "1 < ext \<or> 0 < card (held_rows t rext)"
      using ext by (auto simp: card_gt_0_iff)
    then have "unat (refcount t - 1) \<noteq> 0" using u ext by linarith
    then have "0 < refcount t - 1" by (metis unat_0 word_gt_0)
    moreover have "counts_ok (t\<lparr>refcount := refcount t - 1\<rparr>) (ext - 1) rext"
      using ok u ext by (simp add: counts_ok_def)
    ultimately show ?thesis using False by (simp add: preludedb_sql_table_destroy_def)
  qed
qed

lemma counts_ok_row_destroy:
  assumes ok: "counts_ok t ext rext" and row: "row_at t i = Some row" and held: "0 < rext i"
  shows "if ext = 0 \<and> held_rows t (rext(i := rext i - 1)) = {} then preludedb_sql_row_destroy t i = Freed []
         else \<exists>t'. preludedb_sql_row_destroy t i = Live t' \<and> counts_ok t' ext (rext(i := rext i - 1))"
proof -
  let ?row = "row\<lparr>row_refcount := row_refcount row - 1\<rparr>" and ?t = "set_row t i (Some (row\<lparr>row_refcount := row_refcount row - 1\<rparr>))"
  let ?rext = "rext(i := rext i - 1)"
  have i: "i < nrow t" using row by (rule row_at_nrow)
  have rc: "unat (row_refcount row - 1) = rext i"
    using counts_ok_row [OF ok row] held by (simp add: unat_minus_one_pos)
  then have "row_refcount row - 1 \<noteq> 0" using held by (metis less_irrefl unat_0)
  then have pos: "0 < row_refcount row - 1" by (simp only: word_gt_0)
  have rows: "(\<forall>j r. row_at ?t j = Some r \<longrightarrow> unat (row_refcount r) = 1 + ?rext j) \<and>
      (\<forall>j. row_at ?t j = None \<longrightarrow> ?rext j = 0)"
    using ok i rc held by (auto simp: counts_ok_def)
  have hin: "i \<in> held_rows t rext" using i row held by (simp add: held_rows_def)
  show ?thesis
  proof (cases "rext i = 1")
    case True
    then have one: "row_refcount row - 1 = 1" using rc by (metis unat_1 word_unat_eq_iff)
    have hr: "held_rows t ?rext = held_rows t rext - {i}"
      using True row by (subst held_rows_upd) auto
    have "card (held_rows t rext) = Suc (card (held_rows t ?rext))"
      unfolding hr using card.remove [OF finite_held_rows hin] .
    then have "counts_ok ?t (ext + 1) ?rext"
      using rows counts_ok_refcount [OF ok] row by (simp add: counts_ok_def held_rows_set_row)
    note d = counts_ok_table_destroy [OF this]
    have "preludedb_sql_row_destroy t i = preludedb_sql_table_destroy ?t"
      unfolding preludedb_sql_row_destroy_def Let_def row using one pos by simp
    moreover have "held_rows ?t ?rext = held_rows t ?rext"
      using row by (simp add: held_rows_set_row)
    ultimately show ?thesis using d by (simp split: if_splits)
  next
    case False
    then have two: "row_refcount row - 1 \<noteq> 1" using rc by auto
    have hr: "held_rows t ?rext = held_rows t rext"
      using False held hin row by (subst held_rows_upd) auto
    then have "counts_ok ?t ext ?rext"
      using rows counts_ok_refcount [OF ok] row by (simp add: counts_ok_def held_rows_set_row)
    then show ?thesis
      using row pos two hr hin by (auto simp: preludedb_sql_row_destroy_def)
  qed
qed

text \<open>
  A client: a sequence of reference and release calls, with the references it holds counted
  beside the run. A call is legal when the client holds what it gives back, the row exists,
  and the counters have room; a call on a freed table is not.
\<close>

datatype table_op = Table_ref | Table_destroy | Row_ref nat | Row_destroy nat

fun op_legal :: "'d sql_table \<Rightarrow> nat \<Rightarrow> (nat \<Rightarrow> nat) \<Rightarrow> table_op \<Rightarrow> bool" where
  "op_legal t ext rext Table_ref \<longleftrightarrow> ext + nrow t + 1 < 2 ^ 16"
| "op_legal t ext rext Table_destroy \<longleftrightarrow> 0 < ext"
| "op_legal t ext rext (Row_ref i) \<longleftrightarrow>
     row_at t i \<noteq> None \<and> ext + nrow t + 1 < 2 ^ 16 \<and> rext i + 2 < 2 ^ 32"
| "op_legal t ext rext (Row_destroy i) \<longleftrightarrow> 0 < rext i"

fun table_op_step :: "'d sql_table \<Rightarrow> table_op \<Rightarrow> 'd table_state" where
  "table_op_step t Table_ref = Live (preludedb_sql_table_ref t)"
| "table_op_step t Table_destroy = preludedb_sql_table_destroy t"
| "table_op_step t (Row_ref i) = Live (preludedb_sql_row_ref t i)"
| "table_op_step t (Row_destroy i) = preludedb_sql_row_destroy t i"

fun op_ext :: "nat \<Rightarrow> table_op \<Rightarrow> nat" where
  "op_ext ext Table_ref = ext + 1"
| "op_ext ext Table_destroy = ext - 1"
| "op_ext ext _ = ext"

fun op_rext :: "(nat \<Rightarrow> nat) \<Rightarrow> table_op \<Rightarrow> nat \<Rightarrow> nat" where
  "op_rext rext (Row_ref i) = rext(i := rext i + 1)"
| "op_rext rext (Row_destroy i) = rext(i := rext i - 1)"
| "op_rext rext _ = rext"

fun table_run :: "'d table_state \<Rightarrow> nat \<Rightarrow> (nat \<Rightarrow> nat) \<Rightarrow> table_op list \<Rightarrow>
    ('d table_state \<times> nat \<times> (nat \<Rightarrow> nat)) option" where
  "table_run st ext rext [] = Some (st, ext, rext)"
| "table_run (Freed d) ext rext (oper # ops) = None"
| "table_run (Live t) ext rext (oper # ops) =
     (if op_legal t ext rext oper
      then table_run (table_op_step t oper) (op_ext ext oper) (op_rext rext oper) ops
      else None)"

fun state_ok :: "'d table_state \<Rightarrow> nat \<Rightarrow> (nat \<Rightarrow> nat) \<Rightarrow> bool" where
  "state_ok (Live t) ext rext \<longleftrightarrow> counts_ok t ext rext \<and> 0 < refcount t"
| "state_ok (Freed d) ext rext \<longleftrightarrow> d = [] \<and> ext = 0 \<and> (\<forall>i. rext i = 0)"

lemma held_rows_empty: "counts_ok t ext rext \<Longrightarrow> held_rows t rext = {} \<Longrightarrow> rext i = 0"
  by (cases "row_at t i") (auto simp: counts_ok_def held_rows_def dest: row_at_nrow)

lemma held_rows_upd_empty:
  "counts_ok t ext rext \<Longrightarrow> row_at t i \<noteq> None \<Longrightarrow> held_rows t (rext(i := n)) = {} \<Longrightarrow> (rext(i := n)) j = 0"
  by (cases "row_at t j") (auto simp: counts_ok_def held_rows_def dest: row_at_nrow split: if_splits)

text \<open>A table that is not freed still has a reference.\<close>

lemma refcount_plus_one: "unat (w :: 16 word) + 1 < 2 ^ 16 \<Longrightarrow> 0 < w + 1"
  using unat_plus_one_16 [of w] by (simp add: word_less_nat_alt)

lemma table_op_step_live:
  assumes ok: "counts_ok t ext rext" and legal: "op_legal t ext rext oper" and pos: "0 < refcount t"
    and live: "table_op_step t oper = Live t'"
  shows "0 < refcount t'"
proof (cases oper)
  case Table_ref
  then show ?thesis
    using live legal counts_ok_refcount [OF ok] card_held_rows [of t rext]
      refcount_plus_one [of "refcount t"] by (auto simp: preludedb_sql_table_ref_def)
next
  case Table_destroy
  then show ?thesis using live by (auto simp: preludedb_sql_table_destroy_def Let_def split: if_splits)
next
  case (Row_ref i)
  then show ?thesis
    using live legal pos counts_ok_refcount [OF ok] card_held_rows [of t rext]
      refcount_plus_one [of "refcount t"]
    by (auto simp: preludedb_sql_row_ref_def preludedb_sql_table_ref_def Let_def split: option.splits)
next
  case (Row_destroy i)
  then show ?thesis
    using live pos by (auto simp: preludedb_sql_row_destroy_def preludedb_sql_table_destroy_def Let_def
        split: option.splits if_splits)
qed

lemma table_op_step_counts:
  assumes ok: "counts_ok t ext rext" and legal: "op_legal t ext rext oper"
  shows "case table_op_step t oper of
      Live t' \<Rightarrow> counts_ok t' (op_ext ext oper) (op_rext rext oper)
    | Freed d \<Rightarrow> d = [] \<and> op_ext ext oper = 0 \<and> (\<forall>i. op_rext rext oper i = 0)"
proof (cases oper)
  case Table_ref
  then show ?thesis using counts_ok_table_ref [OF ok] card_held_rows [of t rext] legal by simp
next
  case Table_destroy
  then show ?thesis
    using counts_ok_table_destroy [OF ok] legal held_rows_empty [OF ok] by (auto split: if_splits)
next
  case (Row_ref i)
  then show ?thesis
    using counts_ok_row_ref [OF ok] card_held_rows [of t rext] legal by auto
next
  case (Row_destroy i)
  then obtain row where row: "row_at t i = Some row"
    using legal ok by (cases "row_at t i") (auto simp: counts_ok_def)
  show ?thesis
  proof (cases "ext = 0 \<and> held_rows t (rext(i := rext i - 1)) = {}")
    case True
    then show ?thesis
      using Row_destroy legal counts_ok_row_destroy [OF ok row]
        held_rows_upd_empty [OF ok, of i "rext i - 1"] row by simp
  next
    case False
    have "0 < rext i" using Row_destroy legal by simp
    from counts_ok_row_destroy [OF ok row this] obtain t' where
      "preludedb_sql_row_destroy t i = Live t'" "counts_ok t' ext (rext(i := rext i - 1))"
      unfolding if_not_P [OF False] by blast
    then show ?thesis using Row_destroy by simp
  qed
qed

lemma table_op_step_ok:
  assumes "state_ok (Live t) ext rext" "op_legal t ext rext oper"
  shows "state_ok (table_op_step t oper) (op_ext ext oper) (op_rext rext oper)"
  using assms table_op_step_counts [of t ext rext oper] table_op_step_live [of t ext rext oper]
  by (cases "table_op_step t oper") auto

lemma state_ok_held:
  "state_ok (Live t) ext rext \<Longrightarrow> 0 < ext \<or> (\<exists>i. row_at t i \<noteq> None \<and> 0 < rext i)"
proof -
  assume a: "state_ok (Live t) ext rext"
  then have "0 < unat (refcount t)" by (simp add: word_less_nat_alt)
  then have "0 < ext \<or> held_rows t rext \<noteq> {}" using a counts_ok_refcount [of t ext rext] by auto
  then show ?thesis by (auto simp: held_rows_def)
qed

lemma table_run_ok:
  "table_run st ext rext ops = Some (st', ext', rext') \<Longrightarrow> state_ok st ext rext \<Longrightarrow> state_ok st' ext' rext'"
proof (induction st ext rext ops rule: table_run.induct)
  case (3 t ext rext oper ops)
  then show ?case using table_op_step_ok by (auto split: if_splits)
qed auto

text \<open>The table's counter has 16 bits: \<open>2 ^ 16\<close> more references bring it back to its value.\<close>

lemma table_ref_pow:
  "(preludedb_sql_table_ref ^^ n) t = t\<lparr>refcount := refcount t + of_nat n\<rparr>"
  by (induction n) (simp_all add: preludedb_sql_table_ref_def algebra_simps)

lemma table_ref_wraps: "(preludedb_sql_table_ref ^^ (2 ^ 16)) t = t"
proof -
  have "(of_nat (2 ^ 16) :: 16 word) = 0" by simp
  then show ?thesis unfolding table_ref_pow by simp
qed

end
