(* ===== verification/Plugin_Sql.thy ===== *)
theory Plugin_Sql
  imports Sql_Settings Sql_Table
begin

text \<open>
  The plugin interface of the SQL backends (src/preludedb-plugin-sql.c): the structure of
  function pointers as a record, a pointer that may be NULL as an option, and the dispatch
  functions with their defaults. \<open>'w\<close> stands for everything behind a session (the client
  library, the connection, the database), \<open>'d\<close> for a client library's result handle.
  A builder takes the output text so far and returns it extended.
\<close>

section \<open>The types the interface speaks about\<close>

text \<open>
  libprelude's criterion operators: a base relation and the two modifier bits that the
  operator names carry (\<open>_NOCASE\<close>, \<open>NOT_\<close>).
\<close>

datatype operator_base =
  OP_EQUAL | OP_LESSER | OP_GREATER | OP_LESSER_OR_EQUAL | OP_GREATER_OR_EQUAL
| OP_SUBSTR | OP_REGEX | OP_NULL

datatype criterion_operator =
  Operator (op_base: operator_base) (op_nocase: bool) (op_not: bool)

text \<open>The operators by libprelude's names.\<close>

abbreviation OPERATOR_EQUAL :: criterion_operator where "OPERATOR_EQUAL \<equiv> Operator OP_EQUAL False False"
abbreviation OPERATOR_EQUAL_NOCASE :: criterion_operator where "OPERATOR_EQUAL_NOCASE \<equiv> Operator OP_EQUAL True False"
abbreviation OPERATOR_NOT_EQUAL :: criterion_operator where "OPERATOR_NOT_EQUAL \<equiv> Operator OP_EQUAL False True"
abbreviation OPERATOR_NOT_EQUAL_NOCASE :: criterion_operator where "OPERATOR_NOT_EQUAL_NOCASE \<equiv> Operator OP_EQUAL True True"
abbreviation OPERATOR_GREATER :: criterion_operator where "OPERATOR_GREATER \<equiv> Operator OP_GREATER False False"
abbreviation OPERATOR_GREATER_OR_EQUAL :: criterion_operator where "OPERATOR_GREATER_OR_EQUAL \<equiv> Operator OP_GREATER_OR_EQUAL False False"
abbreviation OPERATOR_LESSER :: criterion_operator where "OPERATOR_LESSER \<equiv> Operator OP_LESSER False False"
abbreviation OPERATOR_LESSER_OR_EQUAL :: criterion_operator where "OPERATOR_LESSER_OR_EQUAL \<equiv> Operator OP_LESSER_OR_EQUAL False False"
abbreviation OPERATOR_SUBSTR :: criterion_operator where "OPERATOR_SUBSTR \<equiv> Operator OP_SUBSTR False False"
abbreviation OPERATOR_SUBSTR_NOCASE :: criterion_operator where "OPERATOR_SUBSTR_NOCASE \<equiv> Operator OP_SUBSTR True False"
abbreviation OPERATOR_NOT_SUBSTR :: criterion_operator where "OPERATOR_NOT_SUBSTR \<equiv> Operator OP_SUBSTR False True"
abbreviation OPERATOR_NOT_SUBSTR_NOCASE :: criterion_operator where "OPERATOR_NOT_SUBSTR_NOCASE \<equiv> Operator OP_SUBSTR True True"
abbreviation OPERATOR_REGEX :: criterion_operator where "OPERATOR_REGEX \<equiv> Operator OP_REGEX False False"
abbreviation OPERATOR_REGEX_NOCASE :: criterion_operator where "OPERATOR_REGEX_NOCASE \<equiv> Operator OP_REGEX True False"
abbreviation OPERATOR_NOT_REGEX :: criterion_operator where "OPERATOR_NOT_REGEX \<equiv> Operator OP_REGEX False True"
abbreviation OPERATOR_NOT_REGEX_NOCASE :: criterion_operator where "OPERATOR_NOT_REGEX_NOCASE \<equiv> Operator OP_REGEX True True"
abbreviation OPERATOR_NULL :: criterion_operator where "OPERATOR_NULL \<equiv> Operator OP_NULL False False"
abbreviation OPERATOR_NOT_NULL :: criterion_operator where "OPERATOR_NOT_NULL \<equiv> Operator OP_NULL False True"

text \<open>The enums of src/include/preludedb-sql.h, which the code passes through an \<open>int\<close>.\<close>

abbreviation TIME_CONSTRAINT_MONTH :: int where "TIME_CONSTRAINT_MONTH \<equiv> 1"
abbreviation TIME_CONSTRAINT_YDAY :: int where "TIME_CONSTRAINT_YDAY \<equiv> 2"
abbreviation TIME_CONSTRAINT_MDAY :: int where "TIME_CONSTRAINT_MDAY \<equiv> 3"
abbreviation TIME_CONSTRAINT_WDAY :: int where "TIME_CONSTRAINT_WDAY \<equiv> 4"
abbreviation TIME_CONSTRAINT_HOUR :: int where "TIME_CONSTRAINT_HOUR \<equiv> 5"
abbreviation TIME_CONSTRAINT_MIN :: int where "TIME_CONSTRAINT_MIN \<equiv> 6"
abbreviation TIME_CONSTRAINT_SEC :: int where "TIME_CONSTRAINT_SEC \<equiv> 7"
abbreviation TIME_CONSTRAINT_YEAR :: int where "TIME_CONSTRAINT_YEAR \<equiv> 8"
abbreviation TIME_CONSTRAINT_MSEC :: int where "TIME_CONSTRAINT_MSEC \<equiv> 9"
abbreviation TIME_CONSTRAINT_USEC :: int where "TIME_CONSTRAINT_USEC \<equiv> 10"
abbreviation TIME_CONSTRAINT_QUARTER :: int where "TIME_CONSTRAINT_QUARTER \<equiv> 11"

abbreviation INTERVAL_YEAR :: int where "INTERVAL_YEAR \<equiv> 1"
abbreviation INTERVAL_QUARTER :: int where "INTERVAL_QUARTER \<equiv> 2"
abbreviation INTERVAL_MONTH :: int where "INTERVAL_MONTH \<equiv> 3"
abbreviation INTERVAL_DAY :: int where "INTERVAL_DAY \<equiv> 5"
abbreviation INTERVAL_HOUR :: int where "INTERVAL_HOUR \<equiv> 6"
abbreviation INTERVAL_MIN :: int where "INTERVAL_MIN \<equiv> 7"
abbreviation INTERVAL_SEC :: int where "INTERVAL_SEC \<equiv> 8"

text \<open>The fields of \<open>struct tm\<close> that the library reads.\<close>

record tm =
  tm_sec :: int
  tm_min :: int
  tm_hour :: int
  tm_mday :: int
  tm_mon :: int
  tm_year :: int
  tm_wday :: int
  tm_yday :: int

record ('w, 'd) preludedb_plugin_sql =
  p_open :: "settings \<Rightarrow> 'w \<Rightarrow> 'w \<times> (db_error + unit)"
  p_close :: "'w \<Rightarrow> 'w"
  p_escape :: "('w \<Rightarrow> string \<Rightarrow> db_error + string) option"
  p_escape_binary :: "('w \<Rightarrow> string \<Rightarrow> db_error + string) option"
  p_unescape_binary :: "('w \<Rightarrow> string \<Rightarrow> db_error + string) option"
  p_query :: "'w \<Rightarrow> string \<Rightarrow> bool \<Rightarrow> 'w \<times> (db_error + 'd option)"
  p_get_column_count :: "'d \<Rightarrow> nat"
  p_get_row_count :: "('d \<Rightarrow> nat) option"
  p_get_column_name :: "'d \<Rightarrow> nat \<Rightarrow> string option"
  p_get_column_num :: "'d \<Rightarrow> string \<Rightarrow> db_error + nat"
  p_fetch_row :: "('w \<Rightarrow> 'd sql_table \<Rightarrow> nat \<Rightarrow> 'd sql_table \<times> (db_error + bool)) option"
  p_fetch_field :: "('w \<Rightarrow> 'd sql_table \<Rightarrow> nat \<Rightarrow> nat \<Rightarrow> 'd sql_table \<times> (db_error + bool)) option"
  p_build_time_extract_string :: "(string \<Rightarrow> string \<Rightarrow> int \<Rightarrow> int \<Rightarrow> db_error + string) option"
  p_build_time_constraint_string ::
    "(string \<Rightarrow> string \<Rightarrow> int \<Rightarrow> criterion_operator \<Rightarrow> int \<Rightarrow> int \<Rightarrow> db_error + string) option"
  p_build_time_interval_string :: "(string \<Rightarrow> string \<Rightarrow> string \<Rightarrow> int \<Rightarrow> db_error + string) option"
  p_build_limit_offset_string :: "(int \<Rightarrow> int \<Rightarrow> string \<Rightarrow> db_error + string) option"
  p_build_constraint_string ::
    "(string \<Rightarrow> string \<Rightarrow> criterion_operator \<Rightarrow> string option \<Rightarrow> db_error + string) option"
  p_get_operator_string :: "criterion_operator \<Rightarrow> string option"
  p_build_timestamp_string :: "(tm \<Rightarrow> nat \<Rightarrow> db_error + string) option"
  p_get_server_version :: "('w \<Rightarrow> int) option"
  p_get_last_insert_ident :: "'w \<Rightarrow> 'w \<times> (db_error + nat)"
  p_build_time_timezone_string :: "(string \<Rightarrow> string \<Rightarrow> string \<Rightarrow> db_error + string) option"

definition PRELUDEDB_ENOTSUP :: "string \<Rightarrow> db_error" where
  "PRELUDEDB_ENOTSUP x =
     preludedb_error_verbose PRELUDE_ERROR_ENOSYS
       (''Database backend does not support '' @ CHR 0x27 # x @ CHR 0x27 # '' operation'')"

section \<open>Escaping and its default\<close>

definition hex_digit :: "nat \<Rightarrow> char" where
  "hex_digit n = ''0123456789ABCDEF'' ! n"

definition bin2hex :: "string \<Rightarrow> string" where
  "bin2hex s = concat (map (\<lambda>c. [hex_digit (of_char c div 16), hex_digit (of_char c mod 16)]) s)"

definition plugin_sql_escape_binary ::
    "('w, 'd) preludedb_plugin_sql \<Rightarrow> 'w \<Rightarrow> string \<Rightarrow> db_error + string" where
  "plugin_sql_escape_binary plugin w input =
     (case p_escape_binary plugin of
        Some f \<Rightarrow> f w input
      | None \<Rightarrow>
          if (length input * 2 + 4) mod 2 ^ 64 \<le> length input
          then Inl (preludedb_error PRELUDEDB_ERROR_GENERIC)
          else Inr (CHR ''X'' # CHR 0x27 # bin2hex input @ [CHR 0x27]))"

definition plugin_sql_escape ::
    "('w, 'd) preludedb_plugin_sql \<Rightarrow> 'w \<Rightarrow> string \<Rightarrow> db_error + string" where
  "plugin_sql_escape plugin w input =
     (case p_escape plugin of Some f \<Rightarrow> f w input | None \<Rightarrow> plugin_sql_escape_binary plugin w input)"

definition plugin_sql_unescape_binary ::
    "('w, 'd) preludedb_plugin_sql \<Rightarrow> 'w \<Rightarrow> string \<Rightarrow> db_error + string" where
  "plugin_sql_unescape_binary plugin w input =
     (case p_unescape_binary plugin of Some f \<Rightarrow> f w input | None \<Rightarrow> Inr input)"

section \<open>Dispatch with \<open>ENOSYS\<close> for a missing operation\<close>

definition plugin_sql_get_row_count ::
    "('w, 'd) preludedb_plugin_sql \<Rightarrow> 'd \<Rightarrow> db_error + nat" where
  "plugin_sql_get_row_count plugin d =
     (case p_get_row_count plugin of
        None \<Rightarrow> Inl (PRELUDEDB_ENOTSUP ''get_row_count'') | Some f \<Rightarrow> Inr (f d))"

definition plugin_sql_fetch_row ::
    "('w, 'd) preludedb_plugin_sql \<Rightarrow> 'w \<Rightarrow> 'd sql_table \<Rightarrow> nat \<Rightarrow> 'd sql_table \<times> (db_error + bool)" where
  "plugin_sql_fetch_row plugin w t i =
     (case p_fetch_row plugin of
        None \<Rightarrow> (t, Inl (PRELUDEDB_ENOTSUP ''fetch_row'')) | Some f \<Rightarrow> f w t i)"

definition plugin_sql_fetch_field ::
    "('w, 'd) preludedb_plugin_sql \<Rightarrow> 'w \<Rightarrow> 'd sql_table \<Rightarrow> nat \<Rightarrow> nat \<Rightarrow> 'd sql_table \<times> (db_error + bool)" where
  "plugin_sql_fetch_field plugin w t i c =
     (case p_fetch_field plugin of
        None \<Rightarrow> (t, Inl (PRELUDEDB_ENOTSUP ''fetch_field'')) | Some f \<Rightarrow> f w t i c)"

definition plugin_sql_build_time_extract_string ::
    "('w, 'd) preludedb_plugin_sql \<Rightarrow> string \<Rightarrow> string \<Rightarrow> int \<Rightarrow> int \<Rightarrow> db_error + string" where
  "plugin_sql_build_time_extract_string plugin out field type gmt =
     (case p_build_time_extract_string plugin of
        None \<Rightarrow> Inl (PRELUDEDB_ENOTSUP ''build_time_extract_string'') | Some f \<Rightarrow> f out field type gmt)"

definition plugin_sql_build_time_timezone_string ::
    "('w, 'd) preludedb_plugin_sql \<Rightarrow> string \<Rightarrow> string \<Rightarrow> string \<Rightarrow> db_error + string" where
  "plugin_sql_build_time_timezone_string plugin out field tz =
     (case p_build_time_timezone_string plugin of
        None \<Rightarrow> Inl (PRELUDEDB_ENOTSUP ''build_time_timezone_string'') | Some f \<Rightarrow> f out field tz)"

definition plugin_sql_build_time_constraint_string ::
    "('w, 'd) preludedb_plugin_sql \<Rightarrow> string \<Rightarrow> string \<Rightarrow> int \<Rightarrow> criterion_operator \<Rightarrow> int \<Rightarrow> int \<Rightarrow>
       db_error + string" where
  "plugin_sql_build_time_constraint_string plugin out field type oper v gmt =
     (case p_build_time_constraint_string plugin of
        None \<Rightarrow> Inl (PRELUDEDB_ENOTSUP ''build_time_constraint_string'')
      | Some f \<Rightarrow> f out field type oper v gmt)"

definition plugin_sql_build_time_interval_string ::
    "('w, 'd) preludedb_plugin_sql \<Rightarrow> string \<Rightarrow> string \<Rightarrow> string \<Rightarrow> int \<Rightarrow> db_error + string" where
  "plugin_sql_build_time_interval_string plugin out field v unit =
     (case p_build_time_interval_string plugin of
        None \<Rightarrow> Inl (PRELUDEDB_ENOTSUP ''build_time_interval_string'') | Some f \<Rightarrow> f out field v unit)"

definition plugin_sql_build_limit_offset_string ::
    "('w, 'd) preludedb_plugin_sql \<Rightarrow> int \<Rightarrow> int \<Rightarrow> string \<Rightarrow> db_error + string" where
  "plugin_sql_build_limit_offset_string plugin limit offset out =
     (case p_build_limit_offset_string plugin of
        None \<Rightarrow> Inl (PRELUDEDB_ENOTSUP ''build_limit_offset_string'') | Some f \<Rightarrow> f limit offset out)"

definition plugin_sql_build_constraint_string ::
    "('w, 'd) preludedb_plugin_sql \<Rightarrow> string \<Rightarrow> string \<Rightarrow> criterion_operator \<Rightarrow> string option \<Rightarrow>
       db_error + string" where
  "plugin_sql_build_constraint_string plugin out field oper v =
     (case p_build_constraint_string plugin of
        None \<Rightarrow> Inl (PRELUDEDB_ENOTSUP ''build_constraint_string'') | Some f \<Rightarrow> f out field oper v)"

definition plugin_sql_get_server_version ::
    "('w, 'd) preludedb_plugin_sql \<Rightarrow> 'w \<Rightarrow> db_error + int" where
  "plugin_sql_get_server_version plugin w =
     (case p_get_server_version plugin of
        None \<Rightarrow> Inl (PRELUDEDB_ENOTSUP ''get_server_version'') | Some f \<Rightarrow> Inr (f w))"

text \<open>\<open>%.2d\<close>: at least two digits. The buffer has \<open>size\<close> bytes, one of them for the NUL.\<close>

definition dec_int2 :: "int \<Rightarrow> string" where
  "dec_int2 i =
     (let ds = dec_nat (nat \<bar>i\<bar>)
      in (if i < 0 then ''-'' else []) @ replicate (2 - length ds) (CHR ''0'') @ ds)"

definition plugin_sql_build_timestamp_string ::
    "('w, 'd) preludedb_plugin_sql \<Rightarrow> tm \<Rightarrow> nat \<Rightarrow> db_error + string" where
  "plugin_sql_build_timestamp_string plugin lt bufsize =
     (case p_build_timestamp_string plugin of
        Some f \<Rightarrow> f lt bufsize
      | None \<Rightarrow>
          let s = CHR 0x27 # dec_int (tm_year lt + 1900) @ ''-'' @ dec_int2 (tm_mon lt + 1) @ ''-'' @
                  dec_int2 (tm_mday lt) @ '' '' @ dec_int2 (tm_hour lt) @ '':'' @
                  dec_int2 (tm_min lt) @ '':'' @ dec_int2 (tm_sec lt) @ [CHR 0x27]
          in if length s \<ge> bufsize then Inl RawError else Inr s)"

section \<open>SQL literals that can be read back\<close>

text \<open>
  The contract between what escapes a value and the database that reads the literal: the
  reader finds \<open>s\<close> in the literal of \<open>s\<close> and stops behind it, whatever follows, as long as
  it is not a quote (SQL joins a quote that follows a string literal to it).
\<close>

fun read_list :: "(string \<Rightarrow> (string \<times> string) option) \<Rightarrow> nat \<Rightarrow> string \<Rightarrow> (string list \<times> string) option" where
  "read_list rd 0 s = Some ([], s)"
| "read_list rd (Suc 0) s = map_option (\<lambda>(x, r). ([x], r)) (rd s)"
| "read_list rd (Suc (Suc n)) s =
     (case rd s of
        None \<Rightarrow> None
      | Some (x, r) \<Rightarrow>
          if take 2 r = '', '' then map_option (\<lambda>(xs, r'). (x # xs, r')) (read_list rd (Suc n) (drop 2 r))
          else None)"

definition no_quote :: "string \<Rightarrow> bool" where
  "no_quote rest \<longleftrightarrow> (case rest of [] \<Rightarrow> True | c # _ \<Rightarrow> c \<noteq> CHR 0x27)"

lemma no_quote_simps [simp]: "no_quote []" "no_quote (c # cs) \<longleftrightarrow> c \<noteq> CHR 0x27"
  by (simp_all add: no_quote_def)

locale sql_literal =
  fixes lit :: "string \<Rightarrow> string"
    and rd :: "string \<Rightarrow> (string \<times> string) option"
  assumes rd_lit: "no_quote rest \<Longrightarrow> rd (lit s @ rest) = Some (s, rest)"
begin

lemma lit_inj: "lit s = lit t \<longleftrightarrow> s = t"
  by (metis append_Nil2 no_quote_simps(1) option.inject prod.inject rd_lit)

lemma lit_prefix_free: "no_quote a \<Longrightarrow> no_quote b \<Longrightarrow> lit s @ a = lit t @ b \<longleftrightarrow> s = t \<and> a = b"
  by (metis option.inject prod.inject rd_lit)

lemma read_list_join:
  "no_quote rest \<Longrightarrow> read_list rd (length xs) (join_sep '', '' (map lit xs) @ rest) = Some (xs, rest)"
proof (induction xs)
  case (Cons x xs)
  then show ?case by (cases xs) (simp_all add: rd_lit)
qed simp

end

definition hex_val :: "char \<Rightarrow> nat option" where
  "hex_val c =
     (let n = (of_char c :: nat)
      in if 48 \<le> n \<and> n \<le> 57 then Some (n - 48)
         else if 65 \<le> n \<and> n \<le> 70 then Some (n - 55) else None)"

fun read_hex_body :: "string \<Rightarrow> (string \<times> string) option" where
  "read_hex_body (a # b # s) =
     (if a = CHR 0x27 then Some ([], b # s)
      else case (hex_val a, hex_val b) of
             (Some x, Some y) \<Rightarrow> map_option (\<lambda>(v, r). (char_of (16 * x + y) # v, r)) (read_hex_body s)
           | _ \<Rightarrow> None)"
| "read_hex_body [a] = (if a = CHR 0x27 then Some ([], []) else None)"
| "read_hex_body [] = None"

definition read_hex_literal :: "string \<Rightarrow> (string \<times> string) option" where
  "read_hex_literal s = (if take 2 s = [CHR ''X'', CHR 0x27] then read_hex_body (drop 2 s) else None)"

definition hex_literal :: "string \<Rightarrow> string" where
  "hex_literal s = CHR ''X'' # CHR 0x27 # bin2hex s @ [CHR 0x27]"

lemma hex_digit_table:
  "list_all (\<lambda>n. hex_val (hex_digit n) = Some n \<and> hex_digit n \<noteq> CHR 0x27) [0..<16]"
  by code_simp

lemma hex_digit_cases: "n < 16 \<Longrightarrow> hex_val (hex_digit n) = Some n \<and> hex_digit n \<noteq> CHR 0x27"
  using hex_digit_table by (simp add: list_all_iff)

lemma read_hex_body_bin2hex: "read_hex_body (bin2hex s @ CHR 0x27 # rest) = Some (s, rest)"
proof (induction s)
  case Nil
  then show ?case by (cases rest) (simp_all add: bin2hex_def)
next
  case (Cons c s)
  have b: "(of_char c :: nat) div 16 < 16" "(of_char c :: nat) mod 16 < 16"
    using nat_of_char_less_256 [of c] by (linarith, simp)
  have "char_of (16 * ((of_char c :: nat) div 16) + of_char c mod 16) = c"
    unfolding mult_div_mod_eq by simp
  with Cons hex_digit_cases [OF b(1)] hex_digit_cases [OF b(2)] show ?case
    by (simp add: bin2hex_def)
qed

interpretation hexlit: sql_literal hex_literal read_hex_literal
  by unfold_locales (simp add: hex_literal_def read_hex_literal_def read_hex_body_bin2hex)

lemma length_bin2hex: "length (bin2hex s) = 2 * length s"
  by (induction s) (simp_all add: bin2hex_def)

lemma default_escape_is_hex_literal:
  assumes "p_escape_binary plugin = None" "length s < 2 ^ 62"
  shows "plugin_sql_escape_binary plugin w s = Inr (hex_literal s)"
proof -
  have "(length s * 2 + 4) mod 2 ^ 64 = length s * 2 + 4" using assms(2) by (intro mod_less) simp
  then show ?thesis using assms(1) by (simp add: plugin_sql_escape_binary_def hex_literal_def)
qed

end
