(* ===== verification/Sql_Cursor.thy ===== *)
theory Sql_Cursor
  imports Plugin_Sql
begin

text \<open>
  The loop that the MySQL and SQLite plugins share (\<open>sql_fetch_row\<close> in
  plugins/sql/mysql/mysql.c and plugins/sql/sqlite3/sqlite3.c): the client library
  hands out rows one after the other, and a row is fetched by fetching every row up to it.
  What differs is how the next row is obtained and how its contents are recorded: the
  parameter \<open>nxt\<close>, which returns the advanced handle and the function that fills the row.
\<close>

datatype 'd next_row =
    Next_row 'd "sql_row \<Rightarrow> db_error + sql_row"
  | Next_done
  | Next_error db_error

function seq_fetch :: "('d \<Rightarrow> nat) \<Rightarrow> ('d \<Rightarrow> 'd next_row) \<Rightarrow> 'd sql_table \<Rightarrow> nat \<Rightarrow>
    'd sql_table \<times> (db_error + bool)" where
  "seq_fetch cc nxt t row_index =
     (if nrow t \<le> row_index
      then (case nxt (tdata t) of
              Next_error e \<Rightarrow> (t, Inl e)
            | Next_done \<Rightarrow> (t, Inr False)
            | Next_row d' fill \<Rightarrow>
                (case preludedb_sql_table_new_row cc (t\<lparr>tdata := d'\<rparr>) (nrow t) of
                   Inl e \<Rightarrow> (t\<lparr>tdata := d'\<rparr>, Inl e)
                 | Inr t' \<Rightarrow>
                     (case row_at t' (nrow t) of
                        None \<Rightarrow> (t', Inl Undefined)
                      | Some row \<Rightarrow>
                          (case fill row of
                             Inl e \<Rightarrow> (t', Inl e)
                           | Inr row' \<Rightarrow> seq_fetch cc nxt (set_row t' (nrow t) (Some row')) row_index))))
      else (t, Inr True))"
  by pat_completeness auto
termination
  by (relation "measure (\<lambda>(cc, nxt, t, i). Suc i - nrow t)") (auto dest!: new_row_nrow)

declare seq_fetch.simps [simp del]

text \<open>
  When no row has to be fetched the loop body never runs and the caller's row pointer stays
  unset although the function returns 1; the callers only ask for rows that are not cached.
\<close>

definition seq_fetch_row :: "('d \<Rightarrow> nat) \<Rightarrow> ('d \<Rightarrow> 'd next_row) \<Rightarrow> 'd sql_table \<Rightarrow> nat \<Rightarrow>
    'd sql_table \<times> (db_error + bool)" where
  "seq_fetch_row cc nxt t row_index =
     (if nrow t \<le> row_index then seq_fetch cc nxt t row_index else (t, Inl Undefined))"

text \<open>The search for a column by name, and the cells of a result as the plugins read them.\<close>

fun find_column :: "string \<Rightarrow> nat \<Rightarrow> string list \<Rightarrow> nat option" where
  "find_column name i [] = None"
| "find_column name i (f # fs) = (if name = f then Some i else find_column name (Suc i) fs)"

definition cell_value :: "string option \<Rightarrow> (string \<times> nat) option" where
  "cell_value c = map_option (\<lambda>s. (s, length s)) c"

text \<open>A slot of a row agrees with the cell it was, or will be, filled from.\<close>

definition slot_matches :: "string option \<Rightarrow> field_slot \<Rightarrow> bool" where
  "slot_matches cell slot \<longleftrightarrow>
     slot = Unset \<or> (cell = None \<and> slot = SQL_NULL_FIELD) \<or>
     (\<exists>s. cell = Some s \<and> slot = Field s (length s))"

lemma list_all2_Unset: "length cells = n \<Longrightarrow> list_all2 slot_matches cells (replicate n Unset)"
  by (simp add: list_all2_conv_all_nth slot_matches_def)

section \<open>The contract of a cursor\<close>

text \<open>
  \<open>pending d\<close> are the rows the handle still has to hand out, \<open>good d r c\<close> says that the
  table row \<open>r\<close> gives access to the contents \<open>c\<close>, which fetching further rows keeps.
\<close>

locale cursor =
  fixes cc :: "'d \<Rightarrow> nat"
    and nxt :: "'d \<Rightarrow> 'd next_row"
    and pending :: "'d \<Rightarrow> 'c list"
    and good :: "'d \<Rightarrow> sql_row \<Rightarrow> 'c \<Rightarrow> bool"
    and wf :: "'d \<Rightarrow> bool"
  assumes nxt_nil: "wf d \<Longrightarrow> pending d = [] \<Longrightarrow> nxt d = Next_done"
    and nxt_cons: "wf d \<Longrightarrow> pending d = c # cs \<Longrightarrow>
      \<exists>d' fill. nxt d = Next_row d' fill \<and> wf d' \<and> pending d' = cs \<and> cc d' = cc d \<and>
        (\<forall>r c'. good d r c' \<longrightarrow> good d' r c') \<and>
        (\<forall>r. row_refcount r = 1 \<and> row_fields r = replicate (cc d) Unset \<longrightarrow>
           (\<exists>r'. fill r = Inr r' \<and> row_refcount r' = 1 \<and> good d' r' c))"
    and cc_pos: "wf d \<Longrightarrow> 0 < cc d"
begin

text \<open>\<open>holds t cs\<close>: the table has the rows \<open>cs\<close> fetched, in order.\<close>

definition holds :: "'d sql_table \<Rightarrow> 'c list \<Rightarrow> bool" where
  "holds t cs \<longleftrightarrow> wf (tdata t) \<and> nrow t = length cs \<and>
     (column_count t = 0 \<or> column_count t = cc (tdata t)) \<and>
     (\<forall>i < length cs. \<exists>r. row_at t i = Some r \<and> good (tdata t) r (cs ! i))"

lemma holds_new: "wf d \<Longrightarrow> holds (preludedb_sql_table_new d) []"
  by (simp add: holds_def preludedb_sql_table_new_def nrow_def)

lemma holds_step:
  assumes h: "holds t cs" and p: "pending (tdata t) = c # ps" and len: "length cs + 1 < 2 ^ 32"
  obtains d' fill t' r r' where "nxt (tdata t) = Next_row d' fill"
    "preludedb_sql_table_new_row cc (t\<lparr>tdata := d'\<rparr>) (nrow t) = Inr t'"
    "row_at t' (nrow t) = Some r" "fill r = Inr r'"
    "holds (set_row t' (nrow t) (Some r')) (cs @ [c])"
    "pending (tdata (set_row t' (nrow t) (Some r'))) = ps"
    "tdone t' = tdone t" "row_refcount r' = 1"
proof -
  have w: "wf (tdata t)" and n: "nrow t = length cs"
    and col: "column_count t = 0 \<or> column_count t = cc (tdata t)"
    and rows: "\<forall>i < length cs. \<exists>r. row_at t i = Some r \<and> good (tdata t) r (cs ! i)"
    using h by (auto simp: holds_def)
  obtain d' fill where nx: "nxt (tdata t) = Next_row d' fill" and w': "wf d'"
    and ps: "pending d' = ps" and cc': "cc d' = cc (tdata t)"
    and keep: "\<forall>r c'. good (tdata t) r c' \<longrightarrow> good d' r c'"
    and fill: "\<forall>r. row_refcount r = 1 \<and> row_fields r = replicate (cc (tdata t)) Unset \<longrightarrow>
      (\<exists>r'. fill r = Inr r' \<and> row_refcount r' = 1 \<and> good d' r' c)"
    using nxt_cons [OF w p] by metis
  let ?t = "t\<lparr>tdata := d'\<rparr>"
  let ?n = "snd (preludedb_sql_table_get_column_count cc ?t)"
  have nn: "?n = cc (tdata t)"
    using col cc' by (auto simp: preludedb_sql_table_get_column_count_def Let_def)
  obtain t' where t': "preludedb_sql_table_new_row cc ?t (nrow t) = Inr t'"
    using len n new_row_append [of ?t cc] by (auto simp: Let_def split: prod.splits)
  let ?r = "\<lparr>row_data = 0, row_refcount = 1, row_fields = replicate ?n Unset\<rparr>"
  have at: "row_at t' j = (if j = nrow t then Some ?r else row_at t j)" for j
    using new_row_row_at [OF t'] by simp
  obtain r' where r': "fill ?r = Inr r'" "row_refcount r' = 1" "good d' r' c"
    using fill [rule_format, of ?r] nn by auto
  have nrow': "nrow t' = length cs + 1" using new_row_nrow [OF t'] n by simp
  have d: "tdata t' = d'" using new_row_frame [OF t'] by simp
  have col': "column_count t' = cc d'"
    using t' col cc' cc_pos [OF w]
    by (auto simp: preludedb_sql_table_new_row_def preludedb_sql_table_get_column_count_def Let_def
        split: if_splits)
  have "holds (set_row t' (nrow t) (Some r')) (cs @ [c])"
    unfolding holds_def
    using w' d nrow' n col' at r' keep rows by (auto simp: nth_append less_Suc_eq)
  then show ?thesis
    using that nx t' at r' d ps new_row_frame [OF t'] by auto
qed

text \<open>Fetching row \<open>i\<close>: the rows up to it are added; behind the last row the loop says so.\<close>

lemma seq_fetch_holds:
  assumes "holds t cs" "pending (tdata t) = ps" "length cs + length ps < 2 ^ 32" "length cs \<le> i"
  shows "\<exists>t' cs' ps'. cs @ ps = cs' @ ps' \<and> holds t' cs' \<and> pending (tdata t') = ps' \<and> tdone t' = tdone t \<and>
           seq_fetch cc nxt t i = (t', Inr (i < length cs + length ps)) \<and>
           length cs' = min (Suc i) (length cs + length ps)"
  using assms
proof (induction ps arbitrary: t cs)
  case Nil
  have "nxt (tdata t) = Next_done" using Nil.prems nxt_nil by (simp add: holds_def)
  moreover have "nrow t = length cs" using Nil.prems by (simp add: holds_def)
  ultimately have "seq_fetch cc nxt t i = (t, Inr False)"
    using Nil.prems by (simp add: seq_fetch.simps [of cc nxt t i])
  then show ?case using Nil.prems by (intro exI [of _ t] exI [of _ cs] exI [of _ "[]"]) auto
next
  case (Cons c ps)
  have "length cs + 1 < 2 ^ 32" using Cons.prems(3) by simp
  then obtain d' fill t' r r' where s: "nxt (tdata t) = Next_row d' fill"
    "preludedb_sql_table_new_row cc (t\<lparr>tdata := d'\<rparr>) (nrow t) = Inr t'"
    "row_at t' (nrow t) = Some r" "fill r = Inr r'"
    "holds (set_row t' (nrow t) (Some r')) (cs @ [c])"
    "pending (tdata (set_row t' (nrow t) (Some r'))) = ps" "tdone t' = tdone t" "row_refcount r' = 1"
    by (rule holds_step [OF Cons.prems(1,2)])
  let ?t = "set_row t' (nrow t) (Some r')"
  have n: "nrow t = length cs" using Cons.prems by (simp add: holds_def)
  have eq: "seq_fetch cc nxt t i = seq_fetch cc nxt ?t i"
    using s n Cons.prems(4) by (simp add: seq_fetch.simps [of cc nxt t i])
  show ?case
  proof (cases "length cs = i")
    case True
    have "nrow ?t = Suc i" using s(5) True by (simp add: holds_def)
    then have "seq_fetch cc nxt ?t i = (?t, Inr True)"
      by (simp add: seq_fetch.simps [of cc nxt ?t i])
    then show ?thesis
      using eq s True by (intro exI [of _ ?t] exI [of _ "cs @ [c]"] exI [of _ ps]) auto
  next
    case False
    then have "length (cs @ [c]) \<le> i" using Cons.prems(4) by simp
    from Cons.IH [OF s(5,6) _ this] show ?thesis
      using eq s(7) Cons.prems(3) by (auto simp: algebra_simps)
  qed
qed

end

end
