(* ===== verification/Plugin_Mysql.thy ===== *)
theory Plugin_Mysql
  imports Sql_Cursor
begin

text \<open>
  The MySQL backend (plugins/sql/mysql/mysql.c): operator table, the SQL text builders,
  escaping, the query loop and row access. The client library is outside the repository:
  what it returns is a parameter, or the data of a result handle (\<open>mysql_res\<close>: the column
  names, the stored rows with NULL as \<open>None\<close>, the position of \<open>mysql_fetch_row\<close>, and the
  error pending on the session when the rows run out).
\<close>

record mysql_res =
  my_fields :: "string list"
  my_rows :: "string option list list"
  my_pos :: nat
  my_errno :: "string option"

section \<open>SQL text\<close>

definition mysql_operator_table :: "(criterion_operator \<times> string) list" where
  "mysql_operator_table =
    [(OPERATOR_EQUAL, ''= BINARY''),
     (OPERATOR_EQUAL_NOCASE, ''=''),
     (OPERATOR_NOT_EQUAL, ''!= BINARY''),
     (OPERATOR_NOT_EQUAL_NOCASE, ''!=''),
     (OPERATOR_GREATER, ''>''),
     (OPERATOR_GREATER_OR_EQUAL, ''>=''),
     (OPERATOR_LESSER, ''<''),
     (OPERATOR_LESSER_OR_EQUAL, ''<=''),
     (OPERATOR_SUBSTR, ''LIKE BINARY''),
     (OPERATOR_SUBSTR_NOCASE, ''LIKE''),
     (OPERATOR_NOT_SUBSTR, ''NOT LIKE BINARY''),
     (OPERATOR_NOT_SUBSTR_NOCASE, ''NOT LIKE ''),
     (OPERATOR_REGEX, ''REGEXP BINARY''),
     (OPERATOR_REGEX_NOCASE, ''REGEXP''),
     (OPERATOR_NOT_REGEX, ''NOT REGEXP''),
     (OPERATOR_NOT_REGEX_NOCASE, ''NOT REGEXP BINARY''),
     (OPERATOR_NULL, ''IS NULL''),
     (OPERATOR_NOT_NULL, ''IS NOT NULL'')]"

definition mysql_get_operator_string :: "criterion_operator \<Rightarrow> string option" where
  "mysql_get_operator_string oper = map_of mysql_operator_table oper"

definition mysql_build_constraint_string ::
    "string \<Rightarrow> string \<Rightarrow> criterion_operator \<Rightarrow> string option \<Rightarrow> db_error + string" where
  "mysql_build_constraint_string out field oper val =
     (case mysql_get_operator_string oper of
        None \<Rightarrow> Inl RawError
      | Some op_str \<Rightarrow>
          Inr (out @ field @ '' '' @ op_str @ '' '' @ (case val of None \<Rightarrow> [] | Some v \<Rightarrow> v)))"

definition mysql_build_limit_offset_string :: "int \<Rightarrow> int \<Rightarrow> string \<Rightarrow> db_error + string" where
  "mysql_build_limit_offset_string limit offset out =
     (if limit \<ge> 0 then
        (if offset \<ge> 0 then Inr (out @ '' LIMIT '' @ dec_int offset @ '', '' @ dec_int limit)
         else Inr (out @ '' LIMIT '' @ dec_int limit))
      else if offset \<ge> 0 then Inr (out @ '' LIMIT '' @ dec_int offset @ '', '' @ dec_nat (2 ^ 64 - 1))
      else Inr out)"

text \<open>\<open>snprintf\<close> into \<open>char buf[128]\<close>: 127 bytes and the NUL fit.\<close>

definition mysql_time_buf :: "string \<Rightarrow> int \<Rightarrow> db_error + string" where
  "mysql_time_buf field gmt_offset =
     (let buf = (if gmt_offset = 0 then field
                 else ''DATE_ADD('' @ field @ '', INTERVAL '' @ dec_int (c_div gmt_offset 3600) @ '' HOUR)'')
      in if length buf \<ge> 128 then Inl (preludedb_error PRELUDEDB_ERROR_GENERIC) else Inr buf)"

definition mysql_build_time_extract_string ::
    "string \<Rightarrow> string \<Rightarrow> int \<Rightarrow> int \<Rightarrow> db_error + string" where
  "mysql_build_time_extract_string out field type gmt_offset =
     res_bind (mysql_time_buf field gmt_offset) (\<lambda>buf.
       if type = TIME_CONSTRAINT_QUARTER then Inr (out @ ''QUARTER('' @ buf @ '')'')
       else if type = TIME_CONSTRAINT_YEAR then Inr (out @ ''EXTRACT(YEAR FROM '' @ buf @ '')'')
       else if type = TIME_CONSTRAINT_MONTH then Inr (out @ ''EXTRACT(MONTH FROM '' @ buf @ '')'')
       else if type = TIME_CONSTRAINT_YDAY then Inr (out @ ''DAYOFYEAR('' @ buf @ '')'')
       else if type = TIME_CONSTRAINT_MDAY then Inr (out @ ''DAYOFMONTH('' @ buf @ '')'')
       else if type = TIME_CONSTRAINT_WDAY then Inr (out @ ''WEEKDAY('' @ buf @ '')'')
       else if type = TIME_CONSTRAINT_HOUR then Inr (out @ ''EXTRACT(HOUR FROM '' @ buf @ '')'')
       else if type = TIME_CONSTRAINT_MIN then Inr (out @ ''EXTRACT(MINUTE FROM '' @ buf @ '')'')
       else if type = TIME_CONSTRAINT_SEC then Inr (out @ ''EXTRACT(SECOND FROM '' @ buf @ '')'')
       else if type = TIME_CONSTRAINT_MSEC then Inr (out @ ''(EXTRACT(MICROSECOND FROM '' @ buf @ '') / 1000)'')
       else if type = TIME_CONSTRAINT_USEC then Inr (out @ ''EXTRACT(MICROSECOND FROM '' @ buf @ '')'')
       else Inl (preludedb_error PRELUDEDB_ERROR_GENERIC))"

definition mysql_build_time_timezone_string :: "string \<Rightarrow> string \<Rightarrow> string \<Rightarrow> db_error + string" where
  "mysql_build_time_timezone_string out field tzvalue =
     Inr (out @ ''CONVERT_TZ('' @ field @ '', '' @ CHR 0x27 # ''GMT'' @ CHR 0x27 # '', '' @
          CHR 0x27 # tzvalue @ CHR 0x27 # '')'')"

definition mysql_build_time_constraint_string ::
    "string \<Rightarrow> string \<Rightarrow> int \<Rightarrow> criterion_operator \<Rightarrow> int \<Rightarrow> int \<Rightarrow> db_error + string" where
  "mysql_build_time_constraint_string out field type oper val gmt_offset =
     res_bind (mysql_build_time_extract_string out field type gmt_offset) (\<lambda>out1.
       case mysql_get_operator_string oper of
         None \<Rightarrow> Inl (preludedb_error PRELUDEDB_ERROR_GENERIC)
       | Some sql_operator \<Rightarrow>
           (let v = (if type = TIME_CONSTRAINT_WDAY then c_mod val 7 + 1 else val)
            in Inr (out1 @ '' '' @ sql_operator @ '' '' @ CHR 0x27 # dec_int v @ [CHR 0x27])))"

definition mysql_interval_unit :: "int \<Rightarrow> string option" where
  "mysql_interval_unit unit =
     (if unit = INTERVAL_QUARTER then Some ''QUARTER''
      else if unit = INTERVAL_YEAR then Some ''YEAR''
      else if unit = INTERVAL_MONTH then Some ''MONTH''
      else if unit = INTERVAL_DAY then Some ''DAY''
      else if unit = INTERVAL_HOUR then Some ''HOUR''
      else if unit = INTERVAL_MIN then Some ''MINUTE''
      else if unit = INTERVAL_SEC then Some ''SECOND''
      else None)"

definition mysql_build_time_interval_string :: "string \<Rightarrow> string \<Rightarrow> string \<Rightarrow> int \<Rightarrow> db_error + string" where
  "mysql_build_time_interval_string out field val unit =
     (case mysql_interval_unit unit of
        None \<Rightarrow> Inl (preludedb_error PRELUDEDB_ERROR_GENERIC)
      | Some sunit \<Rightarrow> Inr (out @ ''('' @ field @ '' + INTERVAL '' @ val @ '' '' @ sunit @ '')''))"

section \<open>Escaping\<close>

text \<open>\<open>real_escape\<close> is \<open>mysql_real_escape_string\<close>; the buffer size is computed in \<open>size_t\<close>.\<close>

definition mysql_escape_binary :: "('w \<Rightarrow> string \<Rightarrow> string) \<Rightarrow> 'w \<Rightarrow> string \<Rightarrow> db_error + string" where
  "mysql_escape_binary real_escape w input =
     (if (length input * 2 + 3) mod 2 ^ 64 \<le> length input then Inl RawError
      else Inr (CHR 0x27 # real_escape w input @ [CHR 0x27]))"

section \<open>Queries\<close>

text \<open>
  The state of the session's last error, and one round of the result loop: what
  \<open>mysql_store_result\<close> returns, \<open>mysql_field_count\<close>, and what \<open>mysql_next_result\<close> returns.
\<close>

datatype mysql_errno =
    No_errno
  | CR_CONNECTION_ERROR | CR_SERVER_GONE_ERROR | CR_SERVER_LOST | CR_CONN_HOST_ERROR
  | CR_IPSOCK_ERROR | ER_SERVER_SHUTDOWN
  | Other_errno nat

record mysql_err =
  my_code :: mysql_errno
  my_message :: string

datatype mysql_round = Round "mysql_res option" nat int

definition is_connection_broken :: "mysql_err \<Rightarrow> bool" where
  "is_connection_broken err =
     (case my_code err of
        CR_CONNECTION_ERROR \<Rightarrow> True | CR_SERVER_GONE_ERROR \<Rightarrow> True | CR_SERVER_LOST \<Rightarrow> True
      | CR_CONN_HOST_ERROR \<Rightarrow> True | CR_IPSOCK_ERROR \<Rightarrow> True | ER_SERVER_SHUTDOWN \<Rightarrow> True
      | _ \<Rightarrow> False)"

definition mysql_handle_error :: "mysql_err \<Rightarrow> error_code \<Rightarrow> db_error" where
  "mysql_handle_error err code =
     (let c = (if is_connection_broken err then PRELUDEDB_ERROR_CONNECTION else code)
      in if my_code err \<noteq> No_errno then preludedb_error_verbose c (my_message err)
         else preludedb_error c)"

text \<open>
  \<open>connect\<close> is \<open>mysql_real_connect\<close> (host, user, password, database, port); the result of the
  query that follows is ignored. \<open>close_conn\<close> is \<open>mysql_close\<close>.
\<close>

definition mysql_open ::
    "(string option list \<Rightarrow> nat \<Rightarrow> 'w \<Rightarrow> 'w \<times> mysql_err \<times> bool) \<Rightarrow> ('w \<Rightarrow> 'w) \<Rightarrow>
     ('w \<Rightarrow> string \<Rightarrow> 'w \<times> mysql_err \<times> int \<times> mysql_round list) \<Rightarrow>
     settings \<Rightarrow> 'w \<Rightarrow> 'w \<times> (db_error + unit)" where
  "mysql_open connect close_conn exec settings w =
     (let port = (case settings_get_key SQL_SETTING_PORT settings of
                    None \<Rightarrow> 0 | Some p \<Rightarrow> unat (word_of_int (fst (strtol_w 64 p)) :: 32 word));
          (w1, err, connected) = connect (map (\<lambda>k. settings_get_key k settings)
            [SQL_SETTING_HOST, SQL_SETTING_USER, SQL_SETTING_PASS, SQL_SETTING_NAME]) port w
      in if \<not> connected
         then (close_conn w1, Inl (mysql_handle_error err PRELUDEDB_ERROR_CONNECTION))
         else (fst (exec w1 ''SET SESSION wait_timeout=31536000''), Inr ()))"

definition mysql_get_last_insert_ident ::
    "('w \<Rightarrow> 'w \<times> nat) \<Rightarrow> 'w \<Rightarrow> 'w \<times> (db_error + nat)" where
  "mysql_get_last_insert_ident insert_id w =
     (let (w', ident) = insert_id w
      in if ident = 0
         then (w', Inl (preludedb_error_verbose PRELUDEDB_ERROR_GENERIC
                          ''could not retrieve last insert ID''))
         else (w', Inr ident))"

fun mysql_results :: "mysql_err \<Rightarrow> mysql_round list \<Rightarrow> db_error + mysql_res option" where
  "mysql_results err [] = Inl Undefined"
| "mysql_results err (Round result field_count nxt # rounds) =
     (if result = None \<and> field_count > 0 then Inl (mysql_handle_error err PRELUDEDB_ERROR_QUERY)
      else if nxt = -1 then Inr result
      else if nxt > 0 then
        Inl (preludedb_error_verbose PRELUDEDB_ERROR_GENERIC (''mysql_next_result() error: '' @ my_message err))
      else if nxt = 0 then mysql_results err rounds
      else Inl Undefined)"

text \<open>
  \<open>exec\<close> is \<open>mysql_query\<close> with the results it makes available. \<open>want\<close> says that the caller
  passed a place for the table: storing a table through a NULL pointer is undefined.
\<close>

definition mysql_query ::
    "('w \<Rightarrow> string \<Rightarrow> 'w \<times> mysql_err \<times> int \<times> mysql_round list) \<Rightarrow> 'w \<Rightarrow> string \<Rightarrow> bool \<Rightarrow>
       'w \<times> (db_error + mysql_res option)" where
  "mysql_query exec w query want =
     (let (w', err, ret, rounds) = exec w query
      in if ret \<noteq> 0 then (w', Inl (mysql_handle_error err PRELUDEDB_ERROR_QUERY))
         else (w', res_bind (mysql_results err rounds) (\<lambda>result.
                case result of
                  None \<Rightarrow> Inr None
                | Some res \<Rightarrow>
                    if my_rows res = [] then Inr None
                    else if want then Inr (Some res) else Inl Undefined)))"

section \<open>Rows and fields\<close>

definition mysql_get_column_count :: "mysql_res \<Rightarrow> nat" where
  "mysql_get_column_count res = length (my_fields res)"

definition mysql_get_row_count :: "mysql_res \<Rightarrow> nat" where
  "mysql_get_row_count res = length (my_rows res) mod 2 ^ 32"

definition mysql_get_column_name :: "mysql_res \<Rightarrow> nat \<Rightarrow> string option" where
  "mysql_get_column_name res column_num =
     (if column_num \<ge> length (my_fields res) then None else Some (my_fields res ! column_num))"

definition mysql_get_column_num :: "mysql_res \<Rightarrow> string \<Rightarrow> db_error + nat" where
  "mysql_get_column_num res name =
     (case find_column name 0 (my_fields res) of
        Some i \<Rightarrow> Inr i
      | None \<Rightarrow> Inl (prelude_error_verbose PRELUDEDB_ERROR_GENERIC
                      (''unknown column '' @ CHR 0x27 # name @ [CHR 0x27])))"

text \<open>The row data are the row's place in the stored result and its lengths.\<close>

definition mysql_next :: "mysql_res \<Rightarrow> mysql_res next_row" where
  "mysql_next res =
     (if my_pos res < length (my_rows res)
      then Next_row (res\<lparr>my_pos := Suc (my_pos res)\<rparr>)
             (\<lambda>row. Inr (preludedb_sql_row_set_data row (my_pos res)))
      else case my_errno res of
             Some m \<Rightarrow> Next_error (preludedb_error_verbose PRELUDEDB_ERROR_GENERIC m)
           | None \<Rightarrow> Next_done)"

definition mysql_fetch_row :: "'w \<Rightarrow> mysql_res sql_table \<Rightarrow> nat \<Rightarrow> mysql_res sql_table \<times> (db_error + bool)" where
  "mysql_fetch_row w t row_index =
     (let (t', column_count) = preludedb_sql_table_get_column_count mysql_get_column_count t
      in seq_fetch_row mysql_get_column_count mysql_next t' row_index)"

definition mysql_fetch_field ::
    "'w \<Rightarrow> mysql_res sql_table \<Rightarrow> nat \<Rightarrow> nat \<Rightarrow> mysql_res sql_table \<times> (db_error + bool)" where
  "mysql_fetch_field w t i column_num =
     (case row_at t i of
        None \<Rightarrow> (t, Inl Undefined)
      | Some row \<Rightarrow>
          if column_num \<ge> length (my_fields (tdata t))
          then (t, Inl (preludedb_error PRELUDEDB_ERROR_INVALID_COLUMN_NUM))
          else (let cell = my_rows (tdata t) ! preludedb_sql_row_get_data row ! column_num;
                    (row', ret) = preludedb_sql_row_new_field row column_num (cell_value cell)
                in (set_row t i (Some row'), Inr (ret = 1))))"

section \<open>The plugin\<close>

text \<open>The functions of the client library that the plugin uses.\<close>

record 'w libmysql =
  my_connect :: "string option list \<Rightarrow> nat \<Rightarrow> 'w \<Rightarrow> 'w \<times> mysql_err \<times> bool"
  my_close :: "'w \<Rightarrow> 'w"
  my_real_escape :: "'w \<Rightarrow> string \<Rightarrow> string"
  my_exec :: "'w \<Rightarrow> string \<Rightarrow> 'w \<times> mysql_err \<times> int \<times> mysql_round list"
  my_insert_id :: "'w \<Rightarrow> 'w \<times> nat"
  my_server_version :: "'w \<Rightarrow> int"

definition mysql_plugin :: "'w libmysql \<Rightarrow> ('w, mysql_res) preludedb_plugin_sql" where
  "mysql_plugin my =
     \<lparr>p_open = mysql_open (my_connect my) (my_close my) (my_exec my),
      p_close = my_close my,
      p_escape = None,
      p_escape_binary = Some (mysql_escape_binary (my_real_escape my)),
      p_unescape_binary = None,
      p_query = mysql_query (my_exec my),
      p_get_column_count = mysql_get_column_count,
      p_get_row_count = Some mysql_get_row_count,
      p_get_column_name = mysql_get_column_name,
      p_get_column_num = mysql_get_column_num,
      p_fetch_row = Some mysql_fetch_row,
      p_fetch_field = Some mysql_fetch_field,
      p_build_time_extract_string = Some mysql_build_time_extract_string,
      p_build_time_constraint_string = Some mysql_build_time_constraint_string,
      p_build_time_interval_string = Some mysql_build_time_interval_string,
      p_build_limit_offset_string = Some mysql_build_limit_offset_string,
      p_build_constraint_string = Some mysql_build_constraint_string,
      p_get_operator_string = mysql_get_operator_string,
      p_build_timestamp_string = None,
      p_get_server_version = Some (my_server_version my),
      p_get_last_insert_ident = mysql_get_last_insert_ident (my_insert_id my),
      p_build_time_timezone_string = Some mysql_build_time_timezone_string\<rparr>"

section \<open>Facts\<close>

definition mysql_wf :: "mysql_res \<Rightarrow> bool" where
  "mysql_wf res \<longleftrightarrow> my_fields res \<noteq> [] \<and> my_errno res = None \<and> my_pos res \<le> length (my_rows res) \<and>
     (\<forall>r \<in> set (my_rows res). length r = length (my_fields res))"

definition mysql_good :: "mysql_res \<Rightarrow> sql_row \<Rightarrow> string option list \<Rightarrow> bool" where
  "mysql_good res row cells \<longleftrightarrow>
     row_data row < length (my_rows res) \<and> my_rows res ! row_data row = cells \<and>
     length cells = length (my_fields res) \<and> list_all2 slot_matches cells (row_fields row)"

definition mysql_pending :: "mysql_res \<Rightarrow> string option list list" where
  "mysql_pending res = drop (my_pos res) (my_rows res)"

interpretation mycur: cursor mysql_get_column_count mysql_next mysql_pending mysql_good mysql_wf
proof unfold_locales
  fix d :: mysql_res assume "mysql_wf d" "mysql_pending d = []"
  then show "mysql_next d = Next_done"
    by (simp add: mysql_next_def mysql_pending_def mysql_wf_def)
next
  fix d :: mysql_res and c cs assume w: "mysql_wf d" and p: "mysql_pending d = c # cs"
  have l: "my_pos d < length (my_rows d)"
    using p by (metis drop_eq_Nil list.distinct(1) mysql_pending_def not_le)
  have c: "my_rows d ! my_pos d = c"
    using p by (metis mysql_pending_def nth_via_drop)
  have cs: "drop (Suc (my_pos d)) (my_rows d) = cs"
    using p by (metis drop_Suc list.sel(3) mysql_pending_def tl_drop)
  show "\<exists>d' fill. mysql_next d = Next_row d' fill \<and> mysql_wf d' \<and> mysql_pending d' = cs \<and>
      mysql_get_column_count d' = mysql_get_column_count d \<and>
      (\<forall>r c'. mysql_good d r c' \<longrightarrow> mysql_good d' r c') \<and>
      (\<forall>r. row_refcount r = 1 \<and> row_fields r = replicate (mysql_get_column_count d) Unset \<longrightarrow>
        (\<exists>r'. fill r = Inr r' \<and> row_refcount r' = 1 \<and> mysql_good d' r' c))"
    using w l c cs
    by (auto simp: mysql_next_def mysql_wf_def mysql_pending_def mysql_get_column_count_def
        mysql_good_def preludedb_sql_row_set_data_def list_all2_Unset)
next
  fix d :: mysql_res assume "mysql_wf d"
  then show "0 < mysql_get_column_count d" by (simp add: mysql_wf_def mysql_get_column_count_def)
qed

end
