(* ===== verification/Plugin_Pgsql.thy ===== *)
theory Plugin_Pgsql
  imports Sql_Cursor
begin

text \<open>
  The PostgreSQL backend (plugins/sql/pgsql/pgsql.c). A result handle (\<open>pg_result\<close>) has
  the column names and all the tuples, with NULL as \<open>None\<close>; rows are read by number, so
  fetching keeps no position. \<open>PQexec\<close>, \<open>PQfnumber\<close>, the escaping functions and the
  connection's error state are parameters: they are libpq's.
\<close>

record pg_result =
  pg_fields :: "string list"
  pg_tuples :: "string option list list"

datatype pg_status = PGRES_TUPLES_OK | PGRES_COMMAND_OK | PGRES_OTHER

text \<open>\<open>PQstatus\<close> and \<open>PQerrorMessage\<close> of the connection behind the session.\<close>

record pg_conn =
  pg_bad :: bool
  pg_message :: "string option"

section \<open>Errors and queries\<close>

definition trim_tail :: "string \<Rightarrow> string" where
  "trim_tail s = rev (dropWhile (\<lambda>c. c = CHR 0x0A \<or> c = CHR 0x20) (rev s))"

text \<open>
  The loop that removes trailing newlines and blanks has no lower bound: a message without
  any other character, the empty one included, makes it read before the buffer.
\<close>

definition pgsql_handle_error :: "error_code \<Rightarrow> pg_conn \<Rightarrow> db_error" where
  "pgsql_handle_error code conn =
     (let code' = (if pg_bad conn then PRELUDEDB_ERROR_CONNECTION else code)
      in case pg_message conn of
           None \<Rightarrow> preludedb_error code'
         | Some error \<Rightarrow>
             if trim_tail error = [] then Undefined
             else preludedb_error_verbose code' (trim_tail error))"

text \<open>
  \<open>_sql_query\<close> returns the number of tuples and leaves the result open when there are any.
\<close>

definition pgsql__sql_query ::
    "('w \<Rightarrow> string \<Rightarrow> 'w \<times> pg_conn \<times> (pg_status \<times> pg_result) option) \<Rightarrow> 'w \<Rightarrow> string \<Rightarrow>
       'w \<times> (db_error + nat \<times> pg_result option)" where
  "pgsql__sql_query exec w query =
     (let (w', conn, result) = exec w query
      in case result of
           None \<Rightarrow> (w', Inl (pgsql_handle_error PRELUDEDB_ERROR_QUERY conn))
         | Some (status, res) \<Rightarrow>
             if status = PGRES_TUPLES_OK
             then (let ntuple = length (pg_tuples res)
                   in (w', Inr (ntuple, if ntuple = 0 then None else Some res)))
             else if status = PGRES_COMMAND_OK then (w', Inr (0, None))
             else (w', Inl (pgsql_handle_error PRELUDEDB_ERROR_QUERY conn)))"

text \<open>
  \<open>Inr (Some res)\<close> is the return value 1. Without a place for the table (\<open>want\<close>) the result
  is cleared, and the return value stays 1.
\<close>

definition pgsql_query ::
    "('w \<Rightarrow> string \<Rightarrow> 'w \<times> pg_conn \<times> (pg_status \<times> pg_result) option) \<Rightarrow> 'w \<Rightarrow> string \<Rightarrow> bool \<Rightarrow>
       'w \<times> (db_error + pg_result option)" where
  "pgsql_query exec w query want =
     (case pgsql__sql_query exec w query of
        (w', Inl e) \<Rightarrow> (w', Inl e)
      | (w', Inr (n, res)) \<Rightarrow> (w', Inr res))"

text \<open>
  The value of the sequence is read after the result that owns it has been cleared
  (\<open>PQclear\<close>): what \<open>sscanf\<close> finds there is undefined.
\<close>

definition pgsql_get_last_insert_ident ::
    "('w \<Rightarrow> string \<Rightarrow> 'w \<times> pg_conn \<times> (pg_status \<times> pg_result) option) \<Rightarrow> 'w \<Rightarrow> 'w \<times> (db_error + nat)" where
  "pgsql_get_last_insert_ident exec w =
     (case pgsql__sql_query exec w ''SELECT lastval();'' of
        (w', Inl e) \<Rightarrow> (w', Inl e)
      | (w', Inr (n, res)) \<Rightarrow>
          if n = 0
          then (w', Inl (preludedb_error_verbose PRELUDEDB_ERROR_INVALID_VALUE
                          ''sequence selection returned no data''))
          else (w', Inl Undefined))"

definition check_settings_query :: string where
  "check_settings_query =
     ''SELECT setting FROM pg_settings WHERE name = '' @ CHR 0x27 # ''bytea_output'' @ CHR 0x27 #
     '' AND setting = '' @ CHR 0x27 # ''hex'' @ CHR 0x27 # '';''"

text \<open>\<open>unescape\<close> is \<open>PQunescapeBytea\<close>; \<open>None\<close> is a failed allocation.\<close>

definition pgsql_check_settings ::
    "('w \<Rightarrow> string \<Rightarrow> 'w \<times> pg_conn \<times> (pg_status \<times> pg_result) option) \<Rightarrow> (string \<Rightarrow> string option) \<Rightarrow>
       'w \<Rightarrow> 'w \<times> (db_error + unit)" where
  "pgsql_check_settings exec unescape w =
     (case unescape (CHR 0x5C # ''x30786433616462333366'') of
        None \<Rightarrow> (w, Inl RawError)
      | Some unescaped \<Rightarrow>
          if unescaped = ''0xd3adb33f'' then (w, Inr ())
          else (case pgsql__sql_query exec w check_settings_query of
                  (w', Inl e) \<Rightarrow> (w', Inl e)
                | (w', Inr (n, res)) \<Rightarrow>
                    if n = 0 then (w', Inr ())
                    else (w', Inl (preludedb_error_verbose PRELUDEDB_ERROR_GENERIC
                       (''PostgreSQL server >= 9.0 uses '' @ CHR 0x27 # ''hex'' @ CHR 0x27 #
                        '' mode for bytea output whereas libpq < 9.0 does not support it. You may upgrade libpq to a newer version, or change the PostgreSQL server '' @
                        CHR 0x27 # ''bytea_output'' @ CHR 0x27 # '' setting to '' @
                        CHR 0x27 # ''escape'' @ CHR 0x27 # '' mode'')))))"

text \<open>
  \<open>login\<close> is \<open>PQsetdbLogin\<close> with host, port, name, user and password; \<open>finish\<close> is
  \<open>PQfinish\<close>. A failure of the last two queries leaves the connection open.
\<close>

definition pgsql_open ::
    "(string option list \<Rightarrow> 'w \<Rightarrow> 'w \<times> pg_conn) \<Rightarrow> ('w \<Rightarrow> 'w) \<Rightarrow>
     ('w \<Rightarrow> string \<Rightarrow> 'w \<times> pg_conn \<times> (pg_status \<times> pg_result) option) \<Rightarrow> (string \<Rightarrow> string option) \<Rightarrow>
     settings \<Rightarrow> 'w \<Rightarrow> 'w \<times> (db_error + unit)" where
  "pgsql_open login finish exec unescape settings w =
     (let (w1, conn) = login (map (\<lambda>k. settings_get_key k settings)
            [SQL_SETTING_HOST, SQL_SETTING_PORT, SQL_SETTING_NAME, SQL_SETTING_USER, SQL_SETTING_PASS]) w
      in if pg_bad conn then (finish w1, Inl (pgsql_handle_error PRELUDEDB_ERROR_CONNECTION conn))
         else (case pgsql_check_settings exec unescape w1 of
                 (w2, Inl e) \<Rightarrow> (finish w2, Inl e)
               | (w2, Inr _) \<Rightarrow>
                   (case pgsql_query exec w2 ''SET standard_conforming_strings=on'' False of
                      (w3, Inl e) \<Rightarrow> (w3, Inl e)
                    | (w3, Inr _) \<Rightarrow>
                        (case pgsql_query exec w3
                                (''SET DATESTYLE TO '' @ CHR 0x27 # ''ISO'' @ [CHR 0x27]) False of
                           (w4, Inl e) \<Rightarrow> (w4, Inl e)
                         | (w4, Inr _) \<Rightarrow> (w4, Inr ())))))"

section \<open>Escaping\<close>

text \<open>
  \<open>escape_string\<close> is \<open>PQescapeStringConn\<close>: the escaped text, or the connection's error state.
\<close>

definition pgsql_escape ::
    "('w \<Rightarrow> string \<Rightarrow> pg_conn + string) \<Rightarrow> 'w \<Rightarrow> string \<Rightarrow> db_error + string" where
  "pgsql_escape escape_string w input =
     (if (length input * 2 + 3) mod 2 ^ 64 \<le> length input then Inl (preludedb_error PRELUDEDB_ERROR_GENERIC)
      else case escape_string w input of
             Inl conn \<Rightarrow> Inl (pgsql_handle_error PRELUDEDB_ERROR_GENERIC conn)
           | Inr s \<Rightarrow> Inr (CHR 0x27 # s @ [CHR 0x27]))"

definition pgsql_escape_binary ::
    "('w \<Rightarrow> string \<Rightarrow> string option) \<Rightarrow> 'w \<Rightarrow> string \<Rightarrow> db_error + string" where
  "pgsql_escape_binary escape_bytea w input =
     (case escape_bytea w input of
        None \<Rightarrow> Inl RawError
      | Some s \<Rightarrow> Inr (CHR 0x27 # s @ [CHR 0x27]))"

definition pgsql_unescape_binary :: "(string \<Rightarrow> string option) \<Rightarrow> 'w \<Rightarrow> string \<Rightarrow> db_error + string" where
  "pgsql_unescape_binary unescape w input =
     (case unescape input of None \<Rightarrow> Inl RawError | Some s \<Rightarrow> Inr s)"

section \<open>SQL text\<close>

definition pgsql_build_limit_offset_string :: "int \<Rightarrow> int \<Rightarrow> string \<Rightarrow> db_error + string" where
  "pgsql_build_limit_offset_string limit offset out =
     (if limit \<ge> 0 then
        (if offset \<ge> 0 then Inr (out @ '' LIMIT '' @ dec_int limit @ '' OFFSET '' @ dec_int offset)
         else Inr (out @ '' LIMIT '' @ dec_int limit))
      else if offset \<ge> 0 then Inr (out @ '' LIMIT ALL OFFSET '' @ dec_int offset)
      else Inr out)"

definition pgsql_operator_table :: "(criterion_operator \<times> string) list" where
  "pgsql_operator_table =
    [(OPERATOR_EQUAL, ''=''),
     (OPERATOR_NOT_EQUAL, ''!=''),
     (OPERATOR_GREATER, ''>''),
     (OPERATOR_GREATER_OR_EQUAL, ''>=''),
     (OPERATOR_LESSER, ''<''),
     (OPERATOR_LESSER_OR_EQUAL, ''<=''),
     (OPERATOR_SUBSTR, ''LIKE''),
     (OPERATOR_SUBSTR_NOCASE, ''ILIKE''),
     (OPERATOR_NOT_SUBSTR, ''NOT LIKE''),
     (OPERATOR_NOT_SUBSTR_NOCASE, ''NOT ILIKE''),
     (OPERATOR_REGEX, ''~''),
     (OPERATOR_REGEX_NOCASE, ''~*''),
     (OPERATOR_NOT_REGEX, ''!~''),
     (OPERATOR_NOT_REGEX_NOCASE, ''!~*''),
     (OPERATOR_NULL, ''IS NULL''),
     (OPERATOR_NOT_NULL, ''IS NOT NULL'')]"

definition pgsql_get_operator_string :: "criterion_operator \<Rightarrow> string option" where
  "pgsql_get_operator_string oper = map_of pgsql_operator_table oper"

definition pgsql_build_constraint_string ::
    "string \<Rightarrow> string \<Rightarrow> criterion_operator \<Rightarrow> string option \<Rightarrow> db_error + string" where
  "pgsql_build_constraint_string out field oper val =
     (let v = (case val of None \<Rightarrow> [] | Some v \<Rightarrow> v)
      in case pgsql_get_operator_string oper of
           Some op_str \<Rightarrow> Inr (out @ field @ '' '' @ op_str @ '' '' @ v)
         | None \<Rightarrow>
             if oper = OPERATOR_EQUAL_NOCASE
             then Inr (out @ ''lower('' @ field @ '') = lower('' @ v @ '')'')
             else if oper = OPERATOR_NOT_EQUAL_NOCASE
             then Inr (out @ ''lower('' @ field @ '') != lower('' @ v @ '')'')
             else Inl RawError)"

definition pgsql_time_buf :: "string \<Rightarrow> int \<Rightarrow> db_error + string" where
  "pgsql_time_buf field gmt_offset =
     (let buf = (if gmt_offset = 0 then field
                 else field @ '' + INTERVAL '' @ CHR 0x27 # dec_int (c_div gmt_offset 3600) @
                      '' HOUR'' @ [CHR 0x27])
      in if length buf \<ge> 128 then Inl (preludedb_error PRELUDEDB_ERROR_GENERIC) else Inr buf)"

definition pgsql_build_time_extract_string ::
    "string \<Rightarrow> string \<Rightarrow> int \<Rightarrow> int \<Rightarrow> db_error + string" where
  "pgsql_build_time_extract_string out field type gmt_offset =
     res_bind (pgsql_time_buf field gmt_offset) (\<lambda>buf.
       if type = TIME_CONSTRAINT_YEAR then Inr (out @ ''EXTRACT(YEAR FROM '' @ buf @ '')'')
       else if type = TIME_CONSTRAINT_QUARTER then Inr (out @ ''EXTRACT(QUARTER FROM '' @ buf @ '')'')
       else if type = TIME_CONSTRAINT_MONTH then Inr (out @ ''EXTRACT(MONTH FROM '' @ buf @ '')'')
       else if type = TIME_CONSTRAINT_YDAY then Inr (out @ ''EXTRACT(DOY FROM '' @ buf @ '')'')
       else if type = TIME_CONSTRAINT_MDAY then Inr (out @ ''EXTRACT(DAY FROM '' @ buf @ '')'')
       else if type = TIME_CONSTRAINT_WDAY then Inr (out @ ''(EXTRACT(ISODOW FROM '' @ buf @ '') - 1)'')
       else if type = TIME_CONSTRAINT_HOUR then Inr (out @ ''EXTRACT(HOUR FROM '' @ buf @ '')'')
       else if type = TIME_CONSTRAINT_MIN then Inr (out @ ''EXTRACT(MINUTE FROM '' @ buf @ '')'')
       else if type = TIME_CONSTRAINT_SEC then Inr (out @ ''EXTRACT(SECOND FROM '' @ buf @ '')'')
       else if type = TIME_CONSTRAINT_MSEC then Inr (out @ ''EXTRACT(MILLISECOND FROM '' @ buf @ '')'')
       else if type = TIME_CONSTRAINT_USEC then Inr (out @ ''EXTRACT(MICROSECOND FROM '' @ buf @ '')'')
       else Inl (preludedb_error PRELUDEDB_ERROR_GENERIC))"

definition pgsql_build_time_timezone_string :: "string \<Rightarrow> string \<Rightarrow> string \<Rightarrow> db_error + string" where
  "pgsql_build_time_timezone_string out field tzvalue =
     Inr (out @ ''timezone('' @ CHR 0x27 # tzvalue @ CHR 0x27 # '', timezone('' @
          CHR 0x27 # ''UTC'' @ CHR 0x27 # '', '' @ field @ ''))'')"

definition pgsql_build_time_constraint_string ::
    "string \<Rightarrow> string \<Rightarrow> int \<Rightarrow> criterion_operator \<Rightarrow> int \<Rightarrow> int \<Rightarrow> db_error + string" where
  "pgsql_build_time_constraint_string out field type oper val gmt_offset =
     res_bind (pgsql_build_time_extract_string out field type gmt_offset) (\<lambda>out1.
       case pgsql_get_operator_string oper of
         None \<Rightarrow> Inl (preludedb_error PRELUDEDB_ERROR_GENERIC)
       | Some sql_operator \<Rightarrow>
           (let v = (if type = TIME_CONSTRAINT_WDAY then c_mod val 7 + 1 else val)
            in Inr (out1 @ '' '' @ sql_operator @ '' '' @ dec_int v)))"

definition pgsql_interval_unit :: "int \<Rightarrow> string option" where
  "pgsql_interval_unit unit =
     (if unit = INTERVAL_YEAR then Some ''YEAR''
      else if unit = INTERVAL_QUARTER then Some ''QUARTER''
      else if unit = INTERVAL_MONTH then Some ''MONTH''
      else if unit = INTERVAL_DAY then Some ''DAY''
      else if unit = INTERVAL_HOUR then Some ''HOUR''
      else if unit = INTERVAL_MIN then Some ''MINUTE''
      else if unit = INTERVAL_SEC then Some ''SECOND''
      else None)"

text \<open>
  \<open>strtol\<close> always stores the end of what it read, so \<open>if ( end )\<close> always takes the first
  branch, whatever the value is.
\<close>

definition pgsql_build_time_interval_string :: "string \<Rightarrow> string \<Rightarrow> string \<Rightarrow> int \<Rightarrow> db_error + string" where
  "pgsql_build_time_interval_string out field val unit =
     (case pgsql_interval_unit unit of
        None \<Rightarrow> Inl (preludedb_error PRELUDEDB_ERROR_GENERIC)
      | Some sunit \<Rightarrow>
          Inr (out @ ''('' @ field @ '' + ('' @ val @ '' * INTERVAL '' @
               CHR 0x27 # ''1 '' @ sunit @ CHR 0x27 # ''))''))"

section \<open>Rows and fields\<close>

definition pgsql_get_column_count :: "pg_result \<Rightarrow> nat" where
  "pgsql_get_column_count res = length (pg_fields res)"

definition pgsql_get_row_count :: "pg_result \<Rightarrow> nat" where
  "pgsql_get_row_count res = length (pg_tuples res)"

definition pgsql_get_column_name :: "pg_result \<Rightarrow> nat \<Rightarrow> string option" where
  "pgsql_get_column_name res column_num =
     (if column_num < length (pg_fields res) then Some (pg_fields res ! column_num) else None)"

text \<open>\<open>fnumber\<close> is \<open>PQfnumber\<close>, which folds the case of an unquoted name.\<close>

definition pgsql_get_column_num ::
    "(pg_result \<Rightarrow> string \<Rightarrow> int) \<Rightarrow> pg_result \<Rightarrow> string \<Rightarrow> db_error + nat" where
  "pgsql_get_column_num fnumber res name =
     (let ret = fnumber res name
      in if ret < 0
         then Inl (prelude_error_verbose PRELUDEDB_ERROR_GENERIC
                     (''unknown column '' @ CHR 0x27 # name @ [CHR 0x27]))
         else Inr (nat ret))"

definition pgsql_fetch_row :: "'w \<Rightarrow> pg_result sql_table \<Rightarrow> nat \<Rightarrow> pg_result sql_table \<times> (db_error + bool)" where
  "pgsql_fetch_row w t row_index =
     (if row_index < length (pg_tuples (tdata t))
      then (case preludedb_sql_table_new_row pgsql_get_column_count t row_index of
              Inl e \<Rightarrow> (t, Inl e)
            | Inr t' \<Rightarrow>
                (set_row t' row_index
                   (map_option (\<lambda>row. preludedb_sql_row_set_data row row_index) (row_at t' row_index)),
                 Inr True))
      else (t, Inr False))"

definition pgsql_fetch_field ::
    "'w \<Rightarrow> pg_result sql_table \<Rightarrow> nat \<Rightarrow> nat \<Rightarrow> pg_result sql_table \<times> (db_error + bool)" where
  "pgsql_fetch_field w t i column_num =
     (case row_at t i of
        None \<Rightarrow> (t, Inl Undefined)
      | Some row \<Rightarrow>
          if column_num \<ge> length (pg_fields (tdata t))
          then (t, Inl (preludedb_error PRELUDEDB_ERROR_INVALID_COLUMN_NUM))
          else (let cell = pg_tuples (tdata t) ! preludedb_sql_row_get_data row ! column_num;
                    (row', ret) = preludedb_sql_row_new_field row column_num (cell_value cell)
                in (set_row t i (Some row'), Inr (ret = 1))))"

section \<open>The plugin\<close>

text \<open>The functions of libpq that the plugin uses, in one record.\<close>

record 'w libpq =
  pq_login :: "string option list \<Rightarrow> 'w \<Rightarrow> 'w \<times> pg_conn"
  pq_finish :: "'w \<Rightarrow> 'w"
  pq_exec :: "'w \<Rightarrow> string \<Rightarrow> 'w \<times> pg_conn \<times> (pg_status \<times> pg_result) option"
  pq_escape_string :: "'w \<Rightarrow> string \<Rightarrow> pg_conn + string"
  pq_escape_bytea :: "'w \<Rightarrow> string \<Rightarrow> string option"
  pq_unescape_bytea :: "string \<Rightarrow> string option"
  pq_fnumber :: "pg_result \<Rightarrow> string \<Rightarrow> int"
  pq_server_version :: "'w \<Rightarrow> int"

definition pgsql_plugin :: "'w libpq \<Rightarrow> ('w, pg_result) preludedb_plugin_sql" where
  "pgsql_plugin pq =
     \<lparr>p_open = pgsql_open (pq_login pq) (pq_finish pq) (pq_exec pq) (pq_unescape_bytea pq),
      p_close = pq_finish pq,
      p_escape = Some (pgsql_escape (pq_escape_string pq)),
      p_escape_binary = Some (pgsql_escape_binary (pq_escape_bytea pq)),
      p_unescape_binary = Some (pgsql_unescape_binary (pq_unescape_bytea pq)),
      p_query = pgsql_query (pq_exec pq),
      p_get_column_count = pgsql_get_column_count,
      p_get_row_count = Some pgsql_get_row_count,
      p_get_column_name = pgsql_get_column_name,
      p_get_column_num = pgsql_get_column_num (pq_fnumber pq),
      p_fetch_row = Some pgsql_fetch_row,
      p_fetch_field = Some pgsql_fetch_field,
      p_build_time_extract_string = Some pgsql_build_time_extract_string,
      p_build_time_constraint_string = Some pgsql_build_time_constraint_string,
      p_build_time_interval_string = Some pgsql_build_time_interval_string,
      p_build_limit_offset_string = Some pgsql_build_limit_offset_string,
      p_build_constraint_string = Some pgsql_build_constraint_string,
      p_get_operator_string = pgsql_get_operator_string,
      p_build_timestamp_string = None,
      p_get_server_version = Some (pq_server_version pq),
      p_get_last_insert_ident = pgsql_get_last_insert_ident (pq_exec pq),
      p_build_time_timezone_string = Some pgsql_build_time_timezone_string\<rparr>"

section \<open>Facts\<close>

text \<open>Rows are reached in any order; a fetched row gives its cells.\<close>

lemma pgsql_fetch_row_cells:
  assumes "i < length (pg_tuples (tdata t))" "i + 1 < 2 ^ 32"
    and "column_count t = 0 \<or> column_count t = pgsql_get_column_count (tdata t)"
  shows "\<exists>t' row. pgsql_fetch_row w t i = (t', Inr True) \<and> row_at t' i = Some row \<and>
    row_data row = i \<and> row_fields row = replicate (length (pg_fields (tdata t))) Unset \<and>
    tdata t' = tdata t \<and> tdone t' = tdone t \<and> (\<forall>j. j \<noteq> i \<longrightarrow> row_at t' j = row_at t j)"
proof -
  let ?n = "snd (preludedb_sql_table_get_column_count pgsql_get_column_count t)"
  have n: "?n = length (pg_fields (tdata t))"
    using assms(3) by (auto simp: preludedb_sql_table_get_column_count_def pgsql_get_column_count_def Let_def)
  obtain t' where t': "preludedb_sql_table_new_row pgsql_get_column_count t i = Inr t'"
    using new_row_ok [OF assms(2)] by blast
  have lt: "i < nrow t'" using new_row_nrow [OF t'] by simp
  show ?thesis
    using assms(1) t' n lt new_row_row_at [OF t'] new_row_frame [OF t']
    by (simp add: pgsql_fetch_row_def preludedb_sql_row_set_data_def)
qed

end
