(* ===== verification/Plugin_Sqlite.thy ===== *)
theory Plugin_Sqlite
  imports Sql_Cursor
begin

text \<open>
  The SQLite backend (plugins/sql/sqlite3/sqlite3.c). A result handle (\<open>sqlite_stmt\<close>) is
  a prepared statement: its column names, the rows stepping will produce (a NULL column has
  no bytes), how many it has produced, and how it ends: done, with one
  of the codes ERROR, MISUSE and BUSY, or with another one, which an assertion excludes. Every row is copied out of the
  statement when it is fetched. libsqlite3's functions are parameters.
\<close>

datatype sqlite_end = SQLITE_DONE | SQLITE_FAILURE string | SQLITE_OTHER

record sqlite_stmt =
  st_columns :: "string list"
  st_rows :: "string list list"
  st_pos :: nat
  st_end :: sqlite_end

section \<open>Opening and escaping\<close>

record 'w libsqlite =
  lite_exists :: "string \<Rightarrow> bool"
  lite_open :: "string \<Rightarrow> 'w \<Rightarrow> 'w \<times> (string + unit)"
  lite_create_regexp :: "'w \<Rightarrow> 'w \<times> (string + unit)"
  lite_close :: "'w \<Rightarrow> 'w"
  lite_quote :: "string \<Rightarrow> string"
  lite_exec :: "'w \<Rightarrow> string \<Rightarrow> 'w \<times> (string + unit)"
  lite_prepare :: "'w \<Rightarrow> string \<Rightarrow> 'w \<times> (string + sqlite_stmt)"
  lite_version :: int

definition sqlite_open :: "'w libsqlite \<Rightarrow> settings \<Rightarrow> 'w \<Rightarrow> 'w \<times> (db_error + unit)" where
  "sqlite_open lib settings w =
     (let dbfile = (case settings_get_key SQL_SETTING_FILE settings of None \<Rightarrow> [] | Some f \<Rightarrow> f)
      in if dbfile = []
         then (w, Inl (preludedb_error_verbose PRELUDEDB_ERROR_CONNECTION ''no database file specified''))
         else if \<not> lite_exists lib dbfile
         then (w, Inl (preludedb_error_verbose PRELUDEDB_ERROR_CONNECTION
                 (''database file '' @ CHR 0x27 # dbfile @ CHR 0x27 # '' does not exist'')))
         else (case lite_open lib dbfile w of
                 (w1, Inl m) \<Rightarrow> (lite_close lib w1, Inl (preludedb_error_verbose PRELUDEDB_ERROR_CONNECTION m))
               | (w1, Inr _) \<Rightarrow>
                   (case lite_create_regexp lib w1 of
                      (w2, Inl m) \<Rightarrow>
                        (lite_close lib w2, Inl (preludedb_error_verbose PRELUDEDB_ERROR_CONNECTION m))
                    | (w2, Inr _) \<Rightarrow> (w2, Inr ()))))"

text \<open>
  \<open>lite_quote\<close> is the \<open>%q\<close> conversion of \<open>sqlite3_mprintf\<close>, which reads the input up to
  its first NUL whatever \<open>input_size\<close> says.
\<close>

definition sqlite_escape :: "'w libsqlite \<Rightarrow> 'w \<Rightarrow> string \<Rightarrow> db_error + string" where
  "sqlite_escape lib w input =
     Inr (CHR 0x27 # lite_quote lib (takeWhile (\<lambda>c. c \<noteq> CHR 0x00) input) @ [CHR 0x27])"

definition sqlite_build_limit_offset_string :: "int \<Rightarrow> int \<Rightarrow> string \<Rightarrow> db_error + string" where
  "sqlite_build_limit_offset_string limit offset out =
     (if limit \<ge> 0 then
        (if offset \<ge> 0 then Inr (out @ '' LIMIT '' @ dec_int offset @ '', '' @ dec_int limit)
         else Inr (out @ '' LIMIT '' @ dec_int limit))
      else if offset \<ge> 0 then Inr (out @ '' LIMIT '' @ dec_int offset @ '', -1'')
      else Inr out)"

section \<open>Queries, rows and fields\<close>

definition sqlite_query ::
    "'w libsqlite \<Rightarrow> 'w \<Rightarrow> string \<Rightarrow> bool \<Rightarrow> 'w \<times> (db_error + sqlite_stmt option)" where
  "sqlite_query lib w query want =
     (if \<not> strncase_eq query ''SELECT'' 6
      then (case lite_exec lib w query of
              (w', Inl m) \<Rightarrow> (w', Inl (preludedb_error_verbose PRELUDEDB_ERROR_QUERY m))
            | (w', Inr _) \<Rightarrow> (w', Inr None))
      else (case lite_prepare lib w query of
              (w', Inl m) \<Rightarrow> (w', Inl (preludedb_error_verbose PRELUDEDB_ERROR_QUERY m))
            | (w', Inr statement) \<Rightarrow>
                if st_columns statement = [] then (w', Inr None)
                else if want then (w', Inr (Some statement)) else (w', Inl Undefined)))"

definition sqlite_get_column_count :: "sqlite_stmt \<Rightarrow> nat" where
  "sqlite_get_column_count st = length (st_columns st)"

definition sqlite_get_column_name :: "sqlite_stmt \<Rightarrow> nat \<Rightarrow> string option" where
  "sqlite_get_column_name st column_num =
     (if column_num \<ge> length (st_columns st) then None else Some (st_columns st ! column_num))"

definition sqlite_get_column_num :: "sqlite_stmt \<Rightarrow> string \<Rightarrow> db_error + nat" where
  "sqlite_get_column_num st name =
     (case find_column name 0 (st_columns st) of
        Some i \<Rightarrow> Inr i
      | None \<Rightarrow> Inl (prelude_error_verbose PRELUDEDB_ERROR_GENERIC
                      (''unknown column '' @ CHR 0x27 # name @ [CHR 0x27])))"

text \<open>A column without bytes, NULL or the empty string, is stored with a NULL pointer.\<close>

definition sqlite_field_copy :: "sql_row \<Rightarrow> string list \<Rightarrow> nat \<Rightarrow> sql_row" where
  "sqlite_field_copy row cells col =
     fst (preludedb_sql_row_new_field row col
       (if cells ! col = [] then None else Some (cells ! col, length (cells ! col))))"

definition sqlite_fill_row :: "string list \<Rightarrow> nat \<Rightarrow> sql_row \<Rightarrow> sql_row" where
  "sqlite_fill_row cells n row = foldl (\<lambda>r i. sqlite_field_copy r cells i) row [0..<n]"

definition sqlite_next :: "sqlite_stmt \<Rightarrow> sqlite_stmt next_row" where
  "sqlite_next st =
     (if st_pos st < length (st_rows st)
      then Next_row (st\<lparr>st_pos := Suc (st_pos st)\<rparr>)
             (\<lambda>row. Inr (sqlite_fill_row (st_rows st ! st_pos st) (length (st_columns st)) row))
      else case st_end st of
             SQLITE_DONE \<Rightarrow> Next_done
           | SQLITE_FAILURE m \<Rightarrow> Next_error (preludedb_error_verbose PRELUDEDB_ERROR_QUERY m)
           | SQLITE_OTHER \<Rightarrow> Next_error Undefined)"

definition sqlite_fetch_row ::
    "'w \<Rightarrow> sqlite_stmt sql_table \<Rightarrow> nat \<Rightarrow> sqlite_stmt sql_table \<times> (db_error + bool)" where
  "sqlite_fetch_row w t row_index = seq_fetch_row sqlite_get_column_count sqlite_next t row_index"

section \<open>SQL text\<close>

text \<open>\<open>regex\<close> is \<open>SQLITE_REGEX_OPERATOR\<close>, REGEXP or GLOB by the version of the library.\<close>

definition sqlite_operator_table :: "string \<Rightarrow> (criterion_operator \<times> string) list" where
  "sqlite_operator_table regex =
    [(OPERATOR_EQUAL, ''=''),
     (OPERATOR_EQUAL_NOCASE, ''=''),
     (OPERATOR_NOT_EQUAL, ''!=''),
     (OPERATOR_NOT_EQUAL_NOCASE, ''!=''),
     (OPERATOR_GREATER, ''>''),
     (OPERATOR_GREATER_OR_EQUAL, ''>=''),
     (OPERATOR_LESSER, ''<''),
     (OPERATOR_LESSER_OR_EQUAL, ''<=''),
     (OPERATOR_SUBSTR, ''LIKE''),
     (OPERATOR_SUBSTR_NOCASE, ''LIKE''),
     (OPERATOR_NOT_SUBSTR, ''NOT LIKE''),
     (OPERATOR_NOT_SUBSTR_NOCASE, ''NOT LIKE ''),
     (OPERATOR_REGEX, regex),
     (OPERATOR_REGEX_NOCASE, regex),
     (OPERATOR_NOT_REGEX, ''NOT '' @ regex),
     (OPERATOR_NOT_REGEX_NOCASE, ''NOT '' @ regex),
     (OPERATOR_NULL, ''IS NULL''),
     (OPERATOR_NOT_NULL, ''IS NOT NULL'')]"

definition sqlite_get_operator_string :: "string \<Rightarrow> criterion_operator \<Rightarrow> string option" where
  "sqlite_get_operator_string regex oper = map_of (sqlite_operator_table regex) oper"

definition sqlite_build_constraint_string ::
    "string \<Rightarrow> string \<Rightarrow> string \<Rightarrow> criterion_operator \<Rightarrow> string option \<Rightarrow> db_error + string" where
  "sqlite_build_constraint_string regex out field oper val =
     (case sqlite_get_operator_string regex oper of
        None \<Rightarrow> Inl RawError
      | Some op_str \<Rightarrow>
          let v = (case val of None \<Rightarrow> [] | Some v \<Rightarrow> v)
          in if op_nocase oper
             then Inr (out @ ''lower('' @ field @ '') '' @ op_str @ '' lower('' @ v @ '')'')
             else Inr (out @ field @ '' '' @ op_str @ '' '' @ v))"

definition sqlite_time_buf :: "string \<Rightarrow> int \<Rightarrow> db_error + string" where
  "sqlite_time_buf field gmt_offset =
     (let buf = (if gmt_offset = 0 then field
                 else ''DATETIME('' @ field @ '', '' @ CHR 0x27 # dec_int (c_div gmt_offset 3600) @
                      '' hours'' @ CHR 0x27 # '')'')
      in if length buf \<ge> 128 then Inl (preludedb_error PRELUDEDB_ERROR_GENERIC) else Inr buf)"

definition strftime_call :: "char \<Rightarrow> string \<Rightarrow> string" where
  "strftime_call f buf = ''STRFTIME('' @ CHR 0x27 # CHR ''%'' # f # CHR 0x27 # '', '' @ buf @ '')''"

definition sqlite_build_time_extract_string ::
    "string \<Rightarrow> string \<Rightarrow> int \<Rightarrow> int \<Rightarrow> db_error + string" where
  "sqlite_build_time_extract_string out field type gmt_offset =
     res_bind (sqlite_time_buf field gmt_offset) (\<lambda>buf.
       if type = TIME_CONSTRAINT_YEAR then Inr (out @ strftime_call (CHR ''Y'') buf @ '' + 0'')
       else if type = TIME_CONSTRAINT_QUARTER
       then Inr (out @ ''(('' @ strftime_call (CHR ''m'') buf @ '' + 2) / 3)'')
       else if type = TIME_CONSTRAINT_MONTH then Inr (out @ strftime_call (CHR ''m'') buf @ '' + 0'')
       else if type = TIME_CONSTRAINT_YDAY then Inr (out @ strftime_call (CHR ''j'') buf @ '' + 0'')
       else if type = TIME_CONSTRAINT_MDAY then Inr (out @ strftime_call (CHR ''d'') buf @ '' + 0'')
       else if type = TIME_CONSTRAINT_WDAY
       then Inr (out @ ''(('' @ strftime_call (CHR ''w'') buf @ '' + 6) % 7)'')
       else if type = TIME_CONSTRAINT_HOUR then Inr (out @ strftime_call (CHR ''H'') buf @ '' + 0'')
       else if type = TIME_CONSTRAINT_MIN then Inr (out @ strftime_call (CHR ''M'') buf @ '' + 0'')
       else if type = TIME_CONSTRAINT_SEC then Inr (out @ strftime_call (CHR ''S'') buf @ '' + 0'')
       else if type = TIME_CONSTRAINT_MSEC
       then Inr (out @ ''('' @ strftime_call (CHR ''f'') buf @ '' - '' @ strftime_call (CHR ''S'') buf @
                 '') * 1000'')
       else Inl (preludedb_error PRELUDEDB_ERROR_GENERIC))"

definition sqlite_build_time_constraint_string ::
    "string \<Rightarrow> string \<Rightarrow> string \<Rightarrow> int \<Rightarrow> criterion_operator \<Rightarrow> int \<Rightarrow> int \<Rightarrow> db_error + string" where
  "sqlite_build_time_constraint_string regex out field type oper val gmt_offset =
     res_bind (sqlite_build_time_extract_string out field type gmt_offset) (\<lambda>out1.
       case sqlite_get_operator_string regex oper of
         None \<Rightarrow> Inl (preludedb_error PRELUDEDB_ERROR_GENERIC)
       | Some sql_operator \<Rightarrow>
           (let v = (if type = TIME_CONSTRAINT_WDAY then c_mod val 7 else val)
            in Inr (out1 @ '' '' @ sql_operator @ '' '' @ dec_int v)))"

definition sqlite_interval_unit :: "int \<Rightarrow> string option" where
  "sqlite_interval_unit unit =
     (if unit = INTERVAL_YEAR then Some ''years''
      else if unit = INTERVAL_MONTH then Some ''months''
      else if unit = INTERVAL_DAY then Some ''days''
      else if unit = INTERVAL_HOUR then Some ''hours''
      else if unit = INTERVAL_MIN then Some ''minutes''
      else if unit = INTERVAL_SEC then Some ''seconds''
      else None)"

definition sqlite_build_time_interval_string :: "string \<Rightarrow> string \<Rightarrow> string \<Rightarrow> int \<Rightarrow> db_error + string" where
  "sqlite_build_time_interval_string out field val unit =
     (case sqlite_interval_unit unit of
        None \<Rightarrow> Inl (preludedb_error PRELUDEDB_ERROR_GENERIC)
      | Some sunit \<Rightarrow>
          Inr (out @ ''datetime('' @ field @ '', '' @ val @ '' || '' @
               CHR 0x27 # CHR '' '' # sunit @ CHR 0x27 # '')''))"

section \<open>The plugin\<close>

text \<open>
  \<open>get_last_insert_ident\<close> is not set by the plugin: \<open>last_ident\<close> stands for calling that
  NULL pointer.
\<close>

definition sqlite_plugin ::
    "'w libsqlite \<Rightarrow> string \<Rightarrow> ('w, sqlite_stmt) preludedb_plugin_sql" where
  "sqlite_plugin lib regex =
     \<lparr>p_open = sqlite_open lib,
      p_close = lite_close lib,
      p_escape = Some (sqlite_escape lib),
      p_escape_binary = None,
      p_unescape_binary = None,
      p_query = sqlite_query lib,
      p_get_column_count = sqlite_get_column_count,
      p_get_row_count = None,
      p_get_column_name = sqlite_get_column_name,
      p_get_column_num = sqlite_get_column_num,
      p_fetch_row = Some sqlite_fetch_row,
      p_fetch_field = None,
      p_build_time_extract_string = Some sqlite_build_time_extract_string,
      p_build_time_constraint_string = Some (sqlite_build_time_constraint_string regex),
      p_build_time_interval_string = Some sqlite_build_time_interval_string,
      p_build_limit_offset_string = Some sqlite_build_limit_offset_string,
      p_build_constraint_string = Some (sqlite_build_constraint_string regex),
      p_get_operator_string = sqlite_get_operator_string regex,
      p_build_timestamp_string = None,
      p_get_server_version = Some (\<lambda>w. lite_version lib),
      p_get_last_insert_ident = (\<lambda>w. (w, Inl Undefined)),
      p_build_time_timezone_string = None\<rparr>"

section \<open>Facts\<close>

text \<open>What a copied column becomes: the empty string is not told apart from NULL.\<close>

definition sqlite_slot :: "string \<Rightarrow> field_slot" where
  "sqlite_slot s = (if s = [] then SQL_NULL_FIELD else Field s (length s))"

lemma field_copy_fields:
  "row_fields (sqlite_field_copy row cells i) = (row_fields row)[i := sqlite_slot (cells ! i)]"
  "row_refcount (sqlite_field_copy row cells i) = row_refcount row"
  "row_data (sqlite_field_copy row cells i) = row_data row"
  by (simp_all add: sqlite_field_copy_def preludedb_sql_row_new_field_def sqlite_slot_def)

lemma fill_row_prefix:
  assumes "n \<le> length (row_fields row)" "n \<le> length cells"
  shows "row_fields (sqlite_fill_row cells n row) =
           map sqlite_slot (take n cells) @ drop n (row_fields row) \<and>
         row_refcount (sqlite_fill_row cells n row) = row_refcount row"
  using assms
proof (induction n)
  case (Suc n)
  let ?r = "sqlite_fill_row cells n row"
  have ih: "row_fields ?r = map sqlite_slot (take n cells) @ drop n (row_fields row)"
    "row_refcount ?r = row_refcount row"
    using Suc by simp_all
  have "sqlite_fill_row cells (Suc n) row = sqlite_field_copy ?r cells n"
    by (simp add: sqlite_fill_row_def)
  moreover have "drop n (row_fields row) = row_fields row ! n # drop (Suc n) (row_fields row)"
    using Suc.prems by (simp add: Cons_nth_drop_Suc)
  ultimately show ?case
    using ih Suc.prems by (simp add: field_copy_fields list_update_append take_Suc_conv_app_nth)
qed (simp add: sqlite_fill_row_def)

definition sqlite_wf :: "sqlite_stmt \<Rightarrow> bool" where
  "sqlite_wf st \<longleftrightarrow> st_columns st \<noteq> [] \<and> st_end st = SQLITE_DONE \<and> st_pos st \<le> length (st_rows st) \<and>
     (\<forall>r \<in> set (st_rows st). length r = length (st_columns st))"

definition sqlite_pending :: "sqlite_stmt \<Rightarrow> string list list" where
  "sqlite_pending st = drop (st_pos st) (st_rows st)"

definition sqlite_good :: "sqlite_stmt \<Rightarrow> sql_row \<Rightarrow> string list \<Rightarrow> bool" where
  "sqlite_good st row cells \<longleftrightarrow>
     row_fields row = map sqlite_slot cells \<and> length cells = length (st_columns st)"

interpretation litecur: cursor sqlite_get_column_count sqlite_next sqlite_pending sqlite_good sqlite_wf
proof unfold_locales
  fix d :: sqlite_stmt assume "sqlite_wf d" "sqlite_pending d = []"
  then show "sqlite_next d = Next_done"
    by (simp add: sqlite_next_def sqlite_pending_def sqlite_wf_def)
next
  fix d :: sqlite_stmt and c cs assume w: "sqlite_wf d" and p: "sqlite_pending d = c # cs"
  have l: "st_pos d < length (st_rows d)"
    using p by (metis drop_eq_Nil list.distinct(1) sqlite_pending_def not_le)
  have c: "st_rows d ! st_pos d = c"
    using p by (metis sqlite_pending_def nth_via_drop)
  have cs: "drop (Suc (st_pos d)) (st_rows d) = cs"
    using p by (metis drop_Suc list.sel(3) sqlite_pending_def tl_drop)
  have len: "length c = length (st_columns d)" using w l c by (auto simp: sqlite_wf_def)
  show "\<exists>d' fill. sqlite_next d = Next_row d' fill \<and> sqlite_wf d' \<and> sqlite_pending d' = cs \<and>
      sqlite_get_column_count d' = sqlite_get_column_count d \<and>
      (\<forall>r c'. sqlite_good d r c' \<longrightarrow> sqlite_good d' r c') \<and>
      (\<forall>r. row_refcount r = 1 \<and> row_fields r = replicate (sqlite_get_column_count d) Unset \<longrightarrow>
        (\<exists>r'. fill r = Inr r' \<and> row_refcount r' = 1 \<and> sqlite_good d' r' c))"
    using w l c cs len
    by (auto simp: sqlite_next_def sqlite_wf_def sqlite_pending_def sqlite_get_column_count_def
        sqlite_good_def fill_row_prefix)
next
  fix d :: sqlite_stmt assume "sqlite_wf d"
  then show "0 < sqlite_get_column_count d" by (simp add: sqlite_wf_def sqlite_get_column_count_def)
qed

text \<open>Quote doubling, as the documentation of \<open>%q\<close> describes it, makes a readable literal.\<close>

fun double_quotes :: "string \<Rightarrow> string" where
  "double_quotes [] = []"
| "double_quotes (c # cs) =
     (if c = CHR 0x27 then CHR 0x27 # CHR 0x27 # double_quotes cs else c # double_quotes cs)"

definition quoted_literal :: "string \<Rightarrow> string" where
  "quoted_literal s = CHR 0x27 # double_quotes s @ [CHR 0x27]"

fun read_quoted_body :: "string \<Rightarrow> (string \<times> string) option" where
  "read_quoted_body [] = None"
| "read_quoted_body [c] = (if c = CHR 0x27 then Some ([], []) else None)"
| "read_quoted_body (c # d # s) =
     (if c \<noteq> CHR 0x27 then map_option (\<lambda>(v, r). (c # v, r)) (read_quoted_body (d # s))
      else if d = CHR 0x27 then map_option (\<lambda>(v, r). (c # v, r)) (read_quoted_body s)
      else Some ([], d # s))"

definition read_quoted_literal :: "string \<Rightarrow> (string \<times> string) option" where
  "read_quoted_literal s =
     (case s of c # s' \<Rightarrow> if c = CHR 0x27 then read_quoted_body s' else None | [] \<Rightarrow> None)"

lemma read_quoted_body_double:
  "no_quote rest \<Longrightarrow> read_quoted_body (double_quotes s @ CHR 0x27 # rest) = Some (s, rest)"
proof (induction s)
  case Nil
  then show ?case by (cases rest) simp_all
next
  case (Cons c s)
  then show ?case by (cases "double_quotes s @ CHR 0x27 # rest") auto
qed

interpretation quolit: sql_literal quoted_literal read_quoted_literal
  by unfold_locales (simp add: quoted_literal_def read_quoted_literal_def read_quoted_body_double)

end
