(* ===== verification/Sql_Backend.thy ===== *)
theory Sql_Backend
  imports Plugin_Mysql Plugin_Pgsql Plugin_Sqlite
begin

text \<open>
  What the library relies on in a backend's SQL builders, as a locale: they only append to
  the text they are given, their result does not depend on that text, every criterion
  operator of libprelude is translated, and the NULL tests are the standard ones. The three
  plugins are interpretations; src/preludedb-sql.c and the classic format are clients.
\<close>

text \<open>A builder that appends, or fails, whatever the text so far.\<close>

definition extends :: "(string \<Rightarrow> 'e + string) \<Rightarrow> bool" where
  "extends b \<longleftrightarrow> (\<forall>out. b out = map_sum id (\<lambda>s. out @ s) (b []))"

lemma extendsI: "(\<And>out. b out = map_sum id (\<lambda>s. out @ s) (b [])) \<Longrightarrow> extends b"
  unfolding extends_def by blast

lemma extendsD: "extends b \<Longrightarrow> b out = map_sum id (\<lambda>s. out @ s) (b [])"
  unfolding extends_def by blast

lemma extends_const [simp, intro]: "extends (\<lambda>out. Inl e)" "extends (\<lambda>out. Inr out)"
  by (simp_all add: extends_def)

lemma extends_append [intro]: "extends (\<lambda>out. Inr (out @ s))"
  by (simp add: extends_def)

lemma extends_bind:
  assumes "extends f" "extends g"
  shows "extends (\<lambda>out. res_bind (f out) g)"
proof (rule extendsI)
  fix out
  show "res_bind (f out) g = map_sum id (\<lambda>s. out @ s) (res_bind (f []) g)"
  proof (cases "f []")
    case (Inl e)
    then show ?thesis using extendsD [OF assms(1), of out] by simp
  next
    case (Inr a)
    then show ?thesis
      using extendsD [OF assms(1), of out] extendsD [OF assms(2), of "out @ a"] extendsD [OF assms(2), of a]
      by (cases "g []") simp_all
  qed
qed

lemma extends_prefix:
  assumes "extends f"
  shows "extends (\<lambda>out. f (out @ s))"
  using extends_bind [OF extends_append [of s] assms] by simp

lemma extends_if: "extends f \<Longrightarrow> extends g \<Longrightarrow> extends (\<lambda>out. if b then f out else g out)"
  by (cases b) simp_all

text \<open>The criterion operators that libprelude can produce.\<close>

definition known_operators :: "criterion_operator list" where
  "known_operators =
    [OPERATOR_EQUAL, OPERATOR_EQUAL_NOCASE, OPERATOR_NOT_EQUAL, OPERATOR_NOT_EQUAL_NOCASE,
     OPERATOR_GREATER, OPERATOR_GREATER_OR_EQUAL, OPERATOR_LESSER, OPERATOR_LESSER_OR_EQUAL,
     OPERATOR_SUBSTR, OPERATOR_SUBSTR_NOCASE, OPERATOR_NOT_SUBSTR, OPERATOR_NOT_SUBSTR_NOCASE,
     OPERATOR_REGEX, OPERATOR_REGEX_NOCASE, OPERATOR_NOT_REGEX, OPERATOR_NOT_REGEX_NOCASE,
     OPERATOR_NULL, OPERATOR_NOT_NULL]"

locale sql_backend =
  fixes plugin :: "('w, 'd) preludedb_plugin_sql"
  assumes op_null: "p_get_operator_string plugin OPERATOR_NULL = Some ''IS NULL''"
    and op_not_null: "p_get_operator_string plugin OPERATOR_NOT_NULL = Some ''IS NOT NULL''"
    and constraint_ext: "extends (\<lambda>out. plugin_sql_build_constraint_string plugin out f oper v)"
    and constraint_ok: "oper \<in> set known_operators \<Longrightarrow>
      is_ok (plugin_sql_build_constraint_string plugin out f oper v)"
    and extract_ext: "extends (\<lambda>out. plugin_sql_build_time_extract_string plugin out f ty gmt)"
    and time_constraint_ext:
      "extends (\<lambda>out. plugin_sql_build_time_constraint_string plugin out f ty oper n gmt)"
    and timezone_ext: "extends (\<lambda>out. plugin_sql_build_time_timezone_string plugin out f tz)"
    and interval_ext: "extends (\<lambda>out. plugin_sql_build_time_interval_string plugin out f ival unit)"
    and limit_ext: "extends (plugin_sql_build_limit_offset_string plugin limit offset)"
    and limit_none: "limit < 0 \<Longrightarrow> offset < 0 \<Longrightarrow>
      plugin_sql_build_limit_offset_string plugin limit offset out = Inr out"
    and limit_ok: "is_ok (plugin_sql_build_limit_offset_string plugin limit offset out)"

named_theorems backend_dispatch \<open>the dispatch functions, to be unfolded over a plugin\<close>

lemmas [backend_dispatch] =
  plugin_sql_build_constraint_string_def plugin_sql_build_time_extract_string_def
  plugin_sql_build_time_constraint_string_def plugin_sql_build_time_timezone_string_def
  plugin_sql_build_time_interval_string_def plugin_sql_build_limit_offset_string_def

section \<open>MySQL\<close>

lemma mysql_extract_ext: "extends (\<lambda>out. mysql_build_time_extract_string out f ty gmt)"
  by (rule extendsI) (cases "mysql_time_buf f gmt"; simp add: mysql_build_time_extract_string_def)

lemma mysql_operators:
  "list_all (\<lambda>oper. mysql_get_operator_string oper \<noteq> None) known_operators"
  by (simp add: known_operators_def mysql_get_operator_string_def mysql_operator_table_def)

interpretation my_backend: sql_backend "mysql_plugin my" for my :: "'w libmysql"
proof unfold_locales
  fix f v ty gmt oper n
  show "extends (\<lambda>out. plugin_sql_build_time_constraint_string (mysql_plugin my) out f ty oper n gmt)"
    using extends_bind [OF mysql_extract_ext extends_append]
    by (cases "mysql_get_operator_string oper")
      (auto simp: backend_dispatch mysql_plugin_def mysql_build_time_constraint_string_def Let_def
        intro!: extends_bind [OF mysql_extract_ext])
next
  fix oper out f v assume "oper \<in> set known_operators"
  then have "mysql_get_operator_string oper \<noteq> None" using mysql_operators by (simp add: list_all_iff)
  then show "is_ok (plugin_sql_build_constraint_string (mysql_plugin my) out f oper v)"
    by (auto simp: backend_dispatch mysql_plugin_def mysql_build_constraint_string_def)
qed (auto simp: backend_dispatch mysql_plugin_def mysql_get_operator_string_def mysql_operator_table_def
    mysql_build_constraint_string_def mysql_extract_ext mysql_build_time_timezone_string_def
    mysql_build_time_interval_string_def mysql_build_limit_offset_string_def extends_def split: option.splits)

section \<open>PostgreSQL\<close>

lemma pgsql_extract_ext: "extends (\<lambda>out. pgsql_build_time_extract_string out f ty gmt)"
  by (rule extendsI) (cases "pgsql_time_buf f gmt"; simp add: pgsql_build_time_extract_string_def)

lemma pgsql_operators:
  "list_all (\<lambda>oper. pgsql_get_operator_string oper \<noteq> None \<or> oper = OPERATOR_EQUAL_NOCASE \<or>
     oper = OPERATOR_NOT_EQUAL_NOCASE) known_operators"
  by (simp add: known_operators_def pgsql_get_operator_string_def pgsql_operator_table_def)

interpretation pg_backend: sql_backend "pgsql_plugin pq" for pq :: "'w libpq"
proof unfold_locales
  fix f v ty gmt oper n
  show "extends (\<lambda>out. plugin_sql_build_time_constraint_string (pgsql_plugin pq) out f ty oper n gmt)"
    by (cases "pgsql_get_operator_string oper")
      (auto simp: backend_dispatch pgsql_plugin_def pgsql_build_time_constraint_string_def Let_def
        intro!: extends_bind [OF pgsql_extract_ext])
next
  fix oper out f v assume "oper \<in> set known_operators"
  then have "pgsql_get_operator_string oper \<noteq> None \<or> oper = OPERATOR_EQUAL_NOCASE \<or>
      oper = OPERATOR_NOT_EQUAL_NOCASE" using pgsql_operators by (simp add: list_all_iff)
  then show "is_ok (plugin_sql_build_constraint_string (pgsql_plugin pq) out f oper v)"
    by (auto simp: backend_dispatch pgsql_plugin_def pgsql_build_constraint_string_def Let_def
        split: option.splits)
qed (auto simp: backend_dispatch pgsql_plugin_def pgsql_get_operator_string_def pgsql_operator_table_def
    pgsql_build_constraint_string_def pgsql_extract_ext pgsql_build_time_timezone_string_def
    pgsql_build_time_interval_string_def pgsql_build_limit_offset_string_def extends_def Let_def
    split: option.splits)

section \<open>SQLite\<close>

lemma sqlite_extract_ext: "extends (\<lambda>out. sqlite_build_time_extract_string out f ty gmt)"
  by (rule extendsI) (cases "sqlite_time_buf f gmt"; simp add: sqlite_build_time_extract_string_def)

lemma sqlite_operators:
  "list_all (\<lambda>oper. sqlite_get_operator_string rx oper \<noteq> None) known_operators"
  by (simp add: known_operators_def sqlite_get_operator_string_def sqlite_operator_table_def)

interpretation lite_backend: sql_backend "sqlite_plugin lib rx" for lib :: "'w libsqlite" and rx
proof unfold_locales
  fix f v ty gmt oper n
  show "extends (\<lambda>out. plugin_sql_build_time_constraint_string (sqlite_plugin lib rx) out f ty oper n gmt)"
    by (cases "sqlite_get_operator_string rx oper")
      (auto simp: backend_dispatch sqlite_plugin_def sqlite_build_time_constraint_string_def Let_def
        intro!: extends_bind [OF sqlite_extract_ext])
next
  fix oper out f v assume "oper \<in> set known_operators"
  then have "sqlite_get_operator_string rx oper \<noteq> None"
    using sqlite_operators by (simp add: list_all_iff)
  then show "is_ok (plugin_sql_build_constraint_string (sqlite_plugin lib rx) out f oper v)"
    by (auto simp: backend_dispatch sqlite_plugin_def sqlite_build_constraint_string_def Let_def)
qed (auto simp: backend_dispatch sqlite_plugin_def sqlite_get_operator_string_def sqlite_operator_table_def
    sqlite_build_constraint_string_def sqlite_extract_ext
    sqlite_build_time_interval_string_def sqlite_build_limit_offset_string_def extends_def Let_def
    split: option.splits)

end
