(* ===== verification/Sql_Select.thy ===== *)
theory Sql_Select
  imports Path_Selection Sql_Backend
begin

text \<open>
  The SELECT builder (src/preludedb-sql-select.c). The format plugin's \<open>path_resolve\<close> is a
  parameter that threads the plugin's own data (\<open>'j\<close>, the joins of the classic format);
  \<open>plugin\<close> is the SQL backend behind the database object.
\<close>

record sql_select =
  sel_fields :: string
  sel_order_by :: string
  sel_group_by :: string
  field_count :: nat
  func_index :: nat
  alias_function :: bool

type_synonym 'j path_resolver =
  "selected_path \<Rightarrow> idmef_path \<Rightarrow> 'j \<Rightarrow> string \<Rightarrow> 'j \<times> (db_error + string)"

definition preludedb_sql_select_new :: sql_select where
  "preludedb_sql_select_new =
     \<lparr>sel_fields = [], sel_order_by = [], sel_group_by = [], field_count = 0, func_index = 0,
      alias_function = False\<rparr>"

definition preludedb_sql_select_set_flags :: "sql_select \<Rightarrow> bool \<Rightarrow> sql_select" where
  "preludedb_sql_select_set_flags sel alias = sel\<lparr>alias_function := alias\<rparr>"

definition func_to_string :: "object_function \<Rightarrow> string option" where
  "func_to_string f =
     (case f of
        OBJECT_AVG \<Rightarrow> Some ''AVG'' | OBJECT_COUNT \<Rightarrow> Some ''COUNT'' | OBJECT_MAX \<Rightarrow> Some ''MAX''
      | OBJECT_MIN \<Rightarrow> Some ''MIN'' | OBJECT_INTERVAL \<Rightarrow> Some ''INTERVAL'' | _ \<Rightarrow> None)"

text \<open>
  The text of an object below the top. A missing argument, and an argument of another kind
  than the function reads, is undefined. \<open>INTERVAL(field, value, unit)\<close> resolves its first
  two arguments, and the other functions but EXTRACT and TIMEZONE their first one only.
\<close>

fun object_to_string ::
    "('w, 'd) preludedb_plugin_sql \<Rightarrow> 'j path_resolver \<Rightarrow> selected_path \<Rightarrow> selected_object \<Rightarrow> 'j \<Rightarrow> string \<Rightarrow>
       'j \<times> (db_error + string)" where
  "object_to_string plugin resolve sp (Object_string s) j out = (j, Inr (out @ s))"
| "object_to_string plugin resolve sp (Object_int i) j out = (j, Inr (out @ dec_int i))"
| "object_to_string plugin resolve sp (Object_path p) j out = resolve sp p j out"
| "object_to_string plugin resolve sp (Object_function f []) j out = (j, Inl Undefined)"
| "object_to_string plugin resolve sp (Object_function f (a0 # args)) j out =
     (case f of
        OBJECT_EXTRACT \<Rightarrow>
          (case object_to_string plugin resolve sp a0 j [] of
             (j', Inl e) \<Rightarrow> (j', Inl e)
           | (j', Inr tmp1) \<Rightarrow>
               (j', case args of
                      Object_int ty # _ \<Rightarrow> plugin_sql_build_time_extract_string plugin out tmp1 ty 0
                    | _ \<Rightarrow> Inl Undefined))
      | OBJECT_INTERVAL \<Rightarrow>
          (case object_to_string plugin resolve sp a0 j [] of
             (j', Inl e) \<Rightarrow> (j', Inl e)
           | (j', Inr tmp1) \<Rightarrow>
               (case args of
                  a1 # rest \<Rightarrow>
                    (case object_to_string plugin resolve sp a1 j' [] of
                       (j'', Inl e) \<Rightarrow> (j'', Inl e)
                     | (j'', Inr tmp2) \<Rightarrow>
                         (j'', case rest of
                                 Object_int unit # _ \<Rightarrow>
                                   plugin_sql_build_time_interval_string plugin out tmp1 tmp2 unit
                               | _ \<Rightarrow> Inl Undefined))
                | [] \<Rightarrow> (j', Inl Undefined)))
      | OBJECT_TIMEZONE \<Rightarrow>
          (case object_to_string plugin resolve sp a0 j [] of
             (j', Inl e) \<Rightarrow> (j', Inl e)
           | (j', Inr tmp1) \<Rightarrow>
               (j', case args of
                      Object_string tz # _ \<Rightarrow> plugin_sql_build_time_timezone_string plugin out tmp1 tz
                    | _ \<Rightarrow> Inl Undefined))
      | _ \<Rightarrow>
          (case func_to_string f of
             None \<Rightarrow> (j, Inl (preludedb_error_verbose PRELUDEDB_ERROR_GENERIC ''Unknown function enumeration''))
           | Some func \<Rightarrow>
               (case object_to_string plugin resolve sp a0 j (out @ func @ ''('') of
                  (j', Inl e) \<Rightarrow> (j', Inl e)
                | (j', Inr out') \<Rightarrow> (j', Inr (out' @ '')'')))))"

text \<open>At depth 0 a function may get an alias.\<close>

definition preludedb_selected_object_to_string ::
    "('w, 'd) preludedb_plugin_sql \<Rightarrow> 'j path_resolver \<Rightarrow> sql_select \<Rightarrow> selected_path \<Rightarrow> selected_object \<Rightarrow>
       'j \<Rightarrow> string \<Rightarrow> sql_select \<times> 'j \<times> (db_error + string)" where
  "preludedb_selected_object_to_string plugin resolve sel sp ob j out =
     (let (j', ret) = object_to_string plugin resolve sp ob j out
      in if preludedb_selected_object_is_function ob \<and> alias_function sel
         then (sel\<lparr>func_index := func_index sel + 1\<rparr>, j',
               map_sum id (\<lambda>o'. o' @ '' AS FUNC'' @ dec_nat (func_index sel)) ret)
         else (sel, j', ret))"

text \<open>
  The options of one field, repeated for \<open>num_field\<close> fields. The loop is a
  \<open>do ... while ( --num_field )\<close> on an unsigned counter: with 0 it runs \<open>2 ^ 32\<close> times.
\<close>

definition add_options_step :: "path_flags \<Rightarrow> sql_select \<Rightarrow> sql_select" where
  "add_options_step flags sel =
     (let n = field_count sel + 1;
          s1 = (if group_by flags
                then sel\<lparr>sel_group_by := sep_cat '', '' (sel_group_by sel) (dec_nat n)\<rparr> else sel);
          s2 = (if order_asc flags \<or> order_desc flags
                then s1\<lparr>sel_order_by := sep_cat '', '' (sel_order_by s1)
                          (dec_nat n @ '' '' @ (if order_asc flags then ''ASC'' else ''DESC''))\<rparr>
                else s1)
      in s2\<lparr>field_count := n\<rparr>)"

primrec add_options_loop :: "nat \<Rightarrow> path_flags \<Rightarrow> sql_select \<Rightarrow> sql_select" where
  "add_options_loop 0 flags sel = sel"
| "add_options_loop (Suc n) flags sel = add_options_loop n flags (add_options_step flags sel)"

definition sql_select_add_options :: "sql_select \<Rightarrow> nat \<Rightarrow> path_flags \<Rightarrow> sql_select" where
  "sql_select_add_options sel num_field flags =
     add_options_loop (if num_field = 0 then 2 ^ 32 else num_field) flags sel"

definition preludedb_sql_select_add_selected ::
    "('w, 'd) preludedb_plugin_sql \<Rightarrow> 'j path_resolver \<Rightarrow> sql_select \<Rightarrow> selected_path \<Rightarrow> 'j \<Rightarrow>
       'j \<times> (db_error + sql_select)" where
  "preludedb_sql_select_add_selected plugin resolve sel sp j =
     (let out = (if sel_fields sel = [] then [] else sel_fields sel @ '', '');
          (sel', j', ret) = preludedb_selected_object_to_string plugin resolve sel sp (sp_object sp) j out
      in (j', res_bind ret (\<lambda>out'.
            Inr (sql_select_add_options (sel'\<lparr>sel_fields := out'\<rparr>) (sp_column_count sp) (sp_flags sp)))))"

text \<open>The walk with \<open>preludedb_path_selection_get_next\<close> over the members of a selection.\<close>

fun add_selected_list ::
    "('w, 'd) preludedb_plugin_sql \<Rightarrow> 'j path_resolver \<Rightarrow> sql_select \<Rightarrow> selected_path list \<Rightarrow> 'j \<Rightarrow>
       'j \<times> (db_error + sql_select)" where
  "add_selected_list plugin resolve sel [] j = (j, Inr sel)"
| "add_selected_list plugin resolve sel (sp # sps) j =
     (case preludedb_sql_select_add_selected plugin resolve sel sp j of
        (j', Inl e) \<Rightarrow> (j', Inl e)
      | (j', Inr sel') \<Rightarrow> add_selected_list plugin resolve sel' sps j')"

definition preludedb_sql_select_add_selection ::
    "('w, 'd) preludedb_plugin_sql \<Rightarrow> 'j path_resolver \<Rightarrow> sql_select \<Rightarrow> path_selection \<Rightarrow> 'j \<Rightarrow>
       'j \<times> (db_error + sql_select)" where
  "preludedb_sql_select_add_selection plugin resolve sel selection j =
     add_selected_list plugin resolve sel (take (sel_count selection) (selecteds selection)) j"

definition preludedb_sql_select_add_field :: "sql_select \<Rightarrow> string \<Rightarrow> sql_select" where
  "preludedb_sql_select_add_field sel selection =
     sel\<lparr>sel_fields := sep_cat '', '' (sel_fields sel) selection, field_count := field_count sel + 1\<rparr>"

definition preludedb_sql_select_fields_to_string :: "sql_select \<Rightarrow> string \<Rightarrow> string" where
  "preludedb_sql_select_fields_to_string sel output = output @ sel_fields sel"

definition preludedb_sql_select_modifiers_to_string :: "sql_select \<Rightarrow> string \<Rightarrow> string" where
  "preludedb_sql_select_modifiers_to_string sel output =
     output @ (if sel_group_by sel = [] then [] else '' GROUP BY '' @ sel_group_by sel) @
     (if sel_order_by sel = [] then [] else '' ORDER BY '' @ sel_order_by sel)"

section \<open>GROUP BY and ORDER BY\<close>

text \<open>
  The column numbers, from 1, that the options of a list of selected paths stand for, when
  the first of them has number \<open>n + 1\<close>.
\<close>

fun group_columns :: "nat \<Rightarrow> (nat \<times> path_flags) list \<Rightarrow> nat list" where
  "group_columns n [] = []"
| "group_columns n ((k, flags) # xs) =
     (if group_by flags then map Suc [n..<n + k] else []) @ group_columns (n + k) xs"

fun order_columns :: "nat \<Rightarrow> (nat \<times> path_flags) list \<Rightarrow> (nat \<times> bool) list" where
  "order_columns n [] = []"
| "order_columns n ((k, flags) # xs) =
     (if order_asc flags \<or> order_desc flags then map (\<lambda>c. (Suc c, order_asc flags)) [n..<n + k] else []) @
     order_columns (n + k) xs"

definition order_text :: "nat \<times> bool \<Rightarrow> string" where
  "order_text c = dec_nat (fst c) @ '' '' @ (if snd c then ''ASC'' else ''DESC'')"

lemma order_text_nonempty [simp]: "order_text c \<noteq> []"
  by (simp add: order_text_def)

text \<open>\<open>modifiers_ok sel gs os\<close>: the texts are the lists of these columns.\<close>

definition modifiers_ok :: "sql_select \<Rightarrow> nat list \<Rightarrow> (nat \<times> bool) list \<Rightarrow> bool" where
  "modifiers_ok sel gs os \<longleftrightarrow>
     sel_group_by sel = join_sep '', '' (map dec_nat gs) \<and>
     sel_order_by sel = join_sep '', '' (map order_text os)"

lemma add_options_step_ok:
  assumes "modifiers_ok sel gs os"
  shows "modifiers_ok (add_options_step flags sel)
      (gs @ (if group_by flags then [Suc (field_count sel)] else []))
      (os @ (if order_asc flags \<or> order_desc flags then [(Suc (field_count sel), order_asc flags)] else []))"
  using assms
  by (auto simp: modifiers_ok_def add_options_step_def Let_def sep_cat_join_sep order_text_def)

lemma add_options_step_frame [simp]:
  "field_count (add_options_step flags sel) = Suc (field_count sel)"
  "sel_fields (add_options_step flags sel) = sel_fields sel"
  "func_index (add_options_step flags sel) = func_index sel"
  "alias_function (add_options_step flags sel) = alias_function sel"
  by (simp_all add: add_options_step_def Let_def)

lemma add_options_loop_ok:
  assumes "modifiers_ok sel gs os"
  shows "modifiers_ok (add_options_loop k flags sel)
      (gs @ (if group_by flags then map Suc [field_count sel..<field_count sel + k] else []))
      (os @ (if order_asc flags \<or> order_desc flags
             then map (\<lambda>c. (Suc c, order_asc flags)) [field_count sel..<field_count sel + k] else []))"
  using assms
proof (induction k arbitrary: sel gs os)
  case (Suc k)
  have u: "[field_count sel..<field_count sel + Suc k] =
      field_count sel # [Suc (field_count sel)..<Suc (field_count sel) + k]"
    by (simp add: upt_rec)
  show ?case
    using Suc.IH [OF add_options_step_ok [OF Suc.prems, of flags]] unfolding u
    by (cases "order_asc flags"; cases "order_desc flags"; cases "group_by flags") (simp_all del: upt_Suc)
qed simp

lemma add_options_loop_frame [simp]:
  "field_count (add_options_loop k flags sel) = field_count sel + k"
  "sel_fields (add_options_loop k flags sel) = sel_fields sel"
  "func_index (add_options_loop k flags sel) = func_index sel"
  "alias_function (add_options_loop k flags sel) = alias_function sel"
  by (induction k arbitrary: sel) simp_all

lemma object_to_string_frame:
  "preludedb_selected_object_to_string plugin resolve sel sp ob j out = (sel', j', ret) \<Longrightarrow>
     sel_group_by sel' = sel_group_by sel \<and> sel_order_by sel' = sel_order_by sel \<and>
     field_count sel' = field_count sel \<and> sel_fields sel' = sel_fields sel"
  by (auto simp: preludedb_selected_object_to_string_def split_beta Let_def split: if_splits)

lemma add_selected_modifiers:
  assumes "preludedb_sql_select_add_selected plugin resolve sel sp j = (j', Inr sel')"
    and "modifiers_ok sel gs os" "0 < sp_column_count sp"
  shows "modifiers_ok sel' (gs @ group_columns (field_count sel) [(sp_column_count sp, sp_flags sp)])
      (os @ order_columns (field_count sel) [(sp_column_count sp, sp_flags sp)]) \<and>
    field_count sel' = field_count sel + sp_column_count sp"
proof -
  obtain s1 j1 ret where o': "preludedb_selected_object_to_string plugin resolve sel sp (sp_object sp) j
      (if sel_fields sel = [] then [] else sel_fields sel @ '', '') = (s1, j1, ret)"
    using prod_cases3 by blast
  obtain out' where r: "ret = Inr out'"
    "sel' = add_options_loop (sp_column_count sp) (sp_flags sp) (s1\<lparr>sel_fields := out'\<rparr>)"
    using assms(1,3) o' by (auto simp: preludedb_sql_select_add_selected_def sql_select_add_options_def)
  have f: "modifiers_ok (s1\<lparr>sel_fields := out'\<rparr>) gs os" "field_count s1 = field_count sel"
    using assms(2) object_to_string_frame [OF o'] by (auto simp: modifiers_ok_def)
  show ?thesis
    using add_options_loop_ok [OF f(1), of "sp_column_count sp" "sp_flags sp"] f(2) r(2)
    by (cases "order_asc (sp_flags sp)"; cases "order_desc (sp_flags sp)"; cases "group_by (sp_flags sp)")
      simp_all
qed

text \<open>The modifiers number the columns of a whole selection.\<close>

lemma add_selected_list_modifiers:
  assumes "add_selected_list plugin resolve sel sps j = (j', Inr sel')"
    and "modifiers_ok sel gs os" "\<forall>sp \<in> set sps. 0 < sp_column_count sp"
  shows "modifiers_ok sel' (gs @ group_columns (field_count sel) (map (\<lambda>sp. (sp_column_count sp, sp_flags sp)) sps))
      (os @ order_columns (field_count sel) (map (\<lambda>sp. (sp_column_count sp, sp_flags sp)) sps)) \<and>
    field_count sel' = field_count sel + sum_list (map sp_column_count sps)"
  using assms
proof (induction sps arbitrary: sel gs os j)
  case (Cons sp sps)
  obtain j1 s1 where s1: "preludedb_sql_select_add_selected plugin resolve sel sp j = (j1, Inr s1)"
    "add_selected_list plugin resolve s1 sps j1 = (j', Inr sel')"
    using Cons.prems(1) by (auto split: prod.splits sum.splits)
  have a: "modifiers_ok s1 (gs @ group_columns (field_count sel) [(sp_column_count sp, sp_flags sp)])
      (os @ order_columns (field_count sel) [(sp_column_count sp, sp_flags sp)])"
    "field_count s1 = field_count sel + sp_column_count sp"
    using add_selected_modifiers [OF s1(1) Cons.prems(2)] Cons.prems(3) by auto
  show ?case
    using Cons.IH [OF s1(2) a(1)] Cons.prems(3) a(2) by (simp add: add.assoc)
qed simp

lemma modifiers_ok_new: "modifiers_ok preludedb_sql_select_new [] []"
  by (simp add: modifiers_ok_def preludedb_sql_select_new_def)

section \<open>A resolver that yields columns\<close>

text \<open>
  What the SELECT relies on in a format plugin: a path resolves to a list of columns, as many
  as the plugin announced for the selected path, whatever the text so far.
  \<open>cols sp p j\<close> are the columns, \<open>step sp p j\<close> the plugin's data afterwards.
\<close>

locale path_columns =
  fixes resolve :: "'j path_resolver"
    and count :: "selected_path \<Rightarrow> nat"
    and ok :: "selected_path \<Rightarrow> idmef_path \<Rightarrow> 'j \<Rightarrow> bool"
    and cols :: "selected_path \<Rightarrow> idmef_path \<Rightarrow> 'j \<Rightarrow> string list"
    and step :: "selected_path \<Rightarrow> idmef_path \<Rightarrow> 'j \<Rightarrow> 'j"
  assumes resolve_cols: "ok sp p j \<Longrightarrow> sp_object sp = Object_path p \<Longrightarrow>
      resolve sp p j out = (step sp p j, Inr (out @ join_sep '', '' (cols sp p j)))"
    and count_cols: "ok sp p j \<Longrightarrow> sp_object sp = Object_path p \<Longrightarrow> length (cols sp p j) = count sp"
    and cols_nonempty: "ok sp p j \<Longrightarrow> sp_object sp = Object_path p \<Longrightarrow>
      cols sp p j \<noteq> [] \<and> (\<forall>c \<in> set (cols sp p j). c \<noteq> [])"
begin

text \<open>The columns of a list of selected paths, with the data threaded through.\<close>

fun columns_of :: "(selected_path \<times> idmef_path) list \<Rightarrow> 'j \<Rightarrow> string list \<times> 'j" where
  "columns_of [] j = ([], j)"
| "columns_of ((sp, p) # sps) j =
     (let (cs, j') = columns_of sps (step sp p j) in (cols sp p j @ cs, j'))"

fun all_ok :: "(selected_path \<times> idmef_path) list \<Rightarrow> 'j \<Rightarrow> bool" where
  "all_ok [] j \<longleftrightarrow> True"
| "all_ok ((sp, p) # sps) j \<longleftrightarrow> sp_object sp = Object_path p \<and> ok sp p j \<and> all_ok sps (step sp p j)"

lemma join_sep_append:
  "xs \<noteq> [] \<Longrightarrow> ys \<noteq> [] \<Longrightarrow> join_sep sep (xs @ ys) = join_sep sep xs @ sep @ join_sep sep ys"
proof (induction xs)
  case (Cons x xs)
  then show ?case by (cases xs; cases ys) auto
qed simp

lemma add_selected_columns:
  assumes "sp_object sp = Object_path p" "ok sp p j" "sel_fields sel = join_sep '', '' cs"
    and "\<forall>c \<in> set cs. c \<noteq> []"
  shows "\<exists>sel'. preludedb_sql_select_add_selected plugin resolve sel sp j = (step sp p j, Inr sel') \<and>
    sel_fields sel' = join_sep '', '' (cs @ cols sp p j)"
proof -
  have ne: "sel_fields sel = [] \<longleftrightarrow> cs = []" using assms(3,4) join_sep_empty_iff by metis
  have c: "cols sp p j \<noteq> []" using cols_nonempty [OF assms(2,1)] by simp
  have r: "resolve sp p j out = (step sp p j, Inr (out @ join_sep '', '' (cols sp p j)))" for out
    using resolve_cols [OF assms(2,1)] .
  show ?thesis
    using assms(1,3) ne c
    by (cases "cs = []") (simp_all add: preludedb_sql_select_add_selected_def
        preludedb_selected_object_to_string_def preludedb_selected_object_is_function_def
        sql_select_add_options_def r Let_def join_sep_append)
qed

lemma add_selected_list_columns:
  assumes "all_ok sps j" "sel_fields sel = join_sep '', '' cs" "\<forall>c \<in> set cs. c \<noteq> []"
  shows "\<exists>sel'. add_selected_list plugin resolve sel (map fst sps) j = (snd (columns_of sps j), Inr sel') \<and>
    sel_fields sel' = join_sep '', '' (cs @ fst (columns_of sps j))"
  using assms
proof (induction sps arbitrary: sel cs j)
  case (Cons a sps)
  obtain sp p where a: "a = (sp, p)" by fastforce
  obtain s1 where s1: "preludedb_sql_select_add_selected plugin resolve sel sp j = (step sp p j, Inr s1)"
    "sel_fields s1 = join_sep '', '' (cs @ cols sp p j)"
    using add_selected_columns [of sp p j sel cs] Cons.prems a by auto
  have "\<forall>c \<in> set (cs @ cols sp p j). c \<noteq> []"
    using Cons.prems a cols_nonempty [of sp p j] by auto
  from Cons.IH [OF _ s1(2) this] show ?case
    using Cons.prems a s1(1) by (auto simp: split_beta Let_def)
qed simp

lemma length_columns_of:
  "all_ok sps j \<Longrightarrow> length (fst (columns_of sps j)) = sum_list (map (count \<circ> fst) sps)"
  by (induction sps arbitrary: j) (auto simp: split_beta Let_def count_cols)

end

end
