(* ===== verification/Sql_Core.thy ===== *)
theory Sql_Core
  imports Plugin_Sql
begin

text \<open>
  The SQL session (src/preludedb-sql.c): connecting on demand, queries, transactions and
  escaping. The state of a session is the C structure, with the status flags as two booleans,
  the recursive mutex as the depth at which the calling thread holds it, and the log file as
  the queries written to it (without their timing). \<open>session\<close> is everything behind the plugin.
  Two components have no C field: \<open>thread_error\<close> is libprelude's per-thread message of the
  last verbose error, and \<open>issued\<close> records the queries handed to the plugin.
\<close>

record ('w, 'd) preludedb_sql =
  sql_type :: string
  sql_settings :: settings
  sql_plugin :: "('w, 'd) preludedb_plugin_sql"
  status_connected :: bool
  status_transaction :: bool
  session :: 'w
  logfile :: "string list option"
  internal_transaction_disabled :: bool
  mutex :: nat
  sql_refcount :: int
  thread_error :: "string option"
  issued :: "string list"

type_synonym ('w, 'd) sql = "('w, 'd) preludedb_sql"

text \<open>What \<open>prelude_error_verbose\<close> leaves behind for the thread.\<close>

definition note_error :: "db_error \<Rightarrow> ('w, 'd) sql \<Rightarrow> ('w, 'd) sql" where
  "note_error e s = (case e of Err src c (Some m) \<Rightarrow> s\<lparr>thread_error := Some m\<rparr> | _ \<Rightarrow> s)"

definition lock :: "('w, 'd) sql \<Rightarrow> ('w, 'd) sql" where
  "lock s = s\<lparr>mutex := mutex s + 1\<rparr>"

definition unlock :: "('w, 'd) sql \<Rightarrow> ('w, 'd) sql" where
  "unlock s = s\<lparr>mutex := mutex s - 1\<rparr>"

section \<open>Creation, reference counting, logging\<close>

definition update_sql_from_errno :: "('w, 'd) sql \<Rightarrow> db_error \<Rightarrow> ('w, 'd) sql" where
  "update_sql_from_errno s e =
     (if preludedb_error_check e PRELUDEDB_ERROR_CONNECTION
      then s\<lparr>session := p_close (sql_plugin s) (session s), status_connected := False\<rparr>
      else s)"

definition preludedb_sql_enable_query_logging ::
    "(string \<Rightarrow> db_error + unit) \<Rightarrow> ('w, 'd) sql \<Rightarrow> string option \<Rightarrow> ('w, 'd) sql \<times> (db_error + unit)" where
  "preludedb_sql_enable_query_logging fopen s filename =
     (case filename of
        None \<Rightarrow> (s\<lparr>logfile := Some []\<rparr>, Inr ())
      | Some f \<Rightarrow>
          (case fopen f of
             Inl e \<Rightarrow> (note_error e (s\<lparr>logfile := None\<rparr>), Inl e)
           | Inr _ \<Rightarrow> (s\<lparr>logfile := Some []\<rparr>, Inr ())))"

definition preludedb_sql_disable_query_logging :: "('w, 'd) sql \<Rightarrow> ('w, 'd) sql" where
  "preludedb_sql_disable_query_logging s = s\<lparr>logfile := None\<rparr>"

text \<open>\<open>plugins\<close> is \<open>prelude_plugin_search_by_name\<close> on the list of loaded SQL plugins.\<close>

definition preludedb_sql_new ::
    "(string \<Rightarrow> ('w, 'd) preludedb_plugin_sql option) \<Rightarrow> (string \<Rightarrow> db_error + unit) \<Rightarrow> 'w \<Rightarrow>
       string option \<Rightarrow> settings \<Rightarrow> db_error + ('w, 'd) sql" where
  "preludedb_sql_new plugins fopen w type settings =
     (case (case type of Some t \<Rightarrow> Some t | None \<Rightarrow> settings_get_key SQL_SETTING_TYPE settings) of
        None \<Rightarrow> Inl (preludedb_error_verbose PRELUDEDB_ERROR_INVALID_SETTINGS_STRING
                      ''No database type specified'')
      | Some t \<Rightarrow>
          (case plugins t of
             None \<Rightarrow> Inl (preludedb_error_verbose PRELUDEDB_ERROR_CANNOT_LOAD_SQL_PLUGIN
                           (''Could not load sql plugin '' @ CHR 0x27 # t @ [CHR 0x27]))
           | Some plugin \<Rightarrow>
               let s = \<lparr>sql_type = t, sql_settings = settings, sql_plugin = plugin,
                        status_connected = False, status_transaction = False, session = w,
                        logfile = None, internal_transaction_disabled = False, mutex = 0,
                        sql_refcount = 1, thread_error = None, issued = []\<rparr>
               in case settings_get_key SQL_SETTING_LOG settings of
                    None \<Rightarrow> Inr s
                  | Some f \<Rightarrow> Inr (fst (preludedb_sql_enable_query_logging fopen s (Some f)))))"

definition preludedb_sql_ref :: "('w, 'd) sql \<Rightarrow> ('w, 'd) sql" where
  "preludedb_sql_ref s = s\<lparr>sql_refcount := sql_refcount s + 1\<rparr>"

text \<open>\<open>Inl w\<close>: the session is gone and left \<open>w\<close> behind; \<open>Inr\<close>: it is still referenced.\<close>

definition preludedb_sql_destroy :: "('w, 'd) sql \<Rightarrow> 'w + ('w, 'd) sql" where
  "preludedb_sql_destroy s =
     (if sql_refcount s - 1 > 0 then Inr (s\<lparr>sql_refcount := sql_refcount s - 1\<rparr>)
      else Inl (if status_connected s then p_close (sql_plugin s) (session s) else session s))"

section \<open>Connecting and querying\<close>

text \<open>The assignment to \<open>status\<close> sets one flag and clears the other.\<close>

definition preludedb_sql_connect :: "('w, 'd) sql \<Rightarrow> ('w, 'd) sql \<times> (db_error + unit)" where
  "preludedb_sql_connect s =
     (case p_open (sql_plugin s) (sql_settings s) (session s) of
        (w, Inl e) \<Rightarrow> (note_error e (s\<lparr>session := w\<rparr>), Inl e)
      | (w, Inr _) \<Rightarrow> (s\<lparr>session := w, status_connected := True, status_transaction := False\<rparr>, Inr ()))"

text \<open>The macro, which unlocks and returns from its function when connecting fails.\<close>

definition assert_connected ::
    "('w, 'd) sql \<Rightarrow> (('w, 'd) sql \<Rightarrow> ('w, 'd) sql \<times> (db_error + 'a)) \<Rightarrow> ('w, 'd) sql \<times> (db_error + 'a)" where
  "assert_connected s f =
     (if status_connected s then f s
      else case preludedb_sql_connect s of
             (s', Inl e) \<Rightarrow> (unlock s', Inl e)
           | (s', Inr _) \<Rightarrow> f s')"

definition log_query :: "string \<Rightarrow> ('w, 'd) sql \<Rightarrow> ('w, 'd) sql" where
  "log_query query s = s\<lparr>logfile := map_option (\<lambda>l. l @ [query]) (logfile s)\<rparr>"

text \<open>
  \<open>want\<close> says that the caller passed a place for the table. The table holds a reference to
  the session, which is stored through the caller's pointer.
\<close>

definition preludedb_sql_query ::
    "('w, 'd) sql \<Rightarrow> string \<Rightarrow> bool \<Rightarrow> ('w, 'd) sql \<times> (db_error + 'd sql_table option)" where
  "preludedb_sql_query s query want =
     assert_connected (lock s) (\<lambda>s1.
       (case p_query (sql_plugin s1) (session s1) query want of
          (w, Inl e) \<Rightarrow>
            (log_query query (unlock (update_sql_from_errno
               (note_error e (s1\<lparr>session := w, issued := issued s1 @ [query]\<rparr>)) e)), Inl e)
        | (w, Inr res) \<Rightarrow>
            (let s2 = log_query query (unlock (s1\<lparr>session := w, issued := issued s1 @ [query]\<rparr>))
             in case res of
                  None \<Rightarrow> (s2, Inr None)
                | Some d \<Rightarrow>
                    if want then (preludedb_sql_ref s2, Inr (Some (preludedb_sql_table_new d)))
                    else (s2, Inl Undefined))))"

definition preludedb_sql_insert ::
    "('w, 'd) sql \<Rightarrow> string \<Rightarrow> string \<Rightarrow> string \<Rightarrow> ('w, 'd) sql \<times> (db_error + 'd sql_table option)" where
  "preludedb_sql_insert s table columns vals =
     preludedb_sql_query s (''INSERT INTO '' @ table @ '' ('' @ columns @ '') VALUES('' @ vals @ '')'') False"

definition preludedb_sql_get_last_insert_ident ::
    "('w, 'd) sql \<Rightarrow> ('w, 'd) sql \<times> (db_error + nat)" where
  "preludedb_sql_get_last_insert_ident s =
     (case p_get_last_insert_ident (sql_plugin s) (session s) of
        (w, Inl e) \<Rightarrow> (note_error e (s\<lparr>session := w\<rparr>), Inl e)
      | (w, Inr ident) \<Rightarrow> (s\<lparr>session := w\<rparr>, Inr ident))"

definition preludedb_sql_build_limit_offset_string ::
    "('w, 'd) sql \<Rightarrow> int \<Rightarrow> int \<Rightarrow> string \<Rightarrow> db_error + string" where
  "preludedb_sql_build_limit_offset_string s limit offset out =
     plugin_sql_build_limit_offset_string (sql_plugin s) limit offset out"

definition preludedb_sql_build_time_extract_string ::
    "('w, 'd) sql \<Rightarrow> string \<Rightarrow> string \<Rightarrow> int \<Rightarrow> int \<Rightarrow> db_error + string" where
  "preludedb_sql_build_time_extract_string s out field type gmt_offset =
     plugin_sql_build_time_extract_string (sql_plugin s) out field type gmt_offset"

definition preludedb_sql_build_time_interval_string ::
    "('w, 'd) sql \<Rightarrow> string \<Rightarrow> string \<Rightarrow> string \<Rightarrow> int \<Rightarrow> db_error + string" where
  "preludedb_sql_build_time_interval_string s out field v unit =
     plugin_sql_build_time_interval_string (sql_plugin s) out field v unit"

definition preludedb_sql_build_time_timezone_string ::
    "('w, 'd) sql \<Rightarrow> string \<Rightarrow> string \<Rightarrow> string \<Rightarrow> db_error + string" where
  "preludedb_sql_build_time_timezone_string s out field tz =
     plugin_sql_build_time_timezone_string (sql_plugin s) out field tz"

text \<open>Of the session as it is: nothing connects it first.\<close>

definition preludedb_sql_get_server_version :: "('w, 'd) sql \<Rightarrow> db_error + int" where
  "preludedb_sql_get_server_version s = plugin_sql_get_server_version (sql_plugin s) (session s)"

section \<open>Transactions\<close>

definition sql_transaction_start_ext :: "('w, 'd) sql \<Rightarrow> ('w, 'd) sql \<times> (db_error + unit)" where
  "sql_transaction_start_ext s =
     (let s1 = lock s
      in if status_transaction s1
         then (unlock s1, Inl (preludedb_error PRELUDEDB_ERROR_ALREADY_IN_TRANSACTION))
         else (case preludedb_sql_query s1 ''BEGIN'' False of
                 (s2, Inl e) \<Rightarrow> (unlock s2, Inl e)
               | (s2, Inr _) \<Rightarrow> (s2\<lparr>status_transaction := True\<rparr>, Inr ())))"

definition preludedb_sql_transaction_start :: "('w, 'd) sql \<Rightarrow> ('w, 'd) sql \<times> (db_error + unit)" where
  "preludedb_sql_transaction_start s =
     (if internal_transaction_disabled s then (s, Inr ()) else sql_transaction_start_ext s)"

definition sql_transaction_end_ext :: "('w, 'd) sql \<Rightarrow> ('w, 'd) sql \<times> (db_error + unit)" where
  "sql_transaction_end_ext s =
     (if \<not> status_transaction s
      then (s, Inl (preludedb_error PRELUDEDB_ERROR_NOT_IN_TRANSACTION))
      else (case preludedb_sql_query s ''COMMIT'' False of
              (s1, ret) \<Rightarrow> (unlock (s1\<lparr>status_transaction := False\<rparr>), map_sum id (\<lambda>_. ()) ret)))"

definition preludedb_sql_transaction_end :: "('w, 'd) sql \<Rightarrow> ('w, 'd) sql \<times> (db_error + unit)" where
  "preludedb_sql_transaction_end s =
     (if internal_transaction_disabled s then (s, Inr ()) else sql_transaction_end_ext s)"

text \<open>\<open>strerror\<close> is \<open>preludedb_strerror\<close>, which also reads the thread's message.\<close>

definition sql_transaction_abort_ext ::
    "(string option \<Rightarrow> db_error \<Rightarrow> string) \<Rightarrow> ('w, 'd) sql \<Rightarrow> ('w, 'd) sql \<times> (db_error + unit)" where
  "sql_transaction_abort_ext strerror s =
     (if \<not> status_transaction s
      then (s, Inl (preludedb_error PRELUDEDB_ERROR_NOT_IN_TRANSACTION))
      else
        (let original_error = thread_error s;
             s1 = s\<lparr>status_transaction := False\<rparr>
         in case original_error of
              Some m \<Rightarrow>
                if \<not> status_connected s1
                then (let e = preludedb_error_verbose PRELUDEDB_ERROR_QUERY
                                (m @ ''. No ROLLBACK possible due to connection closure'')
                      in (unlock (note_error e s1), Inl e))
                else (case preludedb_sql_query s1 ''ROLLBACK'' False of
                        (s2, Inl ret) \<Rightarrow>
                          (let e = preludedb_error_verbose PRELUDEDB_ERROR_QUERY
                                     (m @ [CHR ''.'', CHR 0x0A] @ ''ROLLBACK failed: '' @
                                      strerror (thread_error s2) ret)
                           in (unlock (note_error e s2), Inl e))
                      | (s2, Inr _) \<Rightarrow> (unlock s2, Inr ()))
            | None \<Rightarrow>
                (case preludedb_sql_query s1 ''ROLLBACK'' False of
                   (s2, Inl ret) \<Rightarrow>
                     (let e = preludedb_error_verbose PRELUDEDB_ERROR_QUERY
                                (''ROLLBACK failed: '' @ strerror (thread_error s2) ret)
                      in (unlock (note_error e s2), Inl e))
                 | (s2, Inr _) \<Rightarrow> (unlock s2, Inr ()))))"

definition preludedb_sql_transaction_abort ::
    "(string option \<Rightarrow> db_error \<Rightarrow> string) \<Rightarrow> ('w, 'd) sql \<Rightarrow> ('w, 'd) sql \<times> (db_error + unit)" where
  "preludedb_sql_transaction_abort strerror s =
     (if internal_transaction_disabled s then (s, Inr ()) else sql_transaction_abort_ext strerror s)"

definition sql_enable_internal_transaction :: "('w, 'd) sql \<Rightarrow> ('w, 'd) sql" where
  "sql_enable_internal_transaction s = s\<lparr>internal_transaction_disabled := False\<rparr>"

definition sql_disable_internal_transaction :: "('w, 'd) sql \<Rightarrow> ('w, 'd) sql" where
  "sql_disable_internal_transaction s = s\<lparr>internal_transaction_disabled := True\<rparr>"

section \<open>Escaping\<close>

definition sql_escape_with ::
    "(('w, 'd) preludedb_plugin_sql \<Rightarrow> 'w \<Rightarrow> string \<Rightarrow> db_error + string) \<Rightarrow> ('w, 'd) sql \<Rightarrow> string \<Rightarrow>
       ('w, 'd) sql \<times> (db_error + string)" where
  "sql_escape_with f s input =
     assert_connected (lock s) (\<lambda>s1.
       let ret = f (sql_plugin s1) (session s1) input
       in (unlock (case ret of Inl e \<Rightarrow> note_error e s1 | Inr _ \<Rightarrow> s1), ret))"

definition preludedb_sql_escape_fast ::
    "('w, 'd) sql \<Rightarrow> string option \<Rightarrow> ('w, 'd) sql \<times> (db_error + string)" where
  "preludedb_sql_escape_fast s input =
     (case input of None \<Rightarrow> (s, Inr ''NULL'') | Some i \<Rightarrow> sql_escape_with plugin_sql_escape s i)"

definition preludedb_sql_escape ::
    "('w, 'd) sql \<Rightarrow> string option \<Rightarrow> ('w, 'd) sql \<times> (db_error + string)" where
  "preludedb_sql_escape s input = preludedb_sql_escape_fast s input"

definition preludedb_sql_escape_binary ::
    "('w, 'd) sql \<Rightarrow> string option \<Rightarrow> ('w, 'd) sql \<times> (db_error + string)" where
  "preludedb_sql_escape_binary s input =
     (case input of None \<Rightarrow> (s, Inr ''NULL'') | Some i \<Rightarrow> sql_escape_with plugin_sql_escape_binary s i)"

definition preludedb_sql_unescape_binary ::
    "('w, 'd) sql \<Rightarrow> string \<Rightarrow> ('w, 'd) sql \<times> (db_error + string)" where
  "preludedb_sql_unescape_binary s input = sql_escape_with plugin_sql_unescape_binary s input"

section \<open>Facts\<close>

named_theorems sql_frame \<open>what the session's operations leave unchanged\<close>

lemma note_error_frame [simp]:
  "mutex (note_error e s) = mutex s" "status_connected (note_error e s) = status_connected s"
  "status_transaction (note_error e s) = status_transaction s" "issued (note_error e s) = issued s"
  "session (note_error e s) = session s" "sql_plugin (note_error e s) = sql_plugin s"
  "sql_settings (note_error e s) = sql_settings s" "sql_refcount (note_error e s) = sql_refcount s"
  "internal_transaction_disabled (note_error e s) = internal_transaction_disabled s"
  by (auto simp: note_error_def split: db_error.splits option.splits)

lemma note_error_verbose [simp]:
  "thread_error (note_error (preludedb_error_verbose c m) s) = Some m"
  by (simp add: note_error_def preludedb_error_verbose_def)

lemma lock_unlock_simps [simp]:
  "mutex (lock s) = Suc (mutex s)" "mutex (unlock s) = mutex s - 1"
  "status_connected (lock s) = status_connected s" "status_connected (unlock s) = status_connected s"
  "status_transaction (lock s) = status_transaction s" "status_transaction (unlock s) = status_transaction s"
  "issued (lock s) = issued s" "issued (unlock s) = issued s"
  "session (lock s) = session s" "session (unlock s) = session s"
  "sql_plugin (lock s) = sql_plugin s" "sql_plugin (unlock s) = sql_plugin s"
  "sql_settings (lock s) = sql_settings s" "sql_settings (unlock s) = sql_settings s"
  "sql_refcount (lock s) = sql_refcount s" "sql_refcount (unlock s) = sql_refcount s"
  "thread_error (lock s) = thread_error s" "thread_error (unlock s) = thread_error s"
  "internal_transaction_disabled (lock s) = internal_transaction_disabled s"
  "internal_transaction_disabled (unlock s) = internal_transaction_disabled s"
  by (simp_all add: lock_def unlock_def)

lemma log_query_simps [simp]:
  "mutex (log_query q s) = mutex s" "status_connected (log_query q s) = status_connected s"
  "status_transaction (log_query q s) = status_transaction s" "issued (log_query q s) = issued s"
  "session (log_query q s) = session s" "sql_plugin (log_query q s) = sql_plugin s"
  "sql_settings (log_query q s) = sql_settings s" "thread_error (log_query q s) = thread_error s"
  "internal_transaction_disabled (log_query q s) = internal_transaction_disabled s"
  by (simp_all add: log_query_def)

lemma ref_simps [simp]:
  "mutex (preludedb_sql_ref s) = mutex s"
  "status_connected (preludedb_sql_ref s) = status_connected s"
  "status_transaction (preludedb_sql_ref s) = status_transaction s"
  "issued (preludedb_sql_ref s) = issued s" "session (preludedb_sql_ref s) = session s"
  "sql_plugin (preludedb_sql_ref s) = sql_plugin s" "sql_settings (preludedb_sql_ref s) = sql_settings s"
  "thread_error (preludedb_sql_ref s) = thread_error s"
  "internal_transaction_disabled (preludedb_sql_ref s) = internal_transaction_disabled s"
  by (simp_all add: preludedb_sql_ref_def)

lemma update_from_errno_simps [simp]:
  "mutex (update_sql_from_errno s e) = mutex s"
  "status_transaction (update_sql_from_errno s e) = status_transaction s"
  "issued (update_sql_from_errno s e) = issued s" "sql_plugin (update_sql_from_errno s e) = sql_plugin s"
  "thread_error (update_sql_from_errno s e) = thread_error s"
  "sql_settings (update_sql_from_errno s e) = sql_settings s"
  "internal_transaction_disabled (update_sql_from_errno s e) = internal_transaction_disabled s"
  "status_connected (update_sql_from_errno s e) =
     (status_connected s \<and> \<not> preludedb_error_check e PRELUDEDB_ERROR_CONNECTION)"
  by (simp_all add: update_sql_from_errno_def)

text \<open>One case split per operation: every later proof about a query uses these.\<close>

lemma query_frame [simp]:
  "mutex (fst (preludedb_sql_query s q want)) = mutex s"
  "sql_plugin (fst (preludedb_sql_query s q want)) = sql_plugin s"
  "sql_settings (fst (preludedb_sql_query s q want)) = sql_settings s"
  "internal_transaction_disabled (fst (preludedb_sql_query s q want)) = internal_transaction_disabled s"
  by (auto simp: preludedb_sql_query_def assert_connected_def preludedb_sql_connect_def Let_def
      split: prod.splits sum.splits option.splits)

lemma query_connected:
  assumes "status_connected s"
  shows "status_transaction (fst (preludedb_sql_query s q want)) = status_transaction s"
    and "issued (fst (preludedb_sql_query s q want)) = issued s @ [q]"
  using assms
  by (auto simp: preludedb_sql_query_def assert_connected_def preludedb_sql_connect_def Let_def
      split: prod.splits sum.splits option.splits)

lemma query_ok_connected:
  assumes "snd (preludedb_sql_query s q want) = Inr res"
  shows "status_connected (fst (preludedb_sql_query s q want))"
proof -
  obtain s1 where s1: "status_connected s1"
    "preludedb_sql_query s q want = preludedb_sql_query s1 q want"
  proof (cases "status_connected s")
    case False
    then obtain w where w: "p_open (sql_plugin s) (sql_settings s) (session s) = (w, Inr ())"
      using assms by (auto simp: preludedb_sql_query_def assert_connected_def preludedb_sql_connect_def
          split: prod.splits sum.splits)
    have "lock (s\<lparr>session := w, status_connected := True, status_transaction := False\<rparr>) =
        (lock s)\<lparr>session := w, status_connected := True, status_transaction := False\<rparr>"
      by (simp add: lock_def)
    then show thesis
      using False w
      by (intro that [of "s\<lparr>session := w, status_connected := True, status_transaction := False\<rparr>"])
        (simp_all add: preludedb_sql_query_def assert_connected_def preludedb_sql_connect_def)
  qed (use that in blast)
  then show ?thesis
    using assms unfolding s1(2)
    by (simp add: preludedb_sql_query_def assert_connected_def Let_def split: prod.splits sum.splits option.splits)
qed

lemma query_issued:
  "issued (fst (preludedb_sql_query s q want)) = issued s @ [q] \<or>
   issued (fst (preludedb_sql_query s q want)) = issued s \<and> \<not> is_ok (snd (preludedb_sql_query s q want))"
  by (auto simp: preludedb_sql_query_def assert_connected_def preludedb_sql_connect_def Let_def
      split: prod.splits sum.splits option.splits)

lemma escape_with_frame [simp]:
  "mutex (fst (sql_escape_with f s i)) = mutex s"
  "issued (fst (sql_escape_with f s i)) = issued s"
  "sql_plugin (fst (sql_escape_with f s i)) = sql_plugin s"
  "internal_transaction_disabled (fst (sql_escape_with f s i)) = internal_transaction_disabled s"
  by (auto simp: sql_escape_with_def assert_connected_def preludedb_sql_connect_def Let_def
      split: prod.splits sum.splits)

lemma escape_with_connected:
  assumes "status_connected s"
  shows "status_transaction (fst (sql_escape_with f s i)) = status_transaction s"
    and "status_connected (fst (sql_escape_with f s i))"
  using assms by (auto simp: sql_escape_with_def assert_connected_def Let_def split: sum.splits)

text \<open>
  A client of the session: a sequence of calls. A query is \<open>stranded\<close> when it runs inside a
  transaction whose connection is gone; \<open>sql_run\<close> runs calls of which none is.
\<close>

datatype sql_op =
    Query string bool | Escape string | Escape_binary string | Unescape string
  | Transaction_start | Transaction_end | Transaction_abort

fun sql_op_step :: "(string option \<Rightarrow> db_error \<Rightarrow> string) \<Rightarrow> ('w, 'd) sql \<Rightarrow> sql_op \<Rightarrow> ('w, 'd) sql" where
  "sql_op_step se s (Query q want) = fst (preludedb_sql_query s q want)"
| "sql_op_step se s (Escape i) = fst (preludedb_sql_escape s (Some i))"
| "sql_op_step se s (Escape_binary i) = fst (preludedb_sql_escape_binary s (Some i))"
| "sql_op_step se s (Unescape i) = fst (preludedb_sql_unescape_binary s i)"
| "sql_op_step se s Transaction_start = fst (preludedb_sql_transaction_start s)"
| "sql_op_step se s Transaction_end = fst (preludedb_sql_transaction_end s)"
| "sql_op_step se s Transaction_abort = fst (preludedb_sql_transaction_abort se s)"

definition stranded :: "('w, 'd) sql \<Rightarrow> bool" where
  "stranded s \<longleftrightarrow> status_transaction s \<and> \<not> status_connected s"

fun sql_run :: "(string option \<Rightarrow> db_error \<Rightarrow> string) \<Rightarrow> ('w, 'd) sql \<Rightarrow> sql_op list \<Rightarrow> ('w, 'd) sql option" where
  "sql_run se s [] = Some s"
| "sql_run se s (oper # ops) =
     (if stranded s \<and> oper \<noteq> Transaction_end \<and> oper \<noteq> Transaction_abort then None
      else sql_run se (sql_op_step se s oper) ops)"

text \<open>The mutex is held once more exactly while a transaction is open.\<close>

definition lock_balanced :: "nat \<Rightarrow> ('w, 'd) sql \<Rightarrow> bool" where
  "lock_balanced base s \<longleftrightarrow> mutex s = base + (if status_transaction s then 1 else 0)"

lemma start_balanced:
  assumes "lock_balanced base s"
  shows "lock_balanced base (fst (preludedb_sql_transaction_start s))"
proof (cases "internal_transaction_disabled s \<or> status_transaction s")
  case True
  then show ?thesis using assms
    by (auto simp: lock_balanced_def preludedb_sql_transaction_start_def sql_transaction_start_ext_def)
next
  case False
  obtain s2 r where q: "preludedb_sql_query (lock s) ''BEGIN'' False = (s2, r)" by fastforce
  have m: "mutex s2 = Suc (mutex s)" using query_frame(1) [of "lock s" "''BEGIN''" False] q by simp
  show ?thesis
  proof (cases r)
    case (Inl e)
    have "\<not> status_transaction s2"
    proof (cases "status_connected s")
      case True
      then show ?thesis using query_connected(1) [of "lock s" "''BEGIN''" False] q False by simp
    next
      case nc: False
      then show ?thesis using q False
        by (auto simp: preludedb_sql_query_def assert_connected_def preludedb_sql_connect_def Let_def
            split: prod.splits sum.splits option.splits)
    qed
    then show ?thesis using assms False q m Inl
      by (simp add: lock_balanced_def preludedb_sql_transaction_start_def sql_transaction_start_ext_def)
  next
    case (Inr x)
    then show ?thesis using assms False q m
      by (simp add: lock_balanced_def preludedb_sql_transaction_start_def sql_transaction_start_ext_def)
  qed
qed

lemma end_balanced:
  assumes "lock_balanced base s"
  shows "lock_balanced base (fst (preludedb_sql_transaction_end s))"
proof -
  obtain s2 r where q: "preludedb_sql_query s ''COMMIT'' False = (s2, r)" by fastforce
  then have "mutex s2 = mutex s" using query_frame(1) [of s "''COMMIT''" False] by simp
  then show ?thesis using assms q
    by (auto simp: lock_balanced_def preludedb_sql_transaction_end_def sql_transaction_end_ext_def)
qed

lemma query_no_transaction:
  "\<not> status_transaction s \<Longrightarrow> \<not> status_transaction (fst (preludedb_sql_query s q want))"
  by (auto simp: preludedb_sql_query_def assert_connected_def preludedb_sql_connect_def Let_def
      split: prod.splits sum.splits option.splits)

lemma abort_balanced:
  assumes "lock_balanced base s"
  shows "lock_balanced base (fst (preludedb_sql_transaction_abort se s))"
proof -
  let ?s = "s\<lparr>status_transaction := False\<rparr>"
  obtain s2 r where q: "preludedb_sql_query ?s ''ROLLBACK'' False = (s2, r)" by fastforce
  then have m: "mutex s2 = mutex s" "\<not> status_transaction s2"
    using query_frame(1) [of ?s "''ROLLBACK''" False]
      query_no_transaction [of ?s "''ROLLBACK''" False] by simp_all
  show ?thesis using assms q m
    by (cases r) (auto simp: lock_balanced_def preludedb_sql_transaction_abort_def
        sql_transaction_abort_ext_def Let_def split: option.splits)
qed

lemma escape_no_transaction:
  "\<not> status_transaction s \<Longrightarrow> \<not> status_transaction (fst (sql_escape_with f s i))"
  by (auto simp: sql_escape_with_def assert_connected_def preludedb_sql_connect_def Let_def
      split: prod.splits sum.splits)

lemma query_balanced:
  assumes "lock_balanced base s" "\<not> stranded s"
  shows "lock_balanced base (fst (preludedb_sql_query s q want))"
  using assms query_connected(1) [of s q want] query_no_transaction [of s q want]
  by (cases "status_transaction s") (auto simp: lock_balanced_def stranded_def)

lemma escape_balanced:
  assumes "lock_balanced base s" "\<not> stranded s"
  shows "lock_balanced base (fst (sql_escape_with f s i))"
  using assms escape_with_connected(1) [of s f i] escape_no_transaction [of s f i]
  by (cases "status_transaction s") (auto simp: lock_balanced_def stranded_def)

lemma sql_op_step_balanced:
  assumes "lock_balanced base s" "\<not> (stranded s \<and> oper \<noteq> Transaction_end \<and> oper \<noteq> Transaction_abort)"
  shows "lock_balanced base (sql_op_step se s oper)"
  using assms
  by (cases oper) (simp_all add: query_balanced escape_balanced start_balanced end_balanced abort_balanced
      preludedb_sql_escape_def preludedb_sql_escape_fast_def preludedb_sql_escape_binary_def
      preludedb_sql_unescape_binary_def)

lemma sql_run_balanced:
  "sql_run se s ops = Some s' \<Longrightarrow> lock_balanced base s \<Longrightarrow> lock_balanced base s'"
  by (induction ops arbitrary: s) (auto simp: sql_op_step_balanced split: if_splits)

text \<open>What each transaction call does on a live connection.\<close>

lemma start_connected:
  assumes "status_connected s" "\<not> internal_transaction_disabled s" "\<not> status_transaction s"
    and "preludedb_sql_transaction_start s = (s', Inr ())"
  shows "issued s' = issued s @ [''BEGIN''] \<and> status_transaction s' \<and> status_connected s' \<and>
         mutex s' = Suc (mutex s) \<and> \<not> internal_transaction_disabled s'"
proof -
  obtain s2 r where q: "preludedb_sql_query (lock s) ''BEGIN'' False = (s2, r)" by fastforce
  have f: "issued s2 = issued s @ [''BEGIN'']" "mutex s2 = Suc (mutex s)"
      "internal_transaction_disabled s2 = internal_transaction_disabled s"
    using query_frame [of "lock s" "''BEGIN''" False] query_connected(2) [of "lock s" "''BEGIN''" False]
      q assms(1) by simp_all
  moreover have "\<And>x. r = Inr x \<Longrightarrow> status_connected s2"
    using query_ok_connected [of "lock s" "''BEGIN''" False] q by simp
  ultimately show ?thesis using assms q
    by (cases r) (auto simp: preludedb_sql_transaction_start_def sql_transaction_start_ext_def)
qed

lemma end_connected:
  assumes "status_connected s" "\<not> internal_transaction_disabled s" "status_transaction s"
  shows "issued (fst (preludedb_sql_transaction_end s)) = issued s @ [''COMMIT''] \<and>
         \<not> status_transaction (fst (preludedb_sql_transaction_end s)) \<and>
         mutex (fst (preludedb_sql_transaction_end s)) = mutex s - 1"
proof -
  obtain s2 r where q: "preludedb_sql_query s ''COMMIT'' False = (s2, r)" by fastforce
  then show ?thesis
    using assms query_frame [of s "''COMMIT''" False] query_connected(2) [of s "''COMMIT''" False]
    by (simp add: preludedb_sql_transaction_end_def sql_transaction_end_ext_def)
qed

lemma abort_connected:
  assumes "status_connected s" "\<not> internal_transaction_disabled s" "status_transaction s"
  shows "issued (fst (preludedb_sql_transaction_abort se s)) = issued s @ [''ROLLBACK''] \<and>
         \<not> status_transaction (fst (preludedb_sql_transaction_abort se s)) \<and>
         mutex (fst (preludedb_sql_transaction_abort se s)) = mutex s - 1"
proof -
  let ?s = "s\<lparr>status_transaction := False\<rparr>"
  obtain s2 r where q: "preludedb_sql_query ?s ''ROLLBACK'' False = (s2, r)" by fastforce
  have "issued s2 = issued s @ [''ROLLBACK'']" "mutex s2 = mutex s" "\<not> status_transaction s2"
    using q assms query_frame [of ?s "''ROLLBACK''" False] query_connected [of ?s "''ROLLBACK''" False]
    by simp_all
  then show ?thesis using assms q
    by (cases r) (auto simp: preludedb_sql_transaction_abort_def sql_transaction_abort_ext_def Let_def
        split: option.splits)
qed

text \<open>
  A query that reconnects inside a transaction clears the transaction flag: the mutex stays
  locked and no call of the client can end the transaction any more.
\<close>

lemma reconnect_clears_transaction:
  assumes "\<not> status_connected s" "p_open (sql_plugin s) (sql_settings s) (session s) = (w, Inr ())"
  shows "\<not> status_transaction (fst (preludedb_sql_query s q want)) \<and>
         mutex (fst (preludedb_sql_query s q want)) = mutex s"
  using assms
  by (auto simp: preludedb_sql_query_def assert_connected_def preludedb_sql_connect_def Let_def
      split: prod.splits sum.splits option.splits)

end
