(* ===== verification/Sql_Criterion.thy ===== *)
theory Sql_Criterion
  imports Sql_Core Sql_Backend
begin

text \<open>
  Criteria and times as SQL (src/preludedb-sql.c): the conversion of a substring pattern to
  a LIKE pattern, the criterion builder, and SQL timestamps. What libprelude returns for a
  value is the data of \<open>idmef_value\<close>; \<open>idmef_value_to_string\<close>, \<open>gmtime_r\<close> and
  \<open>prelude_timegm\<close> are parameters.
\<close>

record idmef_time =
  time_sec :: int
  time_usec :: nat
  time_gmtoff :: int

text \<open>\<open>None\<close> is a NULL pointer inside the value.\<close>

datatype idmef_value =
    Value_time "idmef_time option"
  | Value_data "string option"
  | Value_string "string option"
  | Value_other nat

datatype criterion_value =
    Criterion_value idmef_value
  | Criterion_regex string
  | Criterion_broken_down_time tm

record idmef_lib =
  value_to_string :: "idmef_value \<Rightarrow> db_error + string"
  gmtime :: "int \<Rightarrow> tm option"
  timegm :: "tm \<Rightarrow> int"

section \<open>Timestamps\<close>

text \<open>
  The three buffers; a NULL time prints NULL in all of them. The optional sizes are those of
  the buffers the caller passes. \<open>usec\<close> is an unsigned 32-bit number printed with \<open>%d\<close>.
\<close>

definition preludedb_sql_time_to_timestamp ::
    "('w, 'd) preludedb_plugin_sql \<Rightarrow> idmef_lib \<Rightarrow> idmef_time option \<Rightarrow> nat \<Rightarrow> nat option \<Rightarrow> nat option \<Rightarrow>
       db_error + string \<times> string option \<times> string option" where
  "preludedb_sql_time_to_timestamp plugin lib time bufsize gmtoff_size usec_size =
     (case time of
        None \<Rightarrow> Inr (snprintf_buf bufsize ''NULL'', map_option (\<lambda>n. snprintf_buf n ''NULL'') gmtoff_size,
                     map_option (\<lambda>n. snprintf_buf n ''NULL'') usec_size)
      | Some t \<Rightarrow>
          (case gmtime lib (time_sec t) of
             None \<Rightarrow> Inl RawError
           | Some utc \<Rightarrow>
               res_bind (plugin_sql_build_timestamp_string plugin utc bufsize) (\<lambda>buf.
                 Inr (buf,
                   map_option (\<lambda>n. snprintf_buf n (dec_int (time_gmtoff t))) gmtoff_size,
                   map_option (\<lambda>n. snprintf_buf n (dec_int
                     (if time_usec t < 2 ^ 31 then int (time_usec t) else int (time_usec t) - 2 ^ 32)))
                     usec_size))))"

text \<open>\<open>sscanf\<close> with \<open>%d\<close>, literal characters and white space; the result is what it stored.\<close>

datatype scan_directive = Scan_d | Scan_char char | Scan_space

fun sscanf :: "scan_directive list \<Rightarrow> string \<Rightarrow> int list" where
  "sscanf [] s = []"
| "sscanf (Scan_d # ds) s =
     (let (neg, m, rest) = strto_scan s
      in if rest = s then [] else (if neg then - int m else int m) # sscanf ds rest)"
| "sscanf (Scan_char c # ds) s =
     (case s of [] \<Rightarrow> [] | x # xs \<Rightarrow> if x = c then sscanf ds xs else [])"
| "sscanf (Scan_space # ds) s = sscanf ds (dropWhile isspace s)"

definition timestamp_format :: "scan_directive list" where
  "timestamp_format =
    [Scan_d, Scan_char (CHR ''-''), Scan_d, Scan_char (CHR ''-''), Scan_d, Scan_space,
     Scan_d, Scan_char (CHR '':''), Scan_d, Scan_char (CHR '':''), Scan_d]"

definition preludedb_sql_time_from_timestamp ::
    "idmef_lib \<Rightarrow> string \<Rightarrow> int \<Rightarrow> nat \<Rightarrow> db_error + idmef_time" where
  "preludedb_sql_time_from_timestamp lib time_buf gmtoff usec =
     (case sscanf timestamp_format time_buf of
        [y, mo, d, h, mi, s] \<Rightarrow>
          Inr \<lparr>time_sec = timegm lib \<lparr>tm_sec = s, tm_min = mi, tm_hour = h, tm_mday = d,
                 tm_mon = mo - 1, tm_year = y - 1900, tm_wday = 0, tm_yday = 0\<rparr>,
               time_usec = usec, time_gmtoff = gmtoff\<rparr>
      | _ \<Rightarrow> Inl (preludedb_error_verbose PRELUDEDB_ERROR_GENERIC
               (''Database returned an unknown time format: '' @ CHR 0x27 # time_buf @ [CHR 0x27])))"

section \<open>LIKE patterns\<close>

text \<open>The loop over the input, with its flag.\<close>

fun like_convert :: "bool \<Rightarrow> string \<Rightarrow> string" where
  "like_convert escape_next [] = []"
| "like_convert escape_next (c # cs) =
     (if c = CHR ''%'' then [CHR 0x5C, CHR ''%'']
      else if c = CHR ''*'' \<and> \<not> escape_next then ''%''
      else [c]) @ like_convert (\<not> escape_next \<and> c = CHR 0x5C) cs"

definition build_criterion_fixed_sql_like_value :: "idmef_value \<Rightarrow> db_error + string" where
  "build_criterion_fixed_sql_like_value v =
     (case v of
        Value_data (Some d) \<Rightarrow> Inr (like_convert False d)
      | Value_string (Some s) \<Rightarrow> Inr (like_convert False s)
      | _ \<Rightarrow> Inl RawError)"

section \<open>The criterion builder\<close>

text \<open>
  \<open>prelude_string_cat\<close> of the value: the result is the text of the value. Escaping may
  connect, so the session is threaded.
\<close>

definition TIMESTAMP_STRING_SIZE :: nat where
  "TIMESTAMP_STRING_SIZE = 128"

definition build_criterion_fixed_sql_value ::
    "idmef_lib \<Rightarrow> ('w, 'd) sql \<Rightarrow> idmef_value \<Rightarrow> criterion_operator \<Rightarrow> ('w, 'd) sql \<times> (db_error + string)" where
  "build_criterion_fixed_sql_value lib s v oper =
     (case v of
        Value_time time \<Rightarrow>
          (s, case time of
                None \<Rightarrow> Inl RawError
              | Some t \<Rightarrow> map_sum id fst
                  (preludedb_sql_time_to_timestamp (sql_plugin s) lib (Some t) TIMESTAMP_STRING_SIZE None None))
      | _ \<Rightarrow>
          if op_base oper = OP_SUBSTR
          then (case build_criterion_fixed_sql_like_value v of
                  Inl e \<Rightarrow> (s, Inl e)
                | Inr tmp \<Rightarrow> preludedb_sql_escape s (Some (c_str tmp)))
          else (case value_to_string lib v of
                  Inl e \<Rightarrow> (s, Inl e)
                | Inr str \<Rightarrow> preludedb_sql_escape s (Some (c_str str))))"

definition build_criterion_fixed_value ::
    "idmef_lib \<Rightarrow> ('w, 'd) sql \<Rightarrow> string \<Rightarrow> string \<Rightarrow> criterion_operator \<Rightarrow> idmef_value \<Rightarrow>
       ('w, 'd) sql \<times> (db_error + string)" where
  "build_criterion_fixed_value lib s out field oper v =
     (let (s', ret) = build_criterion_fixed_sql_value lib s v oper
      in (s', res_bind ret (\<lambda>value_str.
            plugin_sql_build_constraint_string (sql_plugin s') out field oper (Some value_str))))"

text \<open>The table of the time constraints that a broken-down time sets.\<close>

definition time_constraints :: "tm \<Rightarrow> (int \<times> int) list" where
  "time_constraints lt =
     [(TIME_CONSTRAINT_YEAR, if tm_year lt \<noteq> -1 then tm_year lt + 1900 else -1),
      (TIME_CONSTRAINT_MONTH, if tm_mon lt \<noteq> -1 then tm_mon lt + 1 else -1),
      (TIME_CONSTRAINT_YDAY, tm_yday lt),
      (TIME_CONSTRAINT_MDAY, tm_mday lt),
      (TIME_CONSTRAINT_WDAY, tm_wday lt),
      (TIME_CONSTRAINT_HOUR, tm_hour lt),
      (TIME_CONSTRAINT_MIN, tm_min lt),
      (TIME_CONSTRAINT_SEC, tm_sec lt)]"

fun time_constraint_loop ::
    "('w, 'd) preludedb_plugin_sql \<Rightarrow> string \<Rightarrow> criterion_operator \<Rightarrow> (int \<times> int) list \<Rightarrow> nat \<Rightarrow> string \<Rightarrow>
       db_error + string" where
  "time_constraint_loop plugin field oper [] prev out = Inr out"
| "time_constraint_loop plugin field oper ((ty, v) # tbl) prev out =
     (if v = -1 then time_constraint_loop plugin field oper tbl prev out
      else res_bind
             (plugin_sql_build_time_constraint_string plugin
                (if prev > 0 then out @ '' AND '' else out) field ty oper v 0)
             (\<lambda>out'. time_constraint_loop plugin field oper tbl (prev + 1) out'))"

definition build_criterion_broken_down_time_equal ::
    "('w, 'd) preludedb_plugin_sql \<Rightarrow> string \<Rightarrow> string \<Rightarrow> criterion_operator \<Rightarrow> tm \<Rightarrow> db_error + string" where
  "build_criterion_broken_down_time_equal plugin out field oper lt =
     time_constraint_loop plugin field oper (time_constraints lt) 0 out"

definition build_criterion_broken_down_time_not_equal ::
    "('w, 'd) preludedb_plugin_sql \<Rightarrow> string \<Rightarrow> string \<Rightarrow> tm \<Rightarrow> db_error + string" where
  "build_criterion_broken_down_time_not_equal plugin out field lt =
     res_bind (build_criterion_broken_down_time_equal plugin (out @ ''NOT('') field OPERATOR_EQUAL lt)
       (\<lambda>out'. Inr (out' @ '')''))"

definition build_criterion_broken_down_time ::
    "('w, 'd) preludedb_plugin_sql \<Rightarrow> string \<Rightarrow> string \<Rightarrow> criterion_operator \<Rightarrow> tm \<Rightarrow> db_error + string" where
  "build_criterion_broken_down_time plugin out field oper lt =
     (if oper = OPERATOR_EQUAL then build_criterion_broken_down_time_equal plugin out field oper lt
      else if oper = OPERATOR_NOT_EQUAL then build_criterion_broken_down_time_not_equal plugin out field lt
      else Inl (preludedb_error PRELUDEDB_ERROR_QUERY))"

definition build_criterion_regex ::
    "('w, 'd) sql \<Rightarrow> string \<Rightarrow> string \<Rightarrow> criterion_operator \<Rightarrow> string \<Rightarrow>
       ('w, 'd) sql \<times> (db_error + string)" where
  "build_criterion_regex s out field oper regex =
     (let (s', ret) = preludedb_sql_escape s (Some regex)
      in (s', res_bind ret (\<lambda>escaped.
            plugin_sql_build_constraint_string (sql_plugin s') out field oper (Some escaped))))"

definition build_criterion_value ::
    "idmef_lib \<Rightarrow> ('w, 'd) sql \<Rightarrow> string \<Rightarrow> string \<Rightarrow> criterion_operator \<Rightarrow> criterion_value \<Rightarrow>
       ('w, 'd) sql \<times> (db_error + string)" where
  "build_criterion_value lib s out field oper v =
     (case v of
        Criterion_value val \<Rightarrow> build_criterion_fixed_value lib s out field oper val
      | Criterion_regex regex \<Rightarrow> build_criterion_regex s out field oper regex
      | Criterion_broken_down_time t \<Rightarrow>
          (s, build_criterion_broken_down_time (sql_plugin s) out field oper t))"

text \<open>A NULL operator string would be printed with \<open>%s\<close>.\<close>

definition preludedb_sql_build_criterion_string ::
    "idmef_lib \<Rightarrow> ('w, 'd) sql \<Rightarrow> string \<Rightarrow> string \<Rightarrow> criterion_operator \<Rightarrow> criterion_value \<Rightarrow>
       ('w, 'd) sql \<times> (db_error + string)" where
  "preludedb_sql_build_criterion_string lib s out field oper v =
     (if oper = OPERATOR_NULL \<or> oper = OPERATOR_NOT_NULL
      then (s, case p_get_operator_string (sql_plugin s) oper of
                 None \<Rightarrow> Inl Undefined
               | Some o_str \<Rightarrow> Inr (out @ field @ '' '' @ o_str))
      else if op_not oper
      then (case p_get_operator_string (sql_plugin s) OPERATOR_NULL of
              None \<Rightarrow> (s, Inl Undefined)
            | Some null_str \<Rightarrow>
                (let (s', ret) =
                   build_criterion_value lib s (out @ ''('' @ field @ '' '' @ null_str @ '' OR '') field oper v
                 in (s', res_bind ret (\<lambda>out'. Inr (out' @ '')'')))))
      else build_criterion_value lib s out field oper v)"

section \<open>What the LIKE pattern matches\<close>

text \<open>
  The meaning of both pattern languages as tokens. The criterion's pattern has \<open>*\<close> for any
  text and a backslash before a character that stands for itself; SQL's LIKE, with the
  backslash as its escape character, has \<open>%\<close> for any text and \<open>_\<close> for any character.
\<close>

datatype pattern_token = Any_text | Any_char | Lit char

fun glob_parse :: "string \<Rightarrow> pattern_token list" where
  "glob_parse [] = []"
| "glob_parse [c] = [if c = CHR ''*'' then Any_text else Lit c]"
| "glob_parse (c # d # cs) =
     (if c = CHR 0x5C then Lit d # glob_parse cs
      else (if c = CHR ''*'' then Any_text else Lit c) # glob_parse (d # cs))"

definition like_token :: "char \<Rightarrow> pattern_token" where
  "like_token c = (if c = CHR ''%'' then Any_text else if c = CHR ''_'' then Any_char else Lit c)"

fun like_parse :: "string \<Rightarrow> pattern_token list" where
  "like_parse [] = []"
| "like_parse [c] = [like_token c]"
| "like_parse (c # d # cs) =
     (if c = CHR 0x5C then Lit d # like_parse cs else like_token c # like_parse (d # cs))"

fun pattern_match :: "pattern_token list \<Rightarrow> string \<Rightarrow> bool" where
  "pattern_match [] s \<longleftrightarrow> s = []"
| "pattern_match (Lit c # p) s \<longleftrightarrow> (case s of [] \<Rightarrow> False | x # xs \<Rightarrow> x = c \<and> pattern_match p xs)"
| "pattern_match (Any_char # p) s \<longleftrightarrow> (case s of [] \<Rightarrow> False | x # xs \<Rightarrow> pattern_match p xs)"
| "pattern_match (Any_text # p) s \<longleftrightarrow>
     pattern_match p s \<or> (case s of [] \<Rightarrow> False | x # xs \<Rightarrow> pattern_match (Any_text # p) xs)"

text \<open>Patterns that the conversion handles: no bare \<open>_\<close> and no \<open>%\<close> behind a backslash.\<close>

fun like_safe :: "string \<Rightarrow> bool" where
  "like_safe [] \<longleftrightarrow> True"
| "like_safe [c] \<longleftrightarrow> c \<noteq> CHR ''_''"
| "like_safe (c # d # cs) \<longleftrightarrow>
     (if c = CHR 0x5C then d \<noteq> CHR ''%'' \<and> like_safe cs else c \<noteq> CHR ''_'' \<and> like_safe (d # cs))"

lemma like_parse_Cons:
  "c \<noteq> CHR 0x5C \<Longrightarrow> like_parse (c # cs) = like_token c # like_parse cs"
  by (cases cs) simp_all

lemma like_parse_escape: "like_parse (CHR 0x5C # c # cs) = Lit c # like_parse cs"
  by simp

lemma like_convert_parse:
  "like_safe p \<Longrightarrow> like_parse (like_convert False p) = glob_parse p"
proof (induction p rule: glob_parse.induct)
  case (2 c)
  then show ?case by (auto simp: like_token_def)
next
  case (3 c d cs)
  then show ?case by (auto simp: like_parse_Cons like_token_def)
qed simp

lemma pattern_match_lits:
  "pattern_match (map Lit s @ p) t \<longleftrightarrow> (\<exists>u. t = s @ u \<and> pattern_match p u)"
  by (induction s arbitrary: t) (auto split: list.splits)

lemma pattern_match_any:
  "pattern_match (Any_text # p) t \<longleftrightarrow> (\<exists>u v. t = u @ v \<and> pattern_match p v)"
proof (induction t)
  case (Cons x xs)
  have "(\<exists>u v. x # xs = u @ v \<and> pattern_match p v) \<longleftrightarrow>
      pattern_match p (x # xs) \<or> (\<exists>u v. xs = u @ v \<and> pattern_match p v)"
    by (metis (no_types, opaque_lifting) append_Cons append_Nil list.inject neq_Nil_conv)
  then show ?case using Cons by simp
qed simp

lemma glob_parse_plain:
  "\<forall>c \<in> set s. c \<noteq> CHR ''*'' \<and> c \<noteq> CHR 0x5C \<Longrightarrow> glob_parse (s @ ''*'') = map Lit s @ [Any_text]"
proof (induction s rule: glob_parse.induct)
  case (2 c)
  then show ?case by simp
next
  case (3 c d cs)
  then show ?case by simp
qed simp

lemma like_safe_plain:
  "\<forall>c \<in> set s. c \<noteq> CHR ''_'' \<and> c \<noteq> CHR 0x5C \<Longrightarrow> like_safe s"
  by (induction s rule: like_safe.induct) auto

section \<open>Broken-down times\<close>

text \<open>The parts of a broken-down time that are set, and the constraint each becomes.\<close>

definition set_constraints :: "tm \<Rightarrow> (int \<times> int) list" where
  "set_constraints lt = filter (\<lambda>(ty, v). v \<noteq> -1) (time_constraints lt)"

context sql_backend
begin

lemma time_constraint_txt:
  assumes "plugin_sql_build_time_constraint_string plugin [] field ty oper v 0 = Inr t"
  shows "plugin_sql_build_time_constraint_string plugin out field ty oper v 0 = Inr (out @ t)"
  using extendsD [OF time_constraint_ext, of out field ty oper v 0] assms by simp

lemma loop_joins_tail:
  assumes "\<And>ty v. (ty, v) \<in> set tbl \<Longrightarrow> v \<noteq> -1 \<Longrightarrow>
      plugin_sql_build_time_constraint_string plugin [] field ty oper v 0 = Inr (txt ty v)"
  shows "time_constraint_loop plugin field oper tbl (Suc prev) out =
    Inr (out @ concat (map (\<lambda>y. '' AND '' @ y) (map (\<lambda>(ty, v). txt ty v) (filter (\<lambda>(ty, v). v \<noteq> -1) tbl))))"
  using assms
proof (induction tbl arbitrary: prev out)
  case (Cons a tbl)
  obtain ty v where a: "a = (ty, v)" by fastforce
  show ?case
    using Cons.IH Cons.prems time_constraint_txt [of field ty oper v "txt ty v" "out @ '' AND ''"]
    by (cases "v = -1") (simp_all add: a)
qed simp

lemma loop_joins:
  assumes "\<And>ty v. (ty, v) \<in> set tbl \<Longrightarrow> v \<noteq> -1 \<Longrightarrow>
      plugin_sql_build_time_constraint_string plugin [] field ty oper v 0 = Inr (txt ty v)"
  shows "time_constraint_loop plugin field oper tbl 0 out =
    Inr (out @ join_sep '' AND '' (map (\<lambda>(ty, v). txt ty v) (filter (\<lambda>(ty, v). v \<noteq> -1) tbl)))"
  using assms
proof (induction tbl)
  case (Cons a tbl)
  obtain ty v where a: "a = (ty, v)" by fastforce
  show ?case
  proof (cases "v = -1")
    case True
    then show ?thesis using Cons a by simp
  next
    case False
    have "time_constraint_loop plugin field oper tbl (Suc 0) (out @ txt ty v) =
      Inr ((out @ txt ty v) @ concat (map (\<lambda>y. '' AND '' @ y)
        (map (\<lambda>(ty, v). txt ty v) (filter (\<lambda>(ty, v). v \<noteq> -1) tbl))))"
      using Cons.prems by (intro loop_joins_tail) simp
    then show ?thesis
      using False a time_constraint_txt [of field ty oper v "txt ty v" out] Cons.prems [of ty v]
      by (simp add: join_sep_Cons_concat del: join_sep.simps(2,3))
  qed
qed simp

lemma time_constraint_loop_extends: "extends (time_constraint_loop plugin field oper tbl prev)"
proof (induction tbl arbitrary: prev)
  case (Cons a tbl)
  obtain ty v where a: "a = (ty, v)" by fastforce
  have "extends (\<lambda>out. plugin_sql_build_time_constraint_string plugin
      (if prev > 0 then out @ '' AND '' else out) field ty oper v 0)"
    using extends_prefix [OF time_constraint_ext, of "'' AND ''"] time_constraint_ext by (cases "prev > 0") simp_all
  then have "extends (\<lambda>out. res_bind (plugin_sql_build_time_constraint_string plugin
      (if prev > 0 then out @ '' AND '' else out) field ty oper v 0)
      (time_constraint_loop plugin field oper tbl (Suc prev)))"
    by (rule extends_bind [OF _ Cons.IH])
  note tail = this
  have eq: "time_constraint_loop plugin field oper ((ty, v) # tbl) prev =
      (\<lambda>out. if v = -1 then time_constraint_loop plugin field oper tbl prev out
        else res_bind (plugin_sql_build_time_constraint_string plugin
          (if prev > 0 then out @ '' AND '' else out) field ty oper v 0)
          (time_constraint_loop plugin field oper tbl (Suc prev)))"
    by (rule ext) simp
  show ?case unfolding a eq by (rule extends_if [OF Cons.IH tail])
next
  case Nil
  have "time_constraint_loop plugin field oper [] prev = (\<lambda>out. Inr out)" by (rule ext) simp
  then show ?case by simp
qed

lemma broken_down_time_extends: "extends (\<lambda>out. build_criterion_broken_down_time plugin out field oper lt)"
proof -
  have eq: "extends (\<lambda>out. build_criterion_broken_down_time_equal plugin out field o' lt)" for o'
    unfolding build_criterion_broken_down_time_equal_def by (rule time_constraint_loop_extends)
  have "extends (\<lambda>out. build_criterion_broken_down_time_not_equal plugin out field lt)"
    unfolding build_criterion_broken_down_time_not_equal_def
    by (rule extends_bind [OF extends_prefix [OF eq] extends_append])
  then show ?thesis
    unfolding build_criterion_broken_down_time_def using eq
    by (intro extends_if extends_const) simp_all
qed

end

text \<open>Escaping a value does not change the plugin of the session.\<close>

lemma escape_plugin [simp]: "sql_plugin (fst (preludedb_sql_escape s i)) = sql_plugin s"
  by (cases i) (simp_all add: preludedb_sql_escape_def preludedb_sql_escape_fast_def)

lemma fixed_sql_value_plugin [simp]:
  "sql_plugin (fst (build_criterion_fixed_sql_value lib s v oper)) = sql_plugin s"
  by (cases v) (auto simp: build_criterion_fixed_sql_value_def split: sum.splits)

context sql_backend
begin

lemma criterion_value_extends:
  assumes "sql_plugin s = plugin"
  shows "fst (build_criterion_value lib s out field oper v) = fst (build_criterion_value lib s [] field oper v)"
    and "extends (\<lambda>out. snd (build_criterion_value lib s out field oper v))"
proof -
  have c: "extends (\<lambda>out. res_bind r (\<lambda>x. plugin_sql_build_constraint_string plugin out field oper (Some x)))" for r
    using constraint_ext by (cases r) simp_all
  show "extends (\<lambda>out. snd (build_criterion_value lib s out field oper v))"
    using assms c broken_down_time_extends fixed_sql_value_plugin [of lib s _ oper] escape_plugin [of s]
    by (cases v) (simp_all add: build_criterion_value_def build_criterion_fixed_value_def
        build_criterion_regex_def split_beta)
  show "fst (build_criterion_value lib s out field oper v) = fst (build_criterion_value lib s [] field oper v)"
    by (cases v) (simp_all add: build_criterion_value_def build_criterion_fixed_value_def
        build_criterion_regex_def split_beta)
qed

text \<open>
  The shape of a criterion: a NULL test, or the comparison, with rows whose field is NULL let
  through when the operator is negated.
\<close>

lemma criterion_string_shape:
  assumes "sql_plugin s = plugin"
  shows "snd (preludedb_sql_build_criterion_string lib s out field oper v) =
    (if oper = OPERATOR_NULL then Inr (out @ field @ '' IS NULL'')
     else if oper = OPERATOR_NOT_NULL then Inr (out @ field @ '' IS NOT NULL'')
     else map_sum id (\<lambda>cmp. if op_not oper then out @ ''('' @ field @ '' IS NULL OR '' @ cmp @ '')'' else out @ cmp)
       (snd (build_criterion_value lib s [] field oper v)))"
proof -
  have e: "snd (build_criterion_value lib s o' field oper v) =
      map_sum id (\<lambda>x. o' @ x) (snd (build_criterion_value lib s [] field oper v))" for o'
    using extendsD [OF criterion_value_extends(2) [OF assms]] .
  show ?thesis
    using assms op_null op_not_null e
    by (cases "snd (build_criterion_value lib s [] field oper v)")
      (auto simp: preludedb_sql_build_criterion_string_def split_beta)
qed

lemma criterion_string_extends:
  assumes "sql_plugin s = plugin"
  shows "preludedb_sql_build_criterion_string lib s out field oper v =
    (let (s', ret) = preludedb_sql_build_criterion_string lib s [] field oper v
     in (s', map_sum id (\<lambda>t. out @ t) ret))"
proof -
  have "fst (preludedb_sql_build_criterion_string lib s out field oper v) =
      fst (preludedb_sql_build_criterion_string lib s [] field oper v)"
    using criterion_value_extends(1) [OF assms, of lib _ field oper v] op_null assms
    by (auto simp: preludedb_sql_build_criterion_string_def split_beta split: option.splits)
      (metis criterion_value_extends(1))+
  moreover have "snd (preludedb_sql_build_criterion_string lib s out field oper v) =
      map_sum id (\<lambda>t. out @ t) (snd (preludedb_sql_build_criterion_string lib s [] field oper v))"
    unfolding criterion_string_shape [OF assms]
    by (cases "snd (build_criterion_value lib s [] field oper v)") simp_all
  ultimately show ?thesis by (simp add: split_beta prod_eq_iff)
qed

lemma criterion_string_plugin:
  "sql_plugin (fst (preludedb_sql_build_criterion_string lib s out field oper v)) = sql_plugin s"
  by (cases v) (auto simp: preludedb_sql_build_criterion_string_def build_criterion_value_def
      build_criterion_fixed_value_def build_criterion_regex_def split_beta split: option.splits)

end

section \<open>Timestamps read back\<close>

text \<open>A printed number: an optional sign and digits.\<close>

definition number_text :: "int \<Rightarrow> string \<Rightarrow> bool" where
  "number_text i t \<longleftrightarrow> (\<exists>ds. ds \<noteq> [] \<and> (\<forall>c \<in> set ds. isdigit c) \<and> dec_value ds = nat \<bar>i\<bar> \<and>
     t = (if i < 0 then CHR ''-'' # ds else ds))"

lemma number_text_dec_int: "number_text i (dec_int i)"
  unfolding number_text_def dec_int_def using dec_nat_digits [of "nat \<bar>i\<bar>"]
  by (intro exI [of _ "dec_nat (nat \<bar>i\<bar>)"]) simp

lemma dec_value_zeros: "dec_value (replicate k (CHR ''0'') @ ds) = dec_value ds"
  by (induction k) (simp_all add: dec_value_def digit_val_def)

lemma number_text_dec_int2: "number_text i (dec_int2 i)"
proof -
  have z: "isdigit (CHR ''0'')" by (simp add: isdigit_def)
  show ?thesis
    unfolding number_text_def dec_int2_def Let_def using dec_nat_digits [of "nat \<bar>i\<bar>"] z
    by (intro exI [of _ "replicate (2 - length (dec_nat (nat \<bar>i\<bar>))) (CHR ''0'') @ dec_nat (nat \<bar>i\<bar>)"])
      (auto simp: dec_value_zeros)
qed

lemma strto_scan_number:
  assumes "number_text i t" "rest = [] \<or> \<not> isdigit (hd rest)"
  shows "strto_scan (t @ rest) = (i < 0, nat \<bar>i\<bar>, rest)"
proof -
  obtain ds where d: "ds \<noteq> []" "\<forall>c \<in> set ds. isdigit c" "dec_value ds = nat \<bar>i\<bar>"
    "t = (if i < 0 then CHR ''-'' # ds else ds)" using assms(1) by (auto simp: number_text_def)
  obtain c cs where ds: "ds = c # cs" using d(1) by (cases ds) auto
  have "isdigit c" using d(2) ds by simp
  then have ns: "c \<noteq> CHR ''-''" "c \<noteq> CHR ''+''" "\<not> isspace c" by (auto simp: isdigit_def isspace_def)
  have tw: "takeWhile isdigit (ds @ rest) = ds" "dropWhile isdigit (ds @ rest) = rest"
    using takeWhile_digits_append [of ds rest] d assms by auto
  have dw: "dropWhile isspace (ds @ rest) = ds @ rest" using ns ds by simp
  have mi: "\<not> isspace (CHR ''-'')" by (simp add: isspace_def)
  show ?thesis
  proof (cases "i < 0")
    case True
    then show ?thesis using d(1,3,4) tw mi by (simp add: strto_scan_def)
  next
    case False
    have u: "(case ds @ rest of [] \<Rightarrow> x
        | c # t' \<Rightarrow> if c = CHR ''-'' \<or> c = CHR ''+'' then t' else x) = x" for x
      using ns ds by simp
    have n: "\<not> (case ds @ rest of [] \<Rightarrow> False | c # x \<Rightarrow> c = CHR ''-'')" using ns ds by simp
    have "t = ds" using d(4) False by simp
    then show ?thesis using False d(1,3) unfolding strto_scan_def Let_def
      by (simp add: dw tw u n)
  qed
qed

lemma scan_number:
  assumes t: "number_text i t" and r: "rest = [] \<or> \<not> isdigit (hd rest)"
  shows "sscanf (Scan_d # ds) (t @ rest) = i # sscanf ds rest"
proof -
  have "t \<noteq> []" using t by (auto simp: number_text_def split: if_splits)
  then have "rest \<noteq> t @ rest" by simp
  then show ?thesis using strto_scan_number [OF t r] by simp
qed

lemmas scan_printed = scan_number [OF number_text_dec_int] scan_number [OF number_text_dec_int2]

lemma not_digit_seps: "\<not> isdigit (CHR ''-'')" "\<not> isdigit (CHR '' '')" "\<not> isdigit (CHR '':'')"
  by (simp_all add: isdigit_def)

lemma dropWhile_number:
  assumes "number_text i t"
  shows "dropWhile isspace (t @ s) = t @ s"
proof -
  obtain c cs where t: "t = c # cs" "isdigit c \<or> c = CHR ''-''"
    using assms by (auto simp: number_text_def neq_Nil_conv split: if_splits)
  then have "\<not> isspace c" by (auto simp: isdigit_def isspace_def)
  then show ?thesis using t by simp
qed

text \<open>The text of a timestamp, between its quotes.\<close>

definition timestamp_text :: "tm \<Rightarrow> string" where
  "timestamp_text lt =
     dec_int (tm_year lt + 1900) @ ''-'' @ dec_int2 (tm_mon lt + 1) @ ''-'' @
     dec_int2 (tm_mday lt) @ '' '' @ dec_int2 (tm_hour lt) @ '':'' @
     dec_int2 (tm_min lt) @ '':'' @ dec_int2 (tm_sec lt)"

lemma scan_timestamp_text:
  "sscanf timestamp_format (timestamp_text lt) =
     [tm_year lt + 1900, tm_mon lt + 1, tm_mday lt, tm_hour lt, tm_min lt, tm_sec lt]"
proof -
  have last: "sscanf [Scan_d] (dec_int2 i) = [i]" for i
    using scan_number [OF number_text_dec_int2 [of i], of "[]" "[]"] by simp
  show ?thesis
    unfolding timestamp_format_def timestamp_text_def
    by (simp add: scan_printed not_digit_seps dropWhile_number [OF number_text_dec_int2] last
        del: sscanf.simps(2))
qed

lemma default_timestamp:
  assumes "p_build_timestamp_string plugin = None" "length (timestamp_text lt) + 2 < n"
  shows "plugin_sql_build_timestamp_string plugin lt n = Inr (CHR 0x27 # timestamp_text lt @ [CHR 0x27])"
  using assms by (simp add: plugin_sql_build_timestamp_string_def timestamp_text_def Let_def)

end
