(* ===== verification/Classic_Path.thy ===== *)
theory Classic_Path
  imports Classic_Join Sql_Select Sql_Criterion
begin

text \<open>
  How the classic format turns IDMEF paths and criteria into columns and conditions
  (plugins/format/classic/classic-path-resolve.c, and \<open>classic_get_path_column_count\<close> of
  classic.c).
\<close>

datatype field_context = FIELD_CONTEXT_WHERE | FIELD_CONTEXT_SELECT | FIELD_CONTEXT_FUNCTION

section \<open>Table names\<close>

text \<open>\<open>c += 'A' - 'a'\<close> on a \<open>char\<close>.\<close>

definition to_upper :: "char \<Rightarrow> char" where
  "to_upper c = char_of ((of_char c :: nat) + 224)"

fun camel_case :: "bool \<Rightarrow> string \<Rightarrow> string" where
  "camel_case next_is_maj [] = []"
| "camel_case next_is_maj (c # cs) =
     (if c = CHR ''_'' then camel_case True cs
      else (if next_is_maj then to_upper c else c) # camel_case False cs)"

definition default_table_name_resolver :: "idmef_path \<Rightarrow> string" where
  "default_table_name_resolver p = ''Prelude_'' @ camel_case True (path_parent_class p)"

definition message_table_name_resolver :: "idmef_path \<Rightarrow> string" where
  "message_table_name_resolver p =
     (if path_leaf p = ''create_time'' then ''Prelude_CreateTime''
      else if path_leaf p = ''detect_time'' then ''Prelude_DetectTime''
      else if path_leaf p = ''analyzer_time'' then ''Prelude_AnalyzerTime''
      else default_table_name_resolver p)"

definition process_table_name_resolver :: "idmef_path \<Rightarrow> string" where
  "process_table_name_resolver p =
     (if path_leaf p = ''arg'' then ''Prelude_ProcessArg''
      else if path_leaf p = ''env'' then ''Prelude_ProcessEnv''
      else ''Prelude_Process'')"

definition file_access_table_name_resolver :: "idmef_path \<Rightarrow> string" where
  "file_access_table_name_resolver p =
     (if path_leaf p = ''permission'' then ''Prelude_FileAccess_Permission'' else ''Prelude_FileAccess'')"

definition web_service_table_name_resolver :: "idmef_path \<Rightarrow> string" where
  "web_service_table_name_resolver p =
     (if path_leaf p = ''arg'' then ''Prelude_WebServiceArg'' else ''Prelude_WebService'')"

section \<open>Column names\<close>

text \<open>Each resolver appends columns of table \<open>t\<close> to the output.\<close>

definition default_field_name_resolver :: "idmef_path \<Rightarrow> field_context \<Rightarrow> string \<Rightarrow> string \<Rightarrow> string" where
  "default_field_name_resolver p ctx t out = out @ t @ ''.'' @ path_leaf p"

definition time_with_usec_field_name_resolver ::
    "idmef_path \<Rightarrow> field_context \<Rightarrow> string \<Rightarrow> string \<Rightarrow> string" where
  "time_with_usec_field_name_resolver p ctx t out =
     (if ctx = FIELD_CONTEXT_SELECT
      then out @ t @ ''.time, '' @ t @ ''.gmtoff, '' @ t @ ''.usec''
      else out @ t @ ''.time'')"

definition time_without_usec_field_name_resolver ::
    "idmef_path \<Rightarrow> field_context \<Rightarrow> string \<Rightarrow> string \<Rightarrow> string" where
  "time_without_usec_field_name_resolver p ctx t out =
     (if ctx = FIELD_CONTEXT_SELECT
      then out @ t @ ''.'' @ path_leaf p @ '', '' @ t @ ''.'' @ path_leaf p @ ''_gmtoff''
      else out @ t @ ''.'' @ path_leaf p)"

definition message_field_name_resolver :: "idmef_path \<Rightarrow> field_context \<Rightarrow> string \<Rightarrow> string \<Rightarrow> string" where
  "message_field_name_resolver p ctx t out =
     (if path_leaf p = ''create_time'' \<or> path_leaf p = ''detect_time'' \<or> path_leaf p = ''analyzer_time''
      then time_with_usec_field_name_resolver p ctx t out
      else default_field_name_resolver p ctx t out)"

definition snmp_field_name_resolver :: "idmef_path \<Rightarrow> field_context \<Rightarrow> string \<Rightarrow> string \<Rightarrow> string" where
  "snmp_field_name_resolver p ctx t out =
     out @ t @ ''.'' @ (if path_leaf p = ''oid'' then ''snmp_oid'' else path_leaf p)"

definition checksum_field_name_resolver :: "idmef_path \<Rightarrow> field_context \<Rightarrow> string \<Rightarrow> string \<Rightarrow> string" where
  "checksum_field_name_resolver p ctx t out =
     out @ t @ ''.'' @ (if path_leaf p = ''key'' then ''checksum_key'' else path_leaf p)"

definition file_field_name_resolver :: "idmef_path \<Rightarrow> field_context \<Rightarrow> string \<Rightarrow> string \<Rightarrow> string" where
  "file_field_name_resolver p ctx t out =
     (if path_leaf p = ''create_time'' \<or> path_leaf p = ''modify_time'' \<or> path_leaf p = ''access_time''
      then time_without_usec_field_name_resolver p ctx t out
      else out @ t @ ''.'' @ path_leaf p)"

definition addata_field_name_resolver :: "idmef_path \<Rightarrow> field_context \<Rightarrow> string \<Rightarrow> string \<Rightarrow> string" where
  "addata_field_name_resolver p ctx t out =
     (if ctx = FIELD_CONTEXT_SELECT \<and> path_leaf p = ''data''
      then out @ t @ ''.'' @ path_leaf p @ '', '' @ t @ ''.type''
      else out @ t @ ''.'' @ path_leaf p)"

section \<open>Resolving a path\<close>

record idmef_class_resolver =
  resolve_table_name :: "idmef_path \<Rightarrow> string"
  resolve_field_name :: "idmef_path \<Rightarrow> field_context \<Rightarrow> string \<Rightarrow> string \<Rightarrow> string"

definition class_table :: "(idmef_class \<times> idmef_class_resolver) list" where
  "class_table =
    [(CLASS_ALERT, \<lparr>resolve_table_name = message_table_name_resolver, resolve_field_name = message_field_name_resolver\<rparr>),
     (CLASS_HEARTBEAT, \<lparr>resolve_table_name = message_table_name_resolver, resolve_field_name = message_field_name_resolver\<rparr>),
     (CLASS_PROCESS, \<lparr>resolve_table_name = process_table_name_resolver, resolve_field_name = default_field_name_resolver\<rparr>),
     (CLASS_SNMP_SERVICE, \<lparr>resolve_table_name = default_table_name_resolver, resolve_field_name = snmp_field_name_resolver\<rparr>),
     (CLASS_WEB_SERVICE, \<lparr>resolve_table_name = web_service_table_name_resolver, resolve_field_name = default_field_name_resolver\<rparr>),
     (CLASS_CHECKSUM, \<lparr>resolve_table_name = default_table_name_resolver, resolve_field_name = checksum_field_name_resolver\<rparr>),
     (CLASS_FILE, \<lparr>resolve_table_name = default_table_name_resolver, resolve_field_name = file_field_name_resolver\<rparr>),
     (CLASS_FILE_ACCESS, \<lparr>resolve_table_name = file_access_table_name_resolver, resolve_field_name = default_field_name_resolver\<rparr>),
     (CLASS_ADDITIONAL_DATA, \<lparr>resolve_table_name = default_table_name_resolver, resolve_field_name = addata_field_name_resolver\<rparr>)]"

definition default_class :: idmef_class_resolver where
  "default_class =
     \<lparr>resolve_table_name = default_table_name_resolver, resolve_field_name = default_field_name_resolver\<rparr>"

definition search_path :: "idmef_path \<Rightarrow> idmef_class_resolver" where
  "search_path p = (case map_of class_table (path_parent_class p) of Some c \<Rightarrow> c | None \<Rightarrow> default_class)"

definition get_field_context :: "selected_path \<Rightarrow> field_context" where
  "get_field_context sp =
     (if preludedb_selected_object_is_function (sp_object sp) \<or> group_by (sp_flags sp)
      then FIELD_CONTEXT_FUNCTION else FIELD_CONTEXT_SELECT)"

definition classic_path_resolve_ctx ::
    "path_lib \<Rightarrow> idmef_path \<Rightarrow> field_context \<Rightarrow> sql_join \<Rightarrow> string \<Rightarrow> sql_join \<times> (db_error + string)" where
  "classic_path_resolve_ctx lib p ctx join out =
     (if path_depth p = 2 \<and> path_type p \<noteq> VALUE_TYPE_TIME
      then (join, Inr (default_field_name_resolver p ctx ''top_table'' out))
      else (let cls = search_path p
            in case classic_sql_join_lookup_table lib join p of
                 Some t \<Rightarrow> (join, Inr (resolve_field_name cls p ctx (jt_alias t) out))
               | None \<Rightarrow>
                   (case classic_sql_join_new_table join p (resolve_table_name cls p) of
                      (join', Inl e) \<Rightarrow> (join', Inl e)
                    | (join', Inr t) \<Rightarrow> (join', Inr (resolve_field_name cls p ctx (jt_alias t) out)))))"

definition classic_path_resolve :: "path_lib \<Rightarrow> sql_join path_resolver" where
  "classic_path_resolve lib sp p join out = classic_path_resolve_ctx lib p (get_field_context sp) join out"

text \<open>
  The number of columns of a selected path. The check that the type was taken from the path
  itself never fails: the object is a path.
\<close>

definition classic_get_path_column_count :: "selected_path \<Rightarrow> nat" where
  "classic_get_path_column_count sp =
     (case sp_object sp of
        Object_path p \<Rightarrow>
          if group_by (sp_flags sp) then 1
          else if path_parent_class p = CLASS_ADDITIONAL_DATA \<and> path_type p = VALUE_TYPE_DATA then 2
          else if path_type p = VALUE_TYPE_TIME then (if path_depth p = 2 then 3 else 2)
          else 1
      | _ \<Rightarrow> 1)"

section \<open>Criteria\<close>

text \<open>A criterion with its alternatives: \<open>or\<close> and \<open>and\<close> may be absent.\<close>

datatype idmef_criteria =
  Criteria (crit_path: idmef_path) (crit_operator: criterion_operator) (crit_value: criterion_value)
    (crit_or: "idmef_criteria option") (crit_and: "idmef_criteria option")

definition classic_path_resolve_criterion ::
    "path_lib \<Rightarrow> idmef_lib \<Rightarrow> ('w, 'd) sql \<Rightarrow> sql_join \<Rightarrow> idmef_path \<Rightarrow> criterion_operator \<Rightarrow> criterion_value \<Rightarrow>
       string \<Rightarrow> ('w, 'd) sql \<times> sql_join \<times> (db_error + string)" where
  "classic_path_resolve_criterion lib il s join p oper v out =
     (case classic_path_resolve_ctx lib p FIELD_CONTEXT_WHERE join [] of
        (join', Inl e) \<Rightarrow> (s, join', Inl e)
      | (join', Inr field_name) \<Rightarrow>
          (let (s', ret) = preludedb_sql_build_criterion_string il s out field_name oper v
           in (s', join', ret)))"

function classic_path_resolve_criteria ::
    "path_lib \<Rightarrow> idmef_lib \<Rightarrow> ('w, 'd) sql \<Rightarrow> sql_join \<Rightarrow> idmef_criteria \<Rightarrow> string \<Rightarrow>
       ('w, 'd) sql \<times> sql_join \<times> (db_error + string)" where
  "classic_path_resolve_criteria lib il s join (Criteria p oper v or_c and_c) out =
     (case classic_path_resolve_criterion lib il s join p oper v
             (if or_c \<noteq> None then out @ ''(('' else out) of
        (s1, join1, Inl e) \<Rightarrow> (s1, join1, Inl e)
      | (s1, join1, Inr out1) \<Rightarrow>
          (case (case and_c of
                   None \<Rightarrow> (s1, join1, Inr out1)
                 | Some c \<Rightarrow> classic_path_resolve_criteria lib il s1 join1 c (out1 @ '' AND '')) of
             (s2, join2, Inl e) \<Rightarrow> (s2, join2, Inl e)
           | (s2, join2, Inr out2) \<Rightarrow>
               (case or_c of
                  None \<Rightarrow> (s2, join2, Inr out2)
                | Some c \<Rightarrow>
                    (case classic_path_resolve_criteria lib il s2 join2 c (out2 @ '') OR ('') of
                       (s3, join3, Inl e) \<Rightarrow> (s3, join3, Inl e)
                     | (s3, join3, Inr out3) \<Rightarrow> (s3, join3, Inr (out3 @ ''))''))))))"
  by pat_completeness auto
termination
  by (relation "measure (\<lambda>(lib, il, s, join, c, out). size c)") auto

section \<open>Columns of a selected path\<close>

text \<open>
  Paths whose type agrees with the names of the schema: the times are those of the messages
  and of files, and the only opaque value of an additional data is its \<open>data\<close>.
\<close>

definition message_time_leaf :: "string \<Rightarrow> bool" where
  "message_time_leaf s \<longleftrightarrow> s = ''create_time'' \<or> s = ''detect_time'' \<or> s = ''analyzer_time''"

definition file_time_leaf :: "string \<Rightarrow> bool" where
  "file_time_leaf s \<longleftrightarrow> s = ''create_time'' \<or> s = ''modify_time'' \<or> s = ''access_time''"

definition message_class :: "idmef_class \<Rightarrow> bool" where
  "message_class c \<longleftrightarrow> c = CLASS_ALERT \<or> c = CLASS_HEARTBEAT"

definition regular_path :: "idmef_path \<Rightarrow> bool" where
  "regular_path p \<longleftrightarrow>
     2 \<le> path_depth p \<and> (message_class (path_parent_class p) \<longleftrightarrow> path_depth p = 2) \<and>
     (path_type p = VALUE_TYPE_TIME \<longleftrightarrow>
        (path_depth p = 2 \<and> message_time_leaf (path_leaf p)) \<or>
        (path_parent_class p = CLASS_FILE \<and> file_time_leaf (path_leaf p))) \<and>
     (path_parent_class p = CLASS_ADDITIONAL_DATA \<longrightarrow>
        (path_type p = VALUE_TYPE_DATA \<longleftrightarrow> path_leaf p = ''data''))"

text \<open>The columns of a path in table \<open>t\<close>, by its class.\<close>

definition path_columns_in :: "idmef_path \<Rightarrow> field_context \<Rightarrow> string \<Rightarrow> string list" where
  "path_columns_in p ctx t =
     (let leaf = path_leaf p; cls = path_parent_class p
      in if message_class cls \<and> message_time_leaf leaf
         then (if ctx = FIELD_CONTEXT_SELECT then [t @ ''.time'', t @ ''.gmtoff'', t @ ''.usec''] else [t @ ''.time''])
         else if cls = CLASS_FILE \<and> file_time_leaf leaf
         then (if ctx = FIELD_CONTEXT_SELECT then [t @ ''.'' @ leaf, t @ ''.'' @ leaf @ ''_gmtoff'']
               else [t @ ''.'' @ leaf])
         else if cls = CLASS_ADDITIONAL_DATA \<and> leaf = ''data'' \<and> ctx = FIELD_CONTEXT_SELECT
         then [t @ ''.'' @ leaf, t @ ''.type'']
         else if cls = CLASS_SNMP_SERVICE \<and> leaf = ''oid'' then [t @ ''.snmp_oid'']
         else if cls = CLASS_CHECKSUM \<and> leaf = ''key'' then [t @ ''.checksum_key'']
         else [t @ ''.'' @ leaf])"

lemma field_name_columns:
  "resolve_field_name (search_path p) p ctx t out = out @ join_sep '', '' (path_columns_in p ctx t)"
proof -
  have c: "path_parent_class p \<in> {CLASS_ALERT, CLASS_HEARTBEAT, CLASS_PROCESS, CLASS_SNMP_SERVICE,
      CLASS_WEB_SERVICE, CLASS_CHECKSUM, CLASS_FILE, CLASS_FILE_ACCESS, CLASS_ADDITIONAL_DATA} \<or>
      map_of class_table (path_parent_class p) = None"
    by (simp add: class_table_def)
  note defs = search_path_def class_table_def default_class_def path_columns_in_def message_class_def
    message_time_leaf_def file_time_leaf_def default_field_name_resolver_def Let_def
  show ?thesis
  proof (cases "path_parent_class p = CLASS_ALERT \<or> path_parent_class p = CLASS_HEARTBEAT")
    case True
    then show ?thesis by (auto simp: defs message_field_name_resolver_def time_with_usec_field_name_resolver_def)
  next
    case m: False
    show ?thesis
    proof (cases "path_parent_class p = CLASS_FILE")
      case True
      then show ?thesis by (auto simp: defs file_field_name_resolver_def time_without_usec_field_name_resolver_def)
    next
      case f: False
      show ?thesis
      proof (cases "path_parent_class p = CLASS_ADDITIONAL_DATA")
        case True
        then show ?thesis by (simp add: defs addata_field_name_resolver_def)
      next
        case False
        then show ?thesis using c m f
          by (auto simp: defs snmp_field_name_resolver_def checksum_field_name_resolver_def)
      qed
    qed
  qed
qed

lemma path_columns_in_nonempty:
  "path_columns_in p ctx t \<noteq> []" "c \<in> set (path_columns_in p ctx t) \<Longrightarrow> c \<noteq> []"
  by (auto simp: path_columns_in_def Let_def split: if_splits)

text \<open>The count the selection is told and the columns of a regular path agree.\<close>

lemma path_columns_count:
  assumes "regular_path p" "sp_object sp = Object_path p"
  shows "length (path_columns_in p (get_field_context sp) t) = classic_get_path_column_count sp"
proof (cases "group_by (sp_flags sp)")
  case True
  then show ?thesis using assms(2)
    by (simp add: path_columns_in_def Let_def get_field_context_def classic_get_path_column_count_def)
next
  case False
  have ctx: "get_field_context sp = FIELD_CONTEXT_SELECT"
    using False assms(2) by (simp add: get_field_context_def preludedb_selected_object_is_function_def)
  have mc: "message_class (path_parent_class p) \<longleftrightarrow> path_depth p = 2" using assms(1) by (simp add: regular_path_def)
  have tm: "path_type p = VALUE_TYPE_TIME \<longleftrightarrow> (path_depth p = 2 \<and> message_time_leaf (path_leaf p)) \<or>
      (path_parent_class p = CLASS_FILE \<and> file_time_leaf (path_leaf p))"
    using assms(1) by (simp add: regular_path_def)
  have ad: "path_parent_class p = CLASS_ADDITIONAL_DATA \<longrightarrow>
      (path_type p = VALUE_TYPE_DATA \<longleftrightarrow> path_leaf p = ''data'')"
    using assms(1) by (simp add: regular_path_def)
  show ?thesis
    using ctx False assms(2) mc tm ad
    by (auto simp: path_columns_in_def Let_def classic_get_path_column_count_def message_class_def)
qed

text \<open>Where a path is read from, and the joins afterwards.\<close>

definition path_source :: "path_lib \<Rightarrow> idmef_path \<Rightarrow> sql_join \<Rightarrow> string" where
  "path_source lib p join =
     (if path_depth p = 2 \<and> path_type p \<noteq> VALUE_TYPE_TIME then ''top_table''
      else case classic_sql_join_lookup_table lib join p of
             Some t \<Rightarrow> jt_alias t | None \<Rightarrow> alias_of (next_id join))"

definition path_join :: "path_lib \<Rightarrow> idmef_path \<Rightarrow> sql_join \<Rightarrow> sql_join" where
  "path_join lib p join =
     (if path_depth p = 2 \<and> path_type p \<noteq> VALUE_TYPE_TIME then join
      else case classic_sql_join_lookup_table lib join p of
             Some t \<Rightarrow> join
           | None \<Rightarrow> fst (classic_sql_join_new_table join p (resolve_table_name (search_path p) p)))"

definition resolvable :: "path_lib \<Rightarrow> idmef_path \<Rightarrow> sql_join \<Rightarrow> bool" where
  "resolvable lib p join \<longleftrightarrow>
     (path_depth p = 2 \<and> path_type p \<noteq> VALUE_TYPE_TIME) \<or>
     classic_sql_join_lookup_table lib join p \<noteq> None \<or> join_accepts join p"

lemma resolve_ctx_columns:
  assumes "regular_path p" "resolvable lib p join"
  shows "classic_path_resolve_ctx lib p ctx join out =
    (path_join lib p join, Inr (out @ join_sep '', '' (path_columns_in p ctx (path_source lib p join))))"
proof (cases "path_depth p = 2 \<and> path_type p \<noteq> VALUE_TYPE_TIME")
  case True
  have mc: "message_class (path_parent_class p)" "\<not> message_time_leaf (path_leaf p)"
    using assms(1) True by (auto simp: regular_path_def)
  then have "path_columns_in p ctx ''top_table'' = [''top_table.'' @ path_leaf p]"
    by (auto simp: path_columns_in_def message_class_def Let_def)
  then show ?thesis using True
    by (simp add: classic_path_resolve_ctx_def path_join_def path_source_def default_field_name_resolver_def)
next
  case False
  show ?thesis
  proof (cases "classic_sql_join_lookup_table lib join p")
    case None
    then have acc: "join_accepts join p" using assms(2) False by (auto simp: resolvable_def)
    obtain t where "snd (classic_sql_join_new_table join p (resolve_table_name (search_path p) p)) = Inr t"
      "jt_alias t = alias_of (next_id join)"
      using new_table_ok [OF acc, of "resolve_table_name (search_path p) p"] by blast
    then show ?thesis
      using None False by (auto simp: classic_path_resolve_ctx_def path_join_def path_source_def
          field_name_columns Let_def split: prod.splits)
  next
    case (Some t)
    then show ?thesis
      using False by (auto simp: classic_path_resolve_ctx_def path_join_def path_source_def field_name_columns Let_def)
  qed
qed

lemma path_join_ok:
  assumes "join_ok join" "resolvable lib p join"
  shows "join_ok (path_join lib p join)"
  using assms new_table_join_ok [of join p]
  by (auto simp: path_join_def resolvable_def split: option.splits)

text \<open>The classic format keeps the contract of the SELECT builder on regular paths.\<close>

interpretation classic_cols: path_columns "classic_path_resolve lib" classic_get_path_column_count
    "\<lambda>sp p join. regular_path p \<and> resolvable lib p join"
    "\<lambda>sp p join. path_columns_in p (get_field_context sp) (path_source lib p join)"
    "\<lambda>sp p join. path_join lib p join"
  for lib
  by unfold_locales
    (auto simp: classic_path_resolve_def resolve_ctx_columns path_columns_count path_columns_in_nonempty)

section \<open>The condition of a criteria tree\<close>

text \<open>
  What a criteria tree means, given what each criterion means, and what a reader of SQL makes
  of the text: conditions of one precedence level below another, with parentheses.
\<close>

fun criteria_holds :: "(idmef_path \<Rightarrow> criterion_operator \<Rightarrow> criterion_value \<Rightarrow> bool) \<Rightarrow> idmef_criteria \<Rightarrow> bool" where
  "criteria_holds ev (Criteria p oper v or_c and_c) \<longleftrightarrow>
     (ev p oper v \<and> (case and_c of None \<Rightarrow> True | Some c \<Rightarrow> criteria_holds ev c)) \<or>
     (case or_c of None \<Rightarrow> False | Some c \<Rightarrow> criteria_holds ev c)"

datatype 'a cond_token = Tok_open | Tok_close | Tok_and | Tok_or | Tok_atom 'a

fun token_text :: "('a \<Rightarrow> string) \<Rightarrow> 'a cond_token \<Rightarrow> string" where
  "token_text tx Tok_open = ''(''"
| "token_text tx Tok_close = '')''"
| "token_text tx Tok_and = '' AND ''"
| "token_text tx Tok_or = '' OR ''"
| "token_text tx (Tok_atom a) = tx a"

type_synonym criterion = "idmef_path \<times> criterion_operator \<times> criterion_value"

text \<open>The criterion that a tree starts with, and the tokens of the tree with its atoms.\<close>

fun criteria_tokens :: "idmef_criteria \<Rightarrow> criterion cond_token list" where
  "criteria_tokens (Criteria p oper v or_c and_c) =
     (if or_c \<noteq> None then [Tok_open, Tok_open] else []) @ [Tok_atom (p, oper, v)] @
     (case and_c of None \<Rightarrow> [] | Some c \<Rightarrow> Tok_and # criteria_tokens c) @
     (case or_c of None \<Rightarrow> [] | Some c \<Rightarrow>
        [Tok_close, Tok_or, Tok_open] @ criteria_tokens c @ [Tok_close, Tok_close])"

text \<open>
  Reading a condition: an OR-list of AND-lists of atoms and parenthesised conditions, as SQL
  groups them. The result is the truth value and the rest.
\<close>

inductive reads_or :: "('a \<Rightarrow> bool) \<Rightarrow> 'a cond_token list \<Rightarrow> bool \<Rightarrow> 'a cond_token list \<Rightarrow> bool"
  and reads_and :: "('a \<Rightarrow> bool) \<Rightarrow> 'a cond_token list \<Rightarrow> bool \<Rightarrow> 'a cond_token list \<Rightarrow> bool"
  and reads_prim :: "('a \<Rightarrow> bool) \<Rightarrow> 'a cond_token list \<Rightarrow> bool \<Rightarrow> 'a cond_token list \<Rightarrow> bool"
  for ev :: "'a \<Rightarrow> bool" where
  prim_atom: "reads_prim ev (Tok_atom a # ts) (ev a) ts"
| prim_paren: "reads_or ev ts b (Tok_close # rest) \<Longrightarrow> reads_prim ev (Tok_open # ts) b rest"
| and_last: "reads_prim ev ts b rest \<Longrightarrow> rest = [] \<or> hd rest \<noteq> Tok_and \<Longrightarrow> reads_and ev ts b rest"
| and_more: "reads_prim ev ts b (Tok_and # ts') \<Longrightarrow> reads_and ev ts' b' rest \<Longrightarrow> reads_and ev ts (b \<and> b') rest"
| or_last: "reads_and ev ts b rest \<Longrightarrow> rest = [] \<or> hd rest \<noteq> Tok_or \<Longrightarrow> reads_or ev ts b rest"
| or_more: "reads_and ev ts b (Tok_or # ts') \<Longrightarrow> reads_or ev ts' b' rest \<Longrightarrow> reads_or ev ts (b \<or> b') rest"

inductive_cases reads_prim_atomE [elim!]: "reads_prim ev (Tok_atom a # ts) b rest"
inductive_cases reads_prim_openE [elim!]: "reads_prim ev (Tok_open # ts) b rest"

lemma reads_and_criteria:
  assumes "rest = [] \<or> hd rest = Tok_close"
  shows "reads_and (\<lambda>(p, oper, v). ev p oper v) (criteria_tokens c @ rest) (criteria_holds ev c) rest"
  using assms
proof (induction c arbitrary: rest)
  case (Criteria p oper v or_c and_c)
  let ?ev = "\<lambda>(p, oper, v). ev p oper v"
  let ?and = "case and_c of None \<Rightarrow> [] | Some c \<Rightarrow> Tok_and # criteria_tokens c"
  let ?b = "ev p oper v \<and> (case and_c of None \<Rightarrow> True | Some c \<Rightarrow> criteria_holds ev c)"
  have head: "reads_and ?ev (Tok_atom (p, oper, v) # ?and @ r) ?b r" if r: "r = [] \<or> hd r = Tok_close" for r
  proof (cases and_c)
    case None
    have "reads_prim ?ev (Tok_atom (p, oper, v) # r) (ev p oper v) r"
      using prim_atom [of ?ev "(p, oper, v)" r] by simp
    moreover have "r = [] \<or> hd r \<noteq> Tok_and" using r by auto
    ultimately have "reads_and ?ev (Tok_atom (p, oper, v) # r) (ev p oper v) r" by (rule and_last)
    then show ?thesis using None by simp
  next
    case (Some c)
    have "reads_prim ?ev (Tok_atom (p, oper, v) # Tok_and # criteria_tokens c @ r) (ev p oper v)
        (Tok_and # criteria_tokens c @ r)"
      using prim_atom [of ?ev "(p, oper, v)"] by simp
    from and_more [OF this] show ?thesis using Criteria.IH(2) [of c r] Some r by simp
  qed
  show ?case
  proof (cases or_c)
    case None
    then show ?thesis using head [OF Criteria.prems] by simp
  next
    case (Some c)
    have "reads_or ?ev (Tok_atom (p, oper, v) # ?and @ Tok_close # r) ?b (Tok_close # r)" for r
      by (rule or_last [OF head]) simp_all
    then have p1: "reads_prim ?ev (Tok_open # Tok_atom (p, oper, v) # ?and @ Tok_close # r) ?b r" for r
      by (rule prim_paren)
    have "reads_or ?ev (criteria_tokens c @ Tok_close # r) (criteria_holds ev c) (Tok_close # r)" for r
      by (rule or_last) (use Criteria.IH(1) [of c "Tok_close # r"] Some in auto)
    then have p2: "reads_prim ?ev (Tok_open # criteria_tokens c @ Tok_close # r) (criteria_holds ev c) r" for r
      by (rule prim_paren)
    have "reads_or ?ev (Tok_open # Tok_atom (p, oper, v) # ?and @
        Tok_close # Tok_or # Tok_open # criteria_tokens c @ Tok_close # Tok_close # rest)
        (?b \<or> criteria_holds ev c) (Tok_close # rest)"
      by (rule or_more [OF and_last [OF p1] or_last [OF and_last [OF p2]]]) simp_all
    then have "reads_prim ?ev (Tok_open # Tok_open # Tok_atom (p, oper, v) # ?and @
        Tok_close # Tok_or # Tok_open # criteria_tokens c @ Tok_close # Tok_close # rest)
        (?b \<or> criteria_holds ev c) rest"
      by (rule prim_paren)
    then have "reads_and ?ev (Tok_open # Tok_open # Tok_atom (p, oper, v) # ?and @
        Tok_close # Tok_or # Tok_open # criteria_tokens c @ Tok_close # Tok_close # rest)
        (?b \<or> criteria_holds ev c) rest"
      by (rule and_last) (use Criteria.prems in auto)
    then show ?thesis using Some by simp
  qed
qed

lemma reads_or_criteria:
  "reads_or (\<lambda>(p, oper, v). ev p oper v) (criteria_tokens c) (criteria_holds ev c) []"
  using or_last [OF reads_and_criteria [of "[]" ev c]] by simp

text \<open>The reader has one result only.\<close>

lemma reads_det:
  "reads_or ev ts b rest \<Longrightarrow> reads_or ev ts b' rest' \<Longrightarrow> b' = b \<and> rest' = rest"
  "reads_and ev ts b rest \<Longrightarrow> reads_and ev ts b' rest' \<Longrightarrow> b' = b \<and> rest' = rest"
  "reads_prim ev ts b rest \<Longrightarrow> reads_prim ev ts b' rest' \<Longrightarrow> b' = b \<and> rest' = rest"
proof (induction arbitrary: b' rest' and b' rest' and b' rest'
    rule: reads_or_reads_and_reads_prim.inducts)
  case (prim_atom a ts)
  then show ?case by blast
next
  case (prim_paren ts b rest)
  then show ?case by blast
next
  case (and_last ts b rest)
  note ih = and_last.IH(2) and h = and_last.hyps
  from and_last.prems show ?case
  proof (cases rule: reads_and.cases)
    case and_last
    then show ?thesis using ih by blast
  next
    case (and_more b3 ts3 b4)
    have "rest = Tok_and # ts3" using ih [OF and_more(2)] by simp
    then show ?thesis using h by simp
  qed
next
  case (and_more ts b ts' b2 rest)
  note ih = and_more.IH(2) and_more.IH(4)
  from and_more.prems show ?case
  proof (cases rule: reads_and.cases)
    case and_last
    have "rest' = Tok_and # ts'" using ih(1) [OF and_last(1)] by simp
    then show ?thesis using and_last(2) by simp
  next
    case (and_more b3 ts3 b4)
    have "b3 = b" "ts3 = ts'" using ih(1) [OF and_more(2)] by auto
    then show ?thesis using ih(2) and_more by blast
  qed
next
  case (or_last ts b rest)
  note ih = or_last.IH(2) and h = or_last.hyps
  from or_last.prems show ?case
  proof (cases rule: reads_or.cases)
    case or_last
    then show ?thesis using ih by blast
  next
    case (or_more b3 ts3 b4)
    have "rest = Tok_or # ts3" using ih [OF or_more(2)] by simp
    then show ?thesis using h by simp
  qed
next
  case (or_more ts b ts' b2 rest)
  note ih = or_more.IH(2) or_more.IH(4)
  from or_more.prems show ?case
  proof (cases rule: reads_or.cases)
    case or_last
    have "rest' = Tok_or # ts'" using ih(1) [OF or_last(1)] by simp
    then show ?thesis using or_last(2) by simp
  next
    case (or_more b3 ts3 b4)
    have "b3 = b" "ts3 = ts'" using ih(1) [OF or_more(2)] by auto
    then show ?thesis using ih(2) or_more by blast
  qed
qed

text \<open>
  The text of a criteria tree: its tokens, with a text for every criterion that the builder
  produced for it in some state of the session and of the joins.
\<close>

fun fill_tokens :: "'a cond_token list \<Rightarrow> string list \<Rightarrow> string" where
  "fill_tokens [] txts = []"
| "fill_tokens (Tok_atom a # ts) (t # txts) = t @ fill_tokens ts txts"
| "fill_tokens (Tok_atom a # ts) [] = []"
| "fill_tokens (tok # ts) txts = token_text (\<lambda>_. []) tok @ fill_tokens ts txts"

fun token_atoms :: "'a cond_token list \<Rightarrow> 'a list" where
  "token_atoms [] = []"
| "token_atoms (Tok_atom a # ts) = a # token_atoms ts"
| "token_atoms (tok # ts) = token_atoms ts"

lemma fill_tokens_append:
  "length (token_atoms ts) = length txts \<Longrightarrow>
     fill_tokens (ts @ us) (txts @ uxts) = fill_tokens ts txts @ fill_tokens us uxts"
  by (induction ts txts rule: fill_tokens.induct) auto

lemma token_atoms_append [simp]: "token_atoms (ts @ us) = token_atoms ts @ token_atoms us"
  by (induction ts rule: token_atoms.induct) auto

definition criterion_text ::
    "path_lib \<Rightarrow> idmef_lib \<Rightarrow> ('w, 'd) preludedb_plugin_sql \<Rightarrow> criterion \<Rightarrow> string \<Rightarrow> bool" where
  "criterion_text lib il plugin c txt \<longleftrightarrow>
     (\<exists>s join s' join'. sql_plugin s = plugin \<and>
        classic_path_resolve_criterion lib il s join (fst c) (fst (snd c)) (snd (snd c)) [] = (s', join', Inr txt))"

context sql_backend
begin

lemma criterion_appends:
  assumes "sql_plugin s = plugin"
    and "classic_path_resolve_criterion lib il s join p oper v out = (s', join', Inr out')"
  shows "sql_plugin s' = plugin \<and> (\<exists>txt. out' = out @ txt \<and> criterion_text lib il plugin (p, oper, v) txt)"
proof -
  obtain f where f: "classic_path_resolve_ctx lib p FIELD_CONTEXT_WHERE join [] = (join', Inr f)"
    "preludedb_sql_build_criterion_string il s out f oper v = (s', Inr out')"
    using assms(2) by (auto simp: classic_path_resolve_criterion_def split: prod.splits sum.splits)
  obtain tx where t: "preludedb_sql_build_criterion_string il s [] f oper v = (s', Inr tx)" "out' = out @ tx"
    using f(2) criterion_string_extends [OF assms(1), of il out f oper v]
    by (cases "snd (preludedb_sql_build_criterion_string il s [] f oper v)") (auto simp: split_beta prod_eq_iff)
  have "classic_path_resolve_criterion lib il s join p oper v [] = (s', join', Inr tx)"
    using f(1) t(1) by (simp add: classic_path_resolve_criterion_def)
  then have "criterion_text lib il plugin (p, oper, v) tx"
    unfolding criterion_text_def using assms(1) by auto
  moreover have "sql_plugin s' = plugin"
    using criterion_string_plugin [of il s out f oper v] f(2) assms(1) by simp
  ultimately show ?thesis using t(2) by blast
qed

lemma criteria_appends:
  assumes "sql_plugin s = plugin"
    and "classic_path_resolve_criteria lib il s join c out = (s', join', Inr out')"
  shows "sql_plugin s' = plugin \<and> (\<exists>txts. out' = out @ fill_tokens (criteria_tokens c) txts \<and>
    list_all2 (criterion_text lib il plugin) (token_atoms (criteria_tokens c)) txts)"
  using assms
proof (induction c arbitrary: s join out s' join' out')
  case (Criteria p oper v or_c and_c)
  let ?o = "if or_c \<noteq> None then ''(('' else []"
  obtain s1 join1 out1 where c1: "classic_path_resolve_criterion lib il s join p oper v (out @ ?o) = (s1, join1, Inr out1)"
    using Criteria.prems(2) by (cases or_c) (auto split: prod.splits sum.splits)
  obtain t where t: "sql_plugin s1 = plugin" "out1 = out @ ?o @ t" "criterion_text lib il plugin (p, oper, v) t"
    using criterion_appends [OF Criteria.prems(1) c1] by auto
  let ?and = "case and_c of None \<Rightarrow> [] | Some c \<Rightarrow> Tok_and # criteria_tokens c"
  have c1': "classic_path_resolve_criterion lib il s join p oper v (if or_c \<noteq> None then out @ ''(('' else out) =
      (s1, join1, Inr out1)" using c1 by (cases or_c) simp_all
  obtain s2 join2 out2 where c2: "(case and_c of None \<Rightarrow> (s1, join1, Inr out1)
      | Some c \<Rightarrow> classic_path_resolve_criteria lib il s1 join1 c (out1 @ '' AND '')) = (s2, join2, Inr out2)"
    using Criteria.prems(2) c1' by (auto split: prod.splits sum.splits)
  have a: "sql_plugin s2 = plugin \<and> (\<exists>txts. out2 = out1 @ fill_tokens ?and txts \<and>
      list_all2 (criterion_text lib il plugin) (token_atoms ?and) txts)"
  proof (cases and_c)
    case None
    then show ?thesis using c2 t(1) by simp
  next
    case (Some c)
    then show ?thesis using Criteria.IH(2) [of c s1 join1 "out1 @ '' AND ''" s2 join2 out2] c2 t(1) by auto
  qed
  then obtain atx where a': "sql_plugin s2 = plugin" "out2 = out1 @ fill_tokens ?and atx"
    "list_all2 (criterion_text lib il plugin) (token_atoms ?and) atx" by blast
  have la: "length (token_atoms ?and) = length atx" using a'(3) by (rule list_all2_lengthD)
  show ?case
  proof (cases or_c)
    case None
    then have "s' = s2" "out' = out2" using Criteria.prems(2) c1' c2 by auto
    then show ?thesis using None a' t by (intro conjI exI [of _ "t # atx"]) simp_all
  next
    case (Some c)
    obtain out3 where c3: "classic_path_resolve_criteria lib il s2 join2 c (out2 @ '') OR ('') = (s', join', Inr out3)"
      "out' = out3 @ ''))''"
      using Criteria.prems(2) c1' c2 Some by (auto split: prod.splits sum.splits)
    obtain otx where o': "sql_plugin s' = plugin" "out3 = (out2 @ '') OR ('') @ fill_tokens (criteria_tokens c) otx"
      "list_all2 (criterion_text lib il plugin) (token_atoms (criteria_tokens c)) otx"
      using Criteria.IH(1) [of c s2 join2 "out2 @ '') OR (''" s' join' out3] Some a'(1) c3(1) by auto
    have lo: "length (token_atoms (criteria_tokens c)) = length otx" using o'(3) by (rule list_all2_lengthD)
    have fo: "fill_tokens (criteria_tokens c @ [Tok_close, Tok_close]) otx = fill_tokens (criteria_tokens c) otx @ ''))''"
      using fill_tokens_append [OF lo, of "[Tok_close, Tok_close]" "[]"] by simp
    have "fill_tokens (?and @ Tok_close # Tok_or # Tok_open # criteria_tokens c @ [Tok_close, Tok_close]) (atx @ otx) =
        fill_tokens ?and atx @ '') OR ('' @ fill_tokens (criteria_tokens c) otx @ ''))''"
      using fill_tokens_append [OF la] fo by simp
    then have "out' = out @ fill_tokens (criteria_tokens (Criteria p oper v or_c and_c)) (t # atx @ otx)"
      using Some c3(2) o'(2) a'(2) t(2) by simp
    moreover have "list_all2 (criterion_text lib il plugin)
        (token_atoms (criteria_tokens (Criteria p oper v or_c and_c))) (t # atx @ otx)"
      using Some a'(3) o'(3) t(3) by (simp add: list_all2_appendI)
    ultimately show ?thesis using o'(1) by blast
  qed
qed

end

end
