(* ===== verification/Sql_Fetch.thy ===== *)
theory Sql_Fetch
  imports Sql_Core Plugin_Mysql Plugin_Pgsql Plugin_Sqlite
begin

text \<open>
  Reading a result table (src/preludedb-sql.c): \<open>preludedb_sql_table_get_row\<close>,
  \<open>preludedb_sql_row_get_field\<close> and the row count. A row is returned as its index in the
  table, a field as its column. Every function takes the session and the table and returns
  both, since a lost connection is noted in the session.
\<close>

section \<open>Rows\<close>

text \<open>\<open>(unsigned int) -1\<close> asks for the next row.\<close>

definition NEXT_ROW :: nat where
  "NEXT_ROW = 2 ^ 32 - 1"

definition preludedb_sql_table_get_row ::
    "('w, 'd) sql \<Rightarrow> 'd sql_table \<Rightarrow> nat \<Rightarrow> ('w, 'd) sql \<times> 'd sql_table \<times> (db_error + nat option)" where
  "preludedb_sql_table_get_row s t row_index =
     (let i = (if row_index = NEXT_ROW then nrow t else row_index)
      in case row_at t i of
           Some row \<Rightarrow> (s, t, Inr (Some i))
         | None \<Rightarrow>
             if tdone t
             then (if i = nrow t then (s, t, Inr None)
                   else (let e = preludedb_error_verbose PRELUDEDB_ERROR_INDEX
                                   (''Invalid row '' @ CHR 0x27 # dec_nat i @ [CHR 0x27])
                         in (note_error e s, t, Inl e)))
             else (case plugin_sql_fetch_row (sql_plugin s) (session s) t i of
                     (t', Inl e) \<Rightarrow> (update_sql_from_errno (note_error e s) e, t', Inl e)
                   | (t', Inr b) \<Rightarrow>
                       if b then (s, t', Inr (Some i)) else (s, t'\<lparr>tdone := True\<rparr>, Inr None)))"

definition preludedb_sql_table_fetch_row ::
    "('w, 'd) sql \<Rightarrow> 'd sql_table \<Rightarrow> ('w, 'd) sql \<times> 'd sql_table \<times> (db_error + nat option)" where
  "preludedb_sql_table_fetch_row s t = preludedb_sql_table_get_row s t NEXT_ROW"

text \<open>The loop that fetches every row; \<open>None\<close> when it never ends.\<close>

partial_function (option) fetch_all_rows ::
    "('w, 'd) sql \<Rightarrow> 'd sql_table \<Rightarrow> (('w, 'd) sql \<times> 'd sql_table) option" where
  "fetch_all_rows s t =
     (case preludedb_sql_table_fetch_row s t of
        (s', t', ret) \<Rightarrow>
          (case ret of
             Inl e \<Rightarrow> Some (s', t')
           | Inr None \<Rightarrow> Some (s', t')
           | Inr (Some i) \<Rightarrow> fetch_all_rows s' t'))"

text \<open>
  The plugin's count is returned as an \<open>int\<close>: a result of \<open>2 ^ 31\<close> rows or more is taken for
  an error number. An error is returned through the \<open>unsigned int\<close> result.
\<close>

definition preludedb_sql_table_get_row_count ::
    "('w, 'd) sql \<Rightarrow> 'd sql_table \<Rightarrow> (('w, 'd) sql \<times> 'd sql_table \<times> (db_error + nat)) option" where
  "preludedb_sql_table_get_row_count s t =
     (if row_count t \<noteq> 0 then Some (s, t, Inr (row_count t))
      else case plugin_sql_get_row_count (sql_plugin s) (tdata t) of
             Inr n \<Rightarrow>
               if n < 2 ^ 31 then Some (s, t\<lparr>row_count := n\<rparr>, Inr n) else Some (s, t, Inl Undefined)
           | Inl e \<Rightarrow>
               (case e of
                  Err src code m \<Rightarrow>
                    if code = PRELUDE_ERROR_ENOSYS
                    then (case fetch_all_rows (note_error e s) t of
                            None \<Rightarrow> None
                          | Some (s', t') \<Rightarrow> Some (s', t'\<lparr>row_count := nrow t'\<rparr>, Inr (nrow t')))
                    else Some (note_error e s, t, Inl e)
                | _ \<Rightarrow> Some (s, t, Inl e)))"

definition preludedb_sql_table_get_column_name ::
    "('w, 'd) sql \<Rightarrow> 'd sql_table \<Rightarrow> nat \<Rightarrow> string option" where
  "preludedb_sql_table_get_column_name s t column_num =
     p_get_column_name (sql_plugin s) (tdata t) column_num"

definition preludedb_sql_table_get_column_num ::
    "('w, 'd) sql \<Rightarrow> 'd sql_table \<Rightarrow> string \<Rightarrow> db_error + nat" where
  "preludedb_sql_table_get_column_num s t name = p_get_column_num (sql_plugin s) (tdata t) name"

section \<open>Fields\<close>

text \<open>
  A negative column counts from the end: \<open>ccount - (-column_num)\<close> in \<open>unsigned int\<close>. The
  comparison with \<open>ccount\<close> is unsigned too. Negating the smallest \<open>int\<close> is undefined.
\<close>

definition column_index :: "nat \<Rightarrow> int \<Rightarrow> nat" where
  "column_index ccount column_num =
     nat ((if column_num < 0 then int ccount + column_num else column_num) mod 2 ^ 32)"

definition as_int32 :: "nat \<Rightarrow> int" where
  "as_int32 n = (if n < 2 ^ 31 then int n else int n - 2 ^ 32)"

definition preludedb_sql_row_get_field ::
    "('w, 'd) sql \<Rightarrow> 'd sql_table \<Rightarrow> nat \<Rightarrow> int \<Rightarrow> ('w, 'd) sql \<times> 'd sql_table \<times> (db_error + nat option)" where
  "preludedb_sql_row_get_field s t i column_num =
     (let (t1, ccount) = preludedb_sql_table_get_column_count (p_get_column_count (sql_plugin s)) t;
          c = column_index ccount column_num
      in if column_num = - (2 ^ 31) then (s, t1, Inl Undefined)
         else if c \<ge> ccount
         then (let e = prelude_error_verbose PRELUDEDB_ERROR_INDEX
                         (''Attempt to access invalid column `'' @ dec_int (as_int32 c) @
                          ''` (max is `'' @ dec_int (as_int32 ccount) @ ''`)'')
               in (note_error e s, t1, Inl e))
         else case row_at t1 i of
                None \<Rightarrow> (s, t1, Inl Undefined)
              | Some row \<Rightarrow>
                  (case row_fields row ! c of
                     SQL_NULL_FIELD \<Rightarrow> (s, t1, Inr None)
                   | Field v l \<Rightarrow> (s, t1, Inr (Some c))
                   | Unset \<Rightarrow>
                       (case plugin_sql_fetch_field (sql_plugin s) (session s) t1 i c of
                          (t', Inl e) \<Rightarrow> (update_sql_from_errno (note_error e s) e, t', Inl e)
                        | (t', Inr b) \<Rightarrow> (s, t', Inr (if b then Some c else None)))))"

definition preludedb_sql_row_get_field_by_name ::
    "('w, 'd) sql \<Rightarrow> 'd sql_table \<Rightarrow> nat \<Rightarrow> string \<Rightarrow> ('w, 'd) sql \<times> 'd sql_table \<times> (db_error + nat option)" where
  "preludedb_sql_row_get_field_by_name s t i name =
     (case preludedb_sql_table_get_column_num s t name of
        Inl e \<Rightarrow> (note_error e s, t, Inl e)
      | Inr c \<Rightarrow> preludedb_sql_row_get_field s t i (int c))"

definition preludedb_sql_row_fetch_field ::
    "('w, 'd) sql \<Rightarrow> 'd sql_table \<Rightarrow> nat \<Rightarrow> int \<Rightarrow> ('w, 'd) sql \<times> 'd sql_table \<times> (db_error + nat option)" where
  "preludedb_sql_row_fetch_field s t i column_num = preludedb_sql_row_get_field s t i column_num"

definition preludedb_sql_row_fetch_field_by_name ::
    "('w, 'd) sql \<Rightarrow> 'd sql_table \<Rightarrow> nat \<Rightarrow> string \<Rightarrow> ('w, 'd) sql \<times> 'd sql_table \<times> (db_error + nat option)" where
  "preludedb_sql_row_fetch_field_by_name s t i column_name = preludedb_sql_row_get_field_by_name s t i column_name"

definition preludedb_sql_row_get_field_count :: "('w, 'd) sql \<Rightarrow> 'd sql_table \<Rightarrow> 'd sql_table \<times> nat" where
  "preludedb_sql_row_get_field_count s t = preludedb_sql_table_get_column_count (p_get_column_count (sql_plugin s)) t"

text \<open>The contents of the field that a call returned.\<close>

definition field_at :: "'d sql_table \<Rightarrow> nat \<Rightarrow> nat \<Rightarrow> field_slot" where
  "field_at t i c = (case row_at t i of None \<Rightarrow> Unset | Some row \<Rightarrow> row_fields row ! c)"

text \<open>The field as the conversions see it.\<close>

definition slot_field :: "field_slot \<Rightarrow> nat \<Rightarrow> sql_field" where
  "slot_field sl c =
     (case sl of Field v l \<Rightarrow> \<lparr>fvalue = v, flen = l, findex = c\<rparr> | _ \<Rightarrow> \<lparr>fvalue = [], flen = 0, findex = c\<rparr>)"

section \<open>Reading through a cursor\<close>

context cursor
begin

lemma holds_cc:
  assumes "holds t cs"
  shows "holds (fst (preludedb_sql_table_get_column_count cc t)) cs"
    and "tdata (fst (preludedb_sql_table_get_column_count cc t)) = tdata t"
    and "tdone (fst (preludedb_sql_table_get_column_count cc t)) = tdone t"
  using assms
  by (auto simp: holds_def preludedb_sql_table_get_column_count_def Let_def)

lemma holds_row_at: "holds t cs \<Longrightarrow> i < length cs \<Longrightarrow> row_at t i \<noteq> None"
  by (auto simp: holds_def)

lemma holds_row_at_None: "holds t cs \<Longrightarrow> length cs \<le> i \<Longrightarrow> row_at t i = None"
  by (simp add: holds_def row_at_def)

text \<open>
  \<open>serves s\<close>: the session's plugin fetches through this cursor. The table handed to the loop
  may have its column count cached first.
\<close>

definition serves :: "('w, 'd) sql \<Rightarrow> bool" where
  "serves s \<longleftrightarrow> (\<forall>t i. plugin_sql_fetch_row (sql_plugin s) (session s) t i = seq_fetch_row cc nxt t i) \<or>
     (\<forall>t i. plugin_sql_fetch_row (sql_plugin s) (session s) t i =
        seq_fetch_row cc nxt (fst (preludedb_sql_table_get_column_count cc t)) i)"

lemma get_row_holds:
  assumes sv: "serves s" and h: "holds t cs" and p: "pending (tdata t) = ps" and d: "\<not> tdone t"
    and n: "length cs + length ps < 2 ^ 32" and i: "i \<noteq> NEXT_ROW"
  shows "\<exists>t' cs' ps'. preludedb_sql_table_get_row s t i =
           (s, t', Inr (if i < length cs + length ps then Some i else None)) \<and>
         cs @ ps = cs' @ ps' \<and> holds t' cs' \<and> pending (tdata t') = ps' \<and>
         tdone t' = (\<not> i < length cs + length ps) \<and> (i < length cs + length ps \<longrightarrow> i < length cs')"
proof (cases "i < length cs")
  case True
  then obtain r where "row_at t i = Some r" using holds_row_at [OF h] by blast
  then show ?thesis
    using True h p d i
    by (intro exI [of _ t] exI [of _ cs] exI [of _ ps]) (simp add: preludedb_sql_table_get_row_def Let_def)
next
  case False
  then have le: "length cs \<le> i" by simp
  have none: "row_at t i = None" using holds_row_at_None [OF h le] .
  obtain t0 where t0: "holds t0 cs" "pending (tdata t0) = ps" "tdone t0 = tdone t"
    "plugin_sql_fetch_row (sql_plugin s) (session s) t i = seq_fetch_row cc nxt t0 i"
    using sv h p holds_cc [OF h] unfolding serves_def by metis
  have "nrow t0 \<le> i" using t0(1) le by (simp add: holds_def)
  then have f: "plugin_sql_fetch_row (sql_plugin s) (session s) t i = seq_fetch cc nxt t0 i"
    using t0(4) by (simp add: seq_fetch_row_def)
  obtain t' cs' ps' where r: "cs @ ps = cs' @ ps'" "holds t' cs'" "pending (tdata t') = ps'"
    "tdone t' = tdone t0" "seq_fetch cc nxt t0 i = (t', Inr (i < length cs + length ps))"
    "length cs' = min (Suc i) (length cs + length ps)"
    using seq_fetch_holds [OF t0(1,2) n le] by blast
  have hd: "holds (t'\<lparr>tdone := b\<rparr>) cs'" for b using r(2) by (simp add: holds_def)
  show ?thesis
  proof (cases "i < length cs + length ps")
    case True
    then show ?thesis
      using none d i f r t0(3)
      by (intro exI [of _ t'] exI [of _ cs'] exI [of _ ps'])
        (simp add: preludedb_sql_table_get_row_def Let_def)
  next
    case False
    then show ?thesis
      using none d i f r t0(3) hd
      by (intro exI [of _ "t'\<lparr>tdone := True\<rparr>"] exI [of _ cs'] exI [of _ ps'])
        (simp add: preludedb_sql_table_get_row_def Let_def)
  qed
qed

lemma fetch_row_is_get_row:
  "nrow t \<noteq> NEXT_ROW \<Longrightarrow> preludedb_sql_table_fetch_row s t = preludedb_sql_table_get_row s t (nrow t)"
  by (simp add: preludedb_sql_table_fetch_row_def preludedb_sql_table_get_row_def)

text \<open>One row after the other: the next one, or none when the result is exhausted.\<close>

lemma fetch_row_end:
  assumes sv: "serves s" and h: "holds t cs" and p: "pending (tdata t) = []" and n: "length cs < NEXT_ROW"
  shows "\<exists>t'. preludedb_sql_table_fetch_row s t = (s, t', Inr None) \<and> holds t' cs \<and> pending (tdata t') = [] \<and> tdone t'"
proof -
  have nr: "nrow t = length cs" using h by (simp add: holds_def)
  have fr: "preludedb_sql_table_fetch_row s t = preludedb_sql_table_get_row s t (length cs)"
    using nr n fetch_row_is_get_row [of t s] by simp
  have none: "row_at t (length cs) = None" using holds_row_at_None [OF h] by simp
  show ?thesis
  proof (cases "tdone t")
    case True
    then show ?thesis using fr none nr n h p by (auto simp: preludedb_sql_table_get_row_def)
  next
    case False
    obtain t0 where t0: "holds t0 cs" "pending (tdata t0) = []"
      "plugin_sql_fetch_row (sql_plugin s) (session s) t (length cs) = seq_fetch_row cc nxt t0 (length cs)"
      using sv h p holds_cc [OF h] unfolding serves_def by metis
    have "nrow t0 = length cs" using t0(1) by (simp add: holds_def)
    moreover have "nxt (tdata t0) = Next_done" using t0(1,2) nxt_nil by (simp add: holds_def)
    ultimately have "seq_fetch_row cc nxt t0 (length cs) = (t0, Inr False)"
      by (simp add: seq_fetch_row_def seq_fetch.simps [of cc nxt t0])
    then have "preludedb_sql_table_fetch_row s t = (s, t0\<lparr>tdone := True\<rparr>, Inr None)"
      using fr t0(3) False n none by (simp add: preludedb_sql_table_get_row_def)
    moreover have "holds (t0\<lparr>tdone := True\<rparr>) cs" using t0(1) by (simp add: holds_def)
    ultimately show ?thesis using t0(2) by simp
  qed
qed

lemma fetch_row_next:
  assumes sv: "serves s" and h: "holds t cs" and p: "pending (tdata t) = c # ps" and d: "\<not> tdone t"
    and n: "length cs + length ps < 2 ^ 32 - 2"
  shows "\<exists>t'. preludedb_sql_table_fetch_row s t = (s, t', Inr (Some (length cs))) \<and> holds t' (cs @ [c]) \<and>
    pending (tdata t') = ps \<and> \<not> tdone t'"
proof -
  have nr: "nrow t = length cs" using h by (simp add: holds_def)
  have ne: "length cs \<noteq> NEXT_ROW" using n by (simp add: NEXT_ROW_def)
  have fr: "preludedb_sql_table_fetch_row s t = preludedb_sql_table_get_row s t (length cs)"
    using nr ne fetch_row_is_get_row [of t s] by simp
  have none: "row_at t (length cs) = None" using holds_row_at_None [OF h] by simp
  obtain t0 where t0: "holds t0 cs" "pending (tdata t0) = c # ps" "tdone t0 = tdone t"
    "plugin_sql_fetch_row (sql_plugin s) (session s) t (length cs) = seq_fetch_row cc nxt t0 (length cs)"
    using sv h p holds_cc [OF h] unfolding serves_def by metis
  have b: "length cs + length (c # ps) < 2 ^ 32" using n by simp
  obtain t2 cs2 ps2 where q: "cs @ c # ps = cs2 @ ps2" "holds t2 cs2" "pending (tdata t2) = ps2" "tdone t2 = tdone t0"
    "seq_fetch cc nxt t0 (length cs) = (t2, Inr True)" "length cs2 = Suc (length cs)"
    using seq_fetch_holds [OF t0(1,2) b order_refl] by (auto simp: min_def)
  have "seq_fetch_row cc nxt t0 (length cs) = (t2, Inr True)"
    using q(5) t0(1) by (simp add: seq_fetch_row_def holds_def)
  then have "preludedb_sql_table_fetch_row s t = (s, t2, Inr (Some (length cs)))"
    using fr t0(4) d ne none by (simp add: preludedb_sql_table_get_row_def Let_def)
  moreover have "cs2 = cs @ [c]" "ps2 = ps"
    using q(1,6) by (metis append.assoc append_Cons append_Nil append_eq_append_conv length_append_singleton)+
  ultimately show ?thesis using q t0(3) d by auto
qed

text \<open>Fetching until the table is done ends with every row, in the order of the result.\<close>

lemma fetch_all_holds:
  assumes "serves s" "holds t cs" "pending (tdata t) = ps" "\<not> tdone t" "length cs + length ps < 2 ^ 32 - 1"
  shows "\<exists>t'. fetch_all_rows s t = Some (s, t') \<and> holds t' (cs @ ps) \<and> tdone t'"
  using assms
proof (induction ps arbitrary: t cs)
  case Nil
  have "length cs < NEXT_ROW" using Nil.prems(5) by (simp add: NEXT_ROW_def)
  then show ?case using fetch_row_end [OF Nil.prems(1-3)] by (subst fetch_all_rows.simps) auto
next
  case (Cons c ps)
  have "length cs + length ps < 2 ^ 32 - 2" using Cons.prems(5) by simp
  then obtain t' where t': "preludedb_sql_table_fetch_row s t = (s, t', Inr (Some (length cs)))"
    "holds t' (cs @ [c])" "pending (tdata t') = ps" "\<not> tdone t'"
    using fetch_row_next [OF Cons.prems(1-4)] by blast
  have "length (cs @ [c]) + length ps < 2 ^ 32 - 1" using Cons.prems(5) by simp
  from Cons.IH [OF Cons.prems(1) t'(2-4) this] t'(1) show ?case
    by (subst fetch_all_rows.simps) simp
qed

end

section \<open>The three backends\<close>

text \<open>What a cell becomes as a field of a row.\<close>

definition cell_slot :: "string option \<Rightarrow> field_slot" where
  "cell_slot cell = (case cell of None \<Rightarrow> SQL_NULL_FIELD | Some v \<Rightarrow> Field v (length v))"

lemma slot_matches_set: "slot_matches cell slot \<Longrightarrow> slot \<noteq> Unset \<Longrightarrow> slot = cell_slot cell"
  by (auto simp: slot_matches_def cell_slot_def)

lemma slot_matches_cell_slot [simp]: "slot_matches cell (cell_slot cell)"
  by (cases cell) (auto simp: slot_matches_def cell_slot_def)

lemma new_field_cell:
  "preludedb_sql_row_new_field row c (cell_value cell) =
     (row\<lparr>row_fields := (row_fields row)[c := cell_slot cell]\<rparr>, if cell = None then 0 else 1)"
  by (cases cell) (auto simp: preludedb_sql_row_new_field_def cell_value_def cell_slot_def)

lemma column_index_nonneg: "c < 2 ^ 31 \<Longrightarrow> column_index n (int c) = c"
  by (simp add: column_index_def nat_mod_distrib)

lemma mysql_serves:
  "sql_plugin s = mysql_plugin my \<Longrightarrow> mycur.serves s"
  by (simp add: mycur.serves_def mysql_plugin_def plugin_sql_fetch_row_def mysql_fetch_row_def split_beta)

lemma sqlite_serves:
  "sql_plugin s = sqlite_plugin lib rx \<Longrightarrow> litecur.serves s"
  by (simp add: litecur.serves_def sqlite_plugin_def plugin_sql_fetch_row_def sqlite_fetch_row_def)

lemma list_all2_update:
  "list_all2 P xs ys \<Longrightarrow> c < length xs \<Longrightarrow> P (xs ! c) y \<Longrightarrow> list_all2 P xs (ys[c := y])"
  by (simp add: list_all2_conv_all_nth nth_list_update)

text \<open>Reading a field of a row that MySQL has handed out.\<close>

lemma mysql_get_field_holds:
  assumes pl: "sql_plugin s = mysql_plugin my" and h: "mycur.holds t cs" and i: "i < length cs"
    and c: "c < length (my_fields (tdata t))" "c < 2 ^ 31"
  shows "\<exists>t'. preludedb_sql_row_get_field s t i (int c) =
           (s, t', Inr (if cs ! i ! c = None then None else Some c)) \<and>
         field_at t' i c = cell_slot (cs ! i ! c)"
proof -
  let ?t = "fst (preludedb_sql_table_get_column_count mysql_get_column_count t)"
  have cc: "snd (preludedb_sql_table_get_column_count mysql_get_column_count t) = length (my_fields (tdata t))"
    using h by (auto simp: mycur.holds_def preludedb_sql_table_get_column_count_def Let_def mysql_get_column_count_def)
  have t: "mycur.holds ?t cs" "tdata ?t = tdata t" using mycur.holds_cc [OF h] by auto
  obtain r where r: "row_at ?t i = Some r" "mysql_good (tdata t) r (cs ! i)"
    using t i by (auto simp: mycur.holds_def)
  have sm: "slot_matches (cs ! i ! c) (row_fields r ! c)" and lc: "c < length (row_fields r)"
    using r(2) c by (auto simp: mysql_good_def list_all2_conv_all_nth)
  have cell: "my_rows (tdata t) ! row_data r ! c = cs ! i ! c" using r(2) by (simp add: mysql_good_def)
  have pc: "p_get_column_count (sql_plugin s) = mysql_get_column_count"
    "plugin_sql_fetch_field (sql_plugin s) (session s) = mysql_fetch_field (session s)"
    unfolding pl by (auto simp: mysql_plugin_def plugin_sql_fetch_field_def fun_eq_iff)
  show ?thesis
  proof (cases "row_fields r ! c = Unset")
    case False
    then have sl: "row_fields r ! c = cell_slot (cs ! i ! c)" using slot_matches_set [OF sm] by simp
    show ?thesis
      using r(1) c cc sl False
      by (intro exI [of _ ?t]) (auto simp: preludedb_sql_row_get_field_def pc Let_def split_beta
          column_index_nonneg field_at_def cell_slot_def split: option.splits)
  next
    case True
    let ?r = "r\<lparr>row_fields := (row_fields r)[c := cell_slot (cs ! i ! c)]\<rparr>"
    have "mysql_fetch_field (session s) ?t i c = (set_row ?t i (Some ?r), Inr (cs ! i ! c \<noteq> None))"
      using r(1) t(2) c cell by (auto simp: mysql_fetch_field_def new_field_cell preludedb_sql_row_get_data_def Let_def)
    then show ?thesis
      using r(1) c cc True lc row_at_nrow [OF r(1)]
      by (intro exI [of _ "set_row ?t i (Some ?r)"])
        (auto simp: preludedb_sql_row_get_field_def pc Let_def split_beta column_index_nonneg field_at_def)
  qed
qed

text \<open>With SQLite the fields are filled with the row.\<close>

lemma sqlite_get_field_holds:
  assumes pl: "sql_plugin s = sqlite_plugin lib rx" and h: "litecur.holds t cs" and i: "i < length cs"
    and c: "c < length (st_columns (tdata t))" "c < 2 ^ 31"
  shows "\<exists>t'. preludedb_sql_row_get_field s t i (int c) =
           (s, t', Inr (if cs ! i ! c = [] then None else Some c)) \<and>
         field_at t' i c = sqlite_slot (cs ! i ! c) \<and> litecur.holds t' cs \<and> tdata t' = tdata t \<and> tdone t' = tdone t"
proof -
  let ?t = "fst (preludedb_sql_table_get_column_count sqlite_get_column_count t)"
  have cc: "snd (preludedb_sql_table_get_column_count sqlite_get_column_count t) = length (st_columns (tdata t))"
    using h by (auto simp: litecur.holds_def preludedb_sql_table_get_column_count_def Let_def
        sqlite_get_column_count_def)
  have t: "litecur.holds ?t cs" "tdata ?t = tdata t" "tdone ?t = tdone t" using litecur.holds_cc [OF h] by auto
  obtain r where r: "row_at ?t i = Some r" "sqlite_good (tdata t) r (cs ! i)"
    using t i by (auto simp: litecur.holds_def)
  have f: "row_fields r ! c = sqlite_slot (cs ! i ! c)"
    using r(2) c by (simp add: sqlite_good_def)
  have pc: "p_get_column_count (sql_plugin s) = sqlite_get_column_count"
    unfolding pl by (simp add: sqlite_plugin_def)
  show ?thesis
    using r(1) f cc c t
    by (intro exI [of _ ?t]) (simp add: preludedb_sql_row_get_field_def pc Let_def split_beta
        column_index_nonneg field_at_def sqlite_slot_def)
qed

text \<open>The same for PostgreSQL, where a row is the number of a tuple.\<close>

lemma pgsql_get_field_fresh:
  assumes pl: "sql_plugin s = pgsql_plugin pq" and r: "row_at t i = Some r" "row_data r = i"
    and f: "row_fields r = replicate (length (pg_fields (tdata t))) Unset"
    and cc: "column_count t = 0 \<or> column_count t = length (pg_fields (tdata t))"
    and c: "c < length (pg_fields (tdata t))" "c < 2 ^ 31"
  shows "\<exists>t'. preludedb_sql_row_get_field s t i (int c) =
           (s, t', Inr (if pg_tuples (tdata t) ! i ! c = None then None else Some c)) \<and>
         field_at t' i c = cell_slot (pg_tuples (tdata t) ! i ! c)"
proof -
  let ?t = "fst (preludedb_sql_table_get_column_count pgsql_get_column_count t)"
  have ccn: "snd (preludedb_sql_table_get_column_count pgsql_get_column_count t) = length (pg_fields (tdata t))"
    using cc by (auto simp: preludedb_sql_table_get_column_count_def Let_def pgsql_get_column_count_def)
  have t: "tdata ?t = tdata t" "row_at ?t i = Some r"
    using r by (auto simp: preludedb_sql_table_get_column_count_def Let_def)
  have pc: "p_get_column_count (sql_plugin s) = pgsql_get_column_count"
    "plugin_sql_fetch_field (sql_plugin s) (session s) = pgsql_fetch_field (session s)"
    unfolding pl by (auto simp: pgsql_plugin_def plugin_sql_fetch_field_def fun_eq_iff)
  let ?cell = "pg_tuples (tdata t) ! i ! c"
  let ?r = "r\<lparr>row_fields := (row_fields r)[c := cell_slot ?cell]\<rparr>"
  have "pgsql_fetch_field (session s) ?t i c = (set_row ?t i (Some ?r), Inr (?cell \<noteq> None))"
    using t c r(2) by (auto simp: pgsql_fetch_field_def new_field_cell preludedb_sql_row_get_data_def Let_def)
  then show ?thesis
    using t(2) c ccn f row_at_nrow [OF t(2)]
    by (intro exI [of _ "set_row ?t i (Some ?r)"])
      (auto simp: preludedb_sql_row_get_field_def pc Let_def split_beta column_index_nonneg field_at_def)
qed

lemma pgsql_get_row_fresh:
  assumes pl: "sql_plugin s = pgsql_plugin pq" and i: "i < length (pg_tuples d)" "i < NEXT_ROW"
  shows "\<exists>t r. preludedb_sql_table_get_row s (preludedb_sql_table_new d) i = (s, t, Inr (Some i)) \<and>
    row_at t i = Some r \<and> row_data r = i \<and> row_fields r = replicate (length (pg_fields d)) Unset \<and>
    tdata t = d \<and> (column_count t = 0 \<or> column_count t = length (pg_fields d))"
proof -
  let ?t = "preludedb_sql_table_new d"
  have d: "tdata ?t = d" "\<not> tdone ?t" "column_count ?t = 0" "row_at ?t i = None"
    by (simp_all add: preludedb_sql_table_new_def row_at_def nrow_def)
  have b: "i + 1 < 2 ^ 32" using i(2) by (simp add: NEXT_ROW_def)
  have pf: "plugin_sql_fetch_row (sql_plugin s) = pgsql_fetch_row"
    unfolding pl by (auto simp: pgsql_plugin_def plugin_sql_fetch_row_def fun_eq_iff)
  have i': "i < length (pg_tuples (tdata ?t))" using i d by simp
  obtain t' row where t': "pgsql_fetch_row (session s) ?t i = (t', Inr True)" "row_at t' i = Some row"
    "row_data row = i" "row_fields row = replicate (length (pg_fields d)) Unset" "tdata t' = d"
    using pgsql_fetch_row_cells [OF i' b, of "session s"] d by auto
  have "column_count t' = length (pg_fields d)"
    using t'(1) i d b by (auto simp: pgsql_fetch_row_def preludedb_sql_table_new_row_def Let_def
        preludedb_sql_table_get_column_count_def pgsql_get_column_count_def split: if_splits)
  then show ?thesis
    using t' d i(2) by (auto simp: preludedb_sql_table_get_row_def pf)
qed

section \<open>Escaping with SQLite\<close>

lemma c_str_id: "CHR 0x00 \<notin> set s \<Longrightarrow> takeWhile (\<lambda>c. c \<noteq> CHR 0x00) s = s"
  by (induction s) auto

lemma sqlite_escape_is_quoted_literal:
  assumes "status_connected s" "sql_plugin s = sqlite_plugin lib rx" "lite_quote lib = double_quotes"
    and "CHR 0x00 \<notin> set input"
  shows "\<exists>s'. preludedb_sql_escape s (Some input) = (s', Inr (quoted_literal input))"
proof -
  have "plugin_sql_escape (sql_plugin (lock s)) (session (lock s)) input = Inr (quoted_literal input)"
    using assms by (simp add: plugin_sql_escape_def sqlite_plugin_def sqlite_escape_def c_str_id quoted_literal_def)
  then show ?thesis
    using assms(1) by (auto simp: preludedb_sql_escape_def preludedb_sql_escape_fast_def sql_escape_with_def
        assert_connected_def)
qed

end
