(* ===== verification/Idmef.thy ===== *)
theory Idmef
  imports Sql_Criterion
begin

text \<open>
  IDMEF messages as the classic format reads them through libprelude's getters and builds
  them through its constructors (plugins/format/classic/classic-insert.c and classic-get.c).
  A pointer that may be NULL is an option, a list walked with a \<open>get_next\<close> function is a list,
  a \<open>prelude_string_t\<close> is its text, an enum is its number. What libprelude computes is a
  parameter, collected in \<open>idmef_codec\<close>: the names of enum values, the text of a data value,
  the floating point conversions of the C library.
\<close>

section \<open>Values\<close>

text \<open>The enums whose values are stored by name, one per pair of conversion functions.\<close>

datatype idmef_enum =
    ADDRESS_CATEGORY | NODE_CATEGORY | USER_ID_TYPE | USER_CATEGORY | LINKAGE_CATEGORY
  | CHECKSUM_ALGORITHM | FILE_CATEGORY | FILE_FSTYPE | SOURCE_SPOOFED | TARGET_DECOY
  | REFERENCE_ORIGIN | ADDITIONAL_DATA_TYPE | IMPACT_COMPLETION | IMPACT_TYPE
  | IMPACT_SEVERITY | ACTION_CATEGORY | CONFIDENCE_RATING

type_synonym idmef_float = "32 word"

text \<open>A character string is held without its terminating NUL.\<close>

datatype idmef_data =
    Data_null
  | Data_char char
  | Data_byte nat
  | Data_int int
  | Data_float idmef_float
  | Data_char_string string
  | Data_byte_string string
  | Data_time idmef_time

text \<open>The types of an additional data, as \<open>idmef_additional_data_type_t\<close> numbers them.\<close>

datatype additional_data_type =
    AD_STRING | AD_CHARACTER | AD_PORTLIST | AD_XML | AD_REAL | AD_INTEGER | AD_BOOLEAN
  | AD_NTPSTAMP | AD_BYTE | AD_BYTE_STRING | AD_DATE_TIME | AD_ERROR

text \<open>
  \<open>enum_new\<close> is the value of an enum in a new object, \<open>additional_data_type_of\<close> the enumerator
  with a number. \<open>print_float\<close> is \<open>%f\<close>, \<open>scan_float\<close> what \<open>sscanf\<close> reads with \<open>%f\<close>.
\<close>

record idmef_codec =
  enum_to_string :: "idmef_enum \<Rightarrow> int \<Rightarrow> string option"
  enum_to_numeric :: "idmef_enum \<Rightarrow> string \<Rightarrow> int"
  enum_new :: "idmef_enum \<Rightarrow> int"
  additional_data_type_of :: "int \<Rightarrow> additional_data_type option"
  data_to_string :: "idmef_data \<Rightarrow> db_error + string"
  print_float :: "idmef_float \<Rightarrow> string"
  strto_float :: "string \<Rightarrow> idmef_float \<times> string \<times> bool"
  scan_float :: "string \<Rightarrow> idmef_float option"
  time_new_from_string :: "string \<Rightarrow> db_error + idmef_time"
  idmef_times :: idmef_lib

section \<open>Classes\<close>

record idmef_address =
  address_ident :: "string option"
  address_category :: int
  address_vlan_name :: "string option"
  address_vlan_num :: "int option"
  address_address :: "string option"
  address_netmask :: "string option"

record idmef_node =
  node_ident :: "string option"
  node_category :: int
  node_location :: "string option"
  node_name :: "string option"
  node_addresses :: "idmef_address list"

record idmef_user_id =
  user_id_ident :: "string option"
  user_id_type :: int
  user_id_name :: "string option"
  user_id_number :: "nat option"
  user_id_tty :: "string option"

record idmef_user =
  user_ident :: "string option"
  user_category :: int
  user_user_ids :: "idmef_user_id list"

record idmef_process =
  process_ident :: "string option"
  process_name :: "string option"
  process_pid :: "nat option"
  process_path :: "string option"
  process_args :: "string list"
  process_envs :: "string list"

record idmef_web_service =
  web_url :: "string option"
  web_cgi :: "string option"
  web_http_method :: "string option"
  web_args :: "string list"

record idmef_snmp_service =
  snmp_oid :: "string option"
  snmp_message_processing_model :: "nat option"
  snmp_security_model :: "nat option"
  snmp_security_name :: "string option"
  snmp_security_level :: "nat option"
  snmp_context_name :: "string option"
  snmp_context_engine_id :: "string option"
  snmp_command :: "string option"

text \<open>The type of a service and the member that goes with it.\<close>

datatype service_kind =
    SERVICE_DEFAULT
  | SERVICE_WEB "idmef_web_service option"
  | SERVICE_SNMP "idmef_snmp_service option"
  | SERVICE_INVALID

record idmef_service =
  service_ident :: "string option"
  service_ip_version :: "nat option"
  service_name :: "string option"
  service_port :: "nat option"
  service_iana_protocol_number :: "nat option"
  service_iana_protocol_name :: "string option"
  service_portlist :: "string option"
  service_protocol :: "string option"
  service_type :: service_kind

record idmef_inode =
  inode_change_time :: "idmef_time option"
  inode_number :: "nat option"
  inode_major_device :: "nat option"
  inode_minor_device :: "nat option"
  inode_c_major_device :: "nat option"
  inode_c_minor_device :: "nat option"

text \<open>The file inside a linkage is not stored.\<close>

record idmef_linkage =
  linkage_category :: int
  linkage_name :: "string option"
  linkage_path :: "string option"

record idmef_file_access =
  file_access_user_id :: "idmef_user_id option"
  file_access_permissions :: "string list"

record idmef_checksum =
  checksum_value :: "string option"
  checksum_key :: "string option"
  checksum_algorithm :: int

record idmef_file =
  file_ident :: "string option"
  file_category :: int
  file_name :: "string option"
  file_path :: "string option"
  file_create_time :: "idmef_time option"
  file_modify_time :: "idmef_time option"
  file_access_time :: "idmef_time option"
  file_data_size :: "nat option"
  file_disk_size :: "nat option"
  file_fstype :: "int option"
  file_file_type :: "string option"
  file_file_accesses :: "idmef_file_access list"
  file_linkages :: "idmef_linkage list"
  file_inode :: "idmef_inode option"
  file_checksums :: "idmef_checksum list"

record idmef_source =
  source_ident :: "string option"
  source_spoofed :: int
  source_interface :: "string option"
  source_node :: "idmef_node option"
  source_user :: "idmef_user option"
  source_process :: "idmef_process option"
  source_service :: "idmef_service option"

record idmef_target =
  target_ident :: "string option"
  target_decoy :: int
  target_interface :: "string option"
  target_node :: "idmef_node option"
  target_user :: "idmef_user option"
  target_process :: "idmef_process option"
  target_service :: "idmef_service option"
  target_files :: "idmef_file list"

record idmef_analyzer =
  analyzer_analyzerid :: "string option"
  analyzer_name :: "string option"
  analyzer_manufacturer :: "string option"
  analyzer_model :: "string option"
  analyzer_version :: "string option"
  analyzer_class :: "string option"
  analyzer_ostype :: "string option"
  analyzer_osversion :: "string option"
  analyzer_node :: "idmef_node option"
  analyzer_process :: "idmef_process option"

record idmef_reference =
  reference_origin :: int
  reference_name :: "string option"
  reference_url :: "string option"
  reference_meaning :: "string option"

record idmef_classification =
  classification_ident :: "string option"
  classification_text :: "string option"
  classification_references :: "idmef_reference list"

record idmef_additional_data =
  ad_type :: int
  ad_meaning :: "string option"
  ad_data :: idmef_data

record idmef_impact =
  impact_severity :: "int option"
  impact_completion :: "int option"
  impact_type :: int
  impact_description :: "string option"

record idmef_action =
  action_category :: int
  action_description :: "string option"

record idmef_confidence =
  confidence_rating :: int
  confidence_confidence :: idmef_float

record idmef_assessment =
  assessment_impact :: "idmef_impact option"
  assessment_confidence :: "idmef_confidence option"
  assessment_actions :: "idmef_action list"

record idmef_overflow_alert =
  overflow_program :: "string option"
  overflow_size :: "nat option"
  overflow_buffer :: "idmef_data option"

record idmef_alertident =
  alertident_alertident :: "string option"
  alertident_analyzerid :: "string option"

record idmef_tool_alert =
  tool_name :: "string option"
  tool_command :: "string option"
  tool_alertidents :: "idmef_alertident list"

record idmef_correlation_alert =
  correlation_name :: "string option"
  correlation_alertidents :: "idmef_alertident list"

datatype alert_kind =
    ALERT_DEFAULT
  | ALERT_TOOL "idmef_tool_alert option"
  | ALERT_OVERFLOW "idmef_overflow_alert option"
  | ALERT_CORRELATION "idmef_correlation_alert option"
  | ALERT_INVALID

record idmef_alert =
  alert_messageid :: "string option"
  alert_create_time :: "idmef_time option"
  alert_detect_time :: "idmef_time option"
  alert_analyzer_time :: "idmef_time option"
  alert_assessment :: "idmef_assessment option"
  alert_type :: alert_kind
  alert_analyzers :: "idmef_analyzer list"
  alert_sources :: "idmef_source list"
  alert_targets :: "idmef_target list"
  alert_classification :: "idmef_classification option"
  alert_additional_data :: "idmef_additional_data list"

record idmef_heartbeat =
  heartbeat_messageid :: "string option"
  heartbeat_interval :: "nat option"
  heartbeat_analyzers :: "idmef_analyzer list"
  heartbeat_create_time :: "idmef_time option"
  heartbeat_analyzer_time :: "idmef_time option"
  heartbeat_additional_data :: "idmef_additional_data list"

datatype idmef_message =
    MESSAGE_ALERT "idmef_alert option"
  | MESSAGE_HEARTBEAT "idmef_heartbeat option"
  | MESSAGE_INVALID

end
