(* ===== verification/Classic_Query.thy ===== *)
theory Classic_Query
  imports Classic_Path Sql_Fetch Idmef
begin

text \<open>
  Queries of the classic format (plugins/format/classic/classic.c): message idents,
  selected values and how they are read from the result, and the check of the schema version.
  libprelude's path constructor, version parser and time parser are parameters.
\<close>

section \<open>Message idents\<close>

datatype idents_order = ORDER_BY_NONE | ORDER_BY_CREATE_TIME_DESC | ORDER_BY_CREATE_TIME_ASC

definition get_message_idents_set_order ::
    "(string \<Rightarrow> db_error + idmef_path) \<Rightarrow> path_lib \<Rightarrow> ('w, 'd) preludedb_plugin_sql \<Rightarrow> idmef_class \<Rightarrow>
       idents_order \<Rightarrow> sql_join \<Rightarrow> sql_select \<Rightarrow> sql_join \<times> (db_error + sql_select)" where
  "get_message_idents_set_order path_new lib plugin message_type order join sel =
     (case path_new (if message_type = CLASS_ALERT then ''alert.create_time'' else ''heartbeat.create_time'') of
        Inl e \<Rightarrow> (join, Inl e)
      | Inr p \<Rightarrow>
          (let desc = (order = ORDER_BY_CREATE_TIME_DESC);
               sp = preludedb_selected_path_new (Object_path p)
                      \<lparr>group_by = False, order_asc = \<not> desc, order_desc = desc\<rparr>
           in preludedb_sql_select_add_selected plugin (classic_path_resolve lib) sel sp join))"

definition resolve_where ::
    "path_lib \<Rightarrow> idmef_lib \<Rightarrow> ('w, 'd) sql \<Rightarrow> sql_join \<Rightarrow> idmef_criteria option \<Rightarrow>
       ('w, 'd) sql \<times> sql_join \<times> (db_error + string option)" where
  "resolve_where lib il s join criteria =
     (case criteria of
        None \<Rightarrow> (s, join, Inr None)
      | Some c \<Rightarrow>
          (case classic_path_resolve_criteria lib il s join c [] of
             (s', join', Inl e) \<Rightarrow> (s', join', Inl e)
           | (s', join', Inr t) \<Rightarrow> (s', join', Inr (Some t))))"

text \<open>The text of the query but for LIMIT and OFFSET.\<close>

definition select_text :: "bool \<Rightarrow> sql_select \<Rightarrow> sql_join \<Rightarrow> string option \<Rightarrow> string" where
  "select_text dist sel join cond =
     preludedb_sql_select_modifiers_to_string sel
       (classic_sql_join_to_string join
          (preludedb_sql_select_fields_to_string sel (''SELECT '' @ (if dist then ''DISTINCT '' else [])) @
           '' FROM '') @
        (case cond of None \<Rightarrow> [] | Some t \<Rightarrow> '' WHERE '' @ t))"

definition run_select ::
    "('w, 'd) sql \<Rightarrow> string \<Rightarrow> int \<Rightarrow> int \<Rightarrow> ('w, 'd) sql \<times> (db_error + 'd sql_table option)" where
  "run_select s text limit offset =
     (case preludedb_sql_build_limit_offset_string s limit offset text of
        Inl e \<Rightarrow> (s, Inl e)
      | Inr query \<Rightarrow> preludedb_sql_query s query True)"

definition get_message_idents ::
    "(string \<Rightarrow> db_error + idmef_path) \<Rightarrow> path_lib \<Rightarrow> idmef_lib \<Rightarrow> ('w, 'd) sql \<Rightarrow> idmef_class \<Rightarrow>
       idmef_criteria option \<Rightarrow> int \<Rightarrow> int \<Rightarrow> idents_order \<Rightarrow> ('w, 'd) sql \<times> (db_error + 'd sql_table option)" where
  "get_message_idents path_new lib il s message_type criteria limit offset order =
     (let join = classic_sql_join_set_top_class classic_sql_join_new message_type;
          sel = preludedb_sql_select_add_field preludedb_sql_select_new ''DISTINCT(top_table._ident)''
      in case (if order = ORDER_BY_NONE then (join, Inr sel)
               else get_message_idents_set_order path_new lib (sql_plugin s) message_type order join sel) of
           (join1, Inl e) \<Rightarrow> (s, Inl e)
         | (join1, Inr sel1) \<Rightarrow>
             (case resolve_where lib il s join1 criteria of
                (s', join2, Inl e) \<Rightarrow> (s', Inl e)
              | (s', join2, Inr cond) \<Rightarrow> run_select s' (select_text False sel1 join2 cond) limit offset))"

definition classic_get_alert_idents where
  "classic_get_alert_idents path_new lib il s criteria limit offset order =
     get_message_idents path_new lib il s CLASS_ALERT criteria limit offset order"

definition classic_get_heartbeat_idents where
  "classic_get_heartbeat_idents path_new lib il s criteria limit offset order =
     get_message_idents path_new lib il s CLASS_HEARTBEAT criteria limit offset order"

definition classic_get_message_ident ::
    "('w, 'd) sql \<times> 'd sql_table \<Rightarrow> nat \<Rightarrow> (('w, 'd) sql \<times> 'd sql_table) \<times> (db_error + nat option)" where
  "classic_get_message_ident st row_index =
     (case preludedb_sql_table_get_row (fst st) (snd st) row_index of
        (s1, t1, Inl e) \<Rightarrow> ((s1, t1), Inl e)
      | (s1, t1, Inr None) \<Rightarrow> ((s1, t1), Inr None)
      | (s1, t1, Inr (Some i)) \<Rightarrow>
          (case preludedb_sql_row_get_field s1 t1 i 0 of
             (s2, t2, Inl e) \<Rightarrow> ((s2, t2), Inl e)
           | (s2, t2, Inr None) \<Rightarrow> ((s2, t2), Inr None)
           | (s2, t2, Inr (Some c)) \<Rightarrow>
               ((s2, t2), res_bind (preludedb_sql_field_to_uint64 (slot_field (field_at t2 i c) c))
                  (\<lambda>ident. Inr (Some (nat ident))))))"

section \<open>Selected values\<close>

definition classic_get_values ::
    "path_lib \<Rightarrow> idmef_lib \<Rightarrow> ('w, 'd) sql \<Rightarrow> path_selection \<Rightarrow> idmef_criteria option \<Rightarrow> bool \<Rightarrow> int \<Rightarrow> int \<Rightarrow>
       ('w, 'd) sql \<times> (db_error + 'd sql_table option)" where
  "classic_get_values lib il s selection criteria dist limit offset =
     (case preludedb_sql_select_add_selection (sql_plugin s) (classic_path_resolve lib)
             preludedb_sql_select_new selection classic_sql_join_new of
        (join1, Inl e) \<Rightarrow> (s, Inl e)
      | (join1, Inr sel) \<Rightarrow>
          (case resolve_where lib il s join1 criteria of
             (s', join2, Inl e) \<Rightarrow> (s', Inl e)
           | (s', join2, Inr cond) \<Rightarrow> run_select s' (select_text dist sel join2 cond) limit offset))"

text \<open>What the callback is given: no value, a time, or the bytes of a value with its type.\<close>

datatype value_arg =
    Value_null
  | Value_is_time idmef_time
  | Value_bytes string nat value_type

text \<open>
  A time is read from the column and the ones behind it. The result of parsing the timestamp
  is ignored: a time that cannot be parsed is the zero of \<open>idmef_time_new\<close>. A microsecond
  column that is not a number returns the positive \<open>ret\<close> of the field before any time exists.
\<close>

definition time_zero :: idmef_time where
  "time_zero = \<lparr>time_sec = 0, time_usec = 0, time_gmtoff = 0\<rparr>"

definition get_gmtoff ::
    "('w, 'd) sql \<Rightarrow> 'd sql_table \<Rightarrow> nat \<Rightarrow> nat \<Rightarrow> nat \<Rightarrow> ('w, 'd) sql \<times> 'd sql_table \<times> (db_error + int)" where
  "get_gmtoff s t i cnt num_field =
     (if num_field > 1
      then (case preludedb_sql_row_get_field s t i (int (cnt + 1)) of
              (s1, t1, Inl e) \<Rightarrow> (s1, t1, Inl e)
            | (s1, t1, Inr None) \<Rightarrow> (s1, t1, Inr 0)
            | (s1, t1, Inr (Some c)) \<Rightarrow> (s1, t1, preludedb_sql_field_to_int32 (slot_field (field_at t1 i c) c)))
      else (s, t, Inr 0))"

definition get_usec ::
    "('w, 'd) sql \<Rightarrow> 'd sql_table \<Rightarrow> nat \<Rightarrow> nat \<Rightarrow> nat \<Rightarrow> ('w, 'd) sql \<times> 'd sql_table \<times> (db_error + int)" where
  "get_usec s t i cnt num_field =
     (if num_field > 2
      then (case preludedb_sql_row_get_field s t i (int (cnt + 2)) of
              (s1, t1, Inl e) \<Rightarrow> (s1, t1, Inl e)
            | (s1, t1, Inr None) \<Rightarrow> (s1, t1, Inr 0)
            | (s1, t1, Inr (Some c)) \<Rightarrow>
                (s1, t1, case preludedb_sql_field_to_uint32 (slot_field (field_at t1 i c) c) of
                           Inl e \<Rightarrow> Inl Undefined | Inr u \<Rightarrow> Inr u))
      else (s, t, Inr 0))"

definition get_value_time ::
    "idmef_lib \<Rightarrow> ('w, 'd) sql \<Rightarrow> 'd sql_table \<Rightarrow> nat \<Rightarrow> nat \<Rightarrow> selected_path \<Rightarrow> string \<Rightarrow>
       ('w, 'd) sql \<times> 'd sql_table \<times> (db_error + idmef_time \<times> nat)" where
  "get_value_time il s t i cnt sp val =
     (let num_field = classic_get_path_column_count sp
      in case get_gmtoff s t i cnt num_field of
           (s1, t1, Inl e) \<Rightarrow> (s1, t1, Inl e)
         | (s1, t1, Inr gmtoff) \<Rightarrow>
             (case get_usec s1 t1 i cnt num_field of
                (s2, t2, Inl e) \<Rightarrow> (s2, t2, Inl e)
              | (s2, t2, Inr usec) \<Rightarrow>
                  (s2, t2, Inr
                     (case preludedb_sql_time_from_timestamp il val gmtoff (nat usec) of
                        Inl e \<Rightarrow> time_zero | Inr time \<Rightarrow> time,
                      1 + (if num_field > 1 then 1 else 0) + (if num_field > 2 then 1 else 0)))))"

definition additional_data_value_type :: "additional_data_type \<Rightarrow> value_type option" where
  "additional_data_value_type d =
     (case d of
        AD_STRING \<Rightarrow> Some VALUE_TYPE_STRING | AD_CHARACTER \<Rightarrow> Some VALUE_TYPE_STRING
      | AD_PORTLIST \<Rightarrow> Some VALUE_TYPE_STRING | AD_XML \<Rightarrow> Some VALUE_TYPE_STRING
      | AD_REAL \<Rightarrow> Some VALUE_TYPE_FLOAT
      | AD_INTEGER \<Rightarrow> Some VALUE_TYPE_INT64 | AD_BOOLEAN \<Rightarrow> Some VALUE_TYPE_INT64
      | AD_NTPSTAMP \<Rightarrow> Some VALUE_TYPE_INT64
      | AD_BYTE \<Rightarrow> Some VALUE_TYPE_DATA | AD_BYTE_STRING \<Rightarrow> Some VALUE_TYPE_DATA
      | AD_DATE_TIME \<Rightarrow> Some VALUE_TYPE_TIME
      | AD_ERROR \<Rightarrow> None)"

text \<open>
  The buffer gets a terminating NUL except for two types; its contents and size are the same.
\<close>

definition classic_unescape_binary_safe ::
    "('w, 'd) sql \<Rightarrow> sql_field \<Rightarrow> additional_data_type \<Rightarrow> ('w, 'd) sql \<times> (db_error + string \<times> nat)" where
  "classic_unescape_binary_safe s field dtype =
     (case preludedb_sql_unescape_binary s
             (take (preludedb_sql_field_get_len field) (preludedb_sql_field_get_value field)) of
        (s', Inl e) \<Rightarrow> (s', Inl e)
      | (s', Inr v) \<Rightarrow>
          if dtype = AD_CHARACTER \<or> dtype = AD_BYTE_STRING then (s', Inr (v, length v))
          else if (length v + 1) mod 2 ^ 64 < length v
          then (s', Inl (preludedb_error_verbose PRELUDEDB_ERROR_GENERIC ''Value is too big''))
          else (s', Inr (v, length v)))"

text \<open>
  \<open>enum_num\<close> is \<open>idmef_class_enum_to_numeric\<close>. \<open>Inr None\<close> is the return value 0: the value
  has no type column.
\<close>

definition get_data ::
    "(string \<Rightarrow> db_error + additional_data_type) \<Rightarrow> ('w, 'd) sql \<Rightarrow> 'd sql_table \<Rightarrow> nat \<Rightarrow> sql_field \<Rightarrow> nat \<Rightarrow>
       selected_path \<Rightarrow> ('w, 'd) sql \<times> 'd sql_table \<times> (db_error + (value_type \<times> string \<times> nat) option)" where
  "get_data enum_num s t i field cnt sp =
     (if classic_get_path_column_count sp \<noteq> 2 then (s, t, Inr None)
      else case preludedb_sql_row_get_field s t i (int (cnt + 1)) of
             (s1, t1, Inl e) \<Rightarrow> (s1, t1, Inl e)
           | (s1, t1, Inr None) \<Rightarrow> (s1, t1, Inr None)
           | (s1, t1, Inr (Some c)) \<Rightarrow>
               (case enum_num (preludedb_sql_field_get_value (slot_field (field_at t1 i c) c)) of
                  Inl e \<Rightarrow> (s1, t1, Inl e)
                | Inr dtype \<Rightarrow>
                    (case additional_data_value_type dtype of
                       None \<Rightarrow> (s1, t1, Inl RawError)
                     | Some ty \<Rightarrow>
                         (case classic_unescape_binary_safe s1 field dtype of
                            (s2, Inl e) \<Rightarrow> (s2, t1, Inl e)
                          | (s2, Inr (v, n)) \<Rightarrow> (s2, t1, Inr (Some (ty, v, n)))))))"

text \<open>
  \<open>cb\<close> is the caller's callback, \<open>time_parse\<close> is \<open>idmef_time_new_from_string\<close>. The result is
  what the callback returned and the number of columns the value took; the \<open>ret\<close> added for a
  time parsed from data is that function's own return value, 0.
\<close>

definition get_value ::
    "(string \<Rightarrow> db_error + additional_data_type) \<Rightarrow> (string \<Rightarrow> db_error + idmef_time) \<Rightarrow> idmef_lib \<Rightarrow>
       (value_arg \<Rightarrow> db_error + 'o) \<Rightarrow> ('w, 'd) sql \<Rightarrow> 'd sql_table \<Rightarrow> nat \<Rightarrow> nat \<Rightarrow> selected_path \<Rightarrow>
       ('w, 'd) sql \<times> 'd sql_table \<times> (db_error + 'o \<times> nat)" where
  "get_value enum_num time_parse il cb s t i cnt sp =
     (case preludedb_sql_row_get_field s t i (int cnt) of
        (s1, t1, Inl e) \<Rightarrow> (s1, t1, Inl e)
      | (s1, t1, Inr None) \<Rightarrow> (s1, t1, res_bind (cb Value_null) (\<lambda>x. Inr (x, 0)))
      | (s1, t1, Inr (Some c)) \<Rightarrow>
          (let field = slot_field (field_at t1 i c) c;
               val = preludedb_sql_field_get_value field;
               len = preludedb_sql_field_get_len field
           in case preludedb_selected_object_get_value_type (sp_object sp) of
                Inl e \<Rightarrow> (s1, t1, Inl e)
              | Inr (ty, ob) \<Rightarrow>
                  if ty = VALUE_TYPE_DATA
                  then (case get_data enum_num s1 t1 i field cnt sp of
                          (s2, t2, Inl e) \<Rightarrow> (s2, t2, Inl e)
                        | (s2, t2, Inr None) \<Rightarrow>
                            (s2, t2, res_bind (cb (Value_bytes val len VALUE_TYPE_DATA)) (\<lambda>x. Inr (x, 1)))
                        | (s2, t2, Inr (Some (ty', v, n))) \<Rightarrow>
                            if ty' = VALUE_TYPE_TIME
                            then (s2, t2, res_bind (time_parse v) (\<lambda>time.
                                    res_bind (cb (Value_is_time time)) (\<lambda>x. Inr (x, 2))))
                            else (s2, t2, res_bind (cb (Value_bytes v n ty')) (\<lambda>x. Inr (x, 2))))
                  else if ty = VALUE_TYPE_TIME
                  then (case get_value_time il s1 t1 i cnt sp val of
                          (s2, t2, Inl e) \<Rightarrow> (s2, t2, Inl e)
                        | (s2, t2, Inr (time, r)) \<Rightarrow>
                            (s2, t2, res_bind (cb (Value_is_time time)) (\<lambda>x. Inr (x, 1 + r))))
                  else (s1, t1, res_bind
                          (cb (Value_bytes val len (if ty = VALUE_TYPE_ENUM then VALUE_TYPE_STRING else ty)))
                          (\<lambda>x. Inr (x, 1)))))"

definition classic_get_result_values_field ::
    "(string \<Rightarrow> db_error + additional_data_type) \<Rightarrow> (string \<Rightarrow> db_error + idmef_time) \<Rightarrow> idmef_lib \<Rightarrow>
       (value_arg \<Rightarrow> db_error + 'o) \<Rightarrow> ('w, 'd) sql \<Rightarrow> 'd sql_table \<Rightarrow> nat \<Rightarrow> selected_path \<Rightarrow>
       ('w, 'd) sql \<times> 'd sql_table \<times> (db_error + 'o \<times> nat)" where
  "classic_get_result_values_field enum_num time_parse il cb s t i sp =
     get_value enum_num time_parse il cb s t i (preludedb_selected_path_get_column_index sp) sp"

definition classic_get_result_values_row where
  "classic_get_result_values_row s t rnum = preludedb_sql_table_get_row s t rnum"

definition classic_get_result_values_count where
  "classic_get_result_values_count s t = preludedb_sql_table_get_row_count s t"

definition classic_get_message_ident_count where
  "classic_get_message_ident_count s t = preludedb_sql_table_get_row_count s t"

section \<open>The schema version\<close>

definition CLASSIC_SCHEMA_VERSION :: string where
  "CLASSIC_SCHEMA_VERSION = ''14.7''"

text \<open>\<open>parse\<close> is \<open>prelude_parse_version\<close>.\<close>

definition classic_check_schema_version ::
    "(string \<Rightarrow> db_error + nat) \<Rightarrow> string option \<Rightarrow> db_error + unit" where
  "classic_check_schema_version parse version =
     (case version of
        None \<Rightarrow> Inl (preludedb_error PRELUDEDB_ERROR_SCHEMA_VERSION_INVALID)
      | Some v \<Rightarrow>
          res_bind (parse v) (\<lambda>schema_version.
          res_bind (parse CLASSIC_SCHEMA_VERSION) (\<lambda>code_version.
            if schema_version > code_version
            then Inl (preludedb_error_verbose PRELUDEDB_ERROR_SCHEMA_VERSION_TOO_RECENT
                   (''Database schema version '' @ v @ '' is too recent ('' @ CLASSIC_SCHEMA_VERSION @ '' required)''))
            else if schema_version < code_version
            then Inl (preludedb_error_verbose PRELUDEDB_ERROR_SCHEMA_VERSION_TOO_OLD
                   (''Database schema version '' @ v @ '' is too old ('' @ CLASSIC_SCHEMA_VERSION @ '' required)''))
            else Inr ())))"

section \<open>Facts\<close>

text \<open>The resolver leaves the message table's class to the joined tables alone.\<close>

lemma top_level_selection:
  assumes "path_depth p = 2" "path_type p \<noteq> VALUE_TYPE_TIME" "path_parent_class p \<noteq> CLASS_ADDITIONAL_DATA"
    and "flags = \<lparr>group_by = False, order_asc = False, order_desc = False\<rparr>"
  shows "preludedb_sql_select_add_selection plugin (classic_path_resolve lib) preludedb_sql_select_new
      (preludedb_path_selection_add classic_get_path_column_count preludedb_path_selection_new
        (preludedb_selected_path_new (Object_path p) flags)) classic_sql_join_new =
    (classic_sql_join_new, Inr (preludedb_sql_select_new\<lparr>sel_fields := ''top_table.'' @ path_leaf p, field_count := 1\<rparr>))"
  using assms
  by (simp add: preludedb_sql_select_add_selection_def preludedb_path_selection_add_def
      preludedb_path_selection_new_def preludedb_selected_path_new_def classic_get_path_column_count_def
      preludedb_sql_select_add_selected_def preludedb_selected_object_to_string_def
      preludedb_selected_object_is_function_def classic_path_resolve_def classic_path_resolve_ctx_def
      default_field_name_resolver_def sql_select_add_options_def add_options_step_def
      preludedb_sql_select_new_def)

lemma check_version_ok_iff:
  "classic_check_schema_version parse (Some v) = Inr () \<longleftrightarrow>
     (\<exists>n. parse v = Inr n \<and> parse CLASSIC_SCHEMA_VERSION = Inr n)"
  by (cases "parse v"; cases "parse CLASSIC_SCHEMA_VERSION") (auto simp: classic_check_schema_version_def)

end
