(* ===== verification/Sql_Call.thy ===== *)
theory Sql_Call
  imports Sql_Core
begin

text \<open>
  Sequences of calls on a session. The functions of the classic format that insert and read
  messages are chains of \<open>ret = f(...); if ( ret < 0 ) return ret;\<close> over a state, the session or
  a session with a result table; \<open>call\<close> is that idiom. What such a chain does to a session is
  stated once, by \<open>sends\<close>, with a rule for every combinator.
\<close>

type_synonym ('s, 'a) sql_call = "'s \<Rightarrow> 's \<times> (db_error + 'a)"

definition call :: "('s, 'a) sql_call \<Rightarrow> ('a \<Rightarrow> ('s, 'b) sql_call) \<Rightarrow> ('s, 'b) sql_call" where
  "call m f = (\<lambda>s. case m s of (s', Inl e) \<Rightarrow> (s', Inl e) | (s', Inr x) \<Rightarrow> f x s')"

definition give :: "'a \<Rightarrow> ('s, 'a) sql_call" where
  "give x = (\<lambda>s. (s, Inr x))"

definition fail :: "db_error \<Rightarrow> ('s, 'a) sql_call" where
  "fail e = (\<lambda>s. (s, Inl e))"

text \<open>A result that does not depend on the session, and a call whose result is not checked.\<close>

definition pure_result :: "db_error + 'a \<Rightarrow> ('s, 'a) sql_call" where
  "pure_result r = (\<lambda>s. (s, r))"

definition attempt :: "('s, 'a) sql_call \<Rightarrow> ('s, db_error + 'a) sql_call" where
  "attempt m = (\<lambda>s. (fst (m s), Inr (snd (m s))))"

text \<open>A call whose error is replaced by one of the caller's.\<close>

definition or_error :: "('s, 'a) sql_call \<Rightarrow> db_error \<Rightarrow> ('s, 'a) sql_call" where
  "or_error m e = (\<lambda>s. (fst (m s), map_sum (\<lambda>_. e) id (snd (m s))))"

lemma call_simps [simp]:
  "m s = (s', Inl e) \<Longrightarrow> call m f s = (s', Inl e)"
  "m s = (s', Inr x) \<Longrightarrow> call m f s = f x s'"
  "call (give x) f = f x"
  "call (fail e) f = fail e"
  by (simp_all add: call_def give_def fail_def)

lemma call_result: "call m f s = (case snd (m s) of Inl e \<Rightarrow> (fst (m s), Inl e) | Inr x \<Rightarrow> f x (fst (m s)))"
  by (cases "m s") (auto simp: call_def split: sum.splits)

section \<open>Calls on a session\<close>

text \<open>The format and its arguments are the text they print.\<close>

definition preludedb_sql_query_sprintf ::
    "('w, 'd) sql \<Rightarrow> string \<Rightarrow> bool \<Rightarrow> ('w, 'd) sql \<times> (db_error + 'd sql_table option)" where
  "preludedb_sql_query_sprintf s text want = preludedb_sql_query s text want"

definition escape_string :: "string option \<Rightarrow> (('w, 'd) sql, string) sql_call" where
  "escape_string x = (\<lambda>s. preludedb_sql_escape s (map_option c_str x))"

definition insert_row :: "string \<Rightarrow> string \<Rightarrow> string list \<Rightarrow> (('w, 'd) sql, unit) sql_call" where
  "insert_row table columns vals =
     (\<lambda>s. case preludedb_sql_insert s table columns (join_sep '', '' vals) of
            (s', r) \<Rightarrow> (s', map_sum id (\<lambda>_. ()) r))"

definition insert_text :: "string \<Rightarrow> string \<Rightarrow> string list \<Rightarrow> string" where
  "insert_text table columns vals =
     ''INSERT INTO '' @ table @ '' ('' @ columns @ '') VALUES('' @ join_sep '', '' vals @ '')''"

section \<open>What a call sends\<close>

text \<open>
  A backend that keeps its connection: no operation reports the error code on which the
  session is disconnected.
\<close>

definition connection_kept :: "('w, 'd) preludedb_plugin_sql \<Rightarrow> bool" where
  "connection_kept plugin \<longleftrightarrow>
     (\<forall>w q b e. snd (p_query plugin w q b) = Inl e \<longrightarrow> \<not> preludedb_error_check e PRELUDEDB_ERROR_CONNECTION) \<and>
     (\<forall>w t i e. snd (plugin_sql_fetch_row plugin w t i) = Inl e \<longrightarrow>
        \<not> preludedb_error_check e PRELUDEDB_ERROR_CONNECTION) \<and>
     (\<forall>w t i c e. snd (plugin_sql_fetch_field plugin w t i c) = Inl e \<longrightarrow>
        \<not> preludedb_error_check e PRELUDEDB_ERROR_CONNECTION)"

definition live :: "('w, 'd) sql \<Rightarrow> bool" where
  "live s \<longleftrightarrow> status_connected s \<and> connection_kept (sql_plugin s)"

text \<open>The parts of a session that the calls inside a transaction leave alone.\<close>

definition same_state :: "('w, 'd) sql \<Rightarrow> ('w, 'd) sql \<Rightarrow> bool" where
  "same_state s s' \<longleftrightarrow>
     status_connected s' = status_connected s \<and> sql_plugin s' = sql_plugin s \<and>
     status_transaction s' = status_transaction s \<and> mutex s' = mutex s \<and>
     internal_transaction_disabled s' = internal_transaction_disabled s"

lemma same_state_refl [simp]: "same_state s s"
  by (simp add: same_state_def)

lemma same_state_trans: "same_state s s' \<Longrightarrow> same_state s' s'' \<Longrightarrow> same_state s s''"
  by (simp add: same_state_def)

lemma same_state_live: "same_state s s' \<Longrightarrow> live s' = live s"
  by (simp add: same_state_def live_def)

text \<open>\<open>sends P m\<close>: on a live session \<open>m\<close> only issues queries of the kind \<open>P\<close>.\<close>

definition sends :: "(string \<Rightarrow> bool) \<Rightarrow> (('w, 'd) sql, 'a) sql_call \<Rightarrow> bool" where
  "sends P m \<longleftrightarrow> (\<forall>s. live s \<longrightarrow> same_state s (fst (m s)) \<and>
     (\<exists>qs. issued (fst (m s)) = issued s @ qs \<and> (\<forall>q \<in> set qs. P q)))"

named_theorems sends_rules \<open>what the combinators and the calls of a session send\<close>

lemma sendsI:
  assumes "\<And>s. live s \<Longrightarrow> same_state s (fst (m s))"
    and "\<And>s. live s \<Longrightarrow> \<exists>qs. issued (fst (m s)) = issued s @ qs \<and> (\<forall>q \<in> set qs. P q)"
  shows "sends P m"
  using assms by (simp add: sends_def)

lemma sendsE:
  assumes "sends P m" "live s"
  obtains qs where "same_state s (fst (m s))" "issued (fst (m s)) = issued s @ qs" "\<forall>q \<in> set qs. P q"
  using assms by (auto simp: sends_def)

lemma sends_mono: "sends P m \<Longrightarrow> (\<And>q. P q \<Longrightarrow> Q q) \<Longrightarrow> sends Q m"
  unfolding sends_def by blast

lemma sends_give [sends_rules]: "sends P (give x)"
  by (rule sendsI) (simp_all add: give_def)

lemma sends_fail [sends_rules]: "sends P (fail e)"
  by (rule sendsI) (simp_all add: fail_def)

lemma sends_pure_result [sends_rules]: "sends P (pure_result r)"
  by (rule sendsI) (simp_all add: pure_result_def)

lemma sends_attempt [sends_rules]: "sends P m \<Longrightarrow> sends P (attempt m)"
  by (simp add: sends_def attempt_def)

lemma sends_or_error [sends_rules]: "sends P m \<Longrightarrow> sends P (or_error m e)"
  by (simp add: sends_def or_error_def)

lemma sends_call [sends_rules]:
  assumes m: "sends P m" and f: "\<And>x. sends P (f x)"
  shows "sends P (call m f)"
proof -
  have "same_state s (fst (call m f s)) \<and>
      (\<exists>qs. issued (fst (call m f s)) = issued s @ qs \<and> (\<forall>q \<in> set qs. P q))" if l: "live s" for s
  proof -
    obtain qs where q: "same_state s (fst (m s))" "issued (fst (m s)) = issued s @ qs" "\<forall>q \<in> set qs. P q"
      by (rule sendsE [OF m l])
    show ?thesis
    proof (cases "snd (m s)")
      case (Inl e)
      then show ?thesis using q by (auto simp: call_result)
    next
      case (Inr x)
      have "live (fst (m s))" using same_state_live [OF q(1)] l by simp
      then obtain qs' where q': "same_state (fst (m s)) (fst (f x (fst (m s))))"
        "issued (fst (f x (fst (m s)))) = issued (fst (m s)) @ qs'" "\<forall>q \<in> set qs'. P q"
        by (rule sendsE [OF f])
      then show ?thesis
        using q Inr same_state_trans [OF q(1) q'(1)]
        by (auto simp: call_result intro!: exI [of _ "qs @ qs'"])
    qed
  qed
  then show ?thesis by (simp add: sends_def)
qed

lemma sends_if [sends_rules]: "sends P m \<Longrightarrow> sends P m' \<Longrightarrow> sends P (if b then m else m')"
  by simp

lemma sends_option [sends_rules]:
  "sends P m \<Longrightarrow> (\<And>x. sends P (f x)) \<Longrightarrow> sends P (case v of None \<Rightarrow> m | Some x \<Rightarrow> f x)"
  by (cases v) simp_all

lemma note_error_same_state [simp]: "same_state s (note_error e s)"
  by (simp add: same_state_def)

lemma query_live:
  assumes "live s"
  shows "same_state s (fst (preludedb_sql_query s q want)) \<and>
    issued (fst (preludedb_sql_query s q want)) = issued s @ [q]"
proof -
  have "\<not> preludedb_error_check e PRELUDEDB_ERROR_CONNECTION"
    if "p_query (sql_plugin s) (session s) q want = (w, Inl e)" for w e
    using assms that unfolding live_def connection_kept_def by (metis snd_conv)
  then have "status_connected (fst (preludedb_sql_query s q want))"
    using assms by (auto simp: preludedb_sql_query_def assert_connected_def live_def Let_def
        split: prod.splits sum.splits option.splits)
  then show ?thesis
    using assms query_connected [of s q want] query_frame [of s q want] by (simp add: live_def same_state_def)
qed

lemma sends_query [sends_rules]: "P q \<Longrightarrow> sends P (\<lambda>s. preludedb_sql_query s q want)"
  using query_live [where q = q and want = want] by (auto simp: sends_def)

lemma escape_with_live:
  "live s \<Longrightarrow> same_state s (fst (sql_escape_with f s i))"
  using escape_with_connected [of s f i] by (simp add: live_def same_state_def)

lemma sends_escape_with: "sends P (\<lambda>s. sql_escape_with f s i)"
  by (rule sendsI) (simp_all add: escape_with_live)

lemma sends_escape_string [sends_rules]: "sends P (escape_string x)"
  by (cases x) (simp_all add: escape_string_def preludedb_sql_escape_def preludedb_sql_escape_fast_def
      sends_escape_with sends_give [unfolded give_def])

lemma sends_escape_binary [sends_rules]: "sends P (\<lambda>s. preludedb_sql_escape_binary s x)"
  by (cases x) (simp_all add: preludedb_sql_escape_binary_def sends_escape_with sends_give [unfolded give_def])

lemma sends_insert_row:
  "P (insert_text table columns vals) \<Longrightarrow> sends P (insert_row table columns vals)"
  using query_live [where q = "insert_text table columns vals" and want = False]
  by (auto simp: sends_def insert_row_def preludedb_sql_insert_def insert_text_def split_beta)

section \<open>A transaction around a call\<close>

text \<open>
  The frame that inserting and deleting share: BEGIN, the body, and COMMIT or ROLLBACK. The
  body's error is returned unless the rollback fails itself.
\<close>

definition in_transaction ::
    "(string option \<Rightarrow> db_error \<Rightarrow> string) \<Rightarrow> (('w, 'd) sql, unit) sql_call \<Rightarrow> (('w, 'd) sql, unit) sql_call" where
  "in_transaction se body s =
     (case preludedb_sql_transaction_start s of
        (s1, Inl e) \<Rightarrow> (s1, Inl e)
      | (s1, Inr _) \<Rightarrow>
          (case body s1 of
             (s2, Inr _) \<Rightarrow> preludedb_sql_transaction_end s2
           | (s2, Inl ret) \<Rightarrow>
               (case preludedb_sql_transaction_abort se s2 of
                  (s3, Inl tmp) \<Rightarrow> (s3, Inl tmp)
                | (s3, Inr _) \<Rightarrow> (s3, Inl ret))))"

text \<open>The three ways a transaction can go, with what the database saw.\<close>

lemma in_transaction_cases:
  assumes l: "live s" and tr: "\<not> status_transaction s" and en: "\<not> internal_transaction_disabled s"
    and b: "sends P body"
  shows "mutex (fst (in_transaction se body s)) = mutex s \<and>
    \<not> status_transaction (fst (in_transaction se body s)) \<and>
    (\<exists>qs. (\<forall>q \<in> set qs. P q) \<and>
      (issued (fst (in_transaction se body s)) = issued s @ [''BEGIN''] \<and> \<not> is_ok (snd (in_transaction se body s)) \<or>
       issued (fst (in_transaction se body s)) = issued s @ ''BEGIN'' # qs @ [''COMMIT''] \<or>
       issued (fst (in_transaction se body s)) = issued s @ ''BEGIN'' # qs @ [''ROLLBACK''] \<and>
         \<not> is_ok (snd (in_transaction se body s))))"
proof -
  obtain s0 r0 where q: "preludedb_sql_query (lock s) ''BEGIN'' False = (s0, r0)" by fastforce
  have ll: "live (lock s)" using l by (simp add: live_def)
  have s0: "same_state (lock s) s0" "issued s0 = issued s @ [''BEGIN'']"
    using query_live [OF ll, of "''BEGIN''" False] q by simp_all
  show ?thesis
  proof (cases r0)
    case (Inl e)
    then have "preludedb_sql_transaction_start s = (unlock s0, Inl e)"
      using q tr en by (simp add: preludedb_sql_transaction_start_def sql_transaction_start_ext_def)
    then show ?thesis using s0 tr by (auto simp: in_transaction_def same_state_def intro!: exI [of _ "[]"])
  next
    case (Inr u)
    define s1 where "s1 = s0\<lparr>status_transaction := True\<rparr>"
    have st: "preludedb_sql_transaction_start s = (s1, Inr ())"
      using q tr en Inr by (simp add: preludedb_sql_transaction_start_def sql_transaction_start_ext_def s1_def)
    have s1: "live s1" "status_transaction s1" "mutex s1 = Suc (mutex s)" "issued s1 = issued s @ [''BEGIN'']"
      "\<not> internal_transaction_disabled s1"
      using s0 l en by (simp_all add: s1_def same_state_def live_def)
    obtain qs where qs: "same_state s1 (fst (body s1))" "issued (fst (body s1)) = issued s1 @ qs" "\<forall>q \<in> set qs. P q"
      by (rule sendsE [OF b s1(1)])
    obtain s2 r2 where bd: "body s1 = (s2, r2)" by fastforce
    have s2: "status_connected s2" "status_transaction s2" "mutex s2 = Suc (mutex s)"
      "\<not> internal_transaction_disabled s2" "issued s2 = issued s @ ''BEGIN'' # qs"
      using qs bd s1 by (simp_all add: same_state_def live_def)
    show ?thesis
    proof (cases r2)
      case (Inr v)
      then show ?thesis
        using st bd qs(3) s2 end_connected [OF s2(1,4,2)] by (auto simp: in_transaction_def)
    next
      case (Inl e)
      obtain s3 r3 where ab: "preludedb_sql_transaction_abort se s2 = (s3, r3)" by fastforce
      have "issued s3 = issued s2 @ [''ROLLBACK'']" "\<not> status_transaction s3" "mutex s3 = mutex s"
        using abort_connected [OF s2(1,4,2), of se] ab s2(3) by simp_all
      then show ?thesis
        using st bd qs(3) s2 ab Inl by (cases r3) (auto simp: in_transaction_def)
    qed
  qed
qed

end
