(* ===== verification/Classic_Schema.thy ===== *)
theory Classic_Schema
  imports Pdb_Prelude
begin

text \<open>
  The tables of the classic format, as plugins/format/classic/sqlite.sql creates them. An entry
  has the name of the table, its NOT NULL columns, its other columns and its primary key. The
  types of the columns are left out, and the table \<open>_format\<close>, which holds the version.
\<close>

definition classic_schema :: "(string \<times> string list \<times> string list \<times> string list) list" where
  "classic_schema =
   [(''Prelude_Alert'', [''_ident''], [''messageid''], [''_ident'']),
    (''Prelude_Alertident'', [''_message_ident'', ''_index'', ''_parent_type'', ''alertident''],
      [''analyzerid''], [''_parent_type'', ''_message_ident'', ''_index'']),
    (''Prelude_ToolAlert'', [''_message_ident'', ''name''], [''command''], [''_message_ident'']),
    (''Prelude_CorrelationAlert'', [''_message_ident'', ''name''], [], [''_message_ident'']),
    (''Prelude_OverflowAlert'', [''_message_ident'', ''program''], [''size'', ''buffer''], [''_message_ident'']),
    (''Prelude_Heartbeat'', [''_ident''], [''messageid'', ''heartbeat_interval''], [''_ident'']),
    (''Prelude_Analyzer'', [''_message_ident'', ''_parent_type'', ''_index''], [''analyzerid'', ''name'',
      ''manufacturer'', ''model'', ''version'', ''class'', ''ostype'', ''osversion''], [''_parent_type'',
      ''_message_ident'', ''_index'']),
    (''Prelude_Classification'', [''_message_ident'', ''text''], [''ident''], [''_message_ident'']),
    (''Prelude_Reference'', [''_message_ident'', ''_index'', ''origin'', ''name'', ''url''], [''meaning''],
      [''_message_ident'', ''_index'']),
    (''Prelude_Source'', [''_message_ident'', ''_index'', ''spoofed''], [''ident'', ''interface''],
      [''_message_ident'', ''_index'']),
    (''Prelude_Target'', [''_message_ident'', ''_index'', ''decoy''], [''ident'', ''interface''],
      [''_message_ident'', ''_index'']),
    (''Prelude_File'', [''_message_ident'', ''_parent0_index'', ''_index'', ''path'', ''name''], [''ident'',
      ''category'', ''create_time'', ''create_time_gmtoff'', ''modify_time'', ''modify_time_gmtoff'',
      ''access_time'', ''access_time_gmtoff'', ''data_size'', ''disk_size'', ''fstype'', ''file_type''],
      [''_message_ident'', ''_parent0_index'', ''_index'']),
    (''Prelude_FileAccess'', [''_message_ident'', ''_parent0_index'', ''_parent1_index'', ''_index''], [],
      [''_message_ident'', ''_parent0_index'', ''_parent1_index'', ''_index'']),
    (''Prelude_FileAccess_Permission'', [''_message_ident'', ''_parent0_index'', ''_parent1_index'',
      ''_parent2_index'', ''_index'', ''permission''], [], [''_message_ident'', ''_parent0_index'',
      ''_parent1_index'', ''_parent2_index'', ''_index'']),
    (''Prelude_Linkage'', [''_message_ident'', ''_parent0_index'', ''_parent1_index'', ''_index'', ''category'',
      ''name'', ''path''], [], [''_message_ident'', ''_parent0_index'', ''_parent1_index'', ''_index'']),
    (''Prelude_Inode'', [''_message_ident'', ''_parent0_index'', ''_parent1_index''], [''change_time'',
      ''change_time_gmtoff'', ''number'', ''major_device'', ''minor_device'', ''c_major_device'',
      ''c_minor_device''], [''_message_ident'', ''_parent0_index'', ''_parent1_index'']),
    (''Prelude_Checksum'', [''_message_ident'', ''_parent0_index'', ''_parent1_index'', ''_index'',
      ''algorithm'', ''value''], [''checksum_key''], [''_message_ident'', ''_parent0_index'',
      ''_parent1_index'', ''_index'']),
    (''Prelude_Impact'', [''_message_ident'', ''type''], [''description'', ''severity'', ''completion''],
      [''_message_ident'']),
    (''Prelude_Action'', [''_message_ident'', ''_index'', ''category''], [''description''], [''_message_ident'',
      ''_index'']),
    (''Prelude_Confidence'', [''_message_ident'', ''rating''], [''confidence''], [''_message_ident'']),
    (''Prelude_Assessment'', [''_message_ident''], [], [''_message_ident'']),
    (''Prelude_AdditionalData'', [''_message_ident'', ''_parent_type'', ''_index'', ''type'', ''data''],
      [''meaning''], [''_parent_type'', ''_message_ident'', ''_index'']),
    (''Prelude_CreateTime'', [''_message_ident'', ''_parent_type'', ''time'', ''usec'', ''gmtoff''], [],
      [''_parent_type'', ''_message_ident'']),
    (''Prelude_DetectTime'', [''_message_ident'', ''time'', ''usec'', ''gmtoff''], [], [''_message_ident'']),
    (''Prelude_AnalyzerTime'', [''_message_ident'', ''_parent_type'', ''time'', ''usec'', ''gmtoff''], [],
      [''_parent_type'', ''_message_ident'']),
    (''Prelude_Node'', [''_message_ident'', ''_parent_type'', ''_parent0_index''], [''ident'', ''category'',
      ''location'', ''name''], [''_parent_type'', ''_message_ident'', ''_parent0_index'']),
    (''Prelude_Address'', [''_message_ident'', ''_parent_type'', ''_parent0_index'', ''_index'', ''category'',
      ''address''], [''ident'', ''vlan_name'', ''vlan_num'', ''netmask''], [''_parent_type'',
      ''_message_ident'', ''_parent0_index'', ''_index'']),
    (''Prelude_User'', [''_message_ident'', ''_parent_type'', ''_parent0_index'', ''category''], [''ident''],
      [''_parent_type'', ''_message_ident'', ''_parent0_index'']),
    (''Prelude_UserId'', [''_message_ident'', ''_parent_type'', ''_parent0_index'', ''_parent1_index'',
      ''_parent2_index'', ''_index'', ''type''], [''ident'', ''name'', ''tty'', ''number''], [''_parent_type'',
      ''_message_ident'', ''_parent0_index'', ''_parent1_index'', ''_parent2_index'', ''_index'']),
    (''Prelude_Process'', [''_message_ident'', ''_parent_type'', ''_parent0_index'', ''name''], [''ident'',
      ''pid'', ''path''], [''_parent_type'', ''_message_ident'', ''_parent0_index'']),
    (''Prelude_ProcessArg'', [''_message_ident'', ''_parent_type'', ''_parent0_index'', ''_index'', ''arg''],
      [], [''_parent_type'', ''_message_ident'', ''_parent0_index'', ''_index'']),
    (''Prelude_ProcessEnv'', [''_message_ident'', ''_parent_type'', ''_parent0_index'', ''_index'', ''env''],
      [], [''_parent_type'', ''_message_ident'', ''_parent0_index'', ''_index'']),
    (''Prelude_Service'', [''_message_ident'', ''_parent_type'', ''_parent0_index''], [''ident'',
      ''ip_version'', ''name'', ''port'', ''iana_protocol_number'', ''iana_protocol_name'', ''portlist'',
      ''protocol''], [''_parent_type'', ''_message_ident'', ''_parent0_index'']),
    (''Prelude_WebService'', [''_message_ident'', ''_parent_type'', ''_parent0_index'', ''url''], [''cgi'',
      ''http_method''], [''_parent_type'', ''_message_ident'', ''_parent0_index'']),
    (''Prelude_WebServiceArg'', [''_message_ident'', ''_parent_type'', ''_parent0_index'', ''_index'', ''arg''],
      [], [''_parent_type'', ''_message_ident'', ''_parent0_index'', ''_index'']),
    (''Prelude_SnmpService'', [''_message_ident'', ''_parent_type'', ''_parent0_index''], [''snmp_oid'',
      ''message_processing_model'', ''security_model'', ''security_name'', ''security_level'', ''context_name'',
      ''context_engine_id'', ''command''], [''_parent_type'', ''_message_ident'', ''_parent0_index''])]"

definition table_entry :: "string \<Rightarrow> string list \<times> string list \<times> string list" where
  "table_entry T = (case map_of classic_schema T of None \<Rightarrow> ([], [], []) | Some e \<Rightarrow> e)"

definition required_columns :: "string \<Rightarrow> string list" where
  "required_columns T = fst (table_entry T)"

definition key_columns :: "string \<Rightarrow> string list" where
  "key_columns T = snd (snd (table_entry T))"

definition has_columns :: "string \<Rightarrow> string list \<Rightarrow> bool" where
  "has_columns T cs \<longleftrightarrow> list_all (\<lambda>c. c \<in> set (required_columns T @ fst (snd (table_entry T)))) cs"

definition classic_tables :: "string list" where
  "classic_tables = map fst classic_schema"

section \<open>Columns of a statement\<close>

text \<open>The names in a list of columns.\<close>

fun split_on :: "char \<Rightarrow> string \<Rightarrow> string list" where
  "split_on d [] = [[]]"
| "split_on d (c # cs) =
     (if c = d then [] # split_on d cs
      else case split_on d cs of [] \<Rightarrow> [[c]] | w # ws \<Rightarrow> (c # w) # ws)"

definition columns_in :: "string \<Rightarrow> string list" where
  "columns_in s = map (dropWhile (\<lambda>c. c = CHR '' '')) (split_on (CHR '','') s)"

text \<open>The tables whose idents the database gives.\<close>

definition message_tables :: "string set" where
  "message_tables = {''Prelude_Alert'', ''Prelude_Heartbeat''}"

text \<open>
  An INSERT of \<open>n\<close> values into the columns \<open>C\<close> of a table that names every NOT NULL column once,
  but the ident that the database gives.
\<close>

definition schema_insert :: "string \<Rightarrow> string \<Rightarrow> nat \<Rightarrow> bool" where
  "schema_insert T C n \<longleftrightarrow> T \<in> set classic_tables \<and> has_columns T (columns_in C) \<and> distinct (columns_in C) \<and>
     length (columns_in C) = n \<and>
     list_all (\<lambda>c. c \<in> set (columns_in C) \<or> c = ''_ident'' \<and> T \<in> message_tables) (required_columns T)"

end
