(* ===== verification/Classic_Insert.thy ===== *)
theory Classic_Insert
  imports Idmef Sql_Call Sql_Fetch Classic_Schema
begin

text \<open>
  Inserting messages in the classic format (plugins/format/classic/classic-insert.c): every
  object of a message becomes a row of its class's table, identified by the message's ident
  and the object's position. The elements of most lists are numbered from 0, and the last one
  is inserted a second time under the index -1. Buffers that are freed are left out.
\<close>

section \<open>Values\<close>

definition char_literal :: "char \<Rightarrow> string" where
  "char_literal c = [CHR 0x27, c, CHR 0x27]"

text \<open>
  The data of a character string ends with a NUL that is not stored; what is no string or
  character is stored as the text libprelude gives it.
\<close>

definition get_data_insert :: "idmef_codec \<Rightarrow> idmef_data \<Rightarrow> (('w, 'd) sql, string) sql_call" where
  "get_data_insert codec data =
     (case data of
        Data_byte_string b \<Rightarrow> (\<lambda>s. preludedb_sql_escape_binary s (Some b))
      | Data_char_string t \<Rightarrow> (\<lambda>s. preludedb_sql_escape_binary s (Some t))
      | Data_char c \<Rightarrow> (\<lambda>s. preludedb_sql_escape_binary s (Some [c]))
      | _ \<Rightarrow> call (pure_result (data_to_string codec data)) (\<lambda>string.
               \<lambda>s. preludedb_sql_escape_binary s (Some string)))"

definition get_optional_enum :: "idmef_codec \<Rightarrow> idmef_enum \<Rightarrow> int option \<Rightarrow> string option" where
  "get_optional_enum codec enum v = Option.bind v (enum_to_string codec enum)"

definition get_optional_int32 :: "nat \<Rightarrow> int option \<Rightarrow> string" where
  "get_optional_int32 n v = snprintf_buf n (case v of None \<Rightarrow> ''NULL'' | Some i \<Rightarrow> dec_int i)"

text \<open>The unsigned instances of the macro and the function for \<open>uint8_t\<close> differ in their format only.\<close>

definition get_optional_uint :: "nat \<Rightarrow> nat option \<Rightarrow> string" where
  "get_optional_uint n v = snprintf_buf n (case v of None \<Rightarrow> ''NULL'' | Some i \<Rightarrow> dec_nat i)"

definition time_to_timestamp ::
    "idmef_codec \<Rightarrow> idmef_time option \<Rightarrow> nat option \<Rightarrow>
       (('w, 'd) sql, string \<times> string option \<times> string option) sql_call" where
  "time_to_timestamp codec time usec_size =
     (\<lambda>s. (s, preludedb_sql_time_to_timestamp (sql_plugin s) (idmef_times codec) time
                 TIMESTAMP_STRING_SIZE (Some 16) usec_size))"

abbreviation printed :: "string option \<Rightarrow> string" where
  "printed x \<equiv> (case x of None \<Rightarrow> [] | Some t \<Rightarrow> t)"

section \<open>Lists\<close>

fun insert_from :: "(int \<Rightarrow> 'x \<Rightarrow> (('w, 'd) sql, unit) sql_call) \<Rightarrow> int \<Rightarrow> 'x list \<Rightarrow> (('w, 'd) sql, unit) sql_call" where
  "insert_from f index [] = give ()"
| "insert_from f index (x # xs) = call (f index x) (\<lambda>_. insert_from f (index + 1) xs)"

text \<open>The loop and the second insertion of the last element, which most lists have.\<close>

definition insert_listed :: "(int \<Rightarrow> 'x \<Rightarrow> (('w, 'd) sql, unit) sql_call) \<Rightarrow> 'x list \<Rightarrow> (('w, 'd) sql, unit) sql_call" where
  "insert_listed f xs =
     call (insert_from f 0 xs) (\<lambda>_. if xs = [] then give () else f (-1) (last xs))"

text \<open>An optional member: nothing is inserted for NULL.\<close>

definition insert_optional :: "('x \<Rightarrow> (('w, 'd) sql, unit) sql_call) \<Rightarrow> 'x option \<Rightarrow> (('w, 'd) sql, unit) sql_call" where
  "insert_optional f v = (case v of None \<Rightarrow> give () | Some x \<Rightarrow> f x)"

section \<open>Nodes, users, processes\<close>

definition insert_address ::
    "idmef_codec \<Rightarrow> char \<Rightarrow> nat \<Rightarrow> int \<Rightarrow> int \<Rightarrow> idmef_address \<Rightarrow> (('w, 'd) sql, unit) sql_call" where
  "insert_address codec parent_type message_ident parent_index address_index address =
     call (escape_string (enum_to_string codec ADDRESS_CATEGORY (address_category address))) (\<lambda>category.
     call (escape_string (address_ident address)) (\<lambda>ident.
     call (escape_string (address_address address)) (\<lambda>addr.
     call (escape_string (address_netmask address)) (\<lambda>netmask.
     call (escape_string (address_vlan_name address)) (\<lambda>vlan_name.
       insert_row ''Prelude_Address''
         (''_parent_type, _message_ident, _parent0_index, _index,'' @
          ''ident, category, vlan_name, vlan_num, address, netmask'')
         [char_literal parent_type, dec_nat message_ident, dec_int parent_index, dec_int address_index,
          ident, category, vlan_name, get_optional_int32 16 (address_vlan_num address), addr, netmask])))))"

definition insert_node ::
    "idmef_codec \<Rightarrow> char \<Rightarrow> nat \<Rightarrow> int \<Rightarrow> idmef_node \<Rightarrow> (('w, 'd) sql, unit) sql_call" where
  "insert_node codec parent_type message_ident parent_index node =
     call (escape_string (enum_to_string codec NODE_CATEGORY (node_category node))) (\<lambda>category.
     call (escape_string (node_ident node)) (\<lambda>ident.
     call (escape_string (node_name node)) (\<lambda>name.
     call (or_error (escape_string (node_location node)) RawError) (\<lambda>location.
     call (insert_row ''Prelude_Node''
         ''_parent_type, _message_ident, _parent0_index, ident, category, location, name''
         [char_literal parent_type, dec_nat message_ident, dec_int parent_index,
          ident, category, location, name]) (\<lambda>_.
       insert_listed (insert_address codec parent_type message_ident parent_index) (node_addresses node))))))"

definition insert_user_id ::
    "idmef_codec \<Rightarrow> char \<Rightarrow> nat \<Rightarrow> int \<Rightarrow> int \<Rightarrow> int \<Rightarrow> int \<Rightarrow> idmef_user_id \<Rightarrow> (('w, 'd) sql, unit) sql_call" where
  "insert_user_id codec parent_type message_ident parent_index file_index file_access_index index user_id =
     call (escape_string (user_id_ident user_id)) (\<lambda>ident.
     call (escape_string (user_id_tty user_id)) (\<lambda>tty.
     call (escape_string (enum_to_string codec USER_ID_TYPE (user_id_type user_id))) (\<lambda>type.
     call (escape_string (user_id_name user_id)) (\<lambda>name.
       insert_row ''Prelude_UserId''
         (''_parent_type, _message_ident, _parent0_index, _parent1_index, _parent2_index, _index, '' @
          ''ident, type, name, number, tty'')
         [char_literal parent_type, dec_nat message_ident, dec_int parent_index, dec_int file_index,
          dec_int file_access_index, dec_int index, ident, type, name,
          get_optional_uint 16 (user_id_number user_id), tty]))))"

definition insert_user ::
    "idmef_codec \<Rightarrow> char \<Rightarrow> nat \<Rightarrow> int \<Rightarrow> idmef_user \<Rightarrow> (('w, 'd) sql, unit) sql_call" where
  "insert_user codec parent_type message_ident parent_index user =
     call (escape_string (user_ident user)) (\<lambda>ident.
     call (escape_string (enum_to_string codec USER_CATEGORY (user_category user))) (\<lambda>category.
     call (insert_row ''Prelude_User'' ''_parent_type, _message_ident, _parent0_index, ident, category''
         [char_literal parent_type, dec_nat message_ident, dec_int parent_index, ident, category]) (\<lambda>_.
       insert_listed (insert_user_id codec parent_type message_ident parent_index 0 0) (user_user_ids user))))"

definition insert_process_arg :: "char \<Rightarrow> nat \<Rightarrow> int \<Rightarrow> int \<Rightarrow> string \<Rightarrow> (('w, 'd) sql, unit) sql_call" where
  "insert_process_arg parent_type message_ident parent_index arg_index arg =
     call (escape_string (Some arg)) (\<lambda>tmp.
       insert_row ''Prelude_ProcessArg'' ''_parent_type, _message_ident, _parent0_index, _index, arg''
         [char_literal parent_type, dec_nat message_ident, dec_int parent_index, dec_int arg_index, tmp])"

definition insert_process_env :: "char \<Rightarrow> nat \<Rightarrow> int \<Rightarrow> int \<Rightarrow> string \<Rightarrow> (('w, 'd) sql, unit) sql_call" where
  "insert_process_env parent_type message_ident parent_index env_index env =
     call (escape_string (Some env)) (\<lambda>tmp.
       insert_row ''Prelude_ProcessEnv'' ''_parent_type, _message_ident, _parent0_index, _index, env''
         [char_literal parent_type, dec_nat message_ident, dec_int parent_index, dec_int env_index, tmp])"

text \<open>Arguments and environment have no second insertion of the last element.\<close>

definition insert_process ::
    "char \<Rightarrow> nat \<Rightarrow> int \<Rightarrow> idmef_process \<Rightarrow> (('w, 'd) sql, unit) sql_call" where
  "insert_process parent_type message_ident parent_index process =
     call (escape_string (process_ident process)) (\<lambda>ident.
     call (escape_string (process_name process)) (\<lambda>name.
     call (escape_string (process_path process)) (\<lambda>path.
     call (insert_row ''Prelude_Process'' ''_parent_type, _message_ident, _parent0_index, ident, name, pid, path''
         [char_literal parent_type, dec_nat message_ident, dec_int parent_index,
          ident, name, get_optional_uint 16 (process_pid process), path]) (\<lambda>_.
     call (insert_from (insert_process_arg parent_type message_ident parent_index) 0 (process_args process)) (\<lambda>_.
       insert_from (insert_process_env parent_type message_ident parent_index) 0 (process_envs process))))))"

section \<open>Services\<close>

definition insert_snmp_service ::
    "char \<Rightarrow> nat \<Rightarrow> int \<Rightarrow> idmef_snmp_service \<Rightarrow> (('w, 'd) sql, unit) sql_call" where
  "insert_snmp_service parent_type message_ident parent_index snmp =
     call (escape_string (snmp_oid snmp)) (\<lambda>oid.
     call (escape_string (snmp_security_name snmp)) (\<lambda>security_name.
     call (escape_string (snmp_context_name snmp)) (\<lambda>context_name.
     call (escape_string (snmp_context_engine_id snmp)) (\<lambda>context_engine_id.
     call (escape_string (snmp_command snmp)) (\<lambda>command.
       insert_row ''Prelude_SnmpService''
         (''_parent_type, _message_ident, _parent0_index, snmp_oid, message_processing_model, '' @
          ''security_model, security_name, security_level, context_name, '' @
          ''context_engine_id, command'')
         [char_literal parent_type, dec_nat message_ident, dec_int parent_index, oid,
          get_optional_uint 12 (snmp_message_processing_model snmp),
          get_optional_uint 12 (snmp_security_model snmp), security_name,
          get_optional_uint 12 (snmp_security_level snmp), context_name, context_engine_id, command])))))"

definition insert_web_service_arg :: "char \<Rightarrow> nat \<Rightarrow> int \<Rightarrow> int \<Rightarrow> string \<Rightarrow> (('w, 'd) sql, unit) sql_call" where
  "insert_web_service_arg parent_type message_ident parent_index arg_index arg =
     call (escape_string (Some arg)) (\<lambda>tmp.
       insert_row ''Prelude_WebServiceArg'' ''_parent_type, _message_ident, _parent0_index, _index, arg''
         [char_literal parent_type, dec_nat message_ident, dec_int parent_index, dec_int arg_index, tmp])"

text \<open>The result of inserting the service itself is not looked at.\<close>

definition insert_web_service ::
    "char \<Rightarrow> nat \<Rightarrow> int \<Rightarrow> idmef_web_service \<Rightarrow> (('w, 'd) sql, unit) sql_call" where
  "insert_web_service parent_type message_ident parent_index web =
     call (escape_string (web_url web)) (\<lambda>url.
     call (or_error (escape_string (web_cgi web)) RawError) (\<lambda>cgi.
     call (escape_string (web_http_method web)) (\<lambda>method.
     call (attempt (insert_row ''Prelude_WebService''
         ''_parent_type, _message_ident, _parent0_index, url, cgi, http_method''
         [char_literal parent_type, dec_nat message_ident, dec_int parent_index, url, cgi, method])) (\<lambda>ret.
       insert_listed (insert_web_service_arg parent_type message_ident parent_index) (web_args web)))))"

text \<open>When the first escape fails the pointer it would have set is freed unset.\<close>

definition insert_service ::
    "char \<Rightarrow> nat \<Rightarrow> int \<Rightarrow> idmef_service \<Rightarrow> (('w, 'd) sql, unit) sql_call" where
  "insert_service parent_type message_ident parent_index service =
     call (or_error (escape_string (service_ident service)) Undefined) (\<lambda>ident.
     call (escape_string (service_name service)) (\<lambda>name.
     call (escape_string (service_iana_protocol_name service)) (\<lambda>iana_protocol_name.
     call (escape_string (service_portlist service)) (\<lambda>portlist.
     call (escape_string (service_protocol service)) (\<lambda>protocol.
     call (insert_row ''Prelude_Service''
         (''_parent_type, _message_ident, _parent0_index, '' @
          ''ident, ip_version, name, port, iana_protocol_number, iana_protocol_name, portlist, protocol'')
         [char_literal parent_type, dec_nat message_ident, dec_int parent_index,
          ident, get_optional_uint 8 (service_ip_version service), name,
          get_optional_uint 8 (service_port service),
          get_optional_uint 8 (service_iana_protocol_number service),
          iana_protocol_name, portlist, protocol]) (\<lambda>_.
       case service_type service of
         SERVICE_DEFAULT \<Rightarrow> give ()
       | SERVICE_WEB w \<Rightarrow> insert_optional (insert_web_service parent_type message_ident parent_index) w
       | SERVICE_SNMP w \<Rightarrow> insert_optional (insert_snmp_service parent_type message_ident parent_index) w
       | SERVICE_INVALID \<Rightarrow> fail RawError))))))"

section \<open>Files\<close>

definition insert_inode ::
    "idmef_codec \<Rightarrow> nat \<Rightarrow> int \<Rightarrow> int \<Rightarrow> idmef_inode \<Rightarrow> (('w, 'd) sql, unit) sql_call" where
  "insert_inode codec message_ident target_index file_index inode =
     call (or_error (time_to_timestamp codec (inode_change_time inode) None) RawError) (\<lambda>(ctime, ctime_gmtoff, _).
       insert_row ''Prelude_Inode''
         (''_message_ident, _parent0_index, _parent1_index, '' @
          ''change_time, change_time_gmtoff, number, major_device, minor_device, c_major_device, '' @
          ''c_minor_device'')
         [dec_nat message_ident, dec_int target_index, dec_int file_index, ctime, printed ctime_gmtoff,
          get_optional_uint 16 (inode_number inode), get_optional_uint 16 (inode_major_device inode),
          get_optional_uint 16 (inode_minor_device inode), get_optional_uint 16 (inode_c_major_device inode),
          get_optional_uint 16 (inode_c_minor_device inode)])"

definition insert_linkage ::
    "idmef_codec \<Rightarrow> nat \<Rightarrow> int \<Rightarrow> int \<Rightarrow> int \<Rightarrow> idmef_linkage \<Rightarrow> (('w, 'd) sql, unit) sql_call" where
  "insert_linkage codec message_ident target_index file_index index linkage =
     call (escape_string (enum_to_string codec LINKAGE_CATEGORY (linkage_category linkage))) (\<lambda>category.
     call (escape_string (linkage_name linkage)) (\<lambda>name.
     call (escape_string (linkage_path linkage)) (\<lambda>path.
       insert_row ''Prelude_Linkage'' ''_message_ident, _parent0_index, _parent1_index, _index, category, name, path''
         [dec_nat message_ident, dec_int target_index, dec_int file_index, dec_int index, category, name, path])))"

definition insert_file_access_permission ::
    "nat \<Rightarrow> int \<Rightarrow> int \<Rightarrow> int \<Rightarrow> int \<Rightarrow> string \<Rightarrow> (('w, 'd) sql, unit) sql_call" where
  "insert_file_access_permission message_ident target_index file_index file_access_index perm_index perm =
     call (escape_string (Some perm)) (\<lambda>tmp.
       insert_row ''Prelude_FileAccess_Permission''
         ''_message_ident, _parent0_index, _parent1_index, _parent2_index, _index, permission''
         [dec_nat message_ident, dec_int target_index, dec_int file_index, dec_int file_access_index,
          dec_int perm_index, tmp])"

text \<open>The user id is used without a look at NULL.\<close>

definition insert_file_access ::
    "idmef_codec \<Rightarrow> nat \<Rightarrow> int \<Rightarrow> int \<Rightarrow> int \<Rightarrow> idmef_file_access \<Rightarrow> (('w, 'd) sql, unit) sql_call" where
  "insert_file_access codec message_ident target_index file_index file_access_index file_access =
     call (insert_row ''Prelude_FileAccess'' ''_message_ident, _parent0_index, _parent1_index, _index''
         [dec_nat message_ident, dec_int target_index, dec_int file_index, dec_int file_access_index]) (\<lambda>_.
     call (insert_listed (insert_file_access_permission message_ident target_index file_index file_access_index)
         (file_access_permissions file_access)) (\<lambda>_.
       case file_access_user_id file_access of
         None \<Rightarrow> fail Undefined
       | Some user_id \<Rightarrow>
           insert_user_id codec (CHR ''F'') message_ident target_index file_index file_access_index 0 user_id))"

definition insert_checksum ::
    "idmef_codec \<Rightarrow> nat \<Rightarrow> int \<Rightarrow> int \<Rightarrow> int \<Rightarrow> idmef_checksum \<Rightarrow> (('w, 'd) sql, unit) sql_call" where
  "insert_checksum codec message_ident target_index file_index checksum_index checksum =
     call (escape_string (checksum_value checksum)) (\<lambda>value.
     call (escape_string (checksum_key checksum)) (\<lambda>key.
     call (escape_string (enum_to_string codec CHECKSUM_ALGORITHM (checksum_algorithm checksum))) (\<lambda>algorithm.
       insert_row ''Prelude_Checksum''
         ''_message_ident, _parent0_index, _parent1_index, _index, value, checksum_key, algorithm''
         [dec_nat message_ident, dec_int target_index, dec_int file_index, dec_int checksum_index,
          value, key, algorithm])))"

definition insert_file ::
    "idmef_codec \<Rightarrow> nat \<Rightarrow> int \<Rightarrow> int \<Rightarrow> idmef_file \<Rightarrow> (('w, 'd) sql, unit) sql_call" where
  "insert_file codec message_ident target_index file_index file =
     call (time_to_timestamp codec (file_create_time file) None) (\<lambda>(ctime, ctime_gmtoff, _).
     call (time_to_timestamp codec (file_modify_time file) None) (\<lambda>(mtime, mtime_gmtoff, _).
     call (time_to_timestamp codec (file_access_time file) None) (\<lambda>(atime, atime_gmtoff, _).
     call (escape_string (enum_to_string codec FILE_CATEGORY (file_category file))) (\<lambda>category.
     call (escape_string (file_ident file)) (\<lambda>ident.
     call (escape_string (file_name file)) (\<lambda>name.
     call (escape_string (file_path file)) (\<lambda>path.
     call (escape_string (file_file_type file)) (\<lambda>file_type.
     call (escape_string (get_optional_enum codec FILE_FSTYPE (file_fstype file))) (\<lambda>fstype.
     call (insert_row ''Prelude_File''
         (''_message_ident, _parent0_index, _index, ident, category, name, path, '' @
          ''create_time, create_time_gmtoff, modify_time, modify_time_gmtoff, access_time, access_time_gmtoff, '' @
          ''data_size, disk_size, fstype, file_type'')
         [dec_nat message_ident, dec_int target_index, dec_int file_index, ident, category, name, path,
          ctime, printed ctime_gmtoff, mtime, printed mtime_gmtoff, atime, printed atime_gmtoff,
          get_optional_uint 32 (file_data_size file), get_optional_uint 32 (file_disk_size file),
          fstype, file_type]) (\<lambda>_.
     call (insert_listed (insert_file_access codec message_ident target_index file_index)
         (file_file_accesses file)) (\<lambda>_.
     call (insert_listed (insert_linkage codec message_ident target_index file_index) (file_linkages file)) (\<lambda>_.
     call (insert_optional (insert_inode codec message_ident target_index file_index) (file_inode file)) (\<lambda>_.
       insert_listed (insert_checksum codec message_ident target_index file_index) (file_checksums file))))))))))))))"

section \<open>Sources, targets, analyzers\<close>

definition insert_source ::
    "idmef_codec \<Rightarrow> nat \<Rightarrow> int \<Rightarrow> idmef_source \<Rightarrow> (('w, 'd) sql, unit) sql_call" where
  "insert_source codec message_ident index source =
     call (escape_string (source_ident source)) (\<lambda>ident.
     call (escape_string (enum_to_string codec SOURCE_SPOOFED (source_spoofed source))) (\<lambda>spoofed.
     call (escape_string (source_interface source)) (\<lambda>interface.
     call (insert_row ''Prelude_Source'' ''_message_ident, _index, ident, spoofed, interface''
         [dec_nat message_ident, dec_int index, ident, spoofed, interface]) (\<lambda>_.
     call (insert_optional (insert_node codec (CHR ''S'') message_ident index) (source_node source)) (\<lambda>_.
     call (insert_optional (insert_user codec (CHR ''S'') message_ident index) (source_user source)) (\<lambda>_.
     call (insert_optional (insert_process (CHR ''S'') message_ident index) (source_process source)) (\<lambda>_.
       insert_optional (insert_service (CHR ''S'') message_ident index) (source_service source))))))))"

definition insert_target ::
    "idmef_codec \<Rightarrow> nat \<Rightarrow> int \<Rightarrow> idmef_target \<Rightarrow> (('w, 'd) sql, unit) sql_call" where
  "insert_target codec message_ident target_index target =
     call (escape_string (enum_to_string codec TARGET_DECOY (target_decoy target))) (\<lambda>decoy.
     call (or_error (escape_string (target_ident target)) RawError) (\<lambda>ident.
     call (or_error (escape_string (target_interface target)) RawError) (\<lambda>interface.
     call (or_error (insert_row ''Prelude_Target'' ''_message_ident, _index, ident, decoy, interface''
         [dec_nat message_ident, dec_int target_index, ident, decoy, interface]) RawError) (\<lambda>_.
     call (insert_optional (insert_node codec (CHR ''T'') message_ident target_index) (target_node target)) (\<lambda>_.
     call (insert_optional (insert_user codec (CHR ''T'') message_ident target_index) (target_user target)) (\<lambda>_.
     call (insert_optional (insert_process (CHR ''T'') message_ident target_index) (target_process target)) (\<lambda>_.
     call (insert_optional (insert_service (CHR ''T'') message_ident target_index) (target_service target)) (\<lambda>_.
       insert_listed (insert_file codec message_ident target_index) (target_files target)))))))))"

definition insert_analyzer ::
    "idmef_codec \<Rightarrow> char \<Rightarrow> nat \<Rightarrow> int \<Rightarrow> idmef_analyzer \<Rightarrow> (('w, 'd) sql, unit) sql_call" where
  "insert_analyzer codec parent_type message_ident analyzer_index analyzer =
     call (escape_string (analyzer_analyzerid analyzer)) (\<lambda>analyzerid.
     call (escape_string (analyzer_class analyzer)) (\<lambda>cls.
     call (escape_string (analyzer_name analyzer)) (\<lambda>name.
     call (escape_string (analyzer_model analyzer)) (\<lambda>model.
     call (escape_string (analyzer_version analyzer)) (\<lambda>version.
     call (escape_string (analyzer_manufacturer analyzer)) (\<lambda>manufacturer.
     call (escape_string (analyzer_ostype analyzer)) (\<lambda>ostype.
     call (escape_string (analyzer_osversion analyzer)) (\<lambda>osversion.
     call (insert_row ''Prelude_Analyzer''
         (''_parent_type, _message_ident, _index, analyzerid, name, manufacturer, '' @
          ''model, version, class, '' @ ''ostype, osversion'')
         [char_literal parent_type, dec_nat message_ident, dec_int analyzer_index,
          analyzerid, name, manufacturer, model, version, cls, ostype, osversion]) (\<lambda>_.
     call (insert_optional (insert_node codec parent_type message_ident analyzer_index) (analyzer_node analyzer)) (\<lambda>_.
       insert_optional (insert_process parent_type message_ident analyzer_index) (analyzer_process analyzer)))))))))))"

section \<open>Classification, additional data, times, assessment\<close>

definition insert_reference ::
    "idmef_codec \<Rightarrow> nat \<Rightarrow> int \<Rightarrow> idmef_reference \<Rightarrow> (('w, 'd) sql, unit) sql_call" where
  "insert_reference codec message_ident reference_index reference =
     call (escape_string (enum_to_string codec REFERENCE_ORIGIN (reference_origin reference))) (\<lambda>origin.
     call (escape_string (reference_url reference)) (\<lambda>url.
     call (escape_string (reference_name reference)) (\<lambda>name.
     call (escape_string (reference_meaning reference)) (\<lambda>meaning.
       insert_row ''Prelude_Reference'' ''_message_ident, _index, origin, name, url, meaning''
         [dec_nat message_ident, dec_int reference_index, origin, name, url, meaning]))))"

text \<open>The result of inserting the classification itself is not looked at.\<close>

definition insert_classification ::
    "idmef_codec \<Rightarrow> nat \<Rightarrow> idmef_classification \<Rightarrow> (('w, 'd) sql, unit) sql_call" where
  "insert_classification codec message_ident classification =
     call (escape_string (classification_ident classification)) (\<lambda>ident.
     call (escape_string (classification_text classification)) (\<lambda>text.
     call (attempt (insert_row ''Prelude_Classification'' ''_message_ident, ident, text''
         [dec_nat message_ident, ident, text])) (\<lambda>ret.
       insert_listed (insert_reference codec message_ident) (classification_references classification))))"

definition insert_additional_data ::
    "idmef_codec \<Rightarrow> char \<Rightarrow> nat \<Rightarrow> int \<Rightarrow> idmef_additional_data \<Rightarrow> (('w, 'd) sql, unit) sql_call" where
  "insert_additional_data codec parent_type message_ident ad_index ad =
     call (escape_string (enum_to_string codec ADDITIONAL_DATA_TYPE (ad_type ad))) (\<lambda>type.
     call (escape_string (ad_meaning ad)) (\<lambda>meaning.
     call (get_data_insert codec (ad_data ad)) (\<lambda>data.
       insert_row ''Prelude_AdditionalData'' ''_parent_type, _message_ident, _index, type, meaning, data''
         [char_literal parent_type, dec_nat message_ident, dec_int ad_index, type, meaning, data])))"

definition insert_createtime ::
    "idmef_codec \<Rightarrow> char \<Rightarrow> nat \<Rightarrow> idmef_time option \<Rightarrow> (('w, 'd) sql, unit) sql_call" where
  "insert_createtime codec parent_type message_ident time =
     call (time_to_timestamp codec time (Some 16)) (\<lambda>(utc_time, utc_time_gmtoff, utc_time_usec).
       insert_row ''Prelude_CreateTime'' ''_parent_type, _message_ident, time, gmtoff, usec''
         [char_literal parent_type, dec_nat message_ident, utc_time, printed utc_time_gmtoff, printed utc_time_usec])"

definition insert_detecttime :: "idmef_codec \<Rightarrow> nat \<Rightarrow> idmef_time \<Rightarrow> (('w, 'd) sql, unit) sql_call" where
  "insert_detecttime codec message_ident time =
     call (time_to_timestamp codec (Some time) (Some 16)) (\<lambda>(utc_time, utc_time_gmtoff, utc_time_usec).
       insert_row ''Prelude_DetectTime'' ''_message_ident, time, gmtoff, usec''
         [dec_nat message_ident, utc_time, printed utc_time_gmtoff, printed utc_time_usec])"

definition insert_analyzertime :: "idmef_codec \<Rightarrow> char \<Rightarrow> nat \<Rightarrow> idmef_time \<Rightarrow> (('w, 'd) sql, unit) sql_call" where
  "insert_analyzertime codec parent_type message_ident time =
     call (time_to_timestamp codec (Some time) (Some 16)) (\<lambda>(utc_time, utc_time_gmtoff, utc_time_usec).
       insert_row ''Prelude_AnalyzerTime'' ''_parent_type, _message_ident, time, gmtoff, usec''
         [char_literal parent_type, dec_nat message_ident, utc_time, printed utc_time_gmtoff, printed utc_time_usec])"

definition insert_impact :: "idmef_codec \<Rightarrow> nat \<Rightarrow> idmef_impact \<Rightarrow> (('w, 'd) sql, unit) sql_call" where
  "insert_impact codec message_ident impact =
     call (escape_string (get_optional_enum codec IMPACT_COMPLETION (impact_completion impact))) (\<lambda>completion.
     call (escape_string (enum_to_string codec IMPACT_TYPE (impact_type impact))) (\<lambda>type.
     call (escape_string (get_optional_enum codec IMPACT_SEVERITY (impact_severity impact))) (\<lambda>severity.
     call (escape_string (impact_description impact)) (\<lambda>description.
       insert_row ''Prelude_Impact'' ''_message_ident, severity, completion, type, description''
         [dec_nat message_ident, severity, completion, type, description]))))"

definition insert_action :: "idmef_codec \<Rightarrow> nat \<Rightarrow> int \<Rightarrow> idmef_action \<Rightarrow> (('w, 'd) sql, unit) sql_call" where
  "insert_action codec message_ident action_index action =
     call (escape_string (enum_to_string codec ACTION_CATEGORY (action_category action))) (\<lambda>category.
     call (escape_string (action_description action)) (\<lambda>description.
       insert_row ''Prelude_Action'' ''_message_ident, _index, category, description''
         [dec_nat message_ident, dec_int action_index, category, description]))"

definition insert_confidence :: "idmef_codec \<Rightarrow> nat \<Rightarrow> idmef_confidence \<Rightarrow> (('w, 'd) sql, unit) sql_call" where
  "insert_confidence codec message_ident confidence =
     call (escape_string (enum_to_string codec CONFIDENCE_RATING (confidence_rating confidence))) (\<lambda>rating.
       insert_row ''Prelude_Confidence'' ''_message_ident, rating, confidence''
         [dec_nat message_ident, rating, print_float codec (confidence_confidence confidence)])"

definition insert_assessment :: "idmef_codec \<Rightarrow> nat \<Rightarrow> idmef_assessment \<Rightarrow> (('w, 'd) sql, unit) sql_call" where
  "insert_assessment codec message_ident assessment =
     call (insert_row ''Prelude_Assessment'' ''_message_ident'' [dec_nat message_ident]) (\<lambda>_.
     call (insert_optional (insert_impact codec message_ident) (assessment_impact assessment)) (\<lambda>_.
     call (insert_optional (insert_confidence codec message_ident) (assessment_confidence assessment)) (\<lambda>_.
       insert_listed (insert_action codec message_ident) (assessment_actions assessment))))"

section \<open>The kinds of alerts\<close>

text \<open>The alert and its buffer are used without a look at NULL.\<close>

definition insert_overflow_alert ::
    "idmef_codec \<Rightarrow> nat \<Rightarrow> idmef_overflow_alert option \<Rightarrow> (('w, 'd) sql, unit) sql_call" where
  "insert_overflow_alert codec message_ident overflow_alert =
     (case overflow_alert of
        None \<Rightarrow> fail Undefined
      | Some overflow \<Rightarrow>
          call (escape_string (overflow_program overflow)) (\<lambda>program.
          call (case overflow_buffer overflow of None \<Rightarrow> fail Undefined | Some b \<Rightarrow> get_data_insert codec b) (\<lambda>buffer.
            insert_row ''Prelude_OverflowAlert'' ''_message_ident, program, size, buffer''
              [dec_nat message_ident, program, get_optional_uint 16 (overflow_size overflow), buffer])))"

definition insert_alertident ::
    "char \<Rightarrow> nat \<Rightarrow> int \<Rightarrow> idmef_alertident \<Rightarrow> (('w, 'd) sql, unit) sql_call" where
  "insert_alertident parent_type message_ident alertident_index alertident =
     call (escape_string (alertident_analyzerid alertident)) (\<lambda>analyzerid.
     call (escape_string (alertident_alertident alertident)) (\<lambda>messageid.
       insert_row ''Prelude_Alertident'' ''_parent_type, _message_ident, _index, alertident, analyzerid''
         [char_literal parent_type, dec_nat message_ident, dec_int alertident_index, messageid, analyzerid]))"

text \<open>
  The result of inserting the tool alert is looked at only behind the loop, which overwrites
  it when there are alertidents; without any, a failure leads to an alertident that is NULL.
\<close>

definition insert_tool_alert :: "nat \<Rightarrow> idmef_tool_alert \<Rightarrow> (('w, 'd) sql, unit) sql_call" where
  "insert_tool_alert message_ident tool_alert =
     call (escape_string (tool_name tool_alert)) (\<lambda>name.
     call (escape_string (tool_command tool_alert)) (\<lambda>command.
     call (attempt (insert_row ''Prelude_ToolAlert'' ''_message_ident, name, command''
         [dec_nat message_ident, name, command])) (\<lambda>ret.
     call (insert_from (insert_alertident (CHR ''T'') message_ident) 0 (tool_alertidents tool_alert)) (\<lambda>_.
       if tool_alertidents tool_alert = [] \<and> \<not> is_ok ret then fail Undefined else give ()))))"

definition insert_correlation_alert :: "nat \<Rightarrow> idmef_correlation_alert \<Rightarrow> (('w, 'd) sql, unit) sql_call" where
  "insert_correlation_alert message_ident correlation_alert =
     call (escape_string (correlation_name correlation_alert)) (\<lambda>name.
     call (insert_row ''Prelude_CorrelationAlert'' ''_message_ident, name'' [dec_nat message_ident, name]) (\<lambda>_.
       insert_listed (insert_alertident (CHR ''C'') message_ident) (correlation_alertidents correlation_alert)))"

section \<open>Messages\<close>

text \<open>
  The ident the database gave the message. A query without a table, a table without a row and
  a NULL all leave a pointer unset that is then used. The table's session reference is given
  back at the end.
\<close>

definition get_last_insert_ident :: "string \<Rightarrow> (('w, 'd) sql, nat) sql_call" where
  "get_last_insert_ident table_name = (\<lambda>s.
     case preludedb_sql_query_sprintf s (''SELECT max(_ident) FROM '' @ table_name @ '';'') True of
       (s1, Inl e) \<Rightarrow> (s1, Inl e)
     | (s1, Inr None) \<Rightarrow> (s1, Inl Undefined)
     | (s1, Inr (Some t)) \<Rightarrow>
         (case (case preludedb_sql_table_fetch_row s1 t of
                  (s2, t2, Inl e) \<Rightarrow> (s2, Inl e)
                | (s2, t2, Inr None) \<Rightarrow> (s2, Inl Undefined)
                | (s2, t2, Inr (Some i)) \<Rightarrow>
                    (case preludedb_sql_row_get_field s2 t2 i 0 of
                       (s3, t3, Inl e) \<Rightarrow> (s3, Inl e)
                     | (s3, t3, Inr None) \<Rightarrow> (s3, Inl Undefined)
                     | (s3, t3, Inr (Some c)) \<Rightarrow>
                         (s3, map_sum id nat (preludedb_sql_field_to_uint64 (slot_field (field_at t3 i c) c))))) of
            (s', ret) \<Rightarrow> (s'\<lparr>sql_refcount := sql_refcount s' - 1\<rparr>, ret)))"

definition insert_message_messageid :: "string \<Rightarrow> string option \<Rightarrow> (('w, 'd) sql, nat) sql_call" where
  "insert_message_messageid table_name messageid =
     call (escape_string messageid) (\<lambda>tmp.
     call (insert_row table_name ''messageid'' [tmp]) (\<lambda>_.
       get_last_insert_ident table_name))"

definition insert_alert :: "idmef_codec \<Rightarrow> idmef_alert \<Rightarrow> (('w, 'd) sql, unit) sql_call" where
  "insert_alert codec alert =
     call (insert_message_messageid ''Prelude_Alert'' (alert_messageid alert)) (\<lambda>ident.
     call (insert_createtime codec (CHR ''A'') ident (alert_create_time alert)) (\<lambda>_.
     call (insert_optional (insert_detecttime codec ident) (alert_detect_time alert)) (\<lambda>_.
     call (insert_optional (insert_analyzertime codec (CHR ''A'') ident) (alert_analyzer_time alert)) (\<lambda>_.
     call (insert_optional (insert_assessment codec ident) (alert_assessment alert)) (\<lambda>_.
     call (case alert_type alert of
             ALERT_DEFAULT \<Rightarrow> give ()
           | ALERT_TOOL t \<Rightarrow> insert_optional (insert_tool_alert ident) t
           | ALERT_OVERFLOW t \<Rightarrow> insert_overflow_alert codec ident t
           | ALERT_CORRELATION t \<Rightarrow> insert_optional (insert_correlation_alert ident) t
           | ALERT_INVALID \<Rightarrow> fail RawError) (\<lambda>_.
     call (insert_listed (insert_analyzer codec (CHR ''A'') ident) (alert_analyzers alert)) (\<lambda>_.
     call (insert_listed (insert_source codec ident) (alert_sources alert)) (\<lambda>_.
     call (insert_listed (insert_target codec ident) (alert_targets alert)) (\<lambda>_.
     call (insert_optional (insert_classification codec ident) (alert_classification alert)) (\<lambda>_.
       insert_listed (insert_additional_data codec (CHR ''A'') ident) (alert_additional_data alert)))))))))))"

definition insert_heartbeat :: "idmef_codec \<Rightarrow> idmef_heartbeat \<Rightarrow> (('w, 'd) sql, unit) sql_call" where
  "insert_heartbeat codec heartbeat =
     call (escape_string (heartbeat_messageid heartbeat)) (\<lambda>messageid.
     call (insert_row ''Prelude_Heartbeat'' ''messageid, heartbeat_interval''
         [messageid, get_optional_uint 16 (heartbeat_interval heartbeat)]) (\<lambda>_.
     call (get_last_insert_ident ''Prelude_Heartbeat'') (\<lambda>ident.
     call (insert_listed (insert_analyzer codec (CHR ''H'') ident) (heartbeat_analyzers heartbeat)) (\<lambda>_.
     call (insert_createtime codec (CHR ''H'') ident (heartbeat_create_time heartbeat)) (\<lambda>_.
     call (insert_optional (insert_analyzertime codec (CHR ''H'') ident) (heartbeat_analyzer_time heartbeat)) (\<lambda>_.
       insert_listed (insert_additional_data codec (CHR ''H'') ident) (heartbeat_additional_data heartbeat)))))))"

definition insert_message :: "idmef_codec \<Rightarrow> idmef_message \<Rightarrow> (('w, 'd) sql, unit) sql_call" where
  "insert_message codec message =
     (case message of
        MESSAGE_ALERT alert \<Rightarrow> insert_optional (insert_alert codec) alert
      | MESSAGE_HEARTBEAT heartbeat \<Rightarrow> insert_optional (insert_heartbeat codec) heartbeat
      | MESSAGE_INVALID \<Rightarrow> fail RawError)"

definition classic_insert ::
    "(string option \<Rightarrow> db_error \<Rightarrow> string) \<Rightarrow> idmef_codec \<Rightarrow> idmef_message option \<Rightarrow> (('w, 'd) sql, unit) sql_call" where
  "classic_insert se codec message =
     (case message of None \<Rightarrow> give () | Some m \<Rightarrow> in_transaction se (insert_message codec m))"

section \<open>What an insertion sends\<close>

text \<open>Only INSERTs into the format's tables and the question for the last ident.\<close>

definition insertion_query :: "string \<Rightarrow> bool" where
  "insertion_query q \<longleftrightarrow> take 20 q = ''INSERT INTO Prelude_'' \<or> take 24 q = ''SELECT max(_ident) FROM ''"

lemma insertion_query_insert [simp]:
  "take 8 table = ''Prelude_'' \<Longrightarrow> insertion_query (insert_text table columns vals)"
proof -
  assume t: "take 8 table = ''Prelude_''"
  have "8 \<le> length table" using arg_cong [OF t, of length] by simp
  then show ?thesis using t by (simp add: insertion_query_def insert_text_def take_Cons')
qed

text \<open>What they are about: columns of the schema, with a value each.\<close>

definition schema_statement :: "string \<Rightarrow> bool" where
  "schema_statement q \<longleftrightarrow> (\<exists>T C vals. q = insert_text T C vals \<and> schema_insert T C (length vals)) \<or>
     (\<exists>T \<in> message_tables. q = ''SELECT max(_ident) FROM '' @ T @ '';'')"

lemma schema_statement_insert:
  "schema_insert T C n \<Longrightarrow> length vals = n \<Longrightarrow> schema_statement (insert_text T C vals)"
  by (auto simp: schema_statement_def)

lemma schema_table_names: "list_all (\<lambda>T. take 8 T = ''Prelude_'') classic_tables"
  by code_simp

lemma schema_statement_kind: "schema_statement q \<Longrightarrow> insertion_query q"
  using schema_table_names
  by (auto simp: schema_statement_def schema_insert_def list_all_iff) (simp add: insertion_query_def)

abbreviation inserts :: "(('w, 'd) sql, 'a) sql_call \<Rightarrow> bool" where
  "inserts \<equiv> sends schema_statement"

lemma inserts_row [sends_rules]:
  "schema_insert T C n \<Longrightarrow> length vals = n \<Longrightarrow> inserts (insert_row T C vals)"
  by (rule sends_insert_row, rule schema_statement_insert)

lemma inserts_prod [sends_rules]: "(\<And>a b. sends P (f a b)) \<Longrightarrow> sends P (case x of (a, b) \<Rightarrow> f a b)"
  by (cases x) simp

lemma inserts_time [sends_rules]: "sends P (time_to_timestamp codec time n)"
  unfolding time_to_timestamp_def by (rule sendsI) simp_all

lemma inserts_from [sends_rules]: "(\<And>i x. sends P (f i x)) \<Longrightarrow> sends P (insert_from f i xs)"
  by (induction xs arbitrary: i) (simp_all add: sends_rules)

lemma inserts_listed [sends_rules]: "(\<And>i x. sends P (f i x)) \<Longrightarrow> sends P (insert_listed f xs)"
  unfolding insert_listed_def by (intro sends_rules)

lemma inserts_optional [sends_rules]: "(\<And>x. sends P (f x)) \<Longrightarrow> sends P (insert_optional f v)"
  unfolding insert_optional_def by (intro sends_rules)

lemma inserts_get_data [sends_rules]: "sends P (get_data_insert codec data)"
  unfolding get_data_insert_def by (cases data) (simp_all add: sends_rules)

lemma inserts_address [sends_rules]: "inserts (insert_address codec pt m i j x)"
  unfolding insert_address_def by (intro sends_rules; (simp; fail | code_simp))

lemma inserts_node [sends_rules]: "inserts (insert_node codec pt m i x)"
  unfolding insert_node_def by (intro sends_rules; (simp; fail | code_simp))

lemma inserts_user_id [sends_rules]: "inserts (insert_user_id codec pt m i j k l x)"
  unfolding insert_user_id_def by (intro sends_rules; (simp; fail | code_simp))

lemma inserts_user [sends_rules]: "inserts (insert_user codec pt m i x)"
  unfolding insert_user_def by (intro sends_rules; (simp; fail | code_simp))

lemma inserts_process_arg [sends_rules]: "inserts (insert_process_arg pt m i j x)"
  unfolding insert_process_arg_def by (intro sends_rules; (simp; fail | code_simp))

lemma inserts_process_env [sends_rules]: "inserts (insert_process_env pt m i j x)"
  unfolding insert_process_env_def by (intro sends_rules; (simp; fail | code_simp))

lemma inserts_process [sends_rules]: "inserts (insert_process pt m i x)"
  unfolding insert_process_def by (intro sends_rules; (simp; fail | code_simp))

lemma inserts_snmp_service [sends_rules]: "inserts (insert_snmp_service pt m i x)"
  unfolding insert_snmp_service_def by (intro sends_rules; (simp; fail | code_simp))

lemma inserts_web_service_arg [sends_rules]: "inserts (insert_web_service_arg pt m i j x)"
  unfolding insert_web_service_arg_def by (intro sends_rules; (simp; fail | code_simp))

lemma inserts_web_service [sends_rules]: "inserts (insert_web_service pt m i x)"
  unfolding insert_web_service_def by (intro sends_rules; (simp; fail | code_simp))

lemma inserts_service [sends_rules]: "inserts (insert_service pt m i x)"
  unfolding insert_service_def by (intro sends_rules; (simp; fail)?) (code_simp, (cases "service_type x"; simp add: sends_rules))

lemma inserts_inode [sends_rules]: "inserts (insert_inode codec m i j x)"
  unfolding insert_inode_def by (intro sends_rules; (simp; fail | code_simp))

lemma inserts_linkage [sends_rules]: "inserts (insert_linkage codec m i j k x)"
  unfolding insert_linkage_def by (intro sends_rules; (simp; fail | code_simp))

lemma inserts_file_access_permission [sends_rules]: "inserts (insert_file_access_permission m i j k l x)"
  unfolding insert_file_access_permission_def by (intro sends_rules; (simp; fail | code_simp))

lemma inserts_file_access [sends_rules]: "inserts (insert_file_access codec m i j k x)"
  unfolding insert_file_access_def by (intro sends_rules; (simp; fail | code_simp))

lemma inserts_checksum [sends_rules]: "inserts (insert_checksum codec m i j k x)"
  unfolding insert_checksum_def by (intro sends_rules; (simp; fail | code_simp))

lemma inserts_file [sends_rules]: "inserts (insert_file codec m i j x)"
  unfolding insert_file_def by (intro sends_rules; (simp; fail | code_simp))

lemma inserts_source [sends_rules]: "inserts (insert_source codec m i x)"
  unfolding insert_source_def by (intro sends_rules; (simp; fail | code_simp))

lemma inserts_target [sends_rules]: "inserts (insert_target codec m i x)"
  unfolding insert_target_def by (intro sends_rules; (simp; fail | code_simp))

lemma inserts_analyzer [sends_rules]: "inserts (insert_analyzer codec pt m i x)"
  unfolding insert_analyzer_def by (intro sends_rules; (simp; fail | code_simp))

lemma inserts_reference [sends_rules]: "inserts (insert_reference codec m i x)"
  unfolding insert_reference_def by (intro sends_rules; (simp; fail | code_simp))

lemma inserts_classification [sends_rules]: "inserts (insert_classification codec m x)"
  unfolding insert_classification_def by (intro sends_rules; (simp; fail | code_simp))

lemma inserts_additional_data [sends_rules]: "inserts (insert_additional_data codec pt m i x)"
  unfolding insert_additional_data_def by (intro sends_rules; (simp; fail | code_simp))

lemma inserts_createtime [sends_rules]: "inserts (insert_createtime codec pt m x)"
  unfolding insert_createtime_def by (intro sends_rules; (simp; fail | code_simp))

lemma inserts_detecttime [sends_rules]: "inserts (insert_detecttime codec m x)"
  unfolding insert_detecttime_def by (intro sends_rules; (simp; fail | code_simp))

lemma inserts_analyzertime [sends_rules]: "inserts (insert_analyzertime codec pt m x)"
  unfolding insert_analyzertime_def by (intro sends_rules; (simp; fail | code_simp))

lemma inserts_impact [sends_rules]: "inserts (insert_impact codec m x)"
  unfolding insert_impact_def by (intro sends_rules; (simp; fail | code_simp))

lemma inserts_action [sends_rules]: "inserts (insert_action codec m i x)"
  unfolding insert_action_def by (intro sends_rules; (simp; fail | code_simp))

lemma inserts_confidence [sends_rules]: "inserts (insert_confidence codec m x)"
  unfolding insert_confidence_def by (intro sends_rules; (simp; fail | code_simp))

lemma inserts_assessment [sends_rules]: "inserts (insert_assessment codec m x)"
  unfolding insert_assessment_def by (intro sends_rules; (simp; fail | code_simp))

lemma inserts_overflow_alert [sends_rules]: "inserts (insert_overflow_alert codec m x)"
  unfolding insert_overflow_alert_def by (intro sends_rules; (simp; fail | code_simp))

lemma inserts_alertident [sends_rules]: "inserts (insert_alertident pt m i x)"
  unfolding insert_alertident_def by (intro sends_rules; (simp; fail | code_simp))

lemma inserts_tool_alert [sends_rules]: "inserts (insert_tool_alert m x)"
  unfolding insert_tool_alert_def by (intro sends_rules; (simp; fail | code_simp))

lemma inserts_correlation_alert [sends_rules]: "inserts (insert_correlation_alert m x)"
  unfolding insert_correlation_alert_def by (intro sends_rules; (simp; fail | code_simp))

text \<open>Asking for the ident reads one row of the table that the query returned.\<close>

lemma update_errno_live:
  "live s \<Longrightarrow> \<not> preludedb_error_check e PRELUDEDB_ERROR_CONNECTION \<Longrightarrow>
     same_state s (update_sql_from_errno (note_error e s) e) \<and>
     issued (update_sql_from_errno (note_error e s) e) = issued s"
  by (simp add: live_def same_state_def)

lemma fetch_row_live:
  assumes "live s" "preludedb_sql_table_fetch_row s t = (s', t', r)"
  shows "same_state s s' \<and> issued s' = issued s"
proof -
  have "\<not> preludedb_error_check e PRELUDEDB_ERROR_CONNECTION"
    if "plugin_sql_fetch_row (sql_plugin s) (session s) t i = (t2, Inl e)" for i t2 e
    using assms(1) that unfolding live_def connection_kept_def by (metis snd_conv)
  then show ?thesis
    using assms update_errno_live [OF assms(1)]
    by (auto simp: preludedb_sql_table_fetch_row_def preludedb_sql_table_get_row_def Let_def
        split: option.splits prod.splits sum.splits if_splits)
qed

lemma get_field_live:
  assumes "live s" "preludedb_sql_row_get_field s t i c = (s', t', r)"
  shows "same_state s s' \<and> issued s' = issued s"
proof -
  have "\<not> preludedb_error_check e PRELUDEDB_ERROR_CONNECTION"
    if "plugin_sql_fetch_field (sql_plugin s) (session s) t j k = (t2, Inl e)" for t j k t2 e
    using assms(1) that unfolding live_def connection_kept_def by (metis snd_conv)
  then show ?thesis
    using assms update_errno_live [OF assms(1)]
    by (auto simp: preludedb_sql_row_get_field_def Let_def
        split: option.splits prod.splits sum.splits if_splits field_slot.splits)
qed

lemma same_state_refcount: "same_state s (s'\<lparr>sql_refcount := n\<rparr>) = same_state s s'"
  by (simp add: same_state_def)

lemma inserts_last_ident [sends_rules]:
  assumes "table \<in> message_tables"
  shows "inserts (get_last_insert_ident table)"
proof -
  let ?q = "''SELECT max(_ident) FROM '' @ table @ '';''"
  have "same_state s (fst (get_last_insert_ident table s)) \<and>
      issued (fst (get_last_insert_ident table s)) = issued s @ [?q]" if l: "live s" for s
  proof -
    obtain s1 r1 where q: "preludedb_sql_query s ?q True = (s1, r1)" by fastforce
    then have s1: "same_state s s1" "issued s1 = issued s @ [?q]" using query_live [OF l, of ?q True] by simp_all
    then have l1: "live s1" using same_state_live l by blast
    show ?thesis
    proof (cases r1)
      case (Inl e)
      then show ?thesis using q s1 by (simp add: get_last_insert_ident_def preludedb_sql_query_sprintf_def)
    next
      case (Inr ot)
      show ?thesis
      proof (cases ot)
        case None
        then show ?thesis using q s1 Inr by (simp add: get_last_insert_ident_def preludedb_sql_query_sprintf_def)
      next
        case (Some t)
        obtain s2 t2 r2 where f: "preludedb_sql_table_fetch_row s1 t = (s2, t2, r2)" by (metis prod_cases3)
        have s2: "same_state s s2" "issued s2 = issued s @ [?q]" "live s2"
          using fetch_row_live [OF l1 f] s1 same_state_trans same_state_live [of s1 s2] l1 by auto
        have eq: "get_last_insert_ident table s = (case (case (s2, t2, r2) of
              (s2, t2, Inl e) \<Rightarrow> (s2, Inl e)
            | (s2, t2, Inr None) \<Rightarrow> (s2, Inl Undefined)
            | (s2, t2, Inr (Some i)) \<Rightarrow>
                (case preludedb_sql_row_get_field s2 t2 i 0 of
                   (s3, t3, Inl e) \<Rightarrow> (s3, Inl e)
                 | (s3, t3, Inr None) \<Rightarrow> (s3, Inl Undefined)
                 | (s3, t3, Inr (Some c)) \<Rightarrow>
                     (s3, map_sum id nat (preludedb_sql_field_to_uint64 (slot_field (field_at t3 i c) c))))) of
            (s', ret) \<Rightarrow> (s'\<lparr>sql_refcount := sql_refcount s' - 1\<rparr>, ret))"
          using q Inr Some f by (simp add: get_last_insert_ident_def preludedb_sql_query_sprintf_def)
        have gf: "same_state s s3 \<and> issued s3 = issued s @ [?q]"
          if "preludedb_sql_row_get_field s2 t2 i 0 = (s3, t3, r3)" for i s3 t3 r3
          using get_field_live [OF s2(3) that] s2 same_state_trans by auto
        show ?thesis unfolding eq
          using s2 gf by (auto simp: same_state_refcount split: sum.splits option.splits prod.splits)
      qed
    qed
  qed
  then show ?thesis using assms by (auto simp: sends_def schema_statement_def)
qed

lemma inserts_messageid [sends_rules]:
  "inserts (insert_message_messageid ''Prelude_Alert'' x)"
  unfolding insert_message_messageid_def by (intro sends_rules; (simp; fail | code_simp))

lemma inserts_alert [sends_rules]: "inserts (insert_alert codec x)"
  unfolding insert_alert_def by (intro sends_rules; (simp; fail)?) (cases "alert_type x"; simp add: sends_rules)

lemma inserts_heartbeat [sends_rules]: "inserts (insert_heartbeat codec x)"
  unfolding insert_heartbeat_def by (intro sends_rules; (simp; fail | code_simp))

lemma inserts_message: "inserts (insert_message codec x)"
  unfolding insert_message_def by (cases x) (simp_all add: sends_rules)

lemma message_insertions: "sends insertion_query (insert_message codec x)"
  by (rule sends_mono [OF inserts_message schema_statement_kind])

end
