(* ===== verification/Classic_Get.thy ===== *)
theory Classic_Get
  imports Classic_Query Classic_Insert
begin

text \<open>
  Reading messages back in the classic format (plugins/format/classic/classic-get.c): one
  query per class, whose rows become the objects of the message. Objects are values here:
  where the code makes a child of a parent and fills it, the model returns the child. A loop
  over the rows of a result may go on for ever, so a call returns an option, \<open>None\<close> for a
  call that never ends. On an error the message is destroyed, so no object is returned.
\<close>

section \<open>Calls that may not end\<close>

type_synonym ('s, 'a) get_call = "'s \<Rightarrow> ('s \<times> (db_error + 'a)) option"

definition ends :: "('s, 'a) sql_call \<Rightarrow> ('s, 'a) get_call" where
  "ends m = (\<lambda>s. Some (m s))"

definition get_then :: "('s, 'a) get_call \<Rightarrow> ('a \<Rightarrow> ('s, 'b) get_call) \<Rightarrow> ('s, 'b) get_call" where
  "get_then m f = (\<lambda>s. case m s of
     None \<Rightarrow> None | Some (s', Inl e) \<Rightarrow> Some (s', Inl e) | Some (s', Inr x) \<Rightarrow> f x s')"

abbreviation got :: "'a \<Rightarrow> ('s, 'a) get_call" where
  "got x \<equiv> ends (give x)"

lemma get_then_simps [simp]:
  "m s = None \<Longrightarrow> get_then m f s = None"
  "m s = Some (s', Inl e) \<Longrightarrow> get_then m f s = Some (s', Inl e)"
  "m s = Some (s', Inr x) \<Longrightarrow> get_then m f s = f x s'"
  by (simp_all add: get_then_def)

lemma ends_call: "get_then (ends m) (\<lambda>x. ends (f x)) = ends (call m f)"
  by (rule ext) (simp add: get_then_def ends_def call_def split: prod.splits sum.splits)

lemma ends_apply [simp]: "ends m s = Some (m s)"
  by (simp add: ends_def)

text \<open>The state while a result is read: the session and the table. Other queries may run on the session.\<close>

type_synonym ('w, 'd) reading = "('w, 'd) sql \<times> 'd sql_table"

definition on_session :: "(('w, 'd) sql, 'a) get_call \<Rightarrow> (('w, 'd) reading, 'a) get_call" where
  "on_session m = (\<lambda>(s, t). case m s of None \<Rightarrow> None | Some (s', r) \<Rightarrow> Some ((s', t), r))"

text \<open>
  A query whose table is read by \<open>body\<close> and destroyed, which gives its session reference back;
  \<open>none\<close> is what follows when there is no table.
\<close>

definition with_table ::
    "string \<Rightarrow> db_error + 'a \<Rightarrow> (('w, 'd) reading, 'a) get_call \<Rightarrow> (('w, 'd) sql, 'a) get_call" where
  "with_table query none body = (\<lambda>s.
     case preludedb_sql_query_sprintf s query True of
       (s1, Inl e) \<Rightarrow> Some (s1, Inl e)
     | (s1, Inr None) \<Rightarrow> Some (s1, none)
     | (s1, Inr (Some t)) \<Rightarrow>
         (case body (s1, t) of
            None \<Rightarrow> None
          | Some ((s', t'), ret) \<Rightarrow> Some (s'\<lparr>sql_refcount := sql_refcount s' - 1\<rparr>, ret)))"

definition fetch_row :: "(('w, 'd) reading, nat option) sql_call" where
  "fetch_row = (\<lambda>(s, t). case preludedb_sql_table_fetch_row s t of (s', t', ret) \<Rightarrow> ((s', t'), ret))"

text \<open>Reading one row, if there is one.\<close>

definition fetch_one :: "(nat \<Rightarrow> (('w, 'd) reading, 'a) get_call) \<Rightarrow> (('w, 'd) reading, 'a option) get_call" where
  "fetch_one body = get_then (ends fetch_row) (\<lambda>row.
     case row of None \<Rightarrow> got None | Some i \<Rightarrow> get_then (body i) (\<lambda>x. got (Some x)))"

text \<open>The loop over the rows. The body says whether to go on.\<close>

partial_function (option) fetch_until ::
    "(nat \<Rightarrow> ('w, 'd) reading \<Rightarrow> (('w, 'd) reading \<times> (db_error + 'a \<times> bool)) option) \<Rightarrow> 'a list \<Rightarrow>
       ('w, 'd) reading \<Rightarrow> (('w, 'd) reading \<times> (db_error + 'a list)) option" where
  "fetch_until body acc st =
     (case fetch_row st of (st1, row) \<Rightarrow>
        (case row of
           Inl e \<Rightarrow> Some (st1, Inl e)
         | Inr r \<Rightarrow>
             (case r of
                None \<Rightarrow> Some (st1, Inr acc)
              | Some i \<Rightarrow>
                  (case body i st1 of
                     None \<Rightarrow> None
                   | Some sr \<Rightarrow>
                       (case snd sr of
                          Inl e \<Rightarrow> Some (fst sr, Inl e)
                        | Inr xb \<Rightarrow>
                            if snd xb then fetch_until body (acc @ [fst xb]) (fst sr)
                            else Some (fst sr, Inr (acc @ [fst xb])))))))"

definition fetch_rows :: "(nat \<Rightarrow> (('w, 'd) reading, 'a) get_call) \<Rightarrow> (('w, 'd) reading, 'a list) get_call" where
  "fetch_rows body = fetch_until (\<lambda>i. get_then (body i) (\<lambda>x. got (x, True))) []"

text \<open>The loops over the objects made from the rows, with their position.\<close>

fun get_each :: "(nat \<Rightarrow> 'a \<Rightarrow> ('s, 'b) get_call) \<Rightarrow> nat \<Rightarrow> 'a list \<Rightarrow> ('s, 'b list) get_call" where
  "get_each f cnt [] = got []"
| "get_each f cnt (x # xs) = get_then (f cnt x) (\<lambda>y. get_then (get_each f (cnt + 1) xs) (\<lambda>ys. got (y # ys)))"

section \<open>Columns\<close>

definition row_field :: "nat \<Rightarrow> nat \<Rightarrow> (('w, 'd) reading, sql_field option) get_call" where
  "row_field row index = ends (\<lambda>(s, t).
     case preludedb_sql_row_get_field s t row (int index) of
       (s', t', Inl e) \<Rightarrow> ((s', t'), Inl e)
     | (s', t', Inr None) \<Rightarrow> ((s', t'), Inr None)
     | (s', t', Inr (Some c)) \<Rightarrow> ((s', t'), Inr (Some (slot_field (field_at t' row c) c))))"

text \<open>A column that is NULL leaves the member of the object unset.\<close>

definition get_column :: "(sql_field \<Rightarrow> db_error + 'a) \<Rightarrow> nat \<Rightarrow> nat \<Rightarrow> (('w, 'd) reading, 'a option) get_call" where
  "get_column conv row index = get_then (row_field row index) (\<lambda>field.
     case field of
       None \<Rightarrow> got None
     | Some f \<Rightarrow> get_then (ends (pure_result (conv f))) (\<lambda>x. got (Some x)))"

definition get_uint8 :: "nat \<Rightarrow> nat \<Rightarrow> (('w, 'd) reading, nat option) get_call" where
  "get_uint8 = get_column (\<lambda>f. map_sum id nat (preludedb_sql_field_to_uint8 f))"

definition get_uint16 :: "nat \<Rightarrow> nat \<Rightarrow> (('w, 'd) reading, nat option) get_call" where
  "get_uint16 = get_column (\<lambda>f. map_sum id nat (preludedb_sql_field_to_uint16 f))"

definition get_uint32 :: "nat \<Rightarrow> nat \<Rightarrow> (('w, 'd) reading, nat option) get_call" where
  "get_uint32 = get_column (\<lambda>f. map_sum id nat (preludedb_sql_field_to_uint32 f))"

definition get_float :: "idmef_codec \<Rightarrow> nat \<Rightarrow> nat \<Rightarrow> (('w, 'd) reading, idmef_float option) get_call" where
  "get_float codec = get_column (field_to_real (strto_float codec))"

definition get_string :: "nat \<Rightarrow> nat \<Rightarrow> (('w, 'd) reading, string option) get_call" where
  "get_string = get_column (\<lambda>f. Inr (take (preludedb_sql_field_get_len f) (preludedb_sql_field_get_value f)))"

text \<open>\<open>get_string_listed\<close>: a NULL adds nothing to the list.\<close>

definition get_string_listed :: "string \<Rightarrow> (('w, 'd) sql, string list) get_call" where
  "get_string_listed query = with_table query (Inr [])
     (get_then (fetch_rows (\<lambda>row. get_string row 0)) (\<lambda>xs. got (List.map_filter id xs)))"

text \<open>The number of the name is stored as it is, also when it is an error number.\<close>

definition get_optional_enum_column ::
    "idmef_codec \<Rightarrow> idmef_enum \<Rightarrow> nat \<Rightarrow> nat \<Rightarrow> (('w, 'd) reading, int option) get_call" where
  "get_optional_enum_column codec enum =
     get_column (\<lambda>f. Inr (enum_to_numeric codec enum (c_str (preludedb_sql_field_get_value f))))"

definition get_enum :: "idmef_codec \<Rightarrow> idmef_enum \<Rightarrow> nat \<Rightarrow> nat \<Rightarrow> (('w, 'd) reading, int) get_call" where
  "get_enum codec enum row index = get_then (get_optional_enum_column codec enum row index)
     (\<lambda>v. got (case v of None \<Rightarrow> enum_new codec enum | Some n \<Rightarrow> n))"

text \<open>A time column with a NULL beside it is an error.\<close>

definition required_column :: "(sql_field \<Rightarrow> db_error + 'a) \<Rightarrow> nat \<Rightarrow> nat \<Rightarrow> (('w, 'd) reading, 'a) get_call" where
  "required_column conv row index = get_then (row_field row index) (\<lambda>field.
     case field of None \<Rightarrow> ends (fail RawError) | Some f \<Rightarrow> ends (pure_result (conv f)))"

definition get_timestamp ::
    "idmef_codec \<Rightarrow> nat \<Rightarrow> nat \<Rightarrow> nat \<Rightarrow> nat option \<Rightarrow> (('w, 'd) reading, idmef_time option) get_call" where
  "get_timestamp codec row time_index gmtoff_index usec_index =
     get_then (row_field row time_index) (\<lambda>time_field.
       case time_field of
         None \<Rightarrow> got None
       | Some tf \<Rightarrow>
           get_then (required_column Inr row gmtoff_index) (\<lambda>gmtoff_field.
           get_then (case usec_index of
                       None \<Rightarrow> got 0
                     | Some ui \<Rightarrow> required_column (\<lambda>f. map_sum id nat (preludedb_sql_field_to_uint32 f)) row ui) (\<lambda>usec.
           get_then (ends (pure_result (preludedb_sql_field_to_int32 gmtoff_field))) (\<lambda>gmtoff.
           get_then (ends (pure_result (preludedb_sql_time_from_timestamp (idmef_times codec)
                       (preludedb_sql_field_get_value tf) gmtoff usec))) (\<lambda>time.
             got (Some time))))))"

section \<open>Conditions\<close>

text \<open>The conditions of the queries: the message, the kind of parent and its position.\<close>

abbreviation for_message :: "nat \<Rightarrow> string" where
  "for_message ident \<equiv> '' WHERE _message_ident = '' @ dec_nat ident"

abbreviation for_parent :: "char \<Rightarrow> nat \<Rightarrow> string" where
  "for_parent parent_type ident \<equiv>
     '' WHERE _parent_type = '' @ char_literal parent_type @ '' AND _message_ident = '' @ dec_nat ident"

abbreviation in_order :: string where
  "in_order \<equiv> '' AND _index != -1 ORDER BY _index ASC''"

definition as_int8 :: "int \<Rightarrow> int" where
  "as_int8 i = (i + 128) mod 256 - 128"

section \<open>Times\<close>

definition get_time_row :: "idmef_codec \<Rightarrow> string \<Rightarrow> (('w, 'd) sql, idmef_time option) get_call" where
  "get_time_row codec query = with_table query (Inr None)
     (get_then (fetch_one (\<lambda>row. get_timestamp codec row 0 1 (Some 2))) (\<lambda>t. got (Option.bind t id)))"

definition get_analyzer_time :: "idmef_codec \<Rightarrow> nat \<Rightarrow> char \<Rightarrow> (('w, 'd) sql, idmef_time option) get_call" where
  "get_analyzer_time codec ident parent_type =
     get_time_row codec (''SELECT time, gmtoff, usec FROM Prelude_AnalyzerTime'' @ for_parent parent_type ident)"

definition get_detect_time :: "idmef_codec \<Rightarrow> nat \<Rightarrow> (('w, 'd) sql, idmef_time option) get_call" where
  "get_detect_time codec ident =
     get_time_row codec (''SELECT time, gmtoff, usec FROM Prelude_DetectTime'' @ for_message ident)"

definition get_create_time :: "idmef_codec \<Rightarrow> nat \<Rightarrow> char \<Rightarrow> (('w, 'd) sql, idmef_time option) get_call" where
  "get_create_time codec ident parent_type =
     get_time_row codec (''SELECT time, gmtoff, usec FROM Prelude_CreateTime'' @ for_parent parent_type ident)"

section \<open>Users and processes\<close>

definition user_id_row :: "idmef_codec \<Rightarrow> nat \<Rightarrow> (('w, 'd) reading, idmef_user_id) get_call" where
  "user_id_row codec row =
     get_then (get_string row 0) (\<lambda>ident.
     get_then (get_enum codec USER_ID_TYPE row 1) (\<lambda>type.
     get_then (get_string row 2) (\<lambda>name.
     get_then (get_uint32 row 3) (\<lambda>number.
     get_then (get_string row 4) (\<lambda>tty.
       got \<lparr>user_id_ident = ident, user_id_type = type, user_id_name = name, user_id_number = number,
            user_id_tty = tty\<rparr>)))))"

definition get_user_id ::
    "idmef_codec \<Rightarrow> nat \<Rightarrow> char \<Rightarrow> nat \<Rightarrow> nat \<Rightarrow> nat \<Rightarrow> (('w, 'd) sql, idmef_user_id list) get_call" where
  "get_user_id codec ident parent_type parent_index file_index file_access_index =
     with_table (''SELECT ident, type, name, number, tty FROM Prelude_UserId'' @ for_parent parent_type ident @
         '' AND _parent0_index = '' @ dec_nat parent_index @ '' AND _parent1_index = '' @ dec_nat file_index @
         '' AND _parent2_index = '' @ dec_nat file_access_index @ in_order)
       (Inr []) (fetch_rows (user_id_row codec))"

definition get_user ::
    "idmef_codec \<Rightarrow> nat \<Rightarrow> char \<Rightarrow> nat \<Rightarrow> (('w, 'd) sql, idmef_user option) get_call" where
  "get_user codec ident parent_type parent_index =
     with_table (''SELECT ident, category FROM Prelude_User'' @ for_parent parent_type ident @
         '' AND _parent0_index = '' @ dec_nat parent_index)
       (Inr None) (fetch_one (\<lambda>row.
         get_then (get_string row 0) (\<lambda>uident.
         get_then (get_enum codec USER_CATEGORY row 1) (\<lambda>category.
         get_then (on_session (get_user_id codec ident parent_type parent_index 0 0)) (\<lambda>user_ids.
           got \<lparr>user_ident = uident, user_category = category, user_user_ids = user_ids\<rparr>)))))"

text \<open>The position of the parent is passed as a \<open>char\<close>.\<close>

definition get_process_arg :: "nat \<Rightarrow> char \<Rightarrow> int \<Rightarrow> (('w, 'd) sql, string list) get_call" where
  "get_process_arg ident parent_type parent_index =
     get_string_listed (''SELECT arg FROM Prelude_ProcessArg'' @ for_parent parent_type ident @
       '' AND _parent0_index = '' @ dec_int (as_int8 parent_index) @ in_order)"

definition get_process_env :: "nat \<Rightarrow> char \<Rightarrow> int \<Rightarrow> (('w, 'd) sql, string list) get_call" where
  "get_process_env ident parent_type parent_index =
     get_string_listed (''SELECT env FROM Prelude_ProcessEnv'' @ for_parent parent_type ident @
       '' AND _parent0_index = '' @ dec_int parent_index @ in_order)"

definition get_process :: "nat \<Rightarrow> char \<Rightarrow> nat \<Rightarrow> (('w, 'd) sql, idmef_process option) get_call" where
  "get_process ident parent_type parent_index =
     with_table (''SELECT ident, name, pid, path FROM Prelude_Process'' @ for_parent parent_type ident @
         '' AND _parent0_index = '' @ dec_nat parent_index)
       (Inr None) (fetch_one (\<lambda>row.
         get_then (get_string row 0) (\<lambda>pident.
         get_then (get_string row 1) (\<lambda>name.
         get_then (get_uint32 row 2) (\<lambda>pid.
         get_then (get_string row 3) (\<lambda>path.
         get_then (on_session (get_process_arg ident parent_type (int parent_index))) (\<lambda>args.
         get_then (on_session (get_process_env ident parent_type (int parent_index))) (\<lambda>envs.
           got \<lparr>process_ident = pident, process_name = name, process_pid = pid, process_path = path,
                process_args = args, process_envs = envs\<rparr>))))))))"

section \<open>Services\<close>

definition get_web_service_arg :: "nat \<Rightarrow> char \<Rightarrow> nat \<Rightarrow> (('w, 'd) sql, string list) get_call" where
  "get_web_service_arg ident parent_type parent_index =
     get_string_listed (''SELECT arg FROM Prelude_WebServiceArg'' @ for_parent parent_type ident @
       '' AND _parent0_index = '' @ dec_nat parent_index @ in_order)"

definition get_web_service :: "nat \<Rightarrow> char \<Rightarrow> nat \<Rightarrow> (('w, 'd) sql, idmef_web_service option) get_call" where
  "get_web_service ident parent_type parent_index =
     with_table (''SELECT url, cgi, http_method FROM Prelude_WebService'' @ for_parent parent_type ident @
         '' AND _parent0_index = '' @ dec_nat parent_index)
       (Inr None) (fetch_one (\<lambda>row.
         get_then (get_string row 0) (\<lambda>url.
         get_then (get_string row 1) (\<lambda>cgi.
         get_then (get_string row 2) (\<lambda>method.
         get_then (on_session (get_web_service_arg ident parent_type parent_index)) (\<lambda>args.
           got \<lparr>web_url = url, web_cgi = cgi, web_http_method = method, web_args = args\<rparr>))))))"

definition get_snmp_service :: "nat \<Rightarrow> char \<Rightarrow> nat \<Rightarrow> (('w, 'd) sql, idmef_snmp_service option) get_call" where
  "get_snmp_service ident parent_type parent_index =
     with_table (''SELECT snmp_oid, message_processing_model, security_model, security_name, '' @
         ''security_level, context_name, context_engine_id, command FROM Prelude_SnmpService'' @
         for_parent parent_type ident @ '' AND _parent0_index = '' @ dec_nat parent_index)
       (Inr None) (fetch_one (\<lambda>row.
         get_then (get_string row 0) (\<lambda>oid.
         get_then (get_uint32 row 1) (\<lambda>message_processing_model.
         get_then (get_uint32 row 2) (\<lambda>security_model.
         get_then (get_string row 3) (\<lambda>security_name.
         get_then (get_uint32 row 4) (\<lambda>security_level.
         get_then (get_string row 5) (\<lambda>context_name.
         get_then (get_string row 6) (\<lambda>context_engine_id.
         get_then (get_string row 7) (\<lambda>command.
           got \<lparr>snmp_oid = oid, snmp_message_processing_model = message_processing_model,
                snmp_security_model = security_model, snmp_security_name = security_name,
                snmp_security_level = security_level, snmp_context_name = context_name,
                snmp_context_engine_id = context_engine_id, snmp_command = command\<rparr>))))))))))"

text \<open>Making a member of a service sets the service's type; the second one replaces the first.\<close>

definition service_kind_of :: "idmef_web_service option \<Rightarrow> idmef_snmp_service option \<Rightarrow> service_kind" where
  "service_kind_of web snmp =
     (case snmp of Some x \<Rightarrow> SERVICE_SNMP (Some x)
      | None \<Rightarrow> (case web of Some x \<Rightarrow> SERVICE_WEB (Some x) | None \<Rightarrow> SERVICE_DEFAULT))"

text \<open>A query that fails is taken for one without a service.\<close>

definition get_service :: "nat \<Rightarrow> char \<Rightarrow> nat \<Rightarrow> (('w, 'd) sql, idmef_service option) get_call" where
  "get_service ident parent_type parent_index = (\<lambda>s.
     let query = ''SELECT ident, ip_version, name, port, iana_protocol_number, iana_protocol_name, portlist, protocol '' @
           ''FROM Prelude_Service'' @ for_parent parent_type ident @ '' AND _parent0_index = '' @ dec_nat parent_index
     in if \<not> is_ok (snd (preludedb_sql_query_sprintf s query True))
        then Some (fst (preludedb_sql_query_sprintf s query True), Inr None)
        else with_table query (Inr None) (fetch_one (\<lambda>row.
          get_then (get_string row 0) (\<lambda>sident.
          get_then (get_uint8 row 1) (\<lambda>ip_version.
          get_then (get_string row 2) (\<lambda>name.
          get_then (get_uint16 row 3) (\<lambda>port.
          get_then (get_uint8 row 4) (\<lambda>iana_protocol_number.
          get_then (get_string row 5) (\<lambda>iana_protocol_name.
          get_then (get_string row 6) (\<lambda>portlist.
          get_then (get_string row 7) (\<lambda>protocol.
          get_then (on_session (get_web_service ident parent_type parent_index)) (\<lambda>web.
          get_then (on_session (get_snmp_service ident parent_type parent_index)) (\<lambda>snmp.
            got \<lparr>service_ident = sident, service_ip_version = ip_version, service_name = name,
                 service_port = port, service_iana_protocol_number = iana_protocol_number,
                 service_iana_protocol_name = iana_protocol_name, service_portlist = portlist,
                 service_protocol = protocol, service_type = service_kind_of web snmp\<rparr>)))))))))))) s)"

section \<open>Nodes and analyzers\<close>

text \<open>The number is read as unsigned and stored in a signed member.\<close>

definition address_row :: "idmef_codec \<Rightarrow> nat \<Rightarrow> (('w, 'd) reading, idmef_address) get_call" where
  "address_row codec row =
     get_then (get_string row 0) (\<lambda>ident.
     get_then (get_enum codec ADDRESS_CATEGORY row 1) (\<lambda>category.
     get_then (get_string row 2) (\<lambda>vlan_name.
     get_then (get_uint32 row 3) (\<lambda>vlan_num.
     get_then (get_string row 4) (\<lambda>addr.
     get_then (get_string row 5) (\<lambda>netmask.
       got \<lparr>address_ident = ident, address_category = category, address_vlan_name = vlan_name,
            address_vlan_num = map_option as_int32 vlan_num, address_address = addr,
            address_netmask = netmask\<rparr>))))))"

definition get_address ::
    "idmef_codec \<Rightarrow> nat \<Rightarrow> char \<Rightarrow> nat \<Rightarrow> (('w, 'd) sql, idmef_address list) get_call" where
  "get_address codec ident parent_type parent_index =
     with_table (''SELECT ident, category, vlan_name, vlan_num, address, netmask FROM Prelude_Address'' @
         for_parent parent_type ident @ '' AND _parent0_index = '' @ dec_nat parent_index @ in_order)
       (Inr []) (fetch_rows (address_row codec))"

definition get_node ::
    "idmef_codec \<Rightarrow> nat \<Rightarrow> char \<Rightarrow> nat \<Rightarrow> (('w, 'd) sql, idmef_node option) get_call" where
  "get_node codec ident parent_type parent_index =
     with_table (''SELECT ident, category, location, name FROM Prelude_Node'' @ for_parent parent_type ident @
         '' AND _parent0_index = '' @ dec_nat parent_index)
       (Inr None) (fetch_one (\<lambda>row.
         get_then (get_string row 0) (\<lambda>nident.
         get_then (get_enum codec NODE_CATEGORY row 1) (\<lambda>category.
         get_then (get_string row 2) (\<lambda>location.
         get_then (get_string row 3) (\<lambda>name.
         get_then (on_session (get_address codec ident parent_type parent_index)) (\<lambda>addresses.
           got \<lparr>node_ident = nident, node_category = category, node_location = location,
                node_name = name, node_addresses = addresses\<rparr>)))))))"

text \<open>\<open>index\<close> counts the rows read, which is the row's number in the table.\<close>

definition analyzer_row ::
    "idmef_codec \<Rightarrow> nat \<Rightarrow> char \<Rightarrow> nat \<Rightarrow> (('w, 'd) reading, idmef_analyzer) get_call" where
  "analyzer_row codec ident parent_type row =
     get_then (get_string row 0) (\<lambda>analyzerid.
     get_then (get_string row 1) (\<lambda>name.
     get_then (get_string row 2) (\<lambda>manufacturer.
     get_then (get_string row 3) (\<lambda>model.
     get_then (get_string row 4) (\<lambda>version.
     get_then (get_string row 5) (\<lambda>cls.
     get_then (get_string row 6) (\<lambda>ostype.
     get_then (get_string row 7) (\<lambda>osversion.
     get_then (on_session (get_node codec ident parent_type row)) (\<lambda>node.
     get_then (on_session (get_process ident parent_type row)) (\<lambda>process.
       got \<lparr>analyzer_analyzerid = analyzerid, analyzer_name = name, analyzer_manufacturer = manufacturer,
            analyzer_model = model, analyzer_version = version, analyzer_class = cls,
            analyzer_ostype = ostype, analyzer_osversion = osversion, analyzer_node = node,
            analyzer_process = process\<rparr>))))))))))"

definition get_analyzer :: "idmef_codec \<Rightarrow> nat \<Rightarrow> char \<Rightarrow> (('w, 'd) sql, idmef_analyzer list) get_call" where
  "get_analyzer codec ident parent_type =
     with_table (''SELECT analyzerid, name, manufacturer, model, version, class, ostype, osversion '' @
         ''FROM Prelude_Analyzer'' @ for_parent parent_type ident @ in_order)
       (Inr []) (fetch_rows (analyzer_row codec ident parent_type))"

section \<open>Assessment\<close>

definition action_row :: "idmef_codec \<Rightarrow> nat \<Rightarrow> (('w, 'd) reading, idmef_action) get_call" where
  "action_row codec row =
     get_then (get_enum codec ACTION_CATEGORY row 0) (\<lambda>category.
     get_then (get_string row 1) (\<lambda>description.
       got \<lparr>action_category = category, action_description = description\<rparr>))"

definition get_action :: "idmef_codec \<Rightarrow> nat \<Rightarrow> (('w, 'd) sql, idmef_action list) get_call" where
  "get_action codec ident =
     with_table (''SELECT category, description FROM Prelude_Action'' @ for_message ident @ in_order)
       (Inr []) (fetch_rows (action_row codec))"

definition get_confidence :: "idmef_codec \<Rightarrow> nat \<Rightarrow> (('w, 'd) sql, idmef_confidence option) get_call" where
  "get_confidence codec ident =
     with_table (''SELECT rating, confidence FROM Prelude_Confidence'' @ for_message ident)
       (Inr None) (fetch_one (\<lambda>row.
         get_then (get_enum codec CONFIDENCE_RATING row 0) (\<lambda>rating.
         get_then (get_float codec row 1) (\<lambda>confidence.
           got \<lparr>confidence_rating = rating,
                confidence_confidence = (case confidence of None \<Rightarrow> 0 | Some c \<Rightarrow> c)\<rparr>))))"

definition get_impact :: "idmef_codec \<Rightarrow> nat \<Rightarrow> (('w, 'd) sql, idmef_impact option) get_call" where
  "get_impact codec ident =
     with_table (''SELECT severity, completion, type, description FROM Prelude_Impact'' @ for_message ident)
       (Inr None) (fetch_one (\<lambda>row.
         get_then (get_optional_enum_column codec IMPACT_SEVERITY row 0) (\<lambda>severity.
         get_then (get_optional_enum_column codec IMPACT_COMPLETION row 1) (\<lambda>completion.
         get_then (get_enum codec IMPACT_TYPE row 2) (\<lambda>type.
         get_then (get_string row 3) (\<lambda>description.
           got \<lparr>impact_severity = severity, impact_completion = completion, impact_type = type,
                impact_description = description\<rparr>))))))"

text \<open>The row itself is not read: a result is enough.\<close>

definition get_assessment :: "idmef_codec \<Rightarrow> nat \<Rightarrow> (('w, 'd) sql, idmef_assessment option) get_call" where
  "get_assessment codec ident =
     get_then (with_table (''SELECT _message_ident FROM Prelude_Assessment'' @ for_message ident)
         (Inr False) (got True)) (\<lambda>there.
       if \<not> there then got None
       else get_then (get_impact codec ident) (\<lambda>impact.
            get_then (get_confidence codec ident) (\<lambda>confidence.
            get_then (get_action codec ident) (\<lambda>actions.
              got (Some \<lparr>assessment_impact = impact, assessment_confidence = confidence,
                         assessment_actions = actions\<rparr>)))))"

section \<open>Files\<close>

abbreviation for_file :: "nat \<Rightarrow> nat \<Rightarrow> nat \<Rightarrow> string" where
  "for_file ident target_index file_index \<equiv> for_message ident @ '' AND _parent0_index = '' @ dec_nat target_index @
     '' AND _parent1_index = '' @ dec_nat file_index"

definition get_file_access_permission :: "nat \<Rightarrow> nat \<Rightarrow> nat \<Rightarrow> nat \<Rightarrow> (('w, 'd) sql, string list) get_call" where
  "get_file_access_permission ident target_index file_index file_access_index =
     get_string_listed (''SELECT permission FROM Prelude_FileAccess_Permission'' @
       for_file ident target_index file_index @ '' AND _parent2_index = '' @ dec_nat file_access_index @ in_order)"

text \<open>
  The user id is a single member: a second row would be read into it again, which the schema
  does not allow.
\<close>

definition file_access_at ::
    "idmef_codec \<Rightarrow> nat \<Rightarrow> nat \<Rightarrow> nat \<Rightarrow> nat \<Rightarrow> (('w, 'd) sql, idmef_file_access) get_call" where
  "file_access_at codec ident target_index file_index cnt =
     get_then (get_user_id codec ident (CHR ''F'') target_index file_index cnt) (\<lambda>user_ids.
     get_then (case user_ids of [] \<Rightarrow> got None | [u] \<Rightarrow> got (Some u) | _ \<Rightarrow> ends (fail Undefined)) (\<lambda>user_id.
     get_then (get_file_access_permission ident target_index file_index cnt) (\<lambda>permissions.
       got \<lparr>file_access_user_id = user_id, file_access_permissions = permissions\<rparr>)))"

definition get_file_access ::
    "idmef_codec \<Rightarrow> nat \<Rightarrow> nat \<Rightarrow> nat \<Rightarrow> (('w, 'd) sql, idmef_file_access list) get_call" where
  "get_file_access codec ident target_index file_index =
     with_table (''SELECT COUNT(*) FROM Prelude_FileAccess'' @ for_file ident target_index file_index @ '' AND _index != -1'')
       (Inr []) (get_then (ends fetch_row) (\<lambda>row.
         case row of
           None \<Rightarrow> got []
         | Some i \<Rightarrow>
             get_then (get_uint32 i 0) (\<lambda>count.
               case count of
                 None \<Rightarrow> got []
               | Some n \<Rightarrow> on_session (get_each (\<lambda>_ cnt. file_access_at codec ident target_index file_index cnt) 0 [0..<n]))))"

definition linkage_row :: "idmef_codec \<Rightarrow> nat \<Rightarrow> (('w, 'd) reading, idmef_linkage) get_call" where
  "linkage_row codec row =
     get_then (get_enum codec LINKAGE_CATEGORY row 0) (\<lambda>category.
     get_then (get_string row 1) (\<lambda>name.
     get_then (get_string row 2) (\<lambda>path.
       got \<lparr>linkage_category = category, linkage_name = name, linkage_path = path\<rparr>)))"

definition get_linkage ::
    "idmef_codec \<Rightarrow> nat \<Rightarrow> nat \<Rightarrow> nat \<Rightarrow> (('w, 'd) sql, idmef_linkage list) get_call" where
  "get_linkage codec ident target_index file_index =
     with_table (''SELECT category, name, path FROM Prelude_Linkage'' @ for_file ident target_index file_index @ in_order)
       (Inr []) (fetch_rows (linkage_row codec))"

definition get_inode ::
    "idmef_codec \<Rightarrow> nat \<Rightarrow> nat \<Rightarrow> nat \<Rightarrow> (('w, 'd) sql, idmef_inode option) get_call" where
  "get_inode codec ident target_index file_index =
     with_table (''SELECT change_time, change_time_gmtoff, number, major_device, minor_device, '' @
         ''c_major_device, c_minor_device FROM Prelude_Inode'' @ for_file ident target_index file_index)
       (Inr None) (fetch_one (\<lambda>row.
         get_then (get_timestamp codec row 0 1 None) (\<lambda>change_time.
         get_then (get_uint32 row 2) (\<lambda>number.
         get_then (get_uint32 row 3) (\<lambda>major_device.
         get_then (get_uint32 row 4) (\<lambda>minor_device.
         get_then (get_uint32 row 5) (\<lambda>c_major_device.
         get_then (get_uint32 row 6) (\<lambda>c_minor_device.
           got \<lparr>inode_change_time = change_time, inode_number = number, inode_major_device = major_device,
                inode_minor_device = minor_device, inode_c_major_device = c_major_device,
                inode_c_minor_device = c_minor_device\<rparr>))))))))"

definition checksum_row :: "idmef_codec \<Rightarrow> nat \<Rightarrow> (('w, 'd) reading, idmef_checksum) get_call" where
  "checksum_row codec row =
     get_then (get_string row 0) (\<lambda>value.
     get_then (get_string row 1) (\<lambda>key.
     get_then (get_enum codec CHECKSUM_ALGORITHM row 2) (\<lambda>algorithm.
       got \<lparr>checksum_value = value, checksum_key = key, checksum_algorithm = algorithm\<rparr>)))"

definition get_checksum ::
    "idmef_codec \<Rightarrow> nat \<Rightarrow> nat \<Rightarrow> nat \<Rightarrow> (('w, 'd) sql, idmef_checksum list) get_call" where
  "get_checksum codec ident target_index file_index =
     with_table (''SELECT value, checksum_key, algorithm FROM Prelude_Checksum'' @
         for_file ident target_index file_index @ in_order)
       (Inr []) (fetch_rows (checksum_row codec))"

text \<open>
  A file as its own row has it. The two sizes are members of 64 bits but are read as 32 bit
  numbers.
\<close>

definition file_row :: "idmef_codec \<Rightarrow> nat \<Rightarrow> (('w, 'd) reading, idmef_file) get_call" where
  "file_row codec row =
     get_then (get_string row 0) (\<lambda>ident.
     get_then (get_enum codec FILE_CATEGORY row 1) (\<lambda>category.
     get_then (get_string row 2) (\<lambda>name.
     get_then (get_string row 3) (\<lambda>path.
     get_then (get_timestamp codec row 4 5 None) (\<lambda>create_time.
     get_then (get_timestamp codec row 6 7 None) (\<lambda>modify_time.
     get_then (get_timestamp codec row 8 9 None) (\<lambda>access_time.
     get_then (get_uint32 row 10) (\<lambda>data_size.
     get_then (get_uint32 row 11) (\<lambda>disk_size.
     get_then (get_optional_enum_column codec FILE_FSTYPE row 12) (\<lambda>fstype.
     get_then (get_string row 13) (\<lambda>file_type.
       got \<lparr>file_ident = ident, file_category = category, file_name = name, file_path = path,
            file_create_time = create_time, file_modify_time = modify_time, file_access_time = access_time,
            file_data_size = data_size, file_disk_size = disk_size, file_fstype = fstype,
            file_file_type = file_type, file_file_accesses = [], file_linkages = [], file_inode = None,
            file_checksums = []\<rparr>)))))))))))"

definition fill_file :: "idmef_codec \<Rightarrow> nat \<Rightarrow> nat \<Rightarrow> nat \<Rightarrow> idmef_file \<Rightarrow> (('w, 'd) sql, idmef_file) get_call" where
  "fill_file codec ident target_index cnt file =
     get_then (get_file_access codec ident target_index cnt) (\<lambda>accesses.
     get_then (get_linkage codec ident target_index cnt) (\<lambda>linkages.
     get_then (get_inode codec ident target_index cnt) (\<lambda>inode.
     get_then (get_checksum codec ident target_index cnt) (\<lambda>checksums.
       got (file\<lparr>file_file_accesses := accesses, file_linkages := linkages, file_inode := inode,
                 file_checksums := checksums\<rparr>)))))"

definition get_file :: "idmef_codec \<Rightarrow> nat \<Rightarrow> nat \<Rightarrow> (('w, 'd) sql, idmef_file list) get_call" where
  "get_file codec ident target_index =
     with_table (''SELECT ident, category, name, path, create_time, create_time_gmtoff, '' @
         ''modify_time, modify_time_gmtoff, access_time, '' @
         ''access_time_gmtoff, data_size, disk_size, fstype, file_type FROM Prelude_File'' @
         for_message ident @ '' AND _parent0_index = '' @ dec_nat target_index @ in_order)
       (Inr []) (get_then (fetch_rows (file_row codec)) (\<lambda>files.
         on_session (get_each (fill_file codec ident target_index) 0 files)))"

section \<open>Sources and targets\<close>

definition source_row :: "idmef_codec \<Rightarrow> nat \<Rightarrow> (('w, 'd) reading, idmef_source) get_call" where
  "source_row codec row =
     get_then (get_string row 0) (\<lambda>ident.
     get_then (get_enum codec SOURCE_SPOOFED row 1) (\<lambda>spoofed.
     get_then (get_string row 2) (\<lambda>interface.
       got \<lparr>source_ident = ident, source_spoofed = spoofed, source_interface = interface, source_node = None,
            source_user = None, source_process = None, source_service = None\<rparr>)))"

definition fill_source :: "idmef_codec \<Rightarrow> nat \<Rightarrow> nat \<Rightarrow> idmef_source \<Rightarrow> (('w, 'd) sql, idmef_source) get_call" where
  "fill_source codec ident cnt source =
     get_then (get_node codec ident (CHR ''S'') cnt) (\<lambda>node.
     get_then (get_user codec ident (CHR ''S'') cnt) (\<lambda>user.
     get_then (get_process ident (CHR ''S'') cnt) (\<lambda>process.
     get_then (get_service ident (CHR ''S'') cnt) (\<lambda>service.
       got (source\<lparr>source_node := node, source_user := user, source_process := process,
                   source_service := service\<rparr>)))))"

definition get_source :: "idmef_codec \<Rightarrow> nat \<Rightarrow> (('w, 'd) sql, idmef_source list) get_call" where
  "get_source codec ident =
     with_table (''SELECT ident, spoofed, interface FROM Prelude_Source'' @ for_message ident @ in_order)
       (Inr []) (get_then (fetch_rows (source_row codec)) (\<lambda>sources.
         on_session (get_each (fill_source codec ident) 0 sources)))"

definition target_row :: "idmef_codec \<Rightarrow> nat \<Rightarrow> (('w, 'd) reading, idmef_target) get_call" where
  "target_row codec row =
     get_then (get_string row 0) (\<lambda>ident.
     get_then (get_enum codec TARGET_DECOY row 1) (\<lambda>decoy.
     get_then (get_string row 2) (\<lambda>interface.
       got \<lparr>target_ident = ident, target_decoy = decoy, target_interface = interface, target_node = None,
            target_user = None, target_process = None, target_service = None, target_files = []\<rparr>)))"

definition fill_target :: "idmef_codec \<Rightarrow> nat \<Rightarrow> nat \<Rightarrow> idmef_target \<Rightarrow> (('w, 'd) sql, idmef_target) get_call" where
  "fill_target codec ident cnt target =
     get_then (get_node codec ident (CHR ''T'') cnt) (\<lambda>node.
     get_then (get_user codec ident (CHR ''T'') cnt) (\<lambda>user.
     get_then (get_process ident (CHR ''T'') cnt) (\<lambda>process.
     get_then (get_service ident (CHR ''T'') cnt) (\<lambda>service.
     get_then (get_file codec ident cnt) (\<lambda>files.
       got (target\<lparr>target_node := node, target_user := user, target_process := process,
                   target_service := service, target_files := files\<rparr>))))))"

definition get_target :: "idmef_codec \<Rightarrow> nat \<Rightarrow> (('w, 'd) sql, idmef_target list) get_call" where
  "get_target codec ident =
     with_table (''SELECT ident, decoy, interface FROM Prelude_Target'' @ for_message ident @ in_order)
       (Inr []) (get_then (fetch_rows (target_row codec)) (\<lambda>targets.
         on_session (get_each (fill_target codec ident) 0 targets)))"

section \<open>Additional data\<close>

text \<open>
  \<open>sscanf\<close> with one integer conversion: -1 at the end of the text, 0 without a digit. A number
  that does not fit is clamped, and the lowest byte is kept for \<open>uint8_t\<close>.
\<close>

datatype 'a scanned = Scan_eof | Scan_none | Scan_value 'a

definition scan_one :: "(string \<Rightarrow> 'a option) \<Rightarrow> string \<Rightarrow> 'a scanned" where
  "scan_one f t = (if dropWhile isspace t = [] then Scan_eof
     else case f t of None \<Rightarrow> Scan_none | Some x \<Rightarrow> Scan_value x)"

definition scan_unsigned :: "string \<Rightarrow> int option" where
  "scan_unsigned t = (let (v, rest, erange) = strtoul_w 64 t in if rest = t then None else Some v)"

definition scan_signed :: "string \<Rightarrow> int option" where
  "scan_signed t = (let (v, rest, erange) = strtol_w 64 t in if rest = t then None else Some v)"

text \<open>What a scan that stored nothing makes of the data: nothing, or the return value -1.\<close>

definition scanned_data :: "('a \<Rightarrow> idmef_data) \<Rightarrow> 'a scanned \<Rightarrow> db_error + idmef_data" where
  "scanned_data mk r = (case r of Scan_eof \<Rightarrow> Inl RawError | Scan_none \<Rightarrow> Inr Data_null | Scan_value x \<Rightarrow> Inr (mk x))"

definition as_int64 :: "int \<Rightarrow> int" where
  "as_int64 v = (if v < 2 ^ 63 then v else v - 2 ^ 64)"

text \<open>
  The switch over the type. A number that is no enumerator takes no case. The buffer of a
  character has no NUL behind it.
\<close>

definition data_of_type :: "idmef_codec \<Rightarrow> additional_data_type option \<Rightarrow> string \<Rightarrow> db_error + idmef_data" where
  "data_of_type codec type v =
     (case type of
        None \<Rightarrow> Inr Data_null
      | Some AD_CHARACTER \<Rightarrow> (case v of [] \<Rightarrow> Inl Undefined | c # _ \<Rightarrow> Inr (Data_char c))
      | Some AD_REAL \<Rightarrow> scanned_data Data_float (scan_one (scan_float codec) (c_str v))
      | Some AD_BYTE \<Rightarrow> scanned_data (\<lambda>n. Data_byte (nat (n mod 256))) (scan_one scan_unsigned (c_str v))
      | Some AD_BOOLEAN \<Rightarrow> scanned_data (\<lambda>n. Data_byte (nat (n mod 256))) (scan_one scan_unsigned (c_str v))
      | Some AD_INTEGER \<Rightarrow> scanned_data Data_int (scan_one scan_signed (c_str v))
      | Some AD_NTPSTAMP \<Rightarrow> scanned_data (\<lambda>n. Data_int (as_int64 n)) (scan_one scan_unsigned (c_str v))
      | Some AD_BYTE_STRING \<Rightarrow> Inr (Data_byte_string v)
      | Some AD_PORTLIST \<Rightarrow> Inr (Data_char_string v)
      | Some AD_STRING \<Rightarrow> Inr (Data_char_string v)
      | Some AD_XML \<Rightarrow> Inr (Data_char_string v)
      | Some AD_DATE_TIME \<Rightarrow> map_sum id Data_time (time_new_from_string codec (c_str v))
      | Some AD_ERROR \<Rightarrow> Inl RawError)"

text \<open>An error that is returned past the release of the table: the table keeps its reference to the session.\<close>

definition unreleased :: "db_error + 'a \<Rightarrow> (('w, 'd) reading, 'a) get_call" where
  "unreleased r = ends (\<lambda>(s, t).
     ((if is_ok r then s else s\<lparr>sql_refcount := sql_refcount s + 1\<rparr>, t), r))"

text \<open>
  A NULL in the data column ends the whole loop with the return value 0: the object without
  data stays in the list and the rows behind it are not read.
\<close>

definition additional_data_row ::
    "idmef_codec \<Rightarrow> nat \<Rightarrow> (('w, 'd) reading, idmef_additional_data \<times> bool) get_call" where
  "additional_data_row codec row =
     get_then (get_enum codec ADDITIONAL_DATA_TYPE row 0) (\<lambda>type.
     get_then (get_string row 1) (\<lambda>meaning.
     get_then (row_field row 2) (\<lambda>field.
       case field of
         None \<Rightarrow> got (\<lparr>ad_type = type, ad_meaning = meaning, ad_data = Data_null\<rparr>, False)
       | Some f \<Rightarrow>
           get_then (on_session (ends (\<lambda>s. classic_unescape_binary_safe s f
               (case additional_data_type_of codec type of None \<Rightarrow> AD_ERROR | Some ty \<Rightarrow> ty)))) (\<lambda>(v, n).
           get_then (let r = data_of_type codec (additional_data_type_of codec type) v
                     in if additional_data_type_of codec type = Some AD_DATE_TIME then unreleased r
                        else ends (pure_result r)) (\<lambda>data.
             got (\<lparr>ad_type = type, ad_meaning = meaning, ad_data = data\<rparr>, True))))))"

definition get_additional_data ::
    "idmef_codec \<Rightarrow> nat \<Rightarrow> char \<Rightarrow> (('w, 'd) sql, idmef_additional_data list) get_call" where
  "get_additional_data codec ident parent_type =
     with_table (''SELECT type, meaning, data FROM Prelude_AdditionalData'' @ for_parent parent_type ident @ in_order)
       (Inr []) (fetch_until (additional_data_row codec) [])"

section \<open>Classification\<close>

definition reference_row :: "idmef_codec \<Rightarrow> nat \<Rightarrow> (('w, 'd) reading, idmef_reference) get_call" where
  "reference_row codec row =
     get_then (get_enum codec REFERENCE_ORIGIN row 0) (\<lambda>origin.
     get_then (get_string row 1) (\<lambda>name.
     get_then (get_string row 2) (\<lambda>url.
     get_then (get_string row 3) (\<lambda>meaning.
       got \<lparr>reference_origin = origin, reference_name = name, reference_url = url,
            reference_meaning = meaning\<rparr>))))"

definition get_reference :: "idmef_codec \<Rightarrow> nat \<Rightarrow> (('w, 'd) sql, idmef_reference list) get_call" where
  "get_reference codec ident =
     with_table (''SELECT origin, name, url, meaning FROM Prelude_Reference'' @ for_message ident @ in_order)
       (Inr []) (fetch_rows (reference_row codec))"

definition get_classification :: "idmef_codec \<Rightarrow> nat \<Rightarrow> (('w, 'd) sql, idmef_classification option) get_call" where
  "get_classification codec ident =
     with_table (''SELECT ident, text FROM Prelude_Classification'' @ for_message ident)
       (Inr None) (fetch_one (\<lambda>row.
         get_then (get_string row 0) (\<lambda>cident.
         get_then (get_string row 1) (\<lambda>text.
         get_then (on_session (get_reference codec ident)) (\<lambda>references.
           got \<lparr>classification_ident = cident, classification_text = text,
                classification_references = references\<rparr>)))))"

section \<open>The kinds of alerts\<close>

definition alertident_row :: "nat \<Rightarrow> (('w, 'd) reading, idmef_alertident) get_call" where
  "alertident_row row =
     get_then (get_string row 0) (\<lambda>alertident.
     get_then (get_string row 1) (\<lambda>analyzerid.
       got \<lparr>alertident_alertident = alertident, alertident_analyzerid = analyzerid\<rparr>))"

definition get_alertident :: "nat \<Rightarrow> char \<Rightarrow> (('w, 'd) sql, idmef_alertident list) get_call" where
  "get_alertident ident parent_type =
     with_table (''SELECT alertident, analyzerid FROM Prelude_Alertident'' @ for_parent parent_type ident @ in_order)
       (Inr []) (fetch_rows alertident_row)"

definition get_tool_alert :: "nat \<Rightarrow> (('w, 'd) sql, idmef_tool_alert option) get_call" where
  "get_tool_alert ident =
     with_table (''SELECT name, command FROM Prelude_ToolAlert'' @ for_message ident)
       (Inr None) (fetch_one (\<lambda>row.
         get_then (get_string row 0) (\<lambda>name.
         get_then (get_string row 1) (\<lambda>command.
         get_then (on_session (get_alertident ident (CHR ''T''))) (\<lambda>alertidents.
           got \<lparr>tool_name = name, tool_command = command, tool_alertidents = alertidents\<rparr>)))))"

definition get_correlation_alert :: "nat \<Rightarrow> (('w, 'd) sql, idmef_correlation_alert option) get_call" where
  "get_correlation_alert ident =
     with_table (''SELECT name FROM Prelude_CorrelationAlert'' @ for_message ident)
       (Inr None) (fetch_one (\<lambda>row.
         get_then (get_string row 0) (\<lambda>name.
         get_then (on_session (get_alertident ident (CHR ''C''))) (\<lambda>alertidents.
           got \<lparr>correlation_name = name, correlation_alertidents = alertidents\<rparr>))))"

text \<open>A NULL buffer is used all the same.\<close>

definition get_overflow_alert :: "nat \<Rightarrow> (('w, 'd) sql, idmef_overflow_alert option) get_call" where
  "get_overflow_alert ident =
     with_table (''SELECT program, size, buffer FROM Prelude_OverflowAlert'' @ for_message ident)
       (Inr None) (fetch_one (\<lambda>row.
         get_then (get_string row 0) (\<lambda>program.
         get_then (get_uint32 row 1) (\<lambda>size'.
         get_then (row_field row 2) (\<lambda>field.
           case field of
             None \<Rightarrow> ends (fail Undefined)
           | Some f \<Rightarrow>
               get_then (on_session (ends (\<lambda>s. preludedb_sql_unescape_binary s
                   (take (preludedb_sql_field_get_len f) (preludedb_sql_field_get_value f))))) (\<lambda>data.
                 got \<lparr>overflow_program = program, overflow_size = size',
                      overflow_buffer = Some (Data_byte_string data)\<rparr>))))))"

section \<open>Messages\<close>

text \<open>A result without a row leaves the row unset that is then read.\<close>

definition message_row ::
    "(nat \<Rightarrow> (('w, 'd) reading, 'a) get_call) \<Rightarrow> string \<Rightarrow> (('w, 'd) sql, 'a) get_call" where
  "message_row body query =
     with_table query (Inl (preludedb_error PRELUDEDB_ERROR_INVALID_MESSAGE_IDENT))
       (get_then (ends fetch_row) (\<lambda>row. case row of None \<Rightarrow> ends (fail Undefined) | Some i \<Rightarrow> body i))"

definition get_alert_messageid :: "nat \<Rightarrow> (('w, 'd) sql, string option) get_call" where
  "get_alert_messageid ident =
     message_row (\<lambda>row. get_string row 0)
       (''SELECT messageid FROM Prelude_Alert WHERE _ident = '' @ dec_nat ident)"

text \<open>Making a kind of alert sets the type; a later one replaces an earlier one.\<close>

definition alert_kind_of ::
    "idmef_tool_alert option \<Rightarrow> idmef_correlation_alert option \<Rightarrow> idmef_overflow_alert option \<Rightarrow> alert_kind" where
  "alert_kind_of tool correlation overflow =
     (case overflow of Some x \<Rightarrow> ALERT_OVERFLOW (Some x)
      | None \<Rightarrow> (case correlation of Some x \<Rightarrow> ALERT_CORRELATION (Some x)
                 | None \<Rightarrow> (case tool of Some x \<Rightarrow> ALERT_TOOL (Some x) | None \<Rightarrow> ALERT_DEFAULT)))"

definition classic_get_alert :: "idmef_codec \<Rightarrow> nat \<Rightarrow> (('w, 'd) sql, idmef_message) get_call" where
  "classic_get_alert codec ident =
     get_then (get_alert_messageid ident) (\<lambda>messageid.
     get_then (get_assessment codec ident) (\<lambda>assessment.
     get_then (get_analyzer codec ident (CHR ''A'')) (\<lambda>analyzers.
     get_then (get_create_time codec ident (CHR ''A'')) (\<lambda>create_time.
     get_then (get_detect_time codec ident) (\<lambda>detect_time.
     get_then (get_analyzer_time codec ident (CHR ''A'')) (\<lambda>analyzer_time.
     get_then (get_source codec ident) (\<lambda>sources.
     get_then (get_target codec ident) (\<lambda>targets.
     get_then (get_classification codec ident) (\<lambda>classification.
     get_then (get_additional_data codec ident (CHR ''A'')) (\<lambda>additional_data.
     get_then (get_tool_alert ident) (\<lambda>tool.
     get_then (get_correlation_alert ident) (\<lambda>correlation.
     get_then (get_overflow_alert ident) (\<lambda>overflow.
       got (MESSAGE_ALERT (Some
         \<lparr>alert_messageid = messageid, alert_create_time = create_time, alert_detect_time = detect_time,
          alert_analyzer_time = analyzer_time, alert_assessment = assessment,
          alert_type = alert_kind_of tool correlation overflow, alert_analyzers = analyzers,
          alert_sources = sources, alert_targets = targets, alert_classification = classification,
          alert_additional_data = additional_data\<rparr>)))))))))))))))"

definition get_heartbeat_row :: "nat \<Rightarrow> (('w, 'd) sql, string option \<times> nat option) get_call" where
  "get_heartbeat_row ident =
     message_row (\<lambda>row. get_then (get_string row 0) (\<lambda>messageid.
         get_then (get_uint32 row 1) (\<lambda>interval. got (messageid, interval))))
       (''SELECT messageid, heartbeat_interval FROM Prelude_Heartbeat WHERE _ident = '' @ dec_nat ident)"

definition classic_get_heartbeat :: "idmef_codec \<Rightarrow> nat \<Rightarrow> (('w, 'd) sql, idmef_message) get_call" where
  "classic_get_heartbeat codec ident =
     get_then (get_heartbeat_row ident) (\<lambda>(messageid, interval).
     get_then (get_analyzer codec ident (CHR ''H'')) (\<lambda>analyzers.
     get_then (get_create_time codec ident (CHR ''H'')) (\<lambda>create_time.
     get_then (get_analyzer_time codec ident (CHR ''H'')) (\<lambda>analyzer_time.
     get_then (get_additional_data codec ident (CHR ''H'')) (\<lambda>additional_data.
       got (MESSAGE_HEARTBEAT (Some
         \<lparr>heartbeat_messageid = messageid, heartbeat_interval = interval, heartbeat_analyzers = analyzers,
          heartbeat_create_time = create_time, heartbeat_analyzer_time = analyzer_time,
          heartbeat_additional_data = additional_data\<rparr>)))))))"

end
