(* ===== verification/Classic_Delete.thy ===== *)
theory Classic_Delete
  imports Sql_Core
begin

text \<open>
  Deleting messages in the classic format (plugins/format/classic/classic-delete.c): one
  DELETE per table inside a transaction. The idents to delete are one ident, a list, or a
  result set, whose rows are obtained through a function of the row number.
\<close>

section \<open>The queries\<close>

text \<open>\<open>%s\<close> in the format of a query stands for the condition on the ident.\<close>

fun subst_s :: "string \<Rightarrow> string \<Rightarrow> string" where
  "subst_s [] x = []"
| "subst_s [c] x = [c]"
| "subst_s (c # d # cs) x =
     (if c = CHR ''%'' \<and> d = CHR ''s'' then x @ subst_s cs x else c # subst_s (d # cs) x)"

definition delete_alert_queries :: "string list" where
  "delete_alert_queries =
    [''DELETE FROM Prelude_Action WHERE _message_ident %s'',
     ''DELETE FROM Prelude_AdditionalData WHERE _message_ident %s AND _parent_type = '' @ CHR 0x27 # ''A'' @ [CHR 0x27],
     ''DELETE FROM Prelude_Address WHERE _message_ident %s AND _parent_type != '' @ CHR 0x27 # ''H'' @ [CHR 0x27],
     ''DELETE FROM Prelude_Alert WHERE _ident %s'',
     ''DELETE FROM Prelude_Alertident WHERE _message_ident %s'',
     ''DELETE FROM Prelude_Analyzer WHERE _message_ident %s AND _parent_type = '' @ CHR 0x27 # ''A'' @ [CHR 0x27],
     ''DELETE FROM Prelude_AnalyzerTime WHERE _message_ident %s AND _parent_type = '' @ CHR 0x27 # ''A'' @ [CHR 0x27],
     ''DELETE FROM Prelude_Assessment WHERE _message_ident %s'',
     ''DELETE FROM Prelude_Classification WHERE _message_ident %s'',
     ''DELETE FROM Prelude_Reference WHERE _message_ident %s'',
     ''DELETE FROM Prelude_Confidence WHERE _message_ident %s'',
     ''DELETE FROM Prelude_CorrelationAlert WHERE _message_ident %s'',
     ''DELETE FROM Prelude_CreateTime WHERE _message_ident %s AND _parent_type = '' @ CHR 0x27 # ''A'' @ [CHR 0x27],
     ''DELETE FROM Prelude_DetectTime WHERE _message_ident %s'',
     ''DELETE FROM Prelude_File WHERE _message_ident %s'',
     ''DELETE FROM Prelude_FileAccess WHERE _message_ident %s'',
     ''DELETE FROM Prelude_FileAccess_Permission WHERE _message_ident %s'',
     ''DELETE FROM Prelude_Impact WHERE _message_ident %s'',
     ''DELETE FROM Prelude_Inode WHERE _message_ident %s'',
     ''DELETE FROM Prelude_Checksum WHERE _message_ident %s'',
     ''DELETE FROM Prelude_Linkage WHERE _message_ident %s'',
     ''DELETE FROM Prelude_Node WHERE _message_ident %s AND _parent_type != '' @ CHR 0x27 # ''H'' @ [CHR 0x27],
     ''DELETE FROM Prelude_OverflowAlert WHERE _message_ident %s'',
     ''DELETE FROM Prelude_Process WHERE _message_ident %s AND _parent_type != '' @ CHR 0x27 # ''H'' @ [CHR 0x27],
     ''DELETE FROM Prelude_ProcessArg WHERE _message_ident %s AND _parent_type != '' @ CHR 0x27 # ''H'' @ [CHR 0x27],
     ''DELETE FROM Prelude_ProcessEnv WHERE _message_ident %s AND _parent_type != '' @ CHR 0x27 # ''H'' @ [CHR 0x27],
     ''DELETE FROM Prelude_SnmpService WHERE _message_ident %s'',
     ''DELETE FROM Prelude_Service WHERE _message_ident %s'',
     ''DELETE FROM Prelude_Source WHERE _message_ident %s'',
     ''DELETE FROM Prelude_Target WHERE _message_ident %s'',
     ''DELETE FROM Prelude_ToolAlert WHERE _message_ident %s'',
     ''DELETE FROM Prelude_User WHERE _message_ident %s'',
     ''DELETE FROM Prelude_UserId WHERE _message_ident %s'',
     ''DELETE FROM Prelude_WebService WHERE _message_ident %s'',
     ''DELETE FROM Prelude_WebServiceArg WHERE _message_ident %s'']"

definition delete_heartbeat_queries :: "string list" where
  "delete_heartbeat_queries =
    [''DELETE FROM Prelude_AdditionalData WHERE _parent_type = '' @ CHR 0x27 # ''H'' @ CHR 0x27 # '' AND _message_ident %s'',
     ''DELETE FROM Prelude_Address WHERE _parent_type = '' @ CHR 0x27 # ''H'' @ CHR 0x27 # '' AND _message_ident %s'',
     ''DELETE FROM Prelude_Analyzer WHERE _parent_type = '' @ CHR 0x27 # ''H'' @ CHR 0x27 # '' AND _message_ident %s'',
     ''DELETE FROM Prelude_AnalyzerTime WHERE _parent_type = '' @ CHR 0x27 # ''H'' @ CHR 0x27 # '' AND _message_ident %s'',
     ''DELETE FROM Prelude_CreateTime WHERE _parent_type = '' @ CHR 0x27 # ''H'' @ CHR 0x27 # '' AND _message_ident %s'',
     ''DELETE FROM Prelude_Node WHERE _parent_type = '' @ CHR 0x27 # ''H'' @ CHR 0x27 # '' AND _message_ident %s'',
     ''DELETE FROM Prelude_Process WHERE _parent_type = '' @ CHR 0x27 # ''H'' @ CHR 0x27 # '' AND _message_ident %s'',
     ''DELETE FROM Prelude_ProcessArg WHERE _parent_type = '' @ CHR 0x27 # ''H'' @ CHR 0x27 # '' AND _message_ident %s'',
     ''DELETE FROM Prelude_ProcessEnv WHERE _parent_type = '' @ CHR 0x27 # ''H'' @ CHR 0x27 # '' AND _message_ident %s'',
     ''DELETE FROM Prelude_Heartbeat WHERE _ident %s'']"

section \<open>Running them\<close>

fun delete_queries :: "('w, 'd) sql \<Rightarrow> string list \<Rightarrow> string \<Rightarrow> ('w, 'd) sql \<times> (db_error + unit)" where
  "delete_queries s [] idents = (s, Inr ())"
| "delete_queries s (q # qs) idents =
     (case preludedb_sql_query s (subst_s q idents) False of
        (s', Inl e) \<Rightarrow> (s', Inl e)
      | (s', Inr _) \<Rightarrow> delete_queries s' qs idents)"

definition delete_message ::
    "(string option \<Rightarrow> db_error \<Rightarrow> string) \<Rightarrow> ('w, 'd) sql \<Rightarrow> string list \<Rightarrow> string \<Rightarrow>
       ('w, 'd) sql \<times> (db_error + unit)" where
  "delete_message se s queries idents =
     (case preludedb_sql_transaction_start s of
        (s1, Inl e) \<Rightarrow> (s1, Inl e)
      | (s1, Inr _) \<Rightarrow>
          (case delete_queries s1 queries idents of
             (s2, Inr _) \<Rightarrow> preludedb_sql_transaction_end s2
           | (s2, Inl ret) \<Rightarrow>
               (case preludedb_sql_transaction_abort se s2 of
                  (s3, Inl tmp) \<Rightarrow> (s3, Inl tmp)
                | (s3, Inr _) \<Rightarrow> (s3, Inl ret))))"

definition do_delete_alert ::
    "(string option \<Rightarrow> db_error \<Rightarrow> string) \<Rightarrow> ('w, 'd) sql \<Rightarrow> string \<Rightarrow> ('w, 'd) sql \<times> (db_error + unit)" where
  "do_delete_alert se s idents = delete_message se s delete_alert_queries idents"

definition do_delete_heartbeat ::
    "(string option \<Rightarrow> db_error \<Rightarrow> string) \<Rightarrow> ('w, 'd) sql \<Rightarrow> string \<Rightarrow> ('w, 'd) sql \<times> (db_error + unit)" where
  "do_delete_heartbeat se s idents = delete_message se s delete_heartbeat_queries idents"

section \<open>Conditions on idents\<close>

definition ident_condition :: "nat \<Rightarrow> string" where
  "ident_condition ident = snprintf_buf 32 (''= '' @ dec_nat ident)"

fun ident_list_loop :: "bool \<Rightarrow> nat list \<Rightarrow> string \<Rightarrow> string" where
  "ident_list_loop need_sep [] out = out"
| "ident_list_loop need_sep (i # ids) out =
     ident_list_loop True ids (out @ (if need_sep then '', '' else []) @ dec_nat i)"

definition get_string_from_ident_list :: "nat list \<Rightarrow> string \<times> nat" where
  "get_string_from_ident_list idents = (ident_list_loop False idents ''IN ('' @ '')'', length idents)"

text \<open>
  \<open>get r i\<close> is \<open>preludedb_result_idents_get\<close> on the result set \<open>r\<close>. The loop goes on while it
  returns something other than 0: an error is taken for a row, and the ident that is printed
  for it was never set. \<open>None\<close> is a loop that never ends.
\<close>

partial_function (option) result_ident_loop ::
    "('r \<Rightarrow> nat \<Rightarrow> 'r \<times> (db_error + nat option)) \<Rightarrow> 'r \<Rightarrow> nat \<Rightarrow> string \<Rightarrow> ('r \<times> (db_error + string \<times> nat)) option" where
  "result_ident_loop get r i out =
     (case get r i of
        (r', ret) \<Rightarrow>
          (case ret of
             Inl e \<Rightarrow> Some (r', Inl Undefined)
           | Inr x \<Rightarrow>
               (case x of
                  None \<Rightarrow> Some (r', Inr (out, i))
                | Some ident \<Rightarrow>
                    result_ident_loop get r' (i + 1) (out @ (if 0 < i then '', '' else []) @ dec_nat ident))))"

definition get_string_from_result_ident ::
    "('r \<Rightarrow> nat \<Rightarrow> 'r \<times> (db_error + nat option)) \<Rightarrow> 'r \<Rightarrow> ('r \<times> (db_error + string \<times> nat)) option" where
  "get_string_from_result_ident get r =
     map_option (\<lambda>(r', ret). (r', res_bind ret (\<lambda>(out, n).
        Inr (if n = 0 then ([], 0) else (out @ '')'', n))))) (result_ident_loop get r 0 ''IN ('')"

section \<open>The operations\<close>

definition classic_delete_alert ::
    "(string option \<Rightarrow> db_error \<Rightarrow> string) \<Rightarrow> ('w, 'd) sql \<Rightarrow> nat \<Rightarrow> ('w, 'd) sql \<times> (db_error + unit)" where
  "classic_delete_alert se s ident = do_delete_alert se s (ident_condition ident)"

definition classic_delete_heartbeat ::
    "(string option \<Rightarrow> db_error \<Rightarrow> string) \<Rightarrow> ('w, 'd) sql \<Rightarrow> nat \<Rightarrow> ('w, 'd) sql \<times> (db_error + unit)" where
  "classic_delete_heartbeat se s ident = do_delete_heartbeat se s (ident_condition ident)"

definition classic_delete_alert_from_list ::
    "(string option \<Rightarrow> db_error \<Rightarrow> string) \<Rightarrow> ('w, 'd) sql \<Rightarrow> nat list \<Rightarrow> ('w, 'd) sql \<times> (db_error + nat)" where
  "classic_delete_alert_from_list se s idents =
     (let (buf, count) = get_string_from_ident_list idents;
          (s', ret) = do_delete_alert se s buf
      in (s', map_sum id (\<lambda>_. count) ret))"

definition classic_delete_heartbeat_from_list ::
    "(string option \<Rightarrow> db_error \<Rightarrow> string) \<Rightarrow> ('w, 'd) sql \<Rightarrow> nat list \<Rightarrow> ('w, 'd) sql \<times> (db_error + nat)" where
  "classic_delete_heartbeat_from_list se s idents =
     (let (buf, count) = get_string_from_ident_list idents;
          (s', ret) = do_delete_heartbeat se s buf
      in (s', map_sum id (\<lambda>_. count) ret))"

text \<open>
  The result set is read on the session \<open>s\<close> before anything is deleted; \<open>get\<close> threads both.
\<close>

definition delete_from_result_idents ::
    "(('w, 'd) sql \<Rightarrow> string \<Rightarrow> ('w, 'd) sql \<times> (db_error + unit)) \<Rightarrow>
     (('w, 'd) sql \<times> 'r \<Rightarrow> nat \<Rightarrow> (('w, 'd) sql \<times> 'r) \<times> (db_error + nat option)) \<Rightarrow>
     ('w, 'd) sql \<times> 'r \<Rightarrow> ((('w, 'd) sql \<times> 'r) \<times> (db_error + nat)) option" where
  "delete_from_result_idents del get sr =
     (case get_string_from_result_ident get sr of
        None \<Rightarrow> None
      | Some (sr', Inl e) \<Rightarrow> Some (sr', Inl e)
      | Some (sr', Inr (buf, count)) \<Rightarrow>
          if count = 0 then Some (sr', Inr 0)
          else (let (s', ret) = del (fst sr') buf
                in Some ((s', snd sr'), map_sum id (\<lambda>_. count) ret)))"

definition classic_delete_alert_from_result_idents where
  "classic_delete_alert_from_result_idents se get sr = delete_from_result_idents (do_delete_alert se) get sr"

definition classic_delete_heartbeat_from_result_idents where
  "classic_delete_heartbeat_from_result_idents se get sr = delete_from_result_idents (do_delete_heartbeat se) get sr"

section \<open>Facts\<close>

lemma delete_queries_connected:
  assumes "status_connected s"
  shows "\<exists>k \<le> length qs. issued (fst (delete_queries s qs idents)) =
      issued s @ map (\<lambda>q. subst_s q idents) (take k qs) \<and>
      status_transaction (fst (delete_queries s qs idents)) = status_transaction s \<and>
      mutex (fst (delete_queries s qs idents)) = mutex s \<and>
      internal_transaction_disabled (fst (delete_queries s qs idents)) = internal_transaction_disabled s \<and>
      (is_ok (snd (delete_queries s qs idents)) \<longrightarrow>
         k = length qs \<and> status_connected (fst (delete_queries s qs idents))) \<and>
      (\<not> is_ok (snd (delete_queries s qs idents)) \<longrightarrow> 0 < k)"
  using assms
proof (induction qs arbitrary: s)
  case (Cons q qs)
  obtain s1 r where q: "preludedb_sql_query s (subst_s q idents) False = (s1, r)" by fastforce
  have f: "status_transaction s1 = status_transaction s" "issued s1 = issued s @ [subst_s q idents]"
    "mutex s1 = mutex s" "internal_transaction_disabled s1 = internal_transaction_disabled s"
    using query_connected [OF Cons.prems, of "subst_s q idents" False] query_frame [of s "subst_s q idents" False] q
    by simp_all
  show ?case
  proof (cases r)
    case (Inl e)
    then show ?thesis using q f by (intro exI [of _ 1]) simp
  next
    case (Inr x)
    then have "status_connected s1" using query_ok_connected [of s "subst_s q idents" False] q by simp
    from Cons.IH [OF this] obtain k where "k \<le> length qs"
      "issued (fst (delete_queries s1 qs idents)) = issued s1 @ map (\<lambda>q. subst_s q idents) (take k qs)"
      "status_transaction (fst (delete_queries s1 qs idents)) = status_transaction s1"
      "mutex (fst (delete_queries s1 qs idents)) = mutex s1"
      "internal_transaction_disabled (fst (delete_queries s1 qs idents)) = internal_transaction_disabled s1"
      "is_ok (snd (delete_queries s1 qs idents)) \<longrightarrow>
         k = length qs \<and> status_connected (fst (delete_queries s1 qs idents))"
      by blast
    then show ?thesis using q Inr f by (intro exI [of _ "Suc k"]) simp
  qed
qed simp

text \<open>Nothing is left behind: the lock is released and the transaction is over.\<close>

lemma delete_message_balanced:
  assumes tr: "\<not> status_transaction s" and en: "\<not> internal_transaction_disabled s"
  shows "mutex (fst (delete_message se s qs idents)) = mutex s \<and>
         \<not> status_transaction (fst (delete_message se s qs idents))"
proof -
  obtain s1 r1 where st: "preludedb_sql_transaction_start s = (s1, r1)" by fastforce
  have b: "lock_balanced (mutex s) s" using tr by (simp add: lock_balanced_def)
  have b1: "lock_balanced (mutex s) s1" using start_balanced [OF b] st by simp
  obtain sq rq where qb: "preludedb_sql_query (lock s) ''BEGIN'' False = (sq, rq)" by fastforce
  have en1: "internal_transaction_disabled s1 = internal_transaction_disabled s"
    using st en tr qb query_frame(4) [of "lock s" "''BEGIN''" False]
    by (cases rq) (auto simp: preludedb_sql_transaction_start_def sql_transaction_start_ext_def)
  show ?thesis
  proof (cases r1)
    case (Inl e)
    have "\<not> status_transaction s1"
      using st en tr qb Inl query_no_transaction [of "lock s" "''BEGIN''" False]
      by (cases rq) (auto simp: preludedb_sql_transaction_start_def sql_transaction_start_ext_def)
    then show ?thesis using st Inl b1 by (simp add: delete_message_def lock_balanced_def)
  next
    case (Inr u)
    have c1: "status_connected s1 \<and> status_transaction s1"
      using st en tr qb Inr query_ok_connected [of "lock s" "''BEGIN''" False]
      by (cases rq) (auto simp: preludedb_sql_transaction_start_def sql_transaction_start_ext_def)
    obtain s2 r2 where d: "delete_queries s1 qs idents = (s2, r2)" by fastforce
    have f2: "status_transaction s2" "mutex s2 = mutex s1" "\<not> internal_transaction_disabled s2"
      using delete_queries_connected [of s1 qs idents] c1 d en en1 by auto
    then have b2: "lock_balanced (mutex s) s2" using b1 c1 by (simp add: lock_balanced_def)
    show ?thesis
    proof (cases r2)
      case (Inr x)
      obtain sc rc where "preludedb_sql_query s2 ''COMMIT'' False = (sc, rc)" by fastforce
      then have "\<not> status_transaction (fst (preludedb_sql_transaction_end s2))"
        using f2 by (simp add: preludedb_sql_transaction_end_def sql_transaction_end_ext_def)
      then show ?thesis
        using st \<open>r1 = Inr u\<close> d Inr end_balanced [OF b2] by (simp add: delete_message_def lock_balanced_def)
    next
      case (Inl e)
      let ?s = "s2\<lparr>status_transaction := False\<rparr>"
      obtain sr rr where r: "preludedb_sql_query ?s ''ROLLBACK'' False = (sr, rr)" by fastforce
      have "\<not> status_transaction sr" using query_no_transaction [of ?s "''ROLLBACK''" False] r by simp
      then have nt: "\<not> status_transaction (fst (preludedb_sql_transaction_abort se s2))"
        using f2 r by (cases rr) (auto simp: preludedb_sql_transaction_abort_def
            sql_transaction_abort_ext_def Let_def split: option.splits)
      obtain s3 r3 where a: "preludedb_sql_transaction_abort se s2 = (s3, r3)" by fastforce
      show ?thesis
        using st \<open>r1 = Inr u\<close> d Inl a nt abort_balanced [OF b2, of se]
        by (cases r3) (simp_all add: delete_message_def lock_balanced_def)
    qed
  qed
qed

text \<open>What the database sees of a deletion on a live connection.\<close>

lemma delete_message_issued:
  assumes co: "status_connected s" and tr: "\<not> status_transaction s" and en: "\<not> internal_transaction_disabled s"
    and ok: "delete_message se s qs idents = (s', Inr ())"
  shows "issued s' = issued s @ ''BEGIN'' # map (\<lambda>q. subst_s q idents) qs @ [''COMMIT'']"
proof -
  obtain s1 r1 where st: "preludedb_sql_transaction_start s = (s1, r1)" by fastforce
  obtain u where r1: "r1 = Inr u" using ok st by (cases r1) (simp_all add: delete_message_def)
  have s1: "issued s1 = issued s @ [''BEGIN'']" "status_transaction s1" "status_connected s1"
    "\<not> internal_transaction_disabled s1"
    using start_connected [OF co en tr] st r1 by auto
  obtain s2 r2 where d: "delete_queries s1 qs idents = (s2, r2)" by fastforce
  obtain v where r2: "r2 = Inr v"
    using ok st r1 d by (cases r2) (auto simp: delete_message_def split: prod.splits sum.splits)
  obtain k where k: "issued s2 = issued s1 @ map (\<lambda>q. subst_s q idents) (take k qs)"
    "status_transaction s2" "\<not> internal_transaction_disabled s2" "k = length qs" "status_connected s2"
    using delete_queries_connected [OF s1(3), of qs idents] d r2 s1 by auto
  have "s' = fst (preludedb_sql_transaction_end s2)"
    using ok st r1 d r2 by (simp add: delete_message_def)
  then show ?thesis using end_connected [OF k(5,3,2)] k(1,4) s1(1) by simp
qed

lemma delete_message_failed:
  assumes co: "status_connected s" and tr: "\<not> status_transaction s" and en: "\<not> internal_transaction_disabled s"
    and st: "preludedb_sql_transaction_start s = (s1, Inr ())"
    and d: "delete_queries s1 qs idents = (s2, Inl e)" and c2: "status_connected s2"
  shows "\<exists>k. 0 < k \<and> k \<le> length qs \<and> issued (fst (delete_message se s qs idents)) =
           issued s @ ''BEGIN'' # map (\<lambda>q. subst_s q idents) (take k qs) @ [''ROLLBACK''] \<and>
         \<not> is_ok (snd (delete_message se s qs idents))"
proof -
  have s1: "issued s1 = issued s @ [''BEGIN'']" "status_transaction s1" "status_connected s1"
    "\<not> internal_transaction_disabled s1"
    using start_connected [OF co en tr st] by auto
  obtain k where k: "k \<le> length qs" "0 < k" "issued s2 = issued s1 @ map (\<lambda>q. subst_s q idents) (take k qs)"
    "status_transaction s2" "\<not> internal_transaction_disabled s2"
    using delete_queries_connected [OF s1(3), of qs idents] d s1 by auto
  obtain s3 r3 where a: "preludedb_sql_transaction_abort se s2 = (s3, r3)" by fastforce
  have "issued s3 = issued s2 @ [''ROLLBACK'']" using abort_connected [OF c2 k(5,4), of se] a by simp
  then show ?thesis
    using st d a k s1(1) by (intro exI [of _ k], cases r3) (simp_all add: delete_message_def)
qed

text \<open>With internal transactions disabled only the deletions are sent.\<close>

lemma delete_message_external:
  assumes "status_connected s" "internal_transaction_disabled s"
    and "delete_message se s qs idents = (s', Inr ())"
  shows "issued s' = issued s @ map (\<lambda>q. subst_s q idents) qs \<and>
         status_transaction s' = status_transaction s \<and> mutex s' = mutex s \<and> status_connected s'"
proof -
  obtain s2 r2 where d: "delete_queries s qs idents = (s2, r2)" by fastforce
  have di: "internal_transaction_disabled s2"
    using delete_queries_connected [OF assms(1), of qs idents] d assms(2) by auto
  obtain v where "r2 = Inr v"
    using assms(2,3) d di by (cases r2) (simp_all add: delete_message_def preludedb_sql_transaction_start_def
        preludedb_sql_transaction_abort_def)
  then have "s' = s2"
    using assms(2,3) d di by (simp add: delete_message_def preludedb_sql_transaction_start_def
        preludedb_sql_transaction_end_def)
  then show ?thesis
    using delete_queries_connected [OF assms(1), of qs idents] d \<open>r2 = Inr v\<close> by auto
qed

text \<open>The list of idents as SQL, and the buffer for one ident.\<close>

lemma ident_list_loop_tail:
  "ident_list_loop True ids out = out @ concat (map (\<lambda>i. '', '' @ dec_nat i) ids)"
  by (induction ids arbitrary: out) simp_all

lemma ident_list_text:
  "get_string_from_ident_list idents = (''IN ('' @ join_sep '', '' (map dec_nat idents) @ '')'', length idents)"
proof (cases idents)
  case (Cons i ids)
  have "join_sep '', '' (map dec_nat (i # ids)) = dec_nat i @ concat (map (\<lambda>i. '', '' @ dec_nat i) ids)"
    unfolding list.map join_sep_Cons_concat by (simp add: comp_def)
  then show ?thesis using Cons by (simp add: get_string_from_ident_list_def ident_list_loop_tail)
qed (simp add: get_string_from_ident_list_def)

lemma result_ident_loop_text:
  assumes "\<And>j. j < length ids \<Longrightarrow> snd (get (rs (i + j)) (i + j)) = Inr (Some (ids ! j)) \<and>
      fst (get (rs (i + j)) (i + j)) = rs (i + j + 1)"
    and "get (rs (i + length ids)) (i + length ids) = (r', Inr None)"
  shows "result_ident_loop get (rs i) i out =
    Some (r', Inr (out @ concat (map (\<lambda>(j, x). (if 0 < i + j then '', '' else []) @ dec_nat x) (enumerate 0 ids)),
      i + length ids))"
  using assms
proof (induction ids arbitrary: i out)
  case Nil
  then show ?case by (subst result_ident_loop.simps) simp
next
  case (Cons x xs)
  have h: "get (rs i) i = (rs (i + 1), Inr (Some x))"
    using Cons.prems(1) [of 0] by (cases "get (rs i) i") simp
  have ih: "result_ident_loop get (rs (i + 1)) (i + 1) o' =
      Some (r', Inr (o' @ concat (map (\<lambda>(j, x). (if 0 < i + 1 + j then '', '' else []) @ dec_nat x) (enumerate 0 xs)),
        i + 1 + length xs))" for o'
  proof (rule Cons.IH)
    fix j assume "j < length xs"
    then show "snd (get (rs (i + 1 + j)) (i + 1 + j)) = Inr (Some (xs ! j)) \<and>
        fst (get (rs (i + 1 + j)) (i + 1 + j)) = rs (i + 1 + j + 1)"
      using Cons.prems(1) [of "Suc j"] by simp
  next
    show "get (rs (i + 1 + length xs)) (i + 1 + length xs) = (r', Inr None)"
      using Cons.prems(2) by simp
  qed
  have sh: "map (\<lambda>(j, x). (if 0 < i + 1 + j then '', '' else []) @ dec_nat x) (enumerate n ys) =
      map (\<lambda>(j, x). (if 0 < i + j then '', '' else []) @ dec_nat x) (enumerate (Suc n) ys)" for n ys
    by (induction ys arbitrary: n) simp_all
  show ?case
    using h ih sh [of 0 xs] by (subst result_ident_loop.simps) (simp add: enumerate_simps)
qed

text \<open>An error of the result set is taken for a row with an ident that was never set.\<close>

lemma result_ident_loop_error:
  "snd (get r i) = Inl e \<Longrightarrow> result_ident_loop get r i out = Some (fst (get r i), Inl Undefined)"
  by (cases "get r i", subst result_ident_loop.simps) simp

end
