(* ===== verification/Db.thy ===== *)
theory Db
  imports Classic_Get Classic_Delete
begin

text \<open>
  The database object (src/preludedb.c) and the dispatch to the format plugin with its
  defaults (src/preludedb-plugin-format.c). The plugin's functions work on the SQL session
  of the database; those that may be missing are options. Argument checks against NULL are
  left out: a model value is never NULL.
\<close>

record ('w, 'd) format_plugin =
  f_check_schema_version :: "string option \<Rightarrow> db_error + unit"
  f_get_alert_idents :: "('w, 'd) sql \<Rightarrow> idmef_criteria option \<Rightarrow> int \<Rightarrow> int \<Rightarrow> idents_order \<Rightarrow>
    ('w, 'd) sql \<times> (db_error + 'd sql_table option)"
  f_get_heartbeat_idents :: "('w, 'd) sql \<Rightarrow> idmef_criteria option \<Rightarrow> int \<Rightarrow> int \<Rightarrow> idents_order \<Rightarrow>
    ('w, 'd) sql \<times> (db_error + 'd sql_table option)"
  f_get_message_ident_count ::
    "(('w, 'd) sql \<Rightarrow> 'd sql_table \<Rightarrow> (('w, 'd) sql \<times> 'd sql_table \<times> (db_error + nat)) option) option"
  f_get_message_ident ::
    "(('w, 'd) sql \<times> 'd sql_table \<Rightarrow> nat \<Rightarrow> (('w, 'd) sql \<times> 'd sql_table) \<times> (db_error + nat option)) option"
  f_get_alert :: "nat \<Rightarrow> (('w, 'd) sql, idmef_message) get_call"
  f_get_heartbeat :: "nat \<Rightarrow> (('w, 'd) sql, idmef_message) get_call"
  f_delete_alert :: "('w, 'd) sql \<Rightarrow> nat \<Rightarrow> ('w, 'd) sql \<times> (db_error + unit)"
  f_delete_alert_from_list :: "(('w, 'd) sql \<Rightarrow> nat list \<Rightarrow> ('w, 'd) sql \<times> (db_error + nat)) option"
  f_delete_alert_from_result_idents ::
    "(('w, 'd) sql \<times> 'd sql_table \<Rightarrow> ((('w, 'd) sql \<times> 'd sql_table) \<times> (db_error + nat)) option) option"
  f_delete_heartbeat :: "('w, 'd) sql \<Rightarrow> nat \<Rightarrow> ('w, 'd) sql \<times> (db_error + unit)"
  f_delete_heartbeat_from_list :: "(('w, 'd) sql \<Rightarrow> nat list \<Rightarrow> ('w, 'd) sql \<times> (db_error + nat)) option"
  f_delete_heartbeat_from_result_idents ::
    "(('w, 'd) sql \<times> 'd sql_table \<Rightarrow> ((('w, 'd) sql \<times> 'd sql_table) \<times> (db_error + nat)) option) option"
  f_insert_message :: "idmef_message option \<Rightarrow> (('w, 'd) sql, unit) sql_call"
  f_get_values :: "('w, 'd) sql \<Rightarrow> path_selection \<Rightarrow> idmef_criteria option \<Rightarrow> bool \<Rightarrow> int \<Rightarrow> int \<Rightarrow>
    ('w, 'd) sql \<times> (db_error + 'd sql_table option)"
  f_get_result_values_count ::
    "(('w, 'd) sql \<Rightarrow> 'd sql_table \<Rightarrow> (('w, 'd) sql \<times> 'd sql_table \<times> (db_error + nat)) option) option"
  f_get_result_values_row ::
    "(('w, 'd) sql \<Rightarrow> 'd sql_table \<Rightarrow> nat \<Rightarrow> ('w, 'd) sql \<times> 'd sql_table \<times> (db_error + nat option)) option"
  f_get_result_values_field ::
    "((value_arg \<Rightarrow> db_error + idmef_value option) \<Rightarrow> ('w, 'd) sql \<Rightarrow> 'd sql_table \<Rightarrow> nat \<Rightarrow> selected_path \<Rightarrow>
       ('w, 'd) sql \<times> 'd sql_table \<times> (db_error + idmef_value option \<times> nat)) option"
  f_update_from_list ::
    "(('w, 'd) sql \<Rightarrow> (idmef_path \<times> idmef_value) list \<Rightarrow> nat list \<Rightarrow> ('w, 'd) sql \<times> (db_error + nat)) option"
  f_update ::
    "(('w, 'd) sql \<Rightarrow> (idmef_path \<times> idmef_value) list \<Rightarrow> idmef_criteria option \<Rightarrow> path_selection option \<Rightarrow>
       int \<Rightarrow> int \<Rightarrow> ('w, 'd) sql \<times> (db_error + unit)) option"
  f_init :: "(('w, 'd) sql \<Rightarrow> ('w, 'd) sql \<times> (db_error + unit)) option"
  f_optimize :: "(('w, 'd) sql \<Rightarrow> ('w, 'd) sql \<times> (db_error + unit)) option"
  f_update_from_result_idents ::
    "(('w, 'd) sql \<times> 'd sql_table \<Rightarrow> (idmef_path \<times> idmef_value) list \<Rightarrow> (('w, 'd) sql \<times> 'd sql_table) \<times> (db_error + nat)) option"

record ('w, 'd) preludedb =
  db_refcount :: int
  format_version :: "string option"
  db_sql :: "('w, 'd) sql"
  db_plugin :: "('w, 'd) format_plugin option"

section \<open>The library\<close>

text \<open>
  The lists of plugins and the number of initialisations. The first one counts before it does
  anything: when it fails, the next one takes the library for initialised. \<open>accessible\<close> tells the
  plugin directories that exist, \<open>load\<close> is what loading from one returns.
\<close>

datatype plugin_dir = FORMAT_PLUGIN_DIR | SQL_PLUGIN_DIR

record pdb_library =
  libpreludedb_refcount :: int
  loaded :: "plugin_dir list"

definition load_plugins ::
    "(plugin_dir \<Rightarrow> bool) \<Rightarrow> (plugin_dir \<Rightarrow> db_error + nat) \<Rightarrow> plugin_dir \<Rightarrow> db_error \<Rightarrow> pdb_library \<Rightarrow>
       pdb_library \<times> (db_error + unit)" where
  "load_plugins accessible load dir e lib =
     (if \<not> accessible dir then (lib, Inl e)
      else case load dir of Inl e \<Rightarrow> (lib, Inl e) | Inr n \<Rightarrow> (lib\<lparr>loaded := loaded lib @ [dir]\<rparr>, Inr ()))"

definition preludedb_init ::
    "db_error + unit \<Rightarrow> (plugin_dir \<Rightarrow> bool) \<Rightarrow> (plugin_dir \<Rightarrow> db_error + nat) \<Rightarrow> (plugin_dir \<Rightarrow> string) \<Rightarrow> pdb_library \<Rightarrow>
       pdb_library \<times> (db_error + unit)" where
  "preludedb_init prelude_init accessible load dir_name lib =
     (let lib1 = lib\<lparr>libpreludedb_refcount := libpreludedb_refcount lib + 1\<rparr>;
          quoted = (\<lambda>dir. CHR 0x27 # dir_name dir @ [CHR 0x27])
      in if libpreludedb_refcount lib > 0 then (lib1, Inr ())
         else case prelude_init of
           Inl e \<Rightarrow> (lib1, Inl e)
         | Inr _ \<Rightarrow>
             (case load_plugins accessible load FORMAT_PLUGIN_DIR
                     (preludedb_error_verbose PRELUDEDB_ERROR_CANNOT_LOAD_FORMAT_PLUGIN
                        (''could not access format plugin directory '' @ quoted FORMAT_PLUGIN_DIR)) lib1 of
                (lib2, Inl e) \<Rightarrow> (lib2, Inl e)
              | (lib2, Inr _) \<Rightarrow>
                  load_plugins accessible load SQL_PLUGIN_DIR
                    (preludedb_error_verbose PRELUDEDB_ERROR_CANNOT_LOAD_SQL_PLUGIN
                       (''could not access sql plugin directory '' @ quoted SQL_PLUGIN_DIR)) lib2))"

definition preludedb_deinit :: "pdb_library \<Rightarrow> pdb_library" where
  "preludedb_deinit lib =
     (let lib1 = lib\<lparr>libpreludedb_refcount := libpreludedb_refcount lib - 1\<rparr>
      in if libpreludedb_refcount lib1 > 0 then lib1 else lib1\<lparr>loaded := []\<rparr>)"

lemma second_init_succeeds:
  assumes "libpreludedb_refcount lib = 0"
    and "preludedb_init i accessible load dir_name lib = (lib1, Inl e)"
  shows "preludedb_init i' accessible' load' dir_name lib1 = (lib1\<lparr>libpreludedb_refcount := 2\<rparr>, Inr ())"
  using assms by (auto simp: preludedb_init_def load_plugins_def Let_def split: sum.splits if_splits prod.splits)

section \<open>References to the database object\<close>

definition preludedb_ref :: "('w, 'd) preludedb \<Rightarrow> ('w, 'd) preludedb" where
  "preludedb_ref db = db\<lparr>db_refcount := db_refcount db + 1\<rparr>"

text \<open>\<open>Inl\<close>: the object is gone, and its reference to the session given back.\<close>

definition preludedb_destroy :: "('w, 'd) preludedb \<Rightarrow> ('w + ('w, 'd) sql) + ('w, 'd) preludedb" where
  "preludedb_destroy db =
     (if db_refcount db - 1 \<noteq> 0 then Inr (db\<lparr>db_refcount := db_refcount db - 1\<rparr>)
      else Inl (preludedb_sql_destroy (db_sql db)))"

section \<open>The format\<close>

text \<open>\<open>formats\<close> is \<open>prelude_plugin_search_by_name\<close> on the list of format plugins.\<close>

definition preludedb_set_format ::
    "(string \<Rightarrow> ('w, 'd) format_plugin option) \<Rightarrow> ('w, 'd) preludedb \<Rightarrow> string \<Rightarrow>
       ('w, 'd) preludedb \<times> (db_error + unit)" where
  "preludedb_set_format formats db name =
     (case formats name of
        None \<Rightarrow> (db\<lparr>db_plugin := None\<rparr>, Inl (preludedb_error_verbose PRELUDEDB_ERROR_CANNOT_LOAD_FORMAT_PLUGIN
                   (''could not find format plugin '' @ CHR 0x27 # name @ [CHR 0x27])))
      | Some p \<Rightarrow> (db\<lparr>db_plugin := Some p\<rparr>, Inr ()))"

text \<open>
  The row and the first field are used without a look at the return value 0, which says that
  there is none. The table is destroyed at the end, which gives its session reference back.
\<close>

definition release_table :: "('w, 'd) preludedb \<Rightarrow> ('w, 'd) preludedb" where
  "release_table db = db\<lparr>db_sql := (db_sql db)\<lparr>sql_refcount := sql_refcount (db_sql db) - 1\<rparr>\<rparr>"

definition autodetect_from_row ::
    "(string \<Rightarrow> ('w, 'd) format_plugin option) \<Rightarrow> ('w, 'd) preludedb \<Rightarrow> 'd sql_table \<Rightarrow> nat \<Rightarrow>
       ('w, 'd) preludedb \<times> (db_error + unit)" where
  "autodetect_from_row formats db t i =
     (case preludedb_sql_row_get_field (db_sql db) t i 0 of
        (s1, t1, Inl e) \<Rightarrow> (db\<lparr>db_sql := s1\<rparr>, Inl e)
      | (s1, t1, Inr None) \<Rightarrow> (db\<lparr>db_sql := s1\<rparr>, Inl Undefined)
      | (s1, t1, Inr (Some c)) \<Rightarrow>
          (case preludedb_set_format formats (db\<lparr>db_sql := s1\<rparr>) (fvalue (slot_field (field_at t1 i c) c)) of
             (db1, Inl e) \<Rightarrow> (db1, Inl e)
           | (db1, Inr _) \<Rightarrow>
               (case preludedb_sql_row_get_field (db_sql db1) t1 i 1 of
                  (s2, t2, Inl e) \<Rightarrow> (db1\<lparr>db_sql := s2\<rparr>, Inl e)
                | (s2, t2, Inr None) \<Rightarrow> (db1\<lparr>db_sql := s2\<rparr>, Inl Undefined)
                | (s2, t2, Inr (Some c2)) \<Rightarrow>
                    (let version = fvalue (slot_field (field_at t2 i c2) c2);
                         db2 = db1\<lparr>db_sql := s2\<rparr>
                     in case db_plugin db2 of
                          None \<Rightarrow> (db2, Inl Undefined)
                        | Some p \<Rightarrow>
                            (case f_check_schema_version p (Some version) of
                               Inl e \<Rightarrow> (db2, Inl e)
                             | Inr _ \<Rightarrow> (db2\<lparr>format_version := Some version\<rparr>, Inr ()))))))"

definition preludedb_autodetect_format ::
    "(string \<Rightarrow> ('w, 'd) format_plugin option) \<Rightarrow> ('w, 'd) preludedb \<Rightarrow> ('w, 'd) preludedb \<times> (db_error + unit)" where
  "preludedb_autodetect_format formats db =
     (case preludedb_sql_query (db_sql db) ''SELECT name, version from _format'' True of
        (s1, Inl e) \<Rightarrow> (db\<lparr>db_sql := s1\<rparr>, Inl e)
      | (s1, Inr None) \<Rightarrow> (db\<lparr>db_sql := s1\<rparr>, Inl RawError)
      | (s1, Inr (Some t)) \<Rightarrow>
          (case preludedb_sql_table_fetch_row s1 t of
             (s2, t2, Inl e) \<Rightarrow> (release_table (db\<lparr>db_sql := s2\<rparr>), Inl e)
           | (s2, t2, Inr None) \<Rightarrow> (release_table (db\<lparr>db_sql := s2\<rparr>), Inl Undefined)
           | (s2, t2, Inr (Some i)) \<Rightarrow>
               (let (db', ret) = autodetect_from_row formats (db\<lparr>db_sql := s2\<rparr>) t2 i
                in (release_table db', ret))))"

text \<open>
  On failure the object is freed without giving back its reference to the session: the result
  \<open>Inl (s, e)\<close> has the session with that reference still counted.
\<close>

definition preludedb_new ::
    "(string \<Rightarrow> ('w, 'd) format_plugin option) \<Rightarrow> ('w, 'd) sql \<Rightarrow> string option \<Rightarrow>
       (('w, 'd) sql \<times> db_error) + ('w, 'd) preludedb" where
  "preludedb_new formats s format_name =
     (let db = \<lparr>db_refcount = 1, format_version = None, db_sql = preludedb_sql_ref s, db_plugin = None\<rparr>;
          (db1, ret) = (case format_name of
                          Some name \<Rightarrow> preludedb_set_format formats db name
                        | None \<Rightarrow> preludedb_autodetect_format formats db)
      in case ret of
           Inl e \<Rightarrow> Inl (db_sql db1, e)
         | Inr _ \<Rightarrow>
             (case db_plugin db1 of
                None \<Rightarrow> Inl (db_sql db1, Undefined)
              | Some p \<Rightarrow>
                  (case f_init p of
                     None \<Rightarrow> Inr db1
                   | Some f \<Rightarrow>
                       (case f (db_sql db1) of
                          (s', Inl e) \<Rightarrow> Inl (s', e)
                        | (s', Inr _) \<Rightarrow> Inr (db1\<lparr>db_sql := s'\<rparr>)))))"

text \<open>\<open>snprintf\<close> of the two messages; \<open>None\<close> when they do not fit.\<close>

definition preludedb_get_error ::
    "(db_error \<Rightarrow> string) \<Rightarrow> db_error \<Rightarrow> nat \<Rightarrow> string option" where
  "preludedb_get_error strerror e bufsize =
     (let code = (case e of Err src c m \<Rightarrow> preludedb_error c | _ \<Rightarrow> e);
          msg = strerror code @ '': '' @ strerror e
      in if length msg \<ge> bufsize then None else Some msg)"

section \<open>Idents and deletion\<close>

definition preludedb_result_idents_get ::
    "('w, 'd) format_plugin \<Rightarrow> ('w, 'd) sql \<times> 'd sql_table \<Rightarrow> nat \<Rightarrow>
       (('w, 'd) sql \<times> 'd sql_table) \<times> (db_error + nat option)" where
  "preludedb_result_idents_get p st i =
     (case f_get_message_ident p of
        None \<Rightarrow> (st, Inl (preludedb_error_verbose PRELUDEDB_ERROR_GENERIC
                       (''format plugin doesn'' @ CHR 0x27 # ''t implement ident retrieval by index'')))
      | Some f \<Rightarrow> f st i)"

fun delete_loop ::
    "('s \<Rightarrow> nat \<Rightarrow> 's \<times> (db_error + unit)) \<Rightarrow> 's \<Rightarrow> nat list \<Rightarrow> nat \<Rightarrow> 's \<times> (db_error + nat)" where
  "delete_loop del s [] i = (s, Inr i)"
| "delete_loop del s (ident # ids) i =
     (case del s ident of
        (s', Inl e) \<Rightarrow> (s', Inl e)
      | (s', Inr _) \<Rightarrow> delete_loop del s' ids (i + 1))"

definition plugin_format_delete_alert_from_list ::
    "('w, 'd) format_plugin \<Rightarrow> ('w, 'd) sql \<Rightarrow> nat list \<Rightarrow> ('w, 'd) sql \<times> (db_error + nat)" where
  "plugin_format_delete_alert_from_list p s ids =
     (case f_delete_alert_from_list p of Some f \<Rightarrow> f s ids | None \<Rightarrow> delete_loop (f_delete_alert p) s ids 0)"

definition plugin_format_delete_heartbeat_from_list ::
    "('w, 'd) format_plugin \<Rightarrow> ('w, 'd) sql \<Rightarrow> nat list \<Rightarrow> ('w, 'd) sql \<times> (db_error + nat)" where
  "plugin_format_delete_heartbeat_from_list p s ids =
     (case f_delete_heartbeat_from_list p of Some f \<Rightarrow> f s ids | None \<Rightarrow> delete_loop (f_delete_heartbeat p) s ids 0)"

text \<open>
  The default for a result set: row after row, as long as the return value is not 0. A row
  that could not be read leaves the ident unset.
\<close>

partial_function (option) delete_result_loop ::
    "('s \<times> 'r \<Rightarrow> nat \<Rightarrow> ('s \<times> 'r) \<times> (db_error + nat option)) \<Rightarrow> ('s \<Rightarrow> nat \<Rightarrow> 's \<times> (db_error + unit)) \<Rightarrow>
       's \<times> 'r \<Rightarrow> nat \<Rightarrow> (('s \<times> 'r) \<times> (db_error + nat)) option" where
  "delete_result_loop get del sr count =
     (case get sr count of
        (sr1, ret) \<Rightarrow>
          (case ret of
             Inl e \<Rightarrow> Some (sr1, Inl Undefined)
           | Inr x \<Rightarrow>
               (case x of
                  None \<Rightarrow> Some (sr1, Inr count)
                | Some ident \<Rightarrow>
                    (case del (fst sr1) ident of
                       (s2, r) \<Rightarrow>
                         (case r of
                            Inl e \<Rightarrow> Some ((s2, snd sr1), Inl e)
                          | Inr u \<Rightarrow> delete_result_loop get del (s2, snd sr1) (count + 1))))))"

definition preludedb_delete_alert_from_result_idents ::
    "('w, 'd) format_plugin \<Rightarrow> ('w, 'd) sql \<times> 'd sql_table \<Rightarrow> ((('w, 'd) sql \<times> 'd sql_table) \<times> (db_error + nat)) option" where
  "preludedb_delete_alert_from_result_idents p sr =
     (case f_delete_alert_from_result_idents p of
        Some f \<Rightarrow> f sr
      | None \<Rightarrow> delete_result_loop (preludedb_result_idents_get p) (f_delete_alert p) sr 0)"

definition preludedb_delete_heartbeat_from_result_idents ::
    "('w, 'd) format_plugin \<Rightarrow> ('w, 'd) sql \<times> 'd sql_table \<Rightarrow> ((('w, 'd) sql \<times> 'd sql_table) \<times> (db_error + nat)) option" where
  "preludedb_delete_heartbeat_from_result_idents p sr =
     (case f_delete_heartbeat_from_result_idents p of
        Some f \<Rightarrow> f sr
      | None \<Rightarrow> delete_result_loop (preludedb_result_idents_get p) (f_delete_heartbeat p) sr 0)"

definition preludedb_delete_alert where
  "preludedb_delete_alert p s ident = f_delete_alert p s ident"

definition preludedb_delete_heartbeat where
  "preludedb_delete_heartbeat p s ident = f_delete_heartbeat p s ident"

definition preludedb_delete_alert_from_list ::
    "('w, 'd) format_plugin \<Rightarrow> ('w, 'd) sql \<Rightarrow> nat list \<Rightarrow> ('w, 'd) sql \<times> (db_error + nat)" where
  "preludedb_delete_alert_from_list p s ids =
     (if ids = [] then (s, Inr 0) else plugin_format_delete_alert_from_list p s ids)"

definition preludedb_delete_heartbeat_from_list ::
    "('w, 'd) format_plugin \<Rightarrow> ('w, 'd) sql \<Rightarrow> nat list \<Rightarrow> ('w, 'd) sql \<times> (db_error + nat)" where
  "preludedb_delete_heartbeat_from_list p s ids =
     (if ids = [] then (s, Inr 0) else plugin_format_delete_heartbeat_from_list p s ids)"

definition PRELUDEDB_FORMAT_ENOTSUP :: "string \<Rightarrow> db_error" where
  "PRELUDEDB_FORMAT_ENOTSUP x =
     preludedb_error_verbose PRELUDE_ERROR_ENOSYS
       (''Database format does not support '' @ CHR 0x27 # x @ CHR 0x27 # '' operation'')"

definition preludedb_optimize ::
    "('w, 'd) format_plugin \<Rightarrow> ('w, 'd) sql \<Rightarrow> ('w, 'd) sql \<times> (db_error + unit)" where
  "preludedb_optimize p s =
     (case f_optimize p of None \<Rightarrow> (s, Inl (PRELUDEDB_FORMAT_ENOTSUP ''optimize'')) | Some f \<Rightarrow> f s)"

text \<open>What updating does is up to the format; the classic format does not provide it.\<close>

definition preludedb_update_from_list ::
    "('w, 'd) format_plugin \<Rightarrow> ('w, 'd) sql \<Rightarrow> (idmef_path \<times> idmef_value) list \<Rightarrow> nat list \<Rightarrow>
       ('w, 'd) sql \<times> (db_error + nat)" where
  "preludedb_update_from_list p s pv idents =
     (case f_update_from_list p of
        None \<Rightarrow> (s, Inl (preludedb_error PRELUDE_ERROR_ENOSYS)) | Some f \<Rightarrow> f s pv idents)"

definition preludedb_update_from_result_idents ::
    "('w, 'd) format_plugin \<Rightarrow> ('w, 'd) sql \<times> 'd sql_table \<Rightarrow> (idmef_path \<times> idmef_value) list \<Rightarrow>
       (('w, 'd) sql \<times> 'd sql_table) \<times> (db_error + nat)" where
  "preludedb_update_from_result_idents p sr pv =
     (case f_update_from_result_idents p of
        None \<Rightarrow> (sr, Inl (PRELUDEDB_FORMAT_ENOTSUP ''update_from_result_ident'')) | Some f \<Rightarrow> f sr pv)"

definition preludedb_update ::
    "('w, 'd) format_plugin \<Rightarrow> ('w, 'd) sql \<Rightarrow> (idmef_path \<times> idmef_value) list \<Rightarrow> idmef_criteria option \<Rightarrow>
       path_selection option \<Rightarrow> int \<Rightarrow> int \<Rightarrow> ('w, 'd) sql \<times> (db_error + unit)" where
  "preludedb_update p s pv criteria order limit offset =
     (case f_update p of
        None \<Rightarrow> (s, Inl (PRELUDEDB_FORMAT_ENOTSUP ''update'')) | Some f \<Rightarrow> f s pv criteria order limit offset)"

section \<open>Messages\<close>

definition preludedb_insert_message ::
    "('w, 'd) format_plugin \<Rightarrow> idmef_message \<Rightarrow> (('w, 'd) sql, unit) sql_call" where
  "preludedb_insert_message p message = f_insert_message p (Some message)"

definition preludedb_get_alert ::
    "('w, 'd) format_plugin \<Rightarrow> nat \<Rightarrow> (('w, 'd) sql, idmef_message) get_call" where
  "preludedb_get_alert p ident = f_get_alert p ident"

definition preludedb_get_heartbeat ::
    "('w, 'd) format_plugin \<Rightarrow> nat \<Rightarrow> (('w, 'd) sql, idmef_message) get_call" where
  "preludedb_get_heartbeat p ident = f_get_heartbeat p ident"

section \<open>Sets of idents\<close>

text \<open>The object holds the format's result and counts its references; one to the database is counted with it.\<close>

record 'd result_idents =
  ri_refcount :: int
  ri_res :: "'d sql_table"

definition preludedb_get_message_idents ::
    "('w, 'd) preludedb \<Rightarrow> idmef_criteria option \<Rightarrow>
     (('w, 'd) sql \<Rightarrow> idmef_criteria option \<Rightarrow> int \<Rightarrow> int \<Rightarrow> idents_order \<Rightarrow>
        ('w, 'd) sql \<times> (db_error + 'd sql_table option)) \<Rightarrow> int \<Rightarrow> int \<Rightarrow> idents_order \<Rightarrow>
     ('w, 'd) preludedb \<times> (db_error + 'd result_idents option)" where
  "preludedb_get_message_idents db criteria get_idents limit offset order =
     (case get_idents (db_sql db) criteria limit offset order of
        (s, Inl e) \<Rightarrow> (db\<lparr>db_sql := s\<rparr>, Inl e)
      | (s, Inr None) \<Rightarrow> (db\<lparr>db_sql := s\<rparr>, Inr None)
      | (s, Inr (Some t)) \<Rightarrow>
          (db\<lparr>db_sql := s, db_refcount := db_refcount db + 1\<rparr>, Inr (Some \<lparr>ri_refcount = 1, ri_res = t\<rparr>)))"

definition preludedb_get_alert_idents where
  "preludedb_get_alert_idents p db criteria limit offset order =
     preludedb_get_message_idents db criteria (f_get_alert_idents p) limit offset order"

definition preludedb_get_heartbeat_idents where
  "preludedb_get_heartbeat_idents p db criteria limit offset order =
     preludedb_get_message_idents db criteria (f_get_heartbeat_idents p) limit offset order"

definition preludedb_result_idents_get_count where
  "preludedb_result_idents_get_count p s t =
     (case f_get_message_ident_count p of
        None \<Rightarrow> Some (s, t, Inl (preludedb_error_verbose PRELUDEDB_ERROR_GENERIC
                   (''format plugin doesn'' @ CHR 0x27 # ''t implement ident count retrieval'')))
      | Some f \<Rightarrow> f s t)"

definition preludedb_result_idents_ref :: "'d result_idents \<Rightarrow> 'd result_idents" where
  "preludedb_result_idents_ref r = r\<lparr>ri_refcount := ri_refcount r + 1\<rparr>"

text \<open>\<open>None\<close>: the object is gone, its table released and the database's reference given back.\<close>

definition preludedb_result_idents_destroy ::
    "('w, 'd) preludedb \<Rightarrow> 'd result_idents \<Rightarrow> ('w, 'd) preludedb \<times> 'd result_idents option" where
  "preludedb_result_idents_destroy db r =
     (if ri_refcount r - 1 \<noteq> 0 then (db, Some (r\<lparr>ri_refcount := ri_refcount r - 1\<rparr>))
      else ((release_table db)\<lparr>db_refcount := db_refcount db - 1\<rparr>, None))"

section \<open>Values\<close>

record 'd result_values =
  rv_refcount :: int
  rv_selection :: path_selection
  rv_res :: "'d sql_table"

definition preludedb_get_values ::
    "('w, 'd) format_plugin \<Rightarrow> ('w, 'd) preludedb \<Rightarrow> path_selection \<Rightarrow> idmef_criteria option \<Rightarrow> bool \<Rightarrow> int \<Rightarrow> int \<Rightarrow>
       ('w, 'd) preludedb \<times> (db_error + 'd result_values option)" where
  "preludedb_get_values p db selection criteria dist limit offset =
     (case f_get_values p (db_sql db) selection criteria dist limit offset of
        (s, Inl e) \<Rightarrow> (db\<lparr>db_sql := s\<rparr>, Inl e)
      | (s, Inr None) \<Rightarrow> (db\<lparr>db_sql := s\<rparr>, Inr None)
      | (s, Inr (Some t)) \<Rightarrow>
          (db\<lparr>db_sql := s, db_refcount := db_refcount db + 1\<rparr>,
           Inr (Some \<lparr>rv_refcount = 1, rv_selection = selection, rv_res = t\<rparr>)))"

text \<open>\<open>of_string\<close> is \<open>idmef_value_new_from_string\<close>.\<close>

definition internal_value_cb ::
    "(value_type \<Rightarrow> string \<Rightarrow> db_error + idmef_value) \<Rightarrow> value_arg \<Rightarrow> db_error + idmef_value option" where
  "internal_value_cb of_string v =
     (case v of
        Value_null \<Rightarrow> Inr None
      | Value_is_time t \<Rightarrow> Inr (Some (Value_time (Some t)))
      | Value_bytes b n ty \<Rightarrow>
          if ty = VALUE_TYPE_STRING then Inr (Some (Value_string (Some (take n b))))
          else map_sum id Some (of_string ty (c_str b)))"

definition no_value_selection :: db_error where
  "no_value_selection = preludedb_error_verbose PRELUDEDB_ERROR_GENERIC
     (''format plugin doesn'' @ CHR 0x27 # ''t implement value selection'')"

definition preludedb_result_values_get_row where
  "preludedb_result_values_get_row p s t rownum =
     (case f_get_result_values_row p of None \<Rightarrow> (s, t, Inl no_value_selection) | Some f \<Rightarrow> f s t rownum)"

definition preludedb_result_values_get_field_direct where
  "preludedb_result_values_get_field_direct p cb s t row selected =
     (case f_get_result_values_field p of None \<Rightarrow> (s, t, Inl no_value_selection) | Some f \<Rightarrow> f cb s t row selected)"

definition preludedb_result_values_get_field where
  "preludedb_result_values_get_field of_string p s t row selected =
     (case f_get_result_values_field p of
        None \<Rightarrow> (s, t, Inl no_value_selection) | Some f \<Rightarrow> f (internal_value_cb of_string) s t row selected)"

definition preludedb_result_values_get_count where
  "preludedb_result_values_get_count p s t =
     (case f_get_result_values_count p of
        None \<Rightarrow> Some (s, t, Inl (preludedb_error_verbose PRELUDEDB_ERROR_GENERIC
                   (''format plugin doesn'' @ CHR 0x27 # ''t implement value count retrieval'')))
      | Some f \<Rightarrow> f s t)"

definition preludedb_result_values_get_field_count :: "'d result_values \<Rightarrow> nat" where
  "preludedb_result_values_get_field_count r = preludedb_path_selection_get_count (rv_selection r)"

definition preludedb_result_values_ref :: "'d result_values \<Rightarrow> 'd result_values" where
  "preludedb_result_values_ref r = r\<lparr>rv_refcount := rv_refcount r + 1\<rparr>"

definition preludedb_result_values_destroy ::
    "('w, 'd) preludedb \<Rightarrow> 'd result_values \<Rightarrow> ('w, 'd) preludedb \<times> 'd result_values option" where
  "preludedb_result_values_destroy db r =
     (if rv_refcount r - 1 \<noteq> 0 then (db, Some (r\<lparr>rv_refcount := rv_refcount r - 1\<rparr>))
      else ((release_table db)\<lparr>db_refcount := db_refcount db - 1\<rparr>, None))"

section \<open>Transactions of the client\<close>

definition preludedb_transaction_start :: "('w, 'd) sql \<Rightarrow> ('w, 'd) sql \<times> (db_error + unit)" where
  "preludedb_transaction_start s =
     (case sql_transaction_start_ext s of
        (s', Inl e) \<Rightarrow> (s', Inl e)
      | (s', Inr _) \<Rightarrow> (sql_disable_internal_transaction s', Inr ()))"

definition preludedb_transaction_end :: "('w, 'd) sql \<Rightarrow> ('w, 'd) sql \<times> (db_error + unit)" where
  "preludedb_transaction_end s =
     (let (s', ret) = sql_transaction_end_ext s in (sql_enable_internal_transaction s', ret))"

definition preludedb_transaction_abort ::
    "(string option \<Rightarrow> db_error \<Rightarrow> string) \<Rightarrow> ('w, 'd) sql \<Rightarrow> ('w, 'd) sql \<times> (db_error + unit)" where
  "preludedb_transaction_abort se s =
     (let (s', ret) = sql_transaction_abort_ext se s in (sql_enable_internal_transaction s', ret))"

section \<open>The classic format as a plugin\<close>

text \<open>
  What libprelude provides: the constructor of paths and their comparison, the conversions of
  enums, times and values, and the parser of versions.
\<close>

record prelude_lib =
  pl_path_new :: "string \<Rightarrow> db_error + idmef_path"
  pl_paths :: path_lib
  pl_codec :: idmef_codec
  pl_enum_num :: "string \<Rightarrow> db_error + additional_data_type"
  pl_parse_version :: "string \<Rightarrow> db_error + nat"

definition classic_plugin ::
    "(string option \<Rightarrow> db_error \<Rightarrow> string) \<Rightarrow> prelude_lib \<Rightarrow> ('w, 'd) format_plugin" where
  "classic_plugin se pl =
     (let il = idmef_times (pl_codec pl)
      in \<lparr>f_check_schema_version = classic_check_schema_version (pl_parse_version pl),
          f_get_alert_idents = classic_get_alert_idents (pl_path_new pl) (pl_paths pl) il,
          f_get_heartbeat_idents = classic_get_heartbeat_idents (pl_path_new pl) (pl_paths pl) il,
          f_get_message_ident_count = Some classic_get_message_ident_count,
          f_get_message_ident = Some classic_get_message_ident,
          f_get_alert = classic_get_alert (pl_codec pl),
          f_get_heartbeat = classic_get_heartbeat (pl_codec pl),
          f_delete_alert = classic_delete_alert se,
          f_delete_alert_from_list = Some (classic_delete_alert_from_list se),
          f_delete_alert_from_result_idents =
            Some (classic_delete_alert_from_result_idents se classic_get_message_ident),
          f_delete_heartbeat = classic_delete_heartbeat se,
          f_delete_heartbeat_from_list = Some (classic_delete_heartbeat_from_list se),
          f_delete_heartbeat_from_result_idents =
            Some (classic_delete_heartbeat_from_result_idents se classic_get_message_ident),
          f_insert_message = classic_insert se (pl_codec pl),
          f_get_values = classic_get_values (pl_paths pl) il,
          f_get_result_values_count = Some classic_get_result_values_count,
          f_get_result_values_row = Some classic_get_result_values_row,
          f_get_result_values_field =
            Some (classic_get_result_values_field (pl_enum_num pl) (time_new_from_string (pl_codec pl)) il),
          f_update_from_list = None,
          f_update = None,
          f_init = None,
          f_optimize = None,
          f_update_from_result_idents = None\<rparr>)"

section \<open>Facts\<close>

lemma enable_disable_simps [simp]:
  "issued (sql_disable_internal_transaction s) = issued s"
  "issued (sql_enable_internal_transaction s) = issued s"
  "status_connected (sql_disable_internal_transaction s) = status_connected s"
  "status_connected (sql_enable_internal_transaction s) = status_connected s"
  "status_transaction (sql_disable_internal_transaction s) = status_transaction s"
  "status_transaction (sql_enable_internal_transaction s) = status_transaction s"
  "mutex (sql_disable_internal_transaction s) = mutex s"
  "mutex (sql_enable_internal_transaction s) = mutex s"
  "internal_transaction_disabled (sql_disable_internal_transaction s)"
  "\<not> internal_transaction_disabled (sql_enable_internal_transaction s)"
  by (simp_all add: sql_disable_internal_transaction_def sql_enable_internal_transaction_def)

lemma transaction_start_connected:
  assumes "status_connected s" "\<not> status_transaction s" "preludedb_transaction_start s = (s', Inr ())"
  shows "issued s' = issued s @ [''BEGIN''] \<and> status_transaction s' \<and> internal_transaction_disabled s' \<and>
         status_connected s' \<and> mutex s' = Suc (mutex s)"
proof -
  obtain s2 r where q: "preludedb_sql_query (lock s) ''BEGIN'' False = (s2, r)" by fastforce
  have f: "issued s2 = issued s @ [''BEGIN'']" "mutex s2 = Suc (mutex s)"
    using query_frame [of "lock s" "''BEGIN''" False] query_connected(2) [of "lock s" "''BEGIN''" False]
      q assms(1) by simp_all
  moreover have "\<And>x. r = Inr x \<Longrightarrow> status_connected s2"
    using query_ok_connected [of "lock s" "''BEGIN''" False] q by simp
  ultimately show ?thesis using assms q
    by (cases r) (auto simp: preludedb_transaction_start_def sql_transaction_start_ext_def)
qed

lemma transaction_end_connected:
  assumes "status_connected s" "status_transaction s"
  shows "issued (fst (preludedb_transaction_end s)) = issued s @ [''COMMIT''] \<and>
    \<not> status_transaction (fst (preludedb_transaction_end s)) \<and>
    \<not> internal_transaction_disabled (fst (preludedb_transaction_end s)) \<and>
    mutex (fst (preludedb_transaction_end s)) = mutex s - 1"
proof -
  obtain s2 r where q: "preludedb_sql_query s ''COMMIT'' False = (s2, r)" by fastforce
  then show ?thesis
    using assms query_frame [of s "''COMMIT''" False] query_connected(2) [of s "''COMMIT''" False]
    by (simp add: preludedb_transaction_end_def sql_transaction_end_ext_def split_beta)
qed

lemma delete_loop_count:
  "delete_loop del s ids i = (s', Inr n) \<Longrightarrow> n = i + length ids"
  by (induction ids arbitrary: s i) (fastforce split: prod.splits sum.splits)+

end
