(* ===== verification/Path_Lexer.thy ===== *)
theory Path_Lexer
  imports Path_Selection Plugin_Sql
begin

text \<open>
  The lexer of selected paths (src/preludedb-path-selection-parser.lex.l). Each rule is the
  length of its pattern's longest match at the start of a text; as in flex the longest match
  wins, and the first rule among equals. \<open>idmef_path_new_fast\<close> of libprelude is a parameter.
\<close>

section \<open>Constructors of selected objects\<close>

datatype object_data =
    New_path string
  | New_string string
  | New_int int
  | New_function object_function

definition preludedb_selected_object_new ::
    "(string \<Rightarrow> db_error + idmef_path) \<Rightarrow> object_data \<Rightarrow> db_error + selected_object" where
  "preludedb_selected_object_new path_new data =
     (case data of
        New_path text \<Rightarrow> map_sum id Object_path (path_new text)
      | New_string s \<Rightarrow> Inr (Object_string s)
      | New_int i \<Rightarrow> Inr (Object_int i)
      | New_function f \<Rightarrow> Inr (Object_function f []))"

definition preludedb_selected_object_new_string :: "string \<Rightarrow> nat \<Rightarrow> selected_object" where
  "preludedb_selected_object_new_string str n = Object_string (take n str)"

section \<open>Tokens\<close>

text \<open>The tokens with their semantic values; \<open>tDAY\<close> is declared but no rule returns it.\<close>

datatype path_token =
    T_STRING selected_object | T_IDMEF selected_object | T_NUMBER selected_object | T_ERROR db_error
  | T_LPAREN | T_RPAREN | T_COLON | T_COMMA | T_SLASH
  | T_MIN | T_MAX | T_SUM | T_COUNT | T_INTERVAL | T_AVG | T_EXTRACT | T_TIMEZONE
  | T_YEAR | T_QUARTER | T_MONTH | T_WEEK | T_YDAY | T_MDAY | T_WDAY | T_HOUR | T_SEC | T_MSEC | T_USEC
  | T_ORDER_ASC | T_ORDER_DESC | T_GROUP_BY

section \<open>Patterns\<close>

definition match_word :: "string \<Rightarrow> string \<Rightarrow> nat option" where
  "match_word w s = (if take (length w) s = w then Some (length w) else None)"

text \<open>
  A quoted text: in \<open>([^"]|\\.)*\<close> a quote can only stand right behind a backslash. Every quote
  may be the closing one, so the match extends as long as the quotes are escaped.
\<close>

fun quoted_end :: "char \<Rightarrow> bool \<Rightarrow> nat \<Rightarrow> nat option \<Rightarrow> string \<Rightarrow> nat option" where
  "quoted_end q escaped n best [] = best"
| "quoted_end q escaped n best (c # cs) =
     (if c = q then (if escaped then quoted_end q False (Suc n) (Some n) cs else Some n)
      else quoted_end q (c = CHR 0x5C) (Suc n) best cs)"

definition match_quoted :: "char \<Rightarrow> string \<Rightarrow> nat option" where
  "match_quoted q s =
     (case s of
        [] \<Rightarrow> None
      | c # cs \<Rightarrow> if c = q then map_option (\<lambda>n. n + 2) (quoted_end q False 0 None cs) else None)"

text \<open>\<open>-?([0-9]+|[0-9]*\.[0-9]+([eE][-+]?[0-9]+)?)\<close>\<close>

definition skip_one :: "char list \<Rightarrow> string \<Rightarrow> nat" where
  "skip_one opts s = (case s of [] \<Rightarrow> 0 | c # cs \<Rightarrow> if c \<in> set opts then 1 else 0)"

definition match_exponent :: "string \<Rightarrow> nat" where
  "match_exponent s =
     (case s of
        [] \<Rightarrow> 0
      | c # cs \<Rightarrow>
          if c = CHR ''e'' \<or> c = CHR ''E'' then
            (let k = skip_one ''-+'' cs; m = length (takeWhile isdigit (drop k cs))
             in if m = 0 then 0 else 1 + k + m)
          else 0)"

definition match_number :: "string \<Rightarrow> nat option" where
  "match_number s =
     (let k = skip_one ''-'' s; t = drop k s; n = length (takeWhile isdigit t); r = dropWhile isdigit t
      in case r of
           c # f \<Rightarrow>
             (let m = length (takeWhile isdigit f) in
              if c = CHR ''.'' \<and> m > 0 then Some (k + n + 1 + m + match_exponent (dropWhile isdigit f))
              else if n > 0 then Some (k + n) else None)
         | [] \<Rightarrow> if n > 0 then Some (k + n) else None)"

text \<open>
  \<open>(alert|heartbeat)\.([a-zA-Z0-9_\-]+(\(((\-?[0-9\*]+)|(\"[^"]+\")|(\'[^']+\'))\))?\.?)+\<close>: the
  longest match is found from left to right, since behind a dot only a name can follow and
  behind a name an index, a dot or another name. \<open>index_end\<close> is the length of an index from
  behind its opening parenthesis on.
\<close>

definition idmef_char :: "char \<Rightarrow> bool" where
  "idmef_char c \<longleftrightarrow> isalnum c \<or> c = CHR ''_'' \<or> c = CHR ''-''"

definition index_end :: "string \<Rightarrow> nat option" where
  "index_end s =
     (case s of
        [] \<Rightarrow> None
      | c # cs \<Rightarrow>
          if c = CHR 0x22 \<or> c = CHR 0x27 then
            (let n = length (takeWhile (\<lambda>d. d \<noteq> c) cs)
             in if n > 0 \<and> take 2 (drop n cs) = [c, CHR '')''] then Some (n + 3) else None)
          else
            (let k = skip_one ''-'' s; n = length (takeWhile (\<lambda>d. isdigit d \<or> d = CHR ''*'') (drop k s))
             in if n > 0 \<and> take 1 (drop (k + n) s) = '')'' then Some (k + n + 1) else None))"

datatype path_position = Behind_dot | Behind_name | Behind_index

function idmef_more :: "path_position \<Rightarrow> string \<Rightarrow> nat" where
  "idmef_more pos [] = 0"
| "idmef_more pos (c # cs) =
     (if idmef_char c then Suc (idmef_more Behind_name cs)
      else if pos = Behind_dot then 0
      else if c = CHR ''.'' then Suc (idmef_more Behind_dot cs)
      else if c = CHR ''('' \<and> pos = Behind_name then
        (case index_end cs of None \<Rightarrow> 0 | Some k \<Rightarrow> Suc k + idmef_more Behind_index (drop k cs))
      else 0)"
  by pat_completeness auto
termination
  by (relation "measure (\<lambda>(pos, s). length s)") auto

definition match_idmef :: "string \<Rightarrow> nat option" where
  "match_idmef s =
     (case (case match_word ''alert.'' s of None \<Rightarrow> match_word ''heartbeat.'' s | Some n \<Rightarrow> Some n) of
        None \<Rightarrow> None
      | Some n \<Rightarrow> (let m = idmef_more Behind_dot (drop n s) in if m = 0 then None else Some (n + m)))"

definition match_space :: "string \<Rightarrow> nat option" where
  "match_space s = (let n = length (takeWhile isspace s) in if n = 0 then None else Some n)"

definition match_any :: "string \<Rightarrow> nat option" where
  "match_any s = (case s of [] \<Rightarrow> None | c # cs \<Rightarrow> if c = CHR 0x0A then None else Some 1)"

section \<open>Rules and actions\<close>

datatype lex_action = Act_string | Act_number | Act_idmef | Act_token path_token | Act_nothing

definition keyword_tokens :: "(string \<times> path_token) list" where
  "keyword_tokens =
     [(''max'', T_MAX), (''count'', T_COUNT), (''sum'', T_SUM), (''avg'', T_AVG), (''interval'', T_INTERVAL),
      (''extract'', T_EXTRACT), (''timezone'', T_TIMEZONE), (''year'', T_YEAR), (''quarter'', T_QUARTER),
      (''month'', T_MONTH), (''week'', T_WEEK), (''yday'', T_YDAY), (''mday'', T_MDAY), (''wday'', T_WDAY),
      (''hour'', T_HOUR), (''min'', T_MIN), (''sec'', T_SEC), (''msec'', T_MSEC), (''usec'', T_USEC),
      (''order_asc'', T_ORDER_ASC), (''order_desc'', T_ORDER_DESC), (''group_by'', T_GROUP_BY)]"

definition punctuation_tokens :: "(string \<times> path_token) list" where
  "punctuation_tokens = [(''('', T_LPAREN), ('')'', T_RPAREN), ('','', T_COMMA), ('':'', T_COLON), (''/'', T_SLASH)]"

definition word_rules :: "(string \<times> path_token) list \<Rightarrow> ((string \<Rightarrow> nat option) \<times> lex_action) list" where
  "word_rules ws = map (\<lambda>(w, t). (match_word w, Act_token t)) ws"

definition lex_rules :: "((string \<Rightarrow> nat option) \<times> lex_action) list" where
  "lex_rules =
     [(match_quoted (CHR 0x22), Act_string), (match_quoted (CHR 0x27), Act_string), (match_number, Act_number)] @
     word_rules keyword_tokens @ [(match_idmef, Act_idmef)] @ word_rules punctuation_tokens @
     [(match_space, Act_nothing), (match_any, Act_nothing)]"

fun best_match ::
    "((string \<Rightarrow> nat option) \<times> lex_action) list \<Rightarrow> string \<Rightarrow> (nat \<times> lex_action) option \<Rightarrow> (nat \<times> lex_action) option" where
  "best_match [] s best = best"
| "best_match ((m, act) # rules) s best =
     best_match rules s
       (case m s of
          None \<Rightarrow> best
        | Some n \<Rightarrow> (case best of None \<Rightarrow> Some (n, act) | Some (k, _) \<Rightarrow> if n > k then Some (n, act) else best))"

text \<open>\<open>atoi\<close> is \<open>strtol\<close> cut to an \<open>int\<close>.\<close>

definition atoi :: "string \<Rightarrow> int" where
  "atoi s = signed_take_bit 31 (fst (strtol_w 64 s))"

definition token_of :: "(db_error + selected_object) \<Rightarrow> (selected_object \<Rightarrow> path_token) \<Rightarrow> path_token" where
  "token_of r f = (case r of Inl e \<Rightarrow> T_ERROR e | Inr ob \<Rightarrow> f ob)"

definition lex_act :: "(string \<Rightarrow> db_error + idmef_path) \<Rightarrow> lex_action \<Rightarrow> string \<Rightarrow> path_token list" where
  "lex_act path_new act yytext =
     (case act of
        Act_string \<Rightarrow> [T_STRING (preludedb_selected_object_new_string (tl yytext) (length (tl yytext) - 1))]
      | Act_number \<Rightarrow> [token_of (preludedb_selected_object_new path_new (New_int (atoi yytext))) T_NUMBER]
      | Act_idmef \<Rightarrow> [token_of (preludedb_selected_object_new path_new (New_path yytext)) T_IDMEF]
      | Act_token t \<Rightarrow> [t]
      | Act_nothing \<Rightarrow> [])"

text \<open>The tokens of a text. An unknown character is reported on stderr and skipped.\<close>

function yylex :: "(string \<Rightarrow> db_error + idmef_path) \<Rightarrow> string \<Rightarrow> path_token list" where
  "yylex path_new [] = []"
| "yylex path_new (c # cs) =
     (case best_match lex_rules (c # cs) None of
        None \<Rightarrow> yylex path_new cs
      | Some (n, act) \<Rightarrow> lex_act path_new act (take n (c # cs)) @ yylex path_new (drop (n - 1) cs))"
  by pat_completeness auto
termination
  by (relation "measure (\<lambda>(path_new, s). length s)") auto

end
