(* ===== verification/Path_Parser.thy ===== *)
theory Path_Parser
  imports Path_Lexer
begin

text \<open>
  The grammar of selected paths (src/preludedb-path-selection-parser.yac.y), as a function that
  descends along the productions and as the relation the productions define. The parser never
  reads beyond its first error, and its only error production ends it, so descending gives the
  error that the generated parser stops at. The text of bison's message is a parameter that
  depends on the tokens and on where the error is. The stack is unbounded; the generated one
  ends at 10000 entries.
\<close>

section \<open>Semantic actions\<close>

definition get_filter :: "(string \<times> int) list \<Rightarrow> string \<Rightarrow> db_error + int" where
  "get_filter table str =
     (case map_of table str of
        Some flag \<Rightarrow> Inr flag
      | None \<Rightarrow> Inl (preludedb_error_verbose PRELUDEDB_ERROR_GENERIC
                  (''Invalid time filter '' @ CHR 0x27 # str @ [CHR 0x27])))"

definition extract_filters :: "(string \<times> int) list" where
  "extract_filters =
     [(''year'', TIME_CONSTRAINT_YEAR), (''month'', TIME_CONSTRAINT_MONTH), (''yday'', TIME_CONSTRAINT_YDAY),
      (''mday'', TIME_CONSTRAINT_MDAY), (''wday'', TIME_CONSTRAINT_WDAY), (''hour'', TIME_CONSTRAINT_HOUR),
      (''min'', TIME_CONSTRAINT_MIN), (''sec'', TIME_CONSTRAINT_SEC), (''msec'', TIME_CONSTRAINT_MSEC),
      (''usec'', TIME_CONSTRAINT_USEC), (''quarter'', TIME_CONSTRAINT_QUARTER)]"

definition get_extract_filter :: "string \<Rightarrow> db_error + int" where
  "get_extract_filter str = get_filter extract_filters str"

definition interval_filters :: "(string \<times> int) list" where
  "interval_filters =
     [(''year'', INTERVAL_YEAR), (''month'', INTERVAL_MONTH), (''day'', INTERVAL_DAY), (''hour'', INTERVAL_HOUR),
      (''min'', INTERVAL_MIN), (''sec'', INTERVAL_SEC)]"

definition get_interval_filter :: "string \<Rightarrow> db_error + int" where
  "get_interval_filter str = get_filter interval_filters str"

definition preludedb_selected_object_get_text :: "selected_object \<Rightarrow> string" where
  "preludedb_selected_object_get_text ob = (case ob of Object_string s \<Rightarrow> s | _ \<Rightarrow> [])"

definition function_of :: "object_function \<Rightarrow> selected_object list \<Rightarrow> selected_object" where
  "function_of f args = foldl preludedb_selected_object_push_arg (Object_function f []) args"

lemma function_of_args [simp]: "function_of f args = Object_function f args"
proof -
  have "foldl preludedb_selected_object_push_arg (Object_function f done) args = Object_function f (done @ args)" for "done"
    by (induction args arbitrary: "done") (simp_all add: preludedb_selected_object_push_arg_def)
  then show ?thesis by (simp add: function_of_def)
qed

section \<open>Productions without a choice of arguments\<close>

fun oneargfunc :: "path_token \<Rightarrow> object_function option" where
  "oneargfunc T_MIN = Some OBJECT_MIN"
| "oneargfunc T_MAX = Some OBJECT_MAX"
| "oneargfunc T_COUNT = Some OBJECT_COUNT"
| "oneargfunc T_AVG = Some OBJECT_AVG"
| "oneargfunc _ = None"

fun modifier :: "path_token \<Rightarrow> int option" where
  "modifier T_YEAR = Some TIME_CONSTRAINT_YEAR"
| "modifier T_MONTH = Some TIME_CONSTRAINT_MONTH"
| "modifier T_YDAY = Some TIME_CONSTRAINT_YDAY"
| "modifier T_MDAY = Some TIME_CONSTRAINT_MDAY"
| "modifier T_WDAY = Some TIME_CONSTRAINT_WDAY"
| "modifier T_HOUR = Some TIME_CONSTRAINT_HOUR"
| "modifier T_MIN = Some TIME_CONSTRAINT_MIN"
| "modifier T_SEC = Some TIME_CONSTRAINT_SEC"
| "modifier _ = None"

definition no_flags :: path_flags where
  "no_flags = \<lparr>group_by = False, order_asc = False, order_desc = False\<rparr>"

fun option_flags :: "path_token \<Rightarrow> path_flags option" where
  "option_flags T_ORDER_ASC = Some (no_flags\<lparr>order_asc := True\<rparr>)"
| "option_flags T_ORDER_DESC = Some (no_flags\<lparr>order_desc := True\<rparr>)"
| "option_flags T_GROUP_BY = Some (no_flags\<lparr>group_by := True\<rparr>)"
| "option_flags _ = None"

definition flags_or :: "path_flags \<Rightarrow> path_flags \<Rightarrow> path_flags" where
  "flags_or a b = \<lparr>group_by = group_by a \<or> group_by b, order_asc = order_asc a \<or> order_asc b,
     order_desc = order_desc a \<or> order_desc b\<rparr>"

section \<open>The parser\<close>

text \<open>
  \<open>err\<close> makes the error of a syntax error from the tokens that are left. \<open>expect\<close> shifts one
  token. The fuel bounds the nesting; one more than the number of tokens is enough.
\<close>

type_synonym 'a parse = "path_token list \<Rightarrow> db_error + 'a \<times> path_token list"

definition expect :: "(path_token list \<Rightarrow> db_error) \<Rightarrow> path_token \<Rightarrow> unit parse" where
  "expect err t ts = (case ts of u # rest \<Rightarrow> if u = t then Inr ((), rest) else Inl (err ts) | [] \<Rightarrow> Inl (err ts))"

definition expect_string :: "(path_token list \<Rightarrow> db_error) \<Rightarrow> selected_object parse" where
  "expect_string err ts = (case ts of T_STRING ob # rest \<Rightarrow> Inr (ob, rest) | _ \<Rightarrow> Inl (err ts))"

definition then_parse :: "(db_error + 'a \<times> path_token list) \<Rightarrow> ('a \<Rightarrow> 'b parse) \<Rightarrow> db_error + 'b \<times> path_token list" where
  "then_parse r f = res_bind r (\<lambda>(x, rest). f x rest)"

fun parse_value :: "(path_token list \<Rightarrow> db_error) \<Rightarrow> nat \<Rightarrow> selected_object parse"
  and parse_valuetype :: "(path_token list \<Rightarrow> db_error) \<Rightarrow> nat \<Rightarrow> selected_object parse" where
  "parse_value err 0 ts = Inl Undefined"
| "parse_value err (Suc n) ts =
     then_parse (parse_valuetype err n ts) (\<lambda>ob rest.
       case rest of
         T_COLON # rest1 \<Rightarrow>
           (case rest1 of
              t # rest2 \<Rightarrow>
                (case modifier t of
                   Some m \<Rightarrow> Inr (function_of OBJECT_EXTRACT [ob, Object_int m], rest2)
                 | None \<Rightarrow> Inl (err rest1))
            | [] \<Rightarrow> Inl (err rest1))
       | _ \<Rightarrow> Inr (ob, rest))"
| "parse_valuetype err n [] = Inl (err [])"
| "parse_valuetype err n (t # ts) =
     (case t of
        T_IDMEF ob \<Rightarrow> Inr (ob, ts)
      | T_STRING ob \<Rightarrow> Inr (ob, ts)
      | T_NUMBER ob \<Rightarrow> Inr (ob, ts)
      | T_ERROR e \<Rightarrow> Inl e
      | T_EXTRACT \<Rightarrow>
          then_parse (expect err T_LPAREN ts) (\<lambda>_ ts1.
          then_parse (parse_value err n ts1) (\<lambda>ob ts2.
          then_parse (expect err T_COMMA ts2) (\<lambda>_ ts3.
          then_parse (expect_string err ts3) (\<lambda>str ts4.
          then_parse (expect err T_RPAREN ts4) (\<lambda>_ rest.
            res_bind (get_extract_filter (preludedb_selected_object_get_text str)) (\<lambda>tf.
              Inr (function_of OBJECT_EXTRACT [ob, Object_int tf], rest)))))))
      | T_INTERVAL \<Rightarrow>
          then_parse (expect err T_LPAREN ts) (\<lambda>_ ts1.
          then_parse (parse_value err n ts1) (\<lambda>ob ts2.
          then_parse (expect err T_COMMA ts2) (\<lambda>_ ts3.
          then_parse (parse_value err n ts3) (\<lambda>amount ts4.
          then_parse (expect err T_COMMA ts4) (\<lambda>_ ts5.
          then_parse (expect_string err ts5) (\<lambda>str ts6.
          then_parse (expect err T_RPAREN ts6) (\<lambda>_ rest.
            res_bind (get_interval_filter (preludedb_selected_object_get_text str)) (\<lambda>tf.
              Inr (function_of OBJECT_INTERVAL [ob, amount, Object_int tf], rest)))))))))
      | T_TIMEZONE \<Rightarrow>
          then_parse (expect err T_LPAREN ts) (\<lambda>_ ts1.
          then_parse (parse_value err n ts1) (\<lambda>ob ts2.
          then_parse (expect err T_COMMA ts2) (\<lambda>_ ts3.
          then_parse (expect_string err ts3) (\<lambda>str ts4.
          then_parse (expect err T_RPAREN ts4) (\<lambda>_ rest.
            Inr (function_of OBJECT_TIMEZONE [ob, str], rest))))))
      | _ \<Rightarrow>
          (case oneargfunc t of
             Some f \<Rightarrow>
               then_parse (expect err T_LPAREN ts) (\<lambda>_ ts1.
               then_parse (parse_value err n ts1) (\<lambda>ob ts2.
               then_parse (expect err T_RPAREN ts2) (\<lambda>_ rest.
                 Inr (function_of f [ob], rest))))
           | None \<Rightarrow> Inl (err (t # ts))))"

fun parse_options :: "(path_token list \<Rightarrow> db_error) \<Rightarrow> path_flags \<Rightarrow> path_token list \<Rightarrow> db_error + path_flags" where
  "parse_options err flags [] = Inr flags"
| "parse_options err flags (T_COMMA # ts) =
     (case ts of
        t # rest \<Rightarrow>
          (case option_flags t of Some f \<Rightarrow> parse_options err (flags_or flags f) rest | None \<Rightarrow> Inl (err ts))
      | [] \<Rightarrow> Inl (err ts))"
| "parse_options err flags ts = Inl (err ts)"

definition parse_expression_option :: "(path_token list \<Rightarrow> db_error) \<Rightarrow> path_token list \<Rightarrow> db_error + path_flags" where
  "parse_expression_option err ts =
     (case ts of
        t # rest \<Rightarrow> (case option_flags t of Some f \<Rightarrow> parse_options err f rest | None \<Rightarrow> Inl (err ts))
      | [] \<Rightarrow> Inl (err ts))"

definition expression_end ::
    "(path_token list \<Rightarrow> db_error) \<Rightarrow> selected_object \<times> path_token list \<Rightarrow> db_error + selected_object \<times> path_flags" where
  "expression_end err = (\<lambda>(ob, rest).
     case rest of
       [] \<Rightarrow> Inr (ob, no_flags)
     | T_SLASH # rest1 \<Rightarrow> res_bind (parse_expression_option err rest1) (\<lambda>flags. Inr (ob, flags))
     | _ \<Rightarrow> Inl (err rest))"

definition yyparse :: "(path_token list \<Rightarrow> db_error) \<Rightarrow> path_token list \<Rightarrow> db_error + selected_object \<times> path_flags" where
  "yyparse err ts =
     res_bind (parse_value err (Suc (length ts)) ts) (expression_end err)"

definition yyerror :: "(path_token list \<Rightarrow> path_token list \<Rightarrow> string) \<Rightarrow> path_token list \<Rightarrow> path_token list \<Rightarrow> db_error" where
  "yyerror msg ts rest = preludedb_error_verbose PRELUDEDB_ERROR_GENERIC
     (''parser error '' @ CHR 0x27 # msg ts rest @ [CHR 0x27])"

definition preludedb_path_selection_parse ::
    "(path_token list \<Rightarrow> path_token list \<Rightarrow> string) \<Rightarrow> (string \<Rightarrow> db_error + idmef_path) \<Rightarrow> string \<Rightarrow>
       db_error + selected_object \<times> path_flags" where
  "preludedb_path_selection_parse msg path_new str = (let ts = yylex path_new str in yyparse (yyerror msg ts) ts)"

definition preludedb_selected_path_new_string ::
    "(path_token list \<Rightarrow> path_token list \<Rightarrow> string) \<Rightarrow> (string \<Rightarrow> db_error + idmef_path) \<Rightarrow> string \<Rightarrow>
       db_error + selected_path" where
  "preludedb_selected_path_new_string msg path_new str =
     res_bind (preludedb_path_selection_parse msg path_new str) (\<lambda>(ob, flags). Inr (preludedb_selected_path_new ob flags))"

section \<open>The grammar\<close>

text \<open>The productions, each with the semantic value its action computes.\<close>

inductive derives_value :: "path_token list \<Rightarrow> selected_object \<Rightarrow> bool"
  and derives_valuetype :: "path_token list \<Rightarrow> selected_object \<Rightarrow> bool" where
  plain_value: "derives_valuetype ts ob \<Longrightarrow> derives_value ts ob"
| modified_value: "derives_valuetype ts ob \<Longrightarrow> modifier t = Some m \<Longrightarrow>
    derives_value (ts @ [T_COLON, t]) (Object_function OBJECT_EXTRACT [ob, Object_int m])"
| idmef_value: "derives_valuetype [T_IDMEF ob] ob"
| string_value: "derives_valuetype [T_STRING ob] ob"
| number_value: "derives_valuetype [T_NUMBER ob] ob"
| onearg_value: "oneargfunc t = Some f \<Longrightarrow> derives_value ts ob \<Longrightarrow>
    derives_valuetype ([t, T_LPAREN] @ ts @ [T_RPAREN]) (Object_function f [ob])"
| extract_value: "derives_value ts ob \<Longrightarrow> get_extract_filter (preludedb_selected_object_get_text str) = Inr tf \<Longrightarrow>
    derives_valuetype ([T_EXTRACT, T_LPAREN] @ ts @ [T_COMMA, T_STRING str, T_RPAREN])
      (Object_function OBJECT_EXTRACT [ob, Object_int tf])"
| interval_value: "derives_value ts ob \<Longrightarrow> derives_value us amount \<Longrightarrow>
    get_interval_filter (preludedb_selected_object_get_text str) = Inr tf \<Longrightarrow>
    derives_valuetype ([T_INTERVAL, T_LPAREN] @ ts @ [T_COMMA] @ us @ [T_COMMA, T_STRING str, T_RPAREN])
      (Object_function OBJECT_INTERVAL [ob, amount, Object_int tf])"
| timezone_value: "derives_value ts ob \<Longrightarrow>
    derives_valuetype ([T_TIMEZONE, T_LPAREN] @ ts @ [T_COMMA, T_STRING str, T_RPAREN])
      (Object_function OBJECT_TIMEZONE [ob, str])"

inductive derives_options :: "path_token list \<Rightarrow> path_flags \<Rightarrow> bool" where
  one_option: "option_flags t = Some f \<Longrightarrow> derives_options [t] f"
| more_options: "derives_options ts g \<Longrightarrow> option_flags t = Some f \<Longrightarrow> derives_options (ts @ [T_COMMA, t]) (flags_or g f)"

inductive derives_expressions :: "path_token list \<Rightarrow> selected_object \<Rightarrow> path_flags \<Rightarrow> bool" where
  only_value: "derives_value ts ob \<Longrightarrow> derives_expressions ts ob no_flags"
| value_options: "derives_value ts ob \<Longrightarrow> derives_options us flags \<Longrightarrow> derives_expressions (ts @ [T_SLASH] @ us) ob flags"

section \<open>The parser accepts what the grammar derives\<close>

named_theorems path_parse \<open>how the small parsers consume tokens\<close>

lemma then_parse_simps [simp, path_parse]:
  "then_parse (Inl e) f = Inl e" "then_parse (Inr (x, rest)) f = f x rest"
  by (simp_all add: then_parse_def)

lemma then_parse_Inr [path_parse]: "then_parse r f = Inr y \<longleftrightarrow> (\<exists>x rest. r = Inr (x, rest) \<and> f x rest = Inr y)"
  by (auto simp: then_parse_def res_bind_Inr_iff)

lemma expect_simps [simp]: "expect err t (t # ts) = Inr ((), ts)"
  by (simp add: expect_def)

lemma expect_Inr [path_parse]: "expect err t ts = Inr (x, rest) \<longleftrightarrow> ts = t # rest"
  by (auto simp: expect_def split: list.splits if_splits)

lemma expect_string_simps [simp]: "expect_string err (T_STRING ob # ts) = Inr (ob, ts)"
  by (simp add: expect_string_def)

lemma expect_string_Inr [path_parse]: "expect_string err ts = Inr (ob, rest) \<longleftrightarrow> ts = T_STRING ob # rest"
  by (auto simp: expect_string_def split: list.splits path_token.splits)

text \<open>Soundness: what is consumed derives the value.\<close>

definition sound_at :: "(path_token list \<Rightarrow> db_error) \<Rightarrow> nat \<Rightarrow> bool" where
  "sound_at err n \<longleftrightarrow> (\<forall>ts ob rest. parse_value err n ts = Inr (ob, rest) \<longrightarrow> (\<exists>us. ts = us @ rest \<and> derives_value us ob))"

lemma sound_atE:
  assumes "sound_at err n" "parse_value err n ts = Inr (ob, rest)"
  obtains us where "ts = us @ rest" "derives_value us ob"
  using assms unfolding sound_at_def by blast

lemma valuetype_sound:
  assumes n: "sound_at err n" and p: "parse_valuetype err n ts = Inr (ob, rest)"
  shows "\<exists>us. ts = us @ rest \<and> derives_valuetype us ob"
proof (cases ts)
  case (Cons t ts')
  consider (literal) "t = T_IDMEF ob \<or> t = T_STRING ob \<or> t = T_NUMBER ob" "rest = ts'"
    | (onearg) f ob1 ts2 where "oneargfunc t = Some f" "ts' = T_LPAREN # ts2"
        "parse_value err n ts2 = Inr (ob1, T_RPAREN # rest)" "ob = Object_function f [ob1]"
    | (extraction) ob1 ts2 str tf where "t = T_EXTRACT" "ts' = T_LPAREN # ts2"
        "parse_value err n ts2 = Inr (ob1, T_COMMA # T_STRING str # T_RPAREN # rest)"
        "get_extract_filter (preludedb_selected_object_get_text str) = Inr tf"
        "ob = Object_function OBJECT_EXTRACT [ob1, Object_int tf]"
    | (interval) ob1 ob2 ts2 ts3 str tf where "t = T_INTERVAL" "ts' = T_LPAREN # ts2"
        "parse_value err n ts2 = Inr (ob1, T_COMMA # ts3)"
        "parse_value err n ts3 = Inr (ob2, T_COMMA # T_STRING str # T_RPAREN # rest)"
        "get_interval_filter (preludedb_selected_object_get_text str) = Inr tf"
        "ob = Object_function OBJECT_INTERVAL [ob1, ob2, Object_int tf]"
    | (timezone) ob1 ts2 str where "t = T_TIMEZONE" "ts' = T_LPAREN # ts2"
        "parse_value err n ts2 = Inr (ob1, T_COMMA # T_STRING str # T_RPAREN # rest)"
        "ob = Object_function OBJECT_TIMEZONE [ob1, str]"
    using p unfolding Cons by (cases t) (auto simp: path_parse res_bind_Inr_iff)
  then show ?thesis
  proof cases
    case literal
    then have "derives_valuetype [t] ob" by (auto intro: idmef_value string_value number_value)
    then show ?thesis using literal Cons by (intro exI [of _ "[t]"]) simp
  next
    case onearg
    obtain us where "ts2 = us @ T_RPAREN # rest" "derives_value us ob1" by (rule sound_atE [OF n onearg(3)])
    then show ?thesis
      using onearg onearg_value [of t f us ob1] Cons by (intro exI [of _ "[t, T_LPAREN] @ us @ [T_RPAREN]"]) simp
  next
    case extraction
    obtain us where "ts2 = us @ T_COMMA # T_STRING str # T_RPAREN # rest" "derives_value us ob1"
      by (rule sound_atE [OF n extraction(3)])
    then show ?thesis
      using extraction extract_value [of us ob1 str tf] Cons
      by (intro exI [of _ "[T_EXTRACT, T_LPAREN] @ us @ [T_COMMA, T_STRING str, T_RPAREN]"]) simp
  next
    case interval
    obtain us where us: "ts2 = us @ T_COMMA # ts3" "derives_value us ob1" by (rule sound_atE [OF n interval(3)])
    obtain vs where "ts3 = vs @ T_COMMA # T_STRING str # T_RPAREN # rest" "derives_value vs ob2"
      by (rule sound_atE [OF n interval(4)])
    then show ?thesis
      using us interval interval_value [of us ob1 vs ob2 str tf] Cons
      by (intro exI [of _ "[T_INTERVAL, T_LPAREN] @ us @ [T_COMMA] @ vs @ [T_COMMA, T_STRING str, T_RPAREN]"]) simp
  next
    case timezone
    obtain us where "ts2 = us @ T_COMMA # T_STRING str # T_RPAREN # rest" "derives_value us ob1"
      by (rule sound_atE [OF n timezone(3)])
    then show ?thesis
      using timezone timezone_value [of us ob1 str] Cons
      by (intro exI [of _ "[T_TIMEZONE, T_LPAREN] @ us @ [T_COMMA, T_STRING str, T_RPAREN]"]) simp
  qed
qed (use p in simp)

lemma value_sound: "sound_at err n"
proof (induction n)
  case (Suc n)
  show ?case
    unfolding sound_at_def
  proof (intro allI impI)
    fix ts ob rest assume p: "parse_value err (Suc n) ts = Inr (ob, rest)"
    obtain ob1 rest1 where v: "parse_valuetype err n ts = Inr (ob1, rest1)"
      using p by (auto simp: path_parse)
    obtain us where us: "ts = us @ rest1" "derives_valuetype us ob1" using valuetype_sound [OF Suc v] by blast
    consider "ob = ob1" "rest = rest1"
      | t m where "rest1 = T_COLON # t # rest" "modifier t = Some m" "ob = Object_function OBJECT_EXTRACT [ob1, Object_int m]"
      using p v by (auto split: list.splits path_token.splits option.splits)
    then show "\<exists>us. ts = us @ rest \<and> derives_value us ob"
    proof cases
      case 1
      then show ?thesis using us plain_value by blast
    next
      case 2
      then show ?thesis using us modified_value [of us ob1 t m] by (intro exI [of _ "us @ [T_COLON, t]"]) simp
    qed
  qed
qed (simp add: sound_at_def)

text \<open>Completeness: with enough fuel, exactly the derived tokens are consumed, whatever follows.\<close>

definition no_colon :: "path_token list \<Rightarrow> bool" where
  "no_colon ts = (case ts of t # _ \<Rightarrow> t \<noteq> T_COLON | [] \<Rightarrow> True)"

lemma no_colon_simps [simp]: "no_colon []" "no_colon (t # ts) \<longleftrightarrow> t \<noteq> T_COLON"
  by (simp_all add: no_colon_def)

lemma derives_complete:
  "derives_value ts ob \<Longrightarrow> (\<And>rest n. no_colon rest \<Longrightarrow> length ts < n \<Longrightarrow> parse_value err n (ts @ rest) = Inr (ob, rest))"
  "derives_valuetype ts ob \<Longrightarrow> (\<And>rest n. length ts \<le> n \<Longrightarrow> parse_valuetype err n (ts @ rest) = Inr (ob, rest))"
proof (induction rule: derives_value_derives_valuetype.inducts)
  case (plain_value ts ob)
  obtain m where "n = Suc m" "length ts \<le> m" using plain_value.prems(2) by (cases n) auto
  then show ?case
    using plain_value.IH plain_value.prems(1) by (auto split: list.splits path_token.splits)
next
  case (modified_value ts ob t m)
  obtain k where "n = Suc k" "length ts \<le> k" using modified_value.prems(2) by (cases n) auto
  then show ?case using modified_value.IH [of k "T_COLON # t # rest"] modified_value.hyps by simp
next
  case (onearg_value t f ts ob)
  then show ?case using onearg_value.IH [of "T_RPAREN # rest" n] by (cases t) simp_all
qed (simp_all)

lemma value_parsed: "derives_value ts ob \<Longrightarrow> no_colon rest \<Longrightarrow> length ts < n \<Longrightarrow> parse_value err n (ts @ rest) = Inr (ob, rest)"
  by (rule derives_complete)

lemma options_complete:
  assumes "derives_options ts f"
  shows "\<exists>t g rest. ts = t # rest \<and> option_flags t = Some g \<and>
    (\<forall>vs. parse_options err g (rest @ vs) = parse_options err f vs)"
  using assms
proof induction
  case (more_options ts g t f)
  then obtain u k rest where u: "ts = u # rest" "option_flags u = Some k"
    "\<And>vs. parse_options err k (rest @ vs) = parse_options err g vs" by blast
  have "parse_options err k ((rest @ [T_COMMA, t]) @ vs) = parse_options err (flags_or g f) vs" for vs
    using u(3) [of "T_COMMA # t # vs"] more_options.hyps(2) by simp
  then show ?case using u(1,2) by (intro exI [of _ u] exI [of _ k] exI [of _ "rest @ [T_COMMA, t]"]) simp
qed simp

lemma parse_options_sound:
  "parse_options err g ts = Inr f \<Longrightarrow> derives_options us g \<Longrightarrow> derives_options (us @ ts) f"
proof (induction err g ts arbitrary: us rule: parse_options.induct)
  case (2 err g ts)
  obtain t rest k where t: "ts = t # rest" "option_flags t = Some k" "parse_options err (flags_or g k) rest = Inr f"
    using "2.prems"(1) by (auto split: list.splits option.splits)
  show ?case
    using "2.IH" [OF t(1,2,3) more_options [OF "2.prems"(2) t(2)]] t(1) by simp
qed simp_all

lemma expression_option_derives: "parse_expression_option err ts = Inr f \<longleftrightarrow> derives_options ts f"
proof
  assume "parse_expression_option err ts = Inr f"
  then obtain t rest g where t: "ts = t # rest" "option_flags t = Some g" "parse_options err g rest = Inr f"
    by (auto simp: parse_expression_option_def split: list.splits option.splits)
  show "derives_options ts f" using parse_options_sound [OF t(3) one_option [OF t(2)]] t(1) by simp
next
  assume "derives_options ts f"
  then obtain t g rest where "ts = t # rest" "option_flags t = Some g" "parse_options err g (rest @ []) = parse_options err f []"
    using options_complete [of ts f err] by blast
  then show "parse_expression_option err ts = Inr f" by (simp add: parse_expression_option_def)
qed

lemma yyparse_sound:
  assumes "yyparse err ts = Inr (ob, flags)"
  shows "derives_expressions ts ob flags"
proof -
  obtain rest where v: "parse_value err (Suc (length ts)) ts = Inr (ob, rest)"
    and k: "expression_end err (ob, rest) = Inr (ob, flags)"
  proof (cases "parse_value err (Suc (length ts)) ts")
    case (Inr y)
    obtain ob' rest where y: "y = (ob', rest)" by (cases y)
    then have "ob' = ob" using assms Inr unfolding yyparse_def
      by (cases rest; cases "hd rest") (auto simp: expression_end_def res_bind_Inr_iff)
    then show thesis using that [of rest] assms Inr y by (simp add: yyparse_def)
  qed (use assms in \<open>simp add: yyparse_def\<close>)
  have r: "rest = [] \<and> flags = no_flags \<or> (\<exists>us. rest = T_SLASH # us \<and> parse_expression_option err us = Inr flags)"
    using k by (cases rest; cases "hd rest") (auto simp: expression_end_def res_bind_Inr_iff)
  obtain ws where ws: "ts = ws @ rest" "derives_value ws ob" by (rule sound_atE [OF value_sound v])
  show ?thesis
    using r ws only_value [of ws ob] value_options [of ws ob _ flags] by (auto simp: expression_option_derives)
qed

lemma yyparse_complete:
  assumes "derives_expressions ts ob flags"
  shows "yyparse err ts = Inr (ob, flags)"
  using assms
proof cases
  case only_value
  then show ?thesis
    using value_parsed [of ts ob "[]" "Suc (length ts)" err] by (simp add: yyparse_def expression_end_def)
next
  case (value_options ws us)
  then show ?thesis
    using value_parsed [of ws ob "T_SLASH # us" "Suc (length ts)" err] expression_option_derives [of err us flags]
    by (simp add: yyparse_def expression_end_def)
qed

section \<open>Why a text is rejected\<close>

text \<open>A syntax error at some place, an object the lexer could not make, or an unknown time filter.\<close>

definition parse_error :: "(path_token list \<Rightarrow> db_error) \<Rightarrow> path_token list \<Rightarrow> db_error \<Rightarrow> bool" where
  "parse_error err ts e \<longleftrightarrow> (\<exists>us rest. ts = us @ rest \<and> e = err rest) \<or> T_ERROR e \<in> set ts \<or>
     (\<exists>table str. get_filter table str = Inl e)"

lemma parse_error_suffix:
  assumes "parse_error err rest e"
  shows "parse_error err (us @ rest) e"
proof -
  have "\<exists>ws vs'. us @ rest = ws @ vs' \<and> err vs = err vs'" if "rest = vs1 @ vs" for vs1 vs
    using that by (intro exI [of _ "us @ vs1"] exI [of _ vs]) simp
  then show ?thesis using assms unfolding parse_error_def by (metis Un_iff set_append)
qed

lemma parse_error_Cons: "parse_error err ts e \<Longrightarrow> parse_error err (t # ts) e"
  using parse_error_suffix [of err ts e "[t]"] by simp

lemma parse_error_here [simp]: "parse_error err ts (err ts)"
  unfolding parse_error_def by (metis append_Nil)

lemma parse_error_filter: "get_filter table str = Inl e \<Longrightarrow> parse_error err ts e"
  unfolding parse_error_def by blast

definition fails_well :: "(path_token list \<Rightarrow> db_error) \<Rightarrow> 'a parse \<Rightarrow> path_token list \<Rightarrow> bool" where
  "fails_well err p ts \<longleftrightarrow>
     (case p ts of Inl e \<Rightarrow> parse_error err ts e | Inr (x, rest) \<Rightarrow> \<exists>us. ts = us @ rest)"

text \<open>The same for all token lists up to a length, which then holds for sequences of parsers.\<close>

definition fails_upto :: "(path_token list \<Rightarrow> db_error) \<Rightarrow> nat \<Rightarrow> 'a parse \<Rightarrow> bool" where
  "fails_upto err k p \<longleftrightarrow> (\<forall>ts. length ts \<le> k \<longrightarrow> fails_well err p ts)"

lemma fails_upto_then:
  assumes "fails_upto err k p" "\<And>x. fails_upto err k (f x)"
  shows "fails_upto err k (\<lambda>ts. then_parse (p ts) f)"
  unfolding fails_upto_def
proof (intro allI impI)
  fix ts :: "path_token list" assume k: "length ts \<le> k"
  then have p: "fails_well err p ts" using assms(1) by (simp add: fails_upto_def)
  show "fails_well err (\<lambda>ts. then_parse (p ts) f) ts"
  proof (cases "p ts")
    case (Inr y)
    then obtain x rest us where y: "p ts = Inr (x, rest)" "ts = us @ rest"
      using p by (cases y) (auto simp: fails_well_def)
    then have "fails_well err (f x) rest" using assms(2) [of x] k by (simp add: fails_upto_def)
    then show ?thesis
      using y parse_error_suffix [of err rest _ us] by (auto simp: fails_well_def split: sum.splits)
  qed (use p in \<open>simp add: fails_well_def\<close>)
qed

lemma fails_upto_expect: "fails_upto err k (expect err t)" "fails_upto err k (expect_string err)"
  by (auto simp: fails_upto_def fails_well_def expect_def expect_string_def split: list.splits path_token.splits)

lemma fails_upto_give: "fails_upto err k (\<lambda>ts. Inr (x, ts))"
  by (simp add: fails_upto_def fails_well_def)

lemma fails_upto_filter: "fails_upto err k (\<lambda>ts. res_bind (get_filter table str) (\<lambda>tf. Inr (f tf, ts)))"
  by (cases "get_filter table str") (simp_all add: fails_upto_def fails_well_def parse_error_filter)

lemmas fails_upto_rules = fails_upto_then fails_upto_expect fails_upto_give fails_upto_filter
  fails_upto_filter [of _ _ extract_filters, folded get_extract_filter_def]
  fails_upto_filter [of _ _ interval_filters, folded get_interval_filter_def]

lemma fails_upto_behind:
  assumes "fails_upto err k p" "length ts \<le> k" "\<And>us. q (t # us) = p us"
  shows "fails_well err q (t # ts)"
proof -
  have "fails_well err p ts" using assms(1,2) by (simp add: fails_upto_def)
  then show ?thesis
    using assms(3) by (fastforce simp: fails_well_def parse_error_Cons intro: exI [of _ "t # us" for us] split: sum.splits)
qed

lemma fails_well_literal: "p (t # ts) = Inr (x, ts) \<Longrightarrow> fails_well err p (t # ts)"
  by (simp add: fails_well_def)

lemma fails_well_here: "p ts = Inl (err ts) \<Longrightarrow> fails_well err p ts"
  by (simp add: fails_well_def)

lemma fails_well_token: "p (T_ERROR e # ts) = Inl e \<Longrightarrow> fails_well err p (T_ERROR e # ts)"
  by (simp add: fails_well_def parse_error_def)

lemma valuetype_fails_well:
  assumes v: "fails_upto err k (parse_value err n)" and k: "length ts \<le> Suc k"
  shows "fails_well err (parse_valuetype err n) ts"
proof (cases ts)
  case Nil
  then show ?thesis by (simp add: fails_well_here)
next
  case (Cons t ts')
  then have l: "length ts' \<le> k" using k by simp
  note fn = fails_upto_behind [OF _ l]
  consider f where "oneargfunc t = Some f" | "t = T_EXTRACT" | "t = T_INTERVAL" | "t = T_TIMEZONE"
    | x where "parse_valuetype err n (t # ts') = Inr (x, ts')" | e where "t = T_ERROR e"
    | "parse_valuetype err n (t # ts') = Inl (err (t # ts'))"
    by (cases t) auto
  then have "fails_well err (parse_valuetype err n) (t # ts')"
  proof cases
    case (1 f)
    have "parse_valuetype err n (t # us) = then_parse (expect err T_LPAREN us) (\<lambda>_ ts1.
        then_parse (parse_value err n ts1) (\<lambda>ob ts2. then_parse (expect err T_RPAREN ts2) (\<lambda>_ rest. Inr (function_of f [ob], rest))))" for us
      using 1 by (cases t) simp_all
    then show ?thesis by (rule fn [rotated]) (intro fails_upto_rules v)
  next
    case 2
    show ?thesis
      unfolding 2 by (rule fn [rotated], simp only: parse_valuetype.simps path_token.case)
        (intro fails_upto_rules v)
  next
    case 3
    show ?thesis
      unfolding 3 by (rule fn [rotated], simp only: parse_valuetype.simps path_token.case)
        (intro fails_upto_rules v)
  next
    case 4
    show ?thesis
      unfolding 4 by (rule fn [rotated], simp only: parse_valuetype.simps path_token.case)
        (intro fails_upto_rules v)
  qed (simp_all add: fails_well_literal fails_well_here fails_well_token)
  then show ?thesis using Cons by simp
qed

lemma value_fails_well: "fails_upto err n (parse_value err (Suc n))"
proof (induction n)
  case 0
  show ?case by (simp add: fails_upto_def fails_well_here)
next
  case (Suc n)
  show ?case
    unfolding fails_upto_def
  proof (intro allI impI)
    fix ts :: "path_token list" assume k: "length ts \<le> Suc n"
    note p = valuetype_fails_well [OF Suc k]
    show "fails_well err (parse_value err (Suc (Suc n))) ts"
    proof (cases "parse_valuetype err (Suc n) ts")
      case (Inr y)
      then obtain ob rest us where y: "parse_valuetype err (Suc n) ts = Inr (ob, rest)" "ts = us @ rest"
        using p by (cases y) (auto simp: fails_well_def)
      consider r where "rest = T_COLON # r" | "parse_value err (Suc (Suc n)) ts = Inr (ob, rest)"
        using y by (cases rest; cases "hd rest") auto
      then show ?thesis
      proof cases
        case (1 r)
        have "parse_error err ts (err r)" using y 1 parse_error_suffix [of err r "err r" "us @ [T_COLON]"] by simp
        then show ?thesis
          using y 1 by (fastforce simp: fails_well_def split: list.splits option.splits)
      next
        case 2
        then show ?thesis using y by (simp add: fails_well_def)
      qed
    qed (use p in \<open>simp add: fails_well_def\<close>)
  qed
qed

lemma options_fail_well: "parse_options err f ts = Inl e \<Longrightarrow> parse_error err ts e"
proof (induction err f ts rule: parse_options.induct)
  case (2 err f ts)
  then show ?case
    using parse_error_suffix [of err ts e "[T_COMMA]"] parse_error_suffix [of err "tl ts" e "[T_COMMA, hd ts]"]
    by (cases ts) (auto split: option.splits)
qed auto

lemma yyparse_fails_well:
  assumes "yyparse err ts = Inl e"
  shows "parse_error err ts e"
proof -
  have v: "fails_well err (parse_value err (Suc (length ts))) ts"
    using value_fails_well [of err "length ts"] by (simp add: fails_upto_def)
  show ?thesis
  proof (cases "parse_value err (Suc (length ts)) ts")
    case (Inr y)
    then obtain ob rest us where y: "y = (ob, rest)" "ts = us @ rest"
      using v by (cases y) (auto simp: fails_well_def)
    have "parse_error err rest e"
    proof (cases "\<exists>r. rest = T_SLASH # r")
      case True
      then obtain r where r: "rest = T_SLASH # r" by blast
      then have "parse_expression_option err r = Inl e"
        using assms Inr y by (cases "parse_expression_option err r") (auto simp: yyparse_def expression_end_def)
      then have "parse_error err r e"
        using options_fail_well [of err _ "tl r" e] parse_error_Cons [of err "tl r" e "hd r"]
        by (cases r) (auto simp: parse_expression_option_def split: option.splits)
      then show ?thesis using r parse_error_Cons by blast
    next
      case False
      then show ?thesis
        using assms Inr y by (cases rest; cases "hd rest") (auto simp: yyparse_def expression_end_def)
    qed
    then show ?thesis using y parse_error_suffix by blast
  qed (use assms v in \<open>simp add: yyparse_def fails_well_def\<close>)
qed

end
