(* ===== verification/Path_Print.thy ===== *)
theory Path_Print
  imports Path_Parser
begin

text \<open>
  The text of a selected path, and that the lexer and the parser read it back: which strings,
  numbers and IDMEF paths one token can hold, and what may follow them.
\<close>

section \<open>Lexing one token\<close>

lemma best_match_append: "best_match (xs @ ys) s b = best_match ys s (best_match xs s b)"
  by (induction xs s b rule: best_match.induct) simp_all

lemma best_match_words:
  "\<forall>w \<in> set ws. fst w \<noteq> [] \<and> hd (fst w) \<noteq> c \<Longrightarrow> best_match (word_rules ws) (c # s) b = b"
proof (induction ws arbitrary: b)
  case (Cons w ws)
  obtain d v t where w: "w = (d # v, t)" using Cons.prems by (cases w; cases "fst w") auto
  then have "match_word (d # v) (c # s) = None" using Cons.prems by (auto simp: match_word_def)
  then show ?case using Cons w by (simp add: word_rules_def)
qed (simp add: word_rules_def)

definition word_start :: "char \<Rightarrow> bool" where
  "word_start c \<longleftrightarrow> c \<in> set (map (hd \<circ> fst) (keyword_tokens @ punctuation_tokens))"

lemma word_start_iff: "word_start c \<longleftrightarrow> c \<in> set ''mcsaietyqwuhog(),:/''"
  unfolding word_start_def keyword_tokens_def punctuation_tokens_def by auto

lemma best_match_no_word:
  assumes "\<not> word_start c"
  shows "best_match (word_rules keyword_tokens) (c # s) b = b" "best_match (word_rules punctuation_tokens) (c # s) b = b"
proof -
  have ne: "\<forall>w \<in> set (keyword_tokens @ punctuation_tokens). fst w \<noteq> []"
    by (simp add: keyword_tokens_def punctuation_tokens_def)
  have "\<forall>w \<in> set (keyword_tokens @ punctuation_tokens). hd (fst w) \<noteq> c"
    using assms by (auto simp: word_start_def)
  then show "best_match (word_rules keyword_tokens) (c # s) b = b" "best_match (word_rules punctuation_tokens) (c # s) b = b"
    using ne by (simp_all add: best_match_words)
qed

text \<open>One step of the lexer, when the longest match is known.\<close>

lemma yylex_step:
  assumes "best_match lex_rules (x @ rest) None = Some (length x, act)" "x \<noteq> []"
  shows "yylex path_new (x @ rest) = lex_act path_new act x @ yylex path_new rest"
proof -
  obtain c cs where x: "x = c # cs" using assms(2) by (cases x) auto
  show ?thesis using assms(1) by (simp add: x)
qed

lemma match_idmef_start: "c \<noteq> CHR ''a'' \<Longrightarrow> c \<noteq> CHR ''h'' \<Longrightarrow> match_idmef (c # s) = None"
  by (simp add: match_idmef_def match_word_def)

lemma match_number_start:
  "\<not> isdigit c \<Longrightarrow> c \<noteq> CHR ''-'' \<Longrightarrow> c \<noteq> CHR ''.'' \<Longrightarrow> match_number (c # s) = None"
  by (simp add: match_number_def skip_one_def Let_def)

lemma match_quoted_start: "c \<noteq> q \<Longrightarrow> match_quoted q (c # s) = None"
  by (simp add: match_quoted_def)

lemma match_space_start: "\<not> isspace c \<Longrightarrow> match_space (c # s) = None"
  by (simp add: match_space_def Let_def)

lemmas match_starts = match_idmef_start match_number_start match_quoted_start match_space_start

lemma isspace_newline [simp]: "isspace (CHR 0x0A)"
  by (simp add: isspace_def)

lemma match_any_start: "\<not> isspace c \<Longrightarrow> match_any (c # s) = Some 1"
  by (auto simp: match_any_def)

lemma yylex_punctuation:
  "yylex path_new (CHR ''('' # rest) = T_LPAREN # yylex path_new rest"
  "yylex path_new (CHR '')'' # rest) = T_RPAREN # yylex path_new rest"
  "yylex path_new (CHR '','' # rest) = T_COMMA # yylex path_new rest"
  "yylex path_new (CHR '':'' # rest) = T_COLON # yylex path_new rest"
  "yylex path_new (CHR ''/'' # rest) = T_SLASH # yylex path_new rest"
  by (simp_all add: lex_rules_def word_rules_def keyword_tokens_def punctuation_tokens_def match_word_def match_starts
      match_any_start isdigit_def isspace_def lex_act_def)

lemma yylex_function:
  "yylex path_new (''min('' @ rest) = [T_MIN, T_LPAREN] @ yylex path_new rest"
  "yylex path_new (''max('' @ rest) = [T_MAX, T_LPAREN] @ yylex path_new rest"
  "yylex path_new (''avg('' @ rest) = [T_AVG, T_LPAREN] @ yylex path_new rest"
  "yylex path_new (''count('' @ rest) = [T_COUNT, T_LPAREN] @ yylex path_new rest"
  "yylex path_new (''extract('' @ rest) = [T_EXTRACT, T_LPAREN] @ yylex path_new rest"
  "yylex path_new (''interval('' @ rest) = [T_INTERVAL, T_LPAREN] @ yylex path_new rest"
  "yylex path_new (''timezone('' @ rest) = [T_TIMEZONE, T_LPAREN] @ yylex path_new rest"
  by (simp_all add: lex_rules_def word_rules_def keyword_tokens_def punctuation_tokens_def match_word_def match_starts
      match_any_start isdigit_def isspace_def lex_act_def match_idmef_def)

lemma yylex_option:
  "yylex path_new ''order_asc'' = [T_ORDER_ASC]" "yylex path_new ''order_desc'' = [T_ORDER_DESC]"
  "yylex path_new ''group_by'' = [T_GROUP_BY]"
  "yylex path_new (''order_asc,'' @ rest) = [T_ORDER_ASC, T_COMMA] @ yylex path_new rest"
  "yylex path_new (''order_desc,'' @ rest) = [T_ORDER_DESC, T_COMMA] @ yylex path_new rest"
  "yylex path_new (''group_by,'' @ rest) = [T_GROUP_BY, T_COMMA] @ yylex path_new rest"
  by (simp_all add: lex_rules_def word_rules_def keyword_tokens_def punctuation_tokens_def match_word_def match_starts
      match_any_start isdigit_def isspace_def lex_act_def match_idmef_def)

section \<open>Literals\<close>

text \<open>What a double quoted token can hold; there is no way to write a double quote itself.\<close>

definition quotable :: "string \<Rightarrow> bool" where
  "quotable s \<longleftrightarrow> CHR 0x22 \<notin> set s \<and> (s = [] \<or> last s \<noteq> CHR 0x5C)"

definition quoted_text :: "string \<Rightarrow> string" where
  "quoted_text s = CHR 0x22 # s @ [CHR 0x22]"

lemma quoted_end_plain:
  "q \<notin> set s \<Longrightarrow> \<not> (if s = [] then esc else last s = CHR 0x5C) \<Longrightarrow>
    quoted_end q esc n best (s @ q # rest) = Some (n + length s)"
  by (induction s arbitrary: esc n) (auto split: if_splits)

lemma match_quoted_text: "quotable s \<Longrightarrow> match_quoted (CHR 0x22) (quoted_text s @ rest) = Some (length s + 2)"
  by (auto simp: match_quoted_def quoted_text_def quotable_def quoted_end_plain)

lemma yylex_string:
  assumes "quotable s"
  shows "yylex path_new (quoted_text s @ rest) = T_STRING (Object_string s) # yylex path_new rest"
proof -
  have c: "quoted_text s @ rest = CHR 0x22 # s @ CHR 0x22 # rest" by (simp add: quoted_text_def)
  have m: "match_quoted (CHR 0x22) (CHR 0x22 # s @ CHR 0x22 # rest) = Some (length s + 2)"
    using match_quoted_text [OF assms, of rest] by (simp only: c)
  have "best_match lex_rules (quoted_text s @ rest) None = Some (length (quoted_text s), Act_string)"
    unfolding c lex_rules_def best_match_append
    by (simp add: best_match_append m match_starts isdigit_def isspace_def match_any_start best_match_no_word word_start_iff)
      (simp add: quoted_text_def)
  from yylex_step [OF this] show ?thesis
    by (simp add: lex_act_def preludedb_selected_object_new_string_def) (simp add: quoted_text_def)
qed

text \<open>What follows an argument.\<close>

definition delimited :: "string \<Rightarrow> bool" where
  "delimited rest \<longleftrightarrow> rest = [] \<or> hd rest \<in> {CHR '')'', CHR '','', CHR '':'', CHR ''/''}"

lemma delimited_simps [simp]:
  "delimited []" "delimited (CHR '')'' # s)" "delimited (CHR '','' # s)" "delimited (CHR '':'' # s)" "delimited (CHR ''/'' # s)"
  by (simp_all add: delimited_def)

lemma delimitedE:
  assumes "delimited rest"
  obtains "rest = []" | d s where "rest = d # s" "d \<in> {CHR '')'', CHR '','', CHR '':'', CHR ''/''}"
  using assms by (cases rest) (auto simp: delimited_def)

definition int_ok :: "int \<Rightarrow> bool" where
  "int_ok i \<longleftrightarrow> - (2 ^ 31) \<le> i \<and> i < 2 ^ 31"

lemma atoi_dec_int: "int_ok i \<Longrightarrow> atoi (dec_int i) = i"
  by (auto simp: atoi_def int_ok_def strtol_w_def Let_def signed_take_bit_int_eq_self)

lemma match_number_digits:
  assumes "delimited rest" "\<forall>c \<in> set ds. isdigit c" "ds \<noteq> []"
  shows "match_number (ds @ rest) = Some (length ds)" "match_number (CHR ''-'' # ds @ rest) = Some (Suc (length ds))"
proof -
  have d: "takeWhile isdigit (ds @ rest) = ds" "dropWhile isdigit (ds @ rest) = rest"
    using takeWhile_digits_append [OF assms(2), of rest] assms(1) by (auto simp: delimited_def isdigit_def)
  have k: "skip_one ''-'' (ds @ rest) = 0"
    using assms(2,3) minus_not_digit by (cases ds) (auto simp: skip_one_def)
  have m: "skip_one ''-'' (CHR ''-'' # ds @ rest) = 1" by (simp add: skip_one_def)
  have r: "rest = [] \<or> (\<exists>e s. rest = e # s \<and> e \<noteq> CHR ''.'')"
    using assms(1) by (cases rest) (auto simp: delimited_def)
  show "match_number (ds @ rest) = Some (length ds)"
    using r assms(3) unfolding match_number_def k Let_def drop_0 d by auto
  show "match_number (CHR ''-'' # ds @ rest) = Some (Suc (length ds))"
    using r assms(3) unfolding match_number_def m Let_def One_nat_def drop_Suc_Cons drop_0 d by auto
qed

lemma match_number_dec_int:
  assumes "delimited rest"
  shows "match_number (dec_int i @ rest) = Some (length (dec_int i))"
  using match_number_digits [OF assms dec_nat_digits dec_nat_nonempty] by (simp add: dec_int_def)

lemma yylex_int:
  assumes "int_ok i" "delimited rest"
  shows "yylex path_new (dec_int i @ rest) = T_NUMBER (Object_int i) # yylex path_new rest"
proof -
  obtain c s where c: "dec_int i = c # s" "isdigit c \<or> c = CHR ''-''"
    using dec_nat_digits dec_nat_nonempty
    by (cases "dec_int i") (auto simp: dec_int_def split: if_splits, metis list.set_intros(1))
  have no: "\<not> word_start c" "c \<noteq> CHR 0x22" "c \<noteq> CHR 0x27" "c \<noteq> CHR ''a''" "c \<noteq> CHR ''h''" "\<not> isspace c"
    using c(2) by (auto simp: word_start_iff isdigit_def isspace_def)
  have m: "match_number (c # s @ rest) = Some (length (dec_int i))" "0 < length (dec_int i)"
    using match_number_dec_int [OF assms(2), of i] c(1) by simp_all
  have "best_match lex_rules (dec_int i @ rest) None = Some (length (dec_int i), Act_number)"
    unfolding c(1) lex_rules_def best_match_append append_Cons using no m
    by (simp add: best_match_append match_starts match_any_start best_match_no_word c(1) del: length_0_conv)
  then have "yylex path_new (dec_int i @ rest) = lex_act path_new Act_number (dec_int i) @ yylex path_new rest"
    by (rule yylex_step) (simp add: c(1))
  then show ?thesis
    by (simp add: lex_act_def token_of_def preludedb_selected_object_new_def atoi_dec_int [OF assms(1)] del: yylex.simps(2))
qed

section \<open>IDMEF paths\<close>

lemma takeWhile_stops:
  assumes "\<not> P d" "drop (length (takeWhile P s)) s = d # r"
  shows "takeWhile P (s @ x) = takeWhile P s"
proof -
  have "s = takeWhile P s @ d # r" using assms(2) by (metis append_take_drop_id takeWhile_eq_take)
  then obtain u where u: "s = u @ d # r" "u = takeWhile P s" "\<forall>e \<in> set u. P e" by (metis set_takeWhileD)
  show ?thesis using u assms(1) by (metis append.assoc append_Cons takeWhile_append2 takeWhile.simps(2) append_Nil2)
qed

lemma take_one_iff: "take (Suc 0) s = [c] \<longleftrightarrow> (\<exists>r. s = c # r)"
  by (cases s) auto

lemma take_two_iff: "take 2 s = [c, d] \<longleftrightarrow> (\<exists>r. s = c # d # r)"
  by (cases s; cases "tl s") (auto simp: numeral_2_eq_2)

lemma index_end_append:
  assumes "index_end s = Some k"
  shows "k \<le> length s \<and> index_end (s @ x) = Some k"
proof -
  obtain c cs where s: "s = c # cs" using assms by (cases s) (auto simp: index_end_def)
  show ?thesis
  proof (cases "c = CHR 0x22 \<or> c = CHR 0x27")
    case True
    let ?n = "length (takeWhile (\<lambda>d. d \<noteq> c) cs)"
    have n: "0 < ?n" "k = ?n + 3" "take 2 (drop ?n cs) = [c, CHR '')'']"
      using assms True by (simp_all add: s index_end_def Let_def split: if_splits)
    then obtain r where r: "drop ?n cs = c # CHR '')'' # r" by (auto simp: take_two_iff)
    have t: "takeWhile (\<lambda>d. d \<noteq> c) (cs @ x) = takeWhile (\<lambda>d. d \<noteq> c) cs"
      by (rule takeWhile_stops [OF _ r]) simp
    have len: "?n + 2 \<le> length cs" using arg_cong [OF r, of length] by simp
    then have "take 2 (drop ?n (cs @ x)) = [c, CHR '')'']" using r by (simp add: numeral_2_eq_2)
    then show ?thesis using True n len t by (simp add: s index_end_def)
  next
    case False
    let ?P = "\<lambda>d. isdigit d \<or> d = CHR ''*''"
    let ?j = "skip_one ''-'' s"
    let ?n = "length (takeWhile ?P (drop ?j s))"
    have j: "skip_one ''-'' (s @ x) = ?j" "?j \<le> length s" by (simp_all add: s skip_one_def)
    have n: "0 < ?n" "k = ?j + ?n + 1" "take 1 (drop (?j + ?n) s) = '')''"
      using assms False by (simp_all add: s index_end_def Let_def split: if_splits)
    then obtain r where r: "drop ?n (drop ?j s) = CHR '')'' # r" by (auto simp: take_one_iff add.commute)
    have t: "takeWhile ?P (drop ?j s @ x) = takeWhile ?P (drop ?j s)"
      by (rule takeWhile_stops [OF _ r]) (simp add: isdigit_def)
    have len: "?j + ?n < length s" using arg_cong [OF r, of length] by simp
    have d: "drop ?j (s @ x) = drop ?j s @ x" using j(2) by simp
    have "take 1 (drop (?j + ?n) (s @ x)) = '')''" using n(3) len by simp
    then have "index_end (s @ x) = Some (?j + ?n + 1)"
      using False n(1) unfolding index_end_def s append_Cons list.case Let_def
      by (simp only: j(1) [unfolded s append_Cons] d [unfolded s append_Cons] t [unfolded s] if_True) simp
    then show ?thesis using n(2) len by simp
  qed
qed

lemma idmef_more_append:
  "idmef_more pos t = length t \<Longrightarrow> delimited rest \<Longrightarrow> idmef_more pos (t @ rest) = length t"
proof (induction pos t rule: idmef_more.induct)
  case (1 pos)
  then show ?case
    by (cases rest) (auto simp: delimited_def idmef_char_def isalnum_def isalpha_def isdigit_def)
next
  case (2 pos c cs)
  show ?case
  proof (cases "\<not> idmef_char c \<and> pos = Behind_name \<and> c = CHR ''(''")
    case True
    then obtain k where k: "index_end cs = Some k" "k + idmef_more Behind_index (drop k cs) = length cs"
      using "2.prems"(1) by (auto split: option.splits)
    have b: "k \<le> length cs" "index_end (cs @ rest) = Some k" using index_end_append [OF k(1)] by auto
    have "idmef_more Behind_index (drop k cs @ rest) = length (drop k cs)"
      using "2.IH"(3) [OF _ _ _ _ k(1)] True k(2) "2.prems"(2) by auto
    then show ?thesis using True b by auto
  next
    case False
    then show ?thesis using 2 by (auto split: if_splits)
  qed
qed

definition idmef_text :: "string \<Rightarrow> bool" where
  "idmef_text t \<longleftrightarrow> match_idmef t = Some (length t)"

lemma match_word_Some: "match_word w s = Some n \<longleftrightarrow> n = length w \<and> (\<exists>u. s = w @ u)"
  by (auto simp: match_word_def) (metis append_take_drop_id)

lemma match_word_here: "match_word w (w @ s) = Some (length w)"
  by (simp add: match_word_def)

lemma match_word_heartbeat: "match_word ''alert.'' (''heartbeat.'' @ s) = None"
  by (simp add: match_word_def)

lemma match_idmef_simps:
  "match_idmef (''alert.'' @ u) = (if idmef_more Behind_dot u = 0 then None else Some (6 + idmef_more Behind_dot u))"
  "match_idmef (''heartbeat.'' @ u) = (if idmef_more Behind_dot u = 0 then None else Some (10 + idmef_more Behind_dot u))"
  unfolding match_idmef_def match_word_heartbeat match_word_here by (simp_all add: Let_def)

lemma idmef_textE:
  assumes "idmef_text t"
  obtains u where "t = ''alert.'' @ u" "idmef_more Behind_dot u = length u" "u \<noteq> []"
    | u where "t = ''heartbeat.'' @ u" "idmef_more Behind_dot u = length u" "u \<noteq> []"
proof -
  consider u where "t = ''alert.'' @ u" | u where "t = ''heartbeat.'' @ u"
    using assms match_word_Some [of "''alert.''" t] match_word_Some [of "''heartbeat.''" t]
    unfolding idmef_text_def match_idmef_def by (auto split: option.splits)
  then show thesis
  proof cases
    case (1 u)
    then show thesis using that(1) [of u] assms
      unfolding idmef_text_def 1 match_idmef_simps by (simp split: if_splits)
  next
    case (2 u)
    then show thesis using that(2) [of u] assms
      unfolding idmef_text_def 2 match_idmef_simps by (simp split: if_splits)
  qed
qed

lemma best_match_idmef:
  assumes "match_idmef (p @ u) = Some (Suc (Suc n))" "p = ''alert.'' \<or> p = ''heartbeat.''"
  shows "best_match lex_rules (p @ u) None = Some (Suc (Suc n), Act_idmef)"
proof -
  have w: "best_match (word_rules keyword_tokens) (p @ u) None = None"
    using assms(2) by (elim disjE) (simp_all add: word_rules_def keyword_tokens_def match_word_def)
  have q: "best_match (word_rules punctuation_tokens) (p @ u) b = b" for b
    using assms(2) by (elim disjE) (simp_all add: word_rules_def punctuation_tokens_def match_word_def)
  have o: "match_quoted (CHR 0x22) (p @ u) = None" "match_quoted (CHR 0x27) (p @ u) = None" "match_number (p @ u) = None"
    "match_space (p @ u) = None" "match_any (p @ u) = Some 1"
    using assms(2) by (elim disjE; simp add: match_starts match_any_start isdigit_def isspace_def)+
  show ?thesis unfolding lex_rules_def best_match_append by (simp add: best_match_append w q o assms(1))
qed

lemma yylex_idmef:
  assumes "idmef_text t" "delimited rest" "path_new t = Inr p"
  shows "yylex path_new (t @ rest) = T_IDMEF (Object_path p) # yylex path_new rest"
proof -
  have b: "best_match lex_rules (t @ rest) None = Some (length t, Act_idmef)"
    using assms(1)
  proof (cases rule: idmef_textE)
    case (1 u)
    have "match_idmef (''alert.'' @ u @ rest) = Some (length t)"
      unfolding match_idmef_simps using idmef_more_append [OF 1(2) assms(2)] 1 by simp
    then show ?thesis using best_match_idmef [of "''alert.''" "u @ rest" "4 + length u"] 1(1) by simp
  next
    case (2 u)
    have "match_idmef (''heartbeat.'' @ u @ rest) = Some (length t)"
      unfolding match_idmef_simps using idmef_more_append [OF 2(2) assms(2)] 2 by simp
    then show ?thesis using best_match_idmef [of "''heartbeat.''" "u @ rest" "8 + length u"] 2(1) by simp
  qed
  have "t \<noteq> []" using assms(1) by (rule idmef_textE) simp_all
  then have "yylex path_new (t @ rest) = lex_act path_new Act_idmef t @ yylex path_new rest"
    by (rule yylex_step [OF b])
  then show ?thesis
    by (simp add: lex_act_def token_of_def preludedb_selected_object_new_def assms(3) del: yylex.simps(2))
qed

section \<open>The text of a selected path\<close>

definition filter_name :: "(string \<times> int) list \<Rightarrow> int \<Rightarrow> string" where
  "filter_name table m = (case map_of (map prod.swap table) m of None \<Rightarrow> [] | Some w \<Rightarrow> w)"

text \<open>Objects with a text: calls have the arguments the grammar gives them.\<close>

inductive has_text :: "(string \<Rightarrow> db_error + idmef_path) \<Rightarrow> selected_object \<Rightarrow> string \<Rightarrow> bool" for path_new where
  string_text: "quotable s \<Longrightarrow> has_text path_new (Object_string s) (quoted_text s)"
| int_text: "int_ok i \<Longrightarrow> has_text path_new (Object_int i) (dec_int i)"
| path_text: "idmef_text t \<Longrightarrow> path_new t = Inr p \<Longrightarrow> has_text path_new (Object_path p) t"
| call_text: "(f, w) \<in> {(OBJECT_MIN, ''min(''), (OBJECT_MAX, ''max(''), (OBJECT_AVG, ''avg(''), (OBJECT_COUNT, ''count('')} \<Longrightarrow>
    has_text path_new a x \<Longrightarrow> has_text path_new (Object_function f [a]) (w @ x @ '')'')"
| extract_text: "m \<in> snd ` set extract_filters \<Longrightarrow> has_text path_new a x \<Longrightarrow>
    has_text path_new (Object_function OBJECT_EXTRACT [a, Object_int m])
      (''extract('' @ x @ '','' @ quoted_text (filter_name extract_filters m) @ '')'')"
| interval_text: "m \<in> snd ` set interval_filters \<Longrightarrow> has_text path_new a x \<Longrightarrow> has_text path_new b y \<Longrightarrow>
    has_text path_new (Object_function OBJECT_INTERVAL [a, b, Object_int m])
      (''interval('' @ x @ '','' @ y @ '','' @ quoted_text (filter_name interval_filters m) @ '')'')"
| timezone_text: "quotable s \<Longrightarrow> has_text path_new a x \<Longrightarrow>
    has_text path_new (Object_function OBJECT_TIMEZONE [a, Object_string s]) (''timezone('' @ x @ '','' @ quoted_text s @ '')'')"

definition option_words :: "path_flags \<Rightarrow> string list" where
  "option_words flags = (if group_by flags then [''group_by''] else []) @ (if order_asc flags then [''order_asc''] else []) @
     (if order_desc flags then [''order_desc''] else [])"

definition options_text :: "path_flags \<Rightarrow> string" where
  "options_text flags = (if option_words flags = [] then [] else ''/'' @ join_sep '','' (option_words flags))"

section \<open>It is read back\<close>

lemma filter_names:
  "m \<in> snd ` set extract_filters \<Longrightarrow> get_extract_filter (filter_name extract_filters m) = Inr m \<and>
    quotable (filter_name extract_filters m)"
  "m \<in> snd ` set interval_filters \<Longrightarrow> get_interval_filter (filter_name interval_filters m) = Inr m \<and>
    quotable (filter_name interval_filters m)"
  by (auto simp: extract_filters_def interval_filters_def get_extract_filter_def get_interval_filter_def get_filter_def
      filter_name_def quotable_def)

lemma text_derived:
  assumes "has_text path_new ob x"
  shows "\<exists>ts. derives_valuetype ts ob \<and> (\<forall>rest. delimited rest \<longrightarrow> yylex path_new (x @ rest) = ts @ yylex path_new rest)"
  using assms
proof induction
  case (string_text s)
  then show ?case using yylex_string string_value by fastforce
next
  case (int_text i)
  then show ?case using yylex_int number_value by fastforce
next
  case (path_text t p)
  then show ?case using yylex_idmef [of t _ path_new p] idmef_value by fastforce
next
  case (call_text f w a x)
  then obtain ts where ts: "derives_valuetype ts a" "\<And>rest. delimited rest \<Longrightarrow> yylex path_new (x @ rest) = ts @ yylex path_new rest"
    by blast
  obtain t where t: "oneargfunc t = Some f" "\<And>rest. yylex path_new (w @ rest) = [t, T_LPAREN] @ yylex path_new rest"
    using call_text.hyps(1) yylex_function [of path_new] by (elim insertE emptyE) (auto simp del: yylex.simps(2) append_Cons)
  have "yylex path_new ((w @ x @ '')'') @ rest) = ([t, T_LPAREN] @ ts @ [T_RPAREN]) @ yylex path_new rest" for rest
    using t(2) [of "x @ '')'' @ rest"] ts(2) [of "'')'' @ rest"] yylex_punctuation(2) [of path_new rest]
    by (simp del: yylex.simps(2))
  then show ?case using onearg_value [OF t(1) plain_value [OF ts(1)]] by blast
next
  case (extract_text m a x)
  then obtain ts where ts: "derives_valuetype ts a" "\<And>rest. delimited rest \<Longrightarrow> yylex path_new (x @ rest) = ts @ yylex path_new rest"
    by blast
  let ?s = "filter_name extract_filters m"
  have s: "get_extract_filter (preludedb_selected_object_get_text (Object_string ?s)) = Inr m" "quotable ?s"
    using filter_names(1) [OF extract_text.hyps(1)] by (simp_all add: preludedb_selected_object_get_text_def)
  have "yylex path_new ((''extract('' @ x @ '','' @ quoted_text ?s @ '')'') @ rest) =
      ([T_EXTRACT, T_LPAREN] @ ts @ [T_COMMA, T_STRING (Object_string ?s), T_RPAREN]) @ yylex path_new rest" for rest
    using yylex_function(5) [of path_new "x @ '','' @ quoted_text ?s @ '')'' @ rest"] ts(2) [of "'','' @ quoted_text ?s @ '')'' @ rest"]
      yylex_punctuation(3) [of path_new "quoted_text ?s @ '')'' @ rest"] yylex_string [OF s(2), of path_new "'')'' @ rest"]
      yylex_punctuation(2) [of path_new rest]
    by (simp del: yylex.simps(2))
  then show ?case using extract_value [OF plain_value [OF ts(1)] s(1)] by blast
next
  case (interval_text m a x b y)
  then obtain ts us where ts: "derives_valuetype ts a" "\<And>rest. delimited rest \<Longrightarrow> yylex path_new (x @ rest) = ts @ yylex path_new rest"
    and us: "derives_valuetype us b" "\<And>rest. delimited rest \<Longrightarrow> yylex path_new (y @ rest) = us @ yylex path_new rest"
    by blast
  let ?s = "filter_name interval_filters m"
  have s: "get_interval_filter (preludedb_selected_object_get_text (Object_string ?s)) = Inr m" "quotable ?s"
    using filter_names(2) [OF interval_text.hyps(1)] by (simp_all add: preludedb_selected_object_get_text_def)
  have "yylex path_new ((''interval('' @ x @ '','' @ y @ '','' @ quoted_text ?s @ '')'') @ rest) =
      ([T_INTERVAL, T_LPAREN] @ ts @ [T_COMMA] @ us @ [T_COMMA, T_STRING (Object_string ?s), T_RPAREN]) @ yylex path_new rest" for rest
    using yylex_function(6) [of path_new "x @ '','' @ y @ '','' @ quoted_text ?s @ '')'' @ rest"]
      ts(2) [of "'','' @ y @ '','' @ quoted_text ?s @ '')'' @ rest"] us(2) [of "'','' @ quoted_text ?s @ '')'' @ rest"]
      yylex_punctuation(3) [of path_new "y @ '','' @ quoted_text ?s @ '')'' @ rest"]
      yylex_punctuation(3) [of path_new "quoted_text ?s @ '')'' @ rest"] yylex_string [OF s(2), of path_new "'')'' @ rest"]
      yylex_punctuation(2) [of path_new rest]
    by (simp del: yylex.simps(2))
  then show ?case using interval_value [OF plain_value [OF ts(1)] plain_value [OF us(1)] s(1)] by blast
next
  case (timezone_text s a x)
  then obtain ts where ts: "derives_valuetype ts a" "\<And>rest. delimited rest \<Longrightarrow> yylex path_new (x @ rest) = ts @ yylex path_new rest"
    by blast
  have "yylex path_new ((''timezone('' @ x @ '','' @ quoted_text s @ '')'') @ rest) =
      ([T_TIMEZONE, T_LPAREN] @ ts @ [T_COMMA, T_STRING (Object_string s), T_RPAREN]) @ yylex path_new rest" for rest
    using yylex_function(7) [of path_new "x @ '','' @ quoted_text s @ '')'' @ rest"] ts(2) [of "'','' @ quoted_text s @ '')'' @ rest"]
      yylex_punctuation(3) [of path_new "quoted_text s @ '')'' @ rest"] yylex_string [OF timezone_text.hyps(1), of path_new "'')'' @ rest"]
      yylex_punctuation(2) [of path_new rest]
    by (simp del: yylex.simps(2))
  then show ?case using timezone_value [OF plain_value [OF ts(1)]] by blast
qed

lemma option_derivations:
  "derives_options [T_GROUP_BY] (no_flags\<lparr>group_by := True\<rparr>)"
  "derives_options [T_ORDER_ASC] (no_flags\<lparr>order_asc := True\<rparr>)"
  "derives_options [T_ORDER_DESC] (no_flags\<lparr>order_desc := True\<rparr>)"
  "derives_options ts f \<Longrightarrow> derives_options (ts @ [T_COMMA, T_ORDER_ASC]) (f\<lparr>order_asc := True\<rparr>)"
  "derives_options ts f \<Longrightarrow> derives_options (ts @ [T_COMMA, T_ORDER_DESC]) (f\<lparr>order_desc := True\<rparr>)"
proof -
  show "derives_options [T_GROUP_BY] (no_flags\<lparr>group_by := True\<rparr>)" "derives_options [T_ORDER_ASC] (no_flags\<lparr>order_asc := True\<rparr>)"
    "derives_options [T_ORDER_DESC] (no_flags\<lparr>order_desc := True\<rparr>)"
    by (rule one_option; simp)+
  show "derives_options (ts @ [T_COMMA, T_ORDER_ASC]) (f\<lparr>order_asc := True\<rparr>)" if "derives_options ts f"
    using more_options [OF that, of T_ORDER_ASC] by (cases f) (simp add: flags_or_def no_flags_def)
  show "derives_options (ts @ [T_COMMA, T_ORDER_DESC]) (f\<lparr>order_desc := True\<rparr>)" if "derives_options ts f"
    using more_options [OF that, of T_ORDER_DESC] by (cases f) (simp add: flags_or_def no_flags_def)
qed

lemma options_read:
  assumes "option_words flags \<noteq> []"
  shows "\<exists>us. derives_options us flags \<and> yylex path_new (options_text flags) = T_SLASH # us"
proof -
  note lex = yylex_punctuation(5) yylex_option [of path_new] yylex_option(4) [of path_new "''order_desc''"]
    yylex_option(6) [of path_new "''order_asc''"] yylex_option(6) [of path_new "''order_desc''"]
    yylex_option(6) [of path_new "''order_asc,order_desc''"]
  obtain g a d where f: "flags = \<lparr>group_by = g, order_asc = a, order_desc = d\<rparr>" by (cases flags)
  define us where "us = tl (concat (map (\<lambda>t. [T_COMMA, t])
    ((if g then [T_GROUP_BY] else []) @ (if a then [T_ORDER_ASC] else []) @ (if d then [T_ORDER_DESC] else []))))"
  have "derives_options us flags"
    using assms option_derivations(1-3) option_derivations(4) [OF option_derivations(1)]
      option_derivations(5) [OF option_derivations(1)] option_derivations(5) [OF option_derivations(2)]
      option_derivations(5) [OF option_derivations(4) [OF option_derivations(1)]]
    by (cases g; cases a; cases d) (simp_all add: us_def f no_flags_def option_words_def)
  moreover have "yylex path_new (options_text flags) = T_SLASH # us"
    using assms lex by (cases g; cases a; cases d) (simp_all add: us_def f options_text_def option_words_def del: yylex.simps(2))
  ultimately show ?thesis by blast
qed

lemma path_text_read:
  assumes "has_text path_new ob x"
  shows "preludedb_selected_path_new_string msg path_new (x @ options_text flags) = Inr (preludedb_selected_path_new ob flags)"
proof -
  obtain ts where ts: "derives_valuetype ts ob" "\<And>rest. delimited rest \<Longrightarrow> yylex path_new (x @ rest) = ts @ yylex path_new rest"
    using text_derived [OF assms] by blast
  have v: "derives_value ts ob" by (rule plain_value [OF ts(1)])
  have "derives_expressions (yylex path_new (x @ options_text flags)) ob flags"
  proof (cases "option_words flags = []")
    case True
    then have "flags = no_flags" by (cases flags) (auto simp: option_words_def no_flags_def split: if_splits)
    moreover have "yylex path_new (x @ options_text flags) = ts"
      using ts(2) [of "[]"] True by (simp add: options_text_def)
    ultimately show ?thesis using only_value [OF v] by simp
  next
    case False
    obtain us where us: "derives_options us flags" "yylex path_new (options_text flags) = T_SLASH # us"
      using options_read [OF False] by blast
    have "delimited (options_text flags)" using False by (simp add: options_text_def)
    from ts(2) [OF this] us(2) have "yylex path_new (x @ options_text flags) = ts @ [T_SLASH] @ us" by simp
    then show ?thesis using value_options [OF v us(1)] by simp
  qed
  from yyparse_complete [OF this] show ?thesis
    by (simp add: preludedb_selected_path_new_string_def preludedb_path_selection_parse_def del: yylex.simps(2))
qed

end
