(* ===== verification/Pdb_Version.thy ===== *)
theory Pdb_Version
  imports Sql_Criterion
begin

text \<open>
  The version check (src/preludedb-version.c). The library's own version comes from the
  build: its text and its number are parameters.
\<close>

abbreviation LIBPRELUDEDB_RELEASE_LEVEL_ALPHA :: int where "LIBPRELUDEDB_RELEASE_LEVEL_ALPHA \<equiv> 10"
abbreviation LIBPRELUDEDB_RELEASE_LEVEL_BETA :: int where "LIBPRELUDEDB_RELEASE_LEVEL_BETA \<equiv> 11"
abbreviation LIBPRELUDEDB_RELEASE_LEVEL_RC :: int where "LIBPRELUDEDB_RELEASE_LEVEL_RC \<equiv> 12"
abbreviation LIBPRELUDEDB_RELEASE_LEVEL_FINAL :: int where "LIBPRELUDEDB_RELEASE_LEVEL_FINAL \<equiv> 15"

definition levelstr_to_int :: "string \<Rightarrow> int option" where
  "levelstr_to_int wanted =
     map_of [(''alpha'', LIBPRELUDEDB_RELEASE_LEVEL_ALPHA), (''beta'', LIBPRELUDEDB_RELEASE_LEVEL_BETA),
             (''rc'', LIBPRELUDEDB_RELEASE_LEVEL_RC)] wanted"

text \<open>
  The format: three numbers with dots between them, then at most five characters that are no
  digits, then a number. The last two may be missing: the level is then empty, the patch 0.
\<close>

definition scan_version :: "string \<Rightarrow> (int \<times> int \<times> int \<times> string \<times> int) option" where
  "scan_version s =
     (case sscanf [Scan_d, Scan_char (CHR ''.''), Scan_d, Scan_char (CHR ''.''), Scan_d] s of
        [major, minor, micro] \<Rightarrow>
          (let (n1, m1, r1) = strto_scan s;
               (n2, m2, r2) = strto_scan (tl r1);
               (n3, m3, rest) = strto_scan (tl r2);
               level = takeWhile (\<lambda>c. \<not> isdigit c) (take 5 rest)
           in Some (major, minor, micro, level,
                if level = [] then 0
                else case sscanf [Scan_d] (drop (length level) rest) of [p] \<Rightarrow> p | _ \<Rightarrow> 0))
      | _ \<Rightarrow> None)"

text \<open>The number is made of \<open>int\<close>s and compared as \<open>unsigned int\<close>.\<close>

definition hex_version :: "int \<Rightarrow> int \<Rightarrow> int \<Rightarrow> int \<Rightarrow> int \<Rightarrow> 32 word" where
  "hex_version major minor micro level patch =
     or (or (or (or (push_bit 24 (word_of_int major)) (push_bit 16 (word_of_int minor)))
        (push_bit 8 (word_of_int micro))) (push_bit 4 (word_of_int level))) (word_of_int patch)"

definition preludedb_check_version :: "string \<Rightarrow> 32 word \<Rightarrow> string option \<Rightarrow> string option" where
  "preludedb_check_version version hexversion req_version =
     (case req_version of
        None \<Rightarrow> Some version
      | Some req \<Rightarrow>
          (case scan_version req of
             None \<Rightarrow> None
           | Some (major, minor, micro, levels, patch) \<Rightarrow>
               (case (if levels = [] \<or> hd levels = CHR ''.'' then Some LIBPRELUDEDB_RELEASE_LEVEL_FINAL
                      else levelstr_to_int levels) of
                  None \<Rightarrow> None
                | Some level \<Rightarrow>
                    if hex_version major minor micro level patch \<le> hexversion then Some version else None)))"

section \<open>Facts\<close>

text \<open>Numbers that fit their fields do not overlap: the version is then their sum.\<close>

lemma field_bits:
  assumes "0 \<le> k" "k < 2 ^ w" "bit (push_bit n (word_of_int k :: 32 word)) i"
  shows "n \<le> i \<and> i < n + w"
proof -
  have "take_bit w k = k" using assms(1,2) by (simp add: take_bit_int_eq_self)
  then have "bit k (i - n) \<Longrightarrow> i - n < w" by (metis bit_take_bit_iff)
  then show ?thesis using assms(3) by (auto simp: bit_push_bit_iff bit_word_of_int_iff)
qed

definition version_number :: "int \<Rightarrow> int \<Rightarrow> int \<Rightarrow> int \<Rightarrow> int \<Rightarrow> int" where
  "version_number major minor micro level patch = (((major * 256 + minor) * 256 + micro) * 16 + level) * 16 + patch"

definition version_fits :: "int \<Rightarrow> int \<Rightarrow> int \<Rightarrow> int \<Rightarrow> int \<Rightarrow> bool" where
  "version_fits major minor micro level patch \<longleftrightarrow> major \<in> {0..<256} \<and> minor \<in> {0..<256} \<and> micro \<in> {0..<256} \<and>
     level \<in> {0..<16} \<and> patch \<in> {0..<16}"

lemma hex_version_sum:
  assumes "version_fits major minor micro level patch"
  shows "uint (hex_version major minor micro level patch) = version_number major minor micro level patch"
proof -
  let ?a = "push_bit 24 (word_of_int major) :: 32 word" and ?b = "push_bit 16 (word_of_int minor) :: 32 word"
    and ?c = "push_bit 8 (word_of_int micro) :: 32 word" and ?d = "push_bit 4 (word_of_int level) :: 32 word"
    and ?e = "push_bit 0 (word_of_int patch) :: 32 word"
  have r: "0 \<le> major" "major < 2 ^ 8" "0 \<le> minor" "minor < 2 ^ 8" "0 \<le> micro" "micro < 2 ^ 8"
    "0 \<le> level" "level < 2 ^ 4" "0 \<le> patch" "patch < 2 ^ 4"
    using assms by (simp_all add: version_fits_def)
  note bits = field_bits [OF r(1,2)] field_bits [OF r(3,4)] field_bits [OF r(5,6)] field_bits [OF r(7,8)]
    field_bits [OF r(9,10)]
  have 1: "or ?a ?b = ?a + ?b" by (rule disjunctive_add [symmetric]) (fastforce dest: bits(1,2))
  have 2: "or (or ?a ?b) ?c = or ?a ?b + ?c"
    by (rule disjunctive_add [symmetric]) (fastforce simp: bit_or_iff dest: bits(1-3))
  have 3: "or (or (or ?a ?b) ?c) ?d = or (or ?a ?b) ?c + ?d"
    by (rule disjunctive_add [symmetric]) (fastforce simp: bit_or_iff dest: bits(1-4))
  have 4: "or (or (or (or ?a ?b) ?c) ?d) ?e = or (or (or ?a ?b) ?c) ?d + ?e"
    by (rule disjunctive_add [symmetric]) (fastforce simp: bit_or_iff dest: bits)
  have "hex_version major minor micro level patch = ?a + ?b + ?c + ?d + ?e"
    using 1 2 3 4 by (simp add: hex_version_def)
  also have "... = word_of_int (version_number major minor micro level patch)"
    by (simp add: push_bit_eq_mult version_number_def algebra_simps)
  finally have "uint (hex_version major minor micro level patch) = version_number major minor micro level patch mod 2 ^ 32"
    by (simp only: uint_word_of_int) simp
  moreover have "0 \<le> version_number major minor micro level patch" "version_number major minor micro level patch < 2 ^ 32"
    using r by (simp_all add: version_number_def)
  ultimately show ?thesis by simp
qed

end
