(* ===== verification/Message_Store.thy ===== *)
theory Message_Store
  imports Classic_Get Classic_Schema
begin

text \<open>
  What the classic format needs from a database to get back the messages it inserted: tables
  of rows, to which an INSERT adds and in which a SELECT finds the rows that meet its
  conditions. \<open>message_store\<close> states it over the library's own functions. \<open>adds\<close>, \<open>reads\<close>
  and \<open>finds\<close> say what a call does on such a store, with a rule for each of the combinators
  of insertion and retrieval.
\<close>

section \<open>Tables\<close>

type_synonym cell = "string option"
type_synonym stored_row = "(string \<times> cell) list"
type_synonym tables = "string \<Rightarrow> stored_row list"

definition cell_at :: "stored_row \<Rightarrow> string \<Rightarrow> cell" where
  "cell_at r c = (case map_of r c of None \<Rightarrow> None | Some v \<Rightarrow> v)"

text \<open>The rows that a run of INSERTs adds, in their order.\<close>

definition rows_of :: "string \<Rightarrow> (string \<times> stored_row) list \<Rightarrow> stored_row list" where
  "rows_of T rs = map snd (filter (\<lambda>(U, _). U = T) rs)"

definition add_rows :: "tables \<Rightarrow> (string \<times> stored_row) list \<Rightarrow> tables" where
  "add_rows db rs = (\<lambda>T. db T @ rows_of T rs)"

lemma rows_of_simps [simp]:
  "rows_of T [] = []"
  "rows_of T ((U, r) # rs) = (if U = T then r # rows_of T rs else rows_of T rs)"
  "rows_of T (rs @ rs') = rows_of T rs @ rows_of T rs'"
  by (simp_all add: rows_of_def)

lemma add_rows_simps [simp]:
  "add_rows db [] = db"
  "add_rows (add_rows db rs) rs' = add_rows db (rs @ rs')"
  "add_rows db rs T = db T @ rows_of T rs"
  by (simp_all add: add_rows_def)

fun rows_from :: "(int \<Rightarrow> 'x \<Rightarrow> (string \<times> stored_row) list) \<Rightarrow> int \<Rightarrow> 'x list \<Rightarrow> (string \<times> stored_row) list" where
  "rows_from f i [] = []"
| "rows_from f i (x # xs) = f i x @ rows_from f (i + 1) xs"

definition rows_listed :: "(int \<Rightarrow> 'x \<Rightarrow> (string \<times> stored_row) list) \<Rightarrow> 'x list \<Rightarrow> (string \<times> stored_row) list" where
  "rows_listed f xs = rows_from f 0 xs @ (if xs = [] then [] else f (-1) (last xs))"

definition rows_optional :: "('x \<Rightarrow> (string \<times> stored_row) list) \<Rightarrow> 'x option \<Rightarrow> (string \<times> stored_row) list" where
  "rows_optional f v = (case v of None \<Rightarrow> [] | Some x \<Rightarrow> f x)"

text \<open>
  A condition compares a column with a literal; \<open>lit\<close> is what a literal denotes: no literal,
  NULL or a text. A comparison with NULL, or of a column that is NULL, does not hold.
\<close>

definition matches :: "(string \<Rightarrow> cell option) \<Rightarrow> (string \<times> string) list \<Rightarrow> stored_row \<Rightarrow> bool" where
  "matches lit conds r \<longleftrightarrow> (\<forall>(c, l) \<in> set conds. cell_at r c \<noteq> None \<and> lit l = Some (cell_at r c))"

definition row_index :: "stored_row \<Rightarrow> int" where
  "row_index r = (case cell_at r ''_index'' of None \<Rightarrow> 0
     | Some t \<Rightarrow> (case strto_scan t of (neg, n, rest) \<Rightarrow> if neg then - int n else int n))"

definition indexed :: "stored_row \<Rightarrow> bool" where
  "indexed r \<longleftrightarrow> cell_at r ''_index'' = Some (dec_int (row_index r))"

definition index_order :: "stored_row list \<Rightarrow> stored_row list" where
  "index_order rs = sort_key row_index (filter (\<lambda>r. row_index r \<noteq> -1) rs)"

definition selected ::
    "(string \<Rightarrow> cell option) \<Rightarrow> tables \<Rightarrow> string \<Rightarrow> string \<Rightarrow> (string \<times> string) list \<Rightarrow> bool \<Rightarrow> cell list list" where
  "selected lit db D T conds ordered =
     map (\<lambda>r. map (cell_at r) (columns_in D))
       ((if ordered then index_order else id) (filter (matches lit conds) (db T)))"

text \<open>The texts of the queries.\<close>

definition query_text :: "string \<Rightarrow> string \<Rightarrow> (string \<times> string) list \<Rightarrow> bool \<Rightarrow> string" where
  "query_text D T conds ordered =
     ''SELECT '' @ D @ '' FROM '' @ T @ '' WHERE '' @ join_sep '' AND '' (map (\<lambda>(c, l). c @ '' = '' @ l) conds) @
     (if ordered then in_order else [])"

definition plain_name :: "string \<Rightarrow> bool" where
  "plain_name s \<longleftrightarrow> s \<noteq> [] \<and> (\<forall>c \<in> set s. isalnum c \<or> c = CHR ''_'')"

definition plain_columns :: "string \<Rightarrow> bool" where
  "plain_columns s \<longleftrightarrow> (\<forall>c \<in> set s. isalnum c \<or> c = CHR ''_'' \<or> c = CHR '','' \<or> c = CHR '' '') \<and>
     ''FROM'' \<notin> set (split_on (CHR '' '') s) \<and> length (columns_in s) < 100"

definition plain_conditions :: "(string \<Rightarrow> cell option) \<Rightarrow> (string \<times> string) list \<Rightarrow> bool" where
  "plain_conditions lit conds \<longleftrightarrow> conds \<noteq> [] \<and>
     (\<forall>(c, l) \<in> set conds. plain_name c \<and> CHR '' '' \<notin> set l \<and> (\<exists>v. lit l = Some (Some v)))"

text \<open>
  What the INSERTs and the SELECTs of the format look like; \<open>cols\<close> are the columns they name,
  \<open>keys\<close> those that conditions and orders are about.
\<close>

definition insert_shape :: "string \<Rightarrow> string \<Rightarrow> string list \<Rightarrow> bool" where
  "insert_shape T C cols \<longleftrightarrow> T \<notin> message_tables \<and> plain_name T \<and> plain_columns C \<and> columns_in C = cols \<and>
     has_columns T cols"

definition select_shape :: "string list \<Rightarrow> string \<Rightarrow> string \<Rightarrow> string list \<Rightarrow> bool" where
  "select_shape keys D T cols \<longleftrightarrow> plain_name T \<and> plain_columns D \<and> columns_in D = cols \<and> has_columns T (keys @ cols)"

definition order_keys :: "bool \<Rightarrow> string list" where
  "order_keys ordered = (if ordered then [''_index''] else [])"

text \<open>
  The constraints of the schema: no NULL in a NOT NULL column, no two rows with the same
  primary key.
\<close>

definition key_of :: "string list \<Rightarrow> stored_row \<Rightarrow> cell list" where
  "key_of key r = map (cell_at r) key"

definition complete :: "string list \<Rightarrow> stored_row \<Rightarrow> bool" where
  "complete required r \<longleftrightarrow> list_all (\<lambda>c. cell_at r c \<noteq> None) required"

definition sound :: "tables \<Rightarrow> bool" where
  "sound db \<longleftrightarrow> list_all (\<lambda>T. distinct (map (key_of (key_columns T)) (db T)) \<and>
     list_all (complete (required_columns T)) (db T)) classic_tables"

lemma soundI:
  assumes "\<And>T. T \<in> set classic_tables \<Longrightarrow>
    distinct (map (key_of (key_columns T)) (db T)) \<and> (\<forall>r \<in> set (db T). complete (required_columns T) r)"
  shows "sound db"
  using assms by (simp add: sound_def list_all_iff)

lemma soundD:
  assumes "sound db" "T \<in> set classic_tables"
  shows "distinct (map (key_of (key_columns T)) (db T))" "\<And>r. r \<in> set (db T) \<Longrightarrow> complete (required_columns T) r"
  using assms by (simp_all add: sound_def list_all_iff)

lemma sound_prefix:
  assumes "sound (add_rows db (rs @ rs'))"
  shows "sound (add_rows db rs)"
proof (rule soundI)
  fix T assume "T \<in> set classic_tables"
  from soundD [OF assms this]
  show "distinct (map (key_of (key_columns T)) (add_rows db rs T)) \<and>
      (\<forall>r \<in> set (add_rows db rs T). complete (required_columns T) r)"
    by auto
qed

lemma sound_mapped:
  assumes "sound (\<lambda>T. map f (db T))"
    and f: "\<And>r c. cell_at (f r) c = g (cell_at r c)" and g: "g None = None"
  shows "sound db"
proof (rule soundI)
  fix T assume T: "T \<in> set classic_tables"
  have "map (key_of (key_columns T)) (map f (db T)) = map (map g) (map (key_of (key_columns T)) (db T))"
    by (simp add: key_of_def f)
  then have "distinct (map (key_of (key_columns T)) (db T))"
    using soundD(1) [OF assms(1) T] distinct_map by metis
  moreover have "complete (required_columns T) r" if "r \<in> set (db T)" for r
    using soundD(2) [OF assms(1) T, of "f r"] that g unfolding complete_def list_all_iff f by (metis image_eqI set_map)
  ultimately show "distinct (map (key_of (key_columns T)) (db T)) \<and> (\<forall>r \<in> set (db T). complete (required_columns T) r)"
    by blast
qed

text \<open>The idents that an INTEGER PRIMARY KEY can still give.\<close>

definition idents_left :: "stored_row list \<Rightarrow> bool" where
  "idents_left rs \<longleftrightarrow> (\<forall>r \<in> set rs. \<exists>n < 2 ^ 63 - 1. cell_at r ''_ident'' = Some (dec_nat n))"

text \<open>The field a cell is read from.\<close>

definition cell_field :: "nat \<Rightarrow> cell \<Rightarrow> sql_field option" where
  "cell_field j c = map_option (\<lambda>v. \<lparr>fvalue = v, flen = length v, findex = j\<rparr>) c"

text \<open>What a message must be like to be stored: its texts, its enums, its numbers.\<close>

definition text_ok :: "(string \<Rightarrow> bool) \<Rightarrow> string option \<Rightarrow> bool" where
  "text_ok ok x \<longleftrightarrow> (case x of None \<Rightarrow> True | Some t \<Rightarrow> ok t)"

definition enum_ok :: "(string \<Rightarrow> bool) \<Rightarrow> idmef_codec \<Rightarrow> idmef_enum \<Rightarrow> int \<Rightarrow> bool" where
  "enum_ok ok codec enum v \<longleftrightarrow>
     (case enum_to_string codec enum v of None \<Rightarrow> False | Some t \<Rightarrow> ok t \<and> enum_to_numeric codec enum t = v)"

definition uint_ok :: "nat \<Rightarrow> nat option \<Rightarrow> bool" where
  "uint_ok w x \<longleftrightarrow> (case x of None \<Rightarrow> True | Some n \<Rightarrow> n < 2 ^ w)"

lemma enum_ok_text: "enum_ok ok codec enum v \<Longrightarrow> text_ok ok (enum_to_string codec enum v)"
  by (auto simp: enum_ok_def text_ok_def split: option.splits)

text \<open>Numbers fit the buffers they are printed into.\<close>

lemma length_dec_nat: "n < 10 ^ Suc k \<Longrightarrow> length (dec_nat n) \<le> Suc k"
proof (induction k arbitrary: n)
  case 0
  then show ?case by (simp add: dec_nat.simps [of n])
next
  case (Suc k)
  show ?case
  proof (cases "n < 10")
    case False
    have "n div 10 < 10 ^ Suc k" using Suc.prems by (simp add: div_less_iff_less_mult)
    from Suc.IH [OF this] False show ?thesis by (simp add: dec_nat.simps [of n])
  qed (simp add: dec_nat.simps [of n])
qed

lemma optional_uint_printed:
  assumes "uint_ok 32 x" "11 < k"
  shows "get_optional_uint k x = (case x of None \<Rightarrow> ''NULL'' | Some n \<Rightarrow> dec_nat n)"
proof (cases x)
  case None
  then show ?thesis using assms(2) by (simp add: get_optional_uint_def snprintf_buf_def)
next
  case (Some n)
  then have "n < 10 ^ Suc 9" using assms(1) by (simp add: uint_ok_def)
  from length_dec_nat [OF this] Some assms(2) show ?thesis
    by (simp add: get_optional_uint_def snprintf_buf_def)
qed

lemma dec_int_printed:
  assumes "- (2 ^ 31) \<le> i" "i < 2 ^ 32" "12 \<le> k"
  shows "snprintf_buf k (dec_int i) = dec_int i"
proof -
  have "nat \<bar>i\<bar> < 10 ^ Suc 9" using assms by simp
  from length_dec_nat [OF this] assms(3) show ?thesis
    by (cases "i < 0") (simp_all add: snprintf_buf_def dec_int_def)
qed

section \<open>The contract of a store\<close>

text \<open>
  \<open>contents s\<close> are the tables that a session \<open>s\<close> sees, \<open>usable s\<close> says that it works on the
  store, \<open>result t n rows\<close> that the result table \<open>t\<close> is to give \<open>rows\<close> and that \<open>n\<close> of them
  were fetched. \<open>storable\<close> texts are those that are read back as they were escaped.
  Rows of messages get a new ident, which is the one that is asked for next.
\<close>

locale message_store =
  fixes contents :: "('w, 'd) sql \<Rightarrow> tables"
    and usable :: "('w, 'd) sql \<Rightarrow> bool"
    and result :: "'d sql_table \<Rightarrow> nat \<Rightarrow> cell list list \<Rightarrow> bool"
    and lit :: "string \<Rightarrow> cell option"
    and storable :: "string \<Rightarrow> bool"
  assumes released: "usable s \<Longrightarrow> usable (s\<lparr>sql_refcount := k\<rparr>) \<and> contents (s\<lparr>sql_refcount := k\<rparr>) = contents s"
    and default_timestamps: "usable s \<Longrightarrow> p_build_timestamp_string (sql_plugin s) = None"
    and lit_null: "lit ''NULL'' = Some None"
    and lit_int: "lit (dec_int k) = Some (Some (dec_int k))"
    and lit_char: "isalpha c \<Longrightarrow> lit (char_literal c) = Some (Some [c])"
    and lit_quoted: "storable x \<Longrightarrow> CHR 0x27 \<notin> set x \<Longrightarrow> lit (CHR 0x27 # x @ [CHR 0x27]) = Some (Some x)"
    and storable_text: "storable x \<Longrightarrow> c_str x = x"
    and escape: "usable s \<Longrightarrow> storable x \<Longrightarrow>
      \<exists>s' l. escape_string (Some x) s = (s', Inr l) \<and> usable s' \<and> contents s' = contents s \<and> lit l = Some (Some x)"
    and escape_binary: "usable s \<Longrightarrow> x \<noteq> [] \<Longrightarrow> length x < 2 ^ 62 \<Longrightarrow>
      \<exists>s' l. preludedb_sql_escape_binary s (Some x) = (s', Inr l) \<and> usable s' \<and> contents s' = contents s \<and>
        lit l = Some (Some x)"
    and unescape_binary: "usable s \<Longrightarrow>
      \<exists>s'. preludedb_sql_unescape_binary s x = (s', Inr x) \<and> usable s' \<and> contents s' = contents s"
    and insert: "usable s \<Longrightarrow> T \<notin> message_tables \<Longrightarrow> plain_name T \<Longrightarrow> plain_columns C \<Longrightarrow>
      map lit vals = map Some cells \<Longrightarrow> has_columns T (columns_in C) \<Longrightarrow> length cells = length (columns_in C) \<Longrightarrow>
      sound (add_rows (contents s) [(T, zip (columns_in C) cells)]) \<Longrightarrow>
      \<exists>s'. insert_row T C vals s = (s', Inr ()) \<and> usable s' \<and>
        contents s' = add_rows (contents s) [(T, zip (columns_in C) cells)]"
    and insert_message: "usable s \<Longrightarrow> T \<in> message_tables \<Longrightarrow> plain_columns C \<Longrightarrow>
      map lit vals = map Some cells \<Longrightarrow> has_columns T (columns_in C) \<Longrightarrow> length cells = length (columns_in C) \<Longrightarrow>
      sound (contents s) \<Longrightarrow> idents_left (contents s T) \<Longrightarrow>
      \<exists>n s' s''. insert_row T C vals s = (s', Inr ()) \<and> get_last_insert_ident T s' = (s'', Inr n) \<and> usable s'' \<and>
        contents s'' = add_rows (contents s) [(T, (''_ident'', Some (dec_nat n)) # zip (columns_in C) cells)] \<and>
        (\<forall>r \<in> set (contents s T). cell_at r ''_ident'' \<noteq> Some (dec_nat n))"
    and select: "usable s \<Longrightarrow> plain_columns D \<Longrightarrow> plain_name T \<Longrightarrow> plain_conditions lit conds \<Longrightarrow>
      has_columns T (columns_in D @ map fst conds @ order_keys ordered) \<Longrightarrow>
      (ordered \<longrightarrow> (\<forall>r \<in> set (contents s T). matches lit conds r \<longrightarrow> indexed r)) \<Longrightarrow>
      length (selected lit (contents s) D T conds ordered) < 2 ^ 32 - 1 \<Longrightarrow>
      \<exists>s' t. preludedb_sql_query_sprintf s (query_text D T conds ordered) True = (s', Inr (Some t)) \<and>
        usable s' \<and> contents s' = contents s \<and> result t 0 (selected lit (contents s) D T conds ordered)"
    and fetch: "usable s \<Longrightarrow> result t n rs \<Longrightarrow>
      \<exists>t'. preludedb_sql_table_fetch_row s t = (s, t', Inr (if n < length rs then Some n else None)) \<and>
        result t' (if n < length rs then Suc n else n) rs"
    and field: "usable s \<Longrightarrow> result t n rs \<Longrightarrow> i < n \<Longrightarrow> j < length (rs ! i) \<Longrightarrow>
      \<exists>t'. row_field i j (s, t) = Some ((s, t'), Inr (cell_field j (rs ! i ! j))) \<and> result t' n rs"
begin

section \<open>What an insertion adds\<close>

definition adds :: "(('w, 'd) sql, 'a) sql_call \<Rightarrow> (string \<times> stored_row) list \<Rightarrow> bool" where
  "adds m rs \<longleftrightarrow> (\<forall>s. usable s \<and> sound (add_rows (contents s) rs) \<longrightarrow>
     (\<exists>s' x. m s = (s', Inr x) \<and> usable s' \<and> contents s' = add_rows (contents s) rs))"

lemma adds_give: "adds (give x) []"
  by (simp add: adds_def give_def)

lemma adds_then:
  assumes "adds m rs" "\<And>x. adds (f x) rs'"
  shows "adds (call m f) (rs @ rs')"
  unfolding adds_def
proof (intro allI impI, elim conjE)
  fix s assume u: "usable s" and ok: "sound (add_rows (contents s) (rs @ rs'))"
  obtain s1 x where 1: "m s = (s1, Inr x)" "usable s1" "contents s1 = add_rows (contents s) rs"
    using assms(1) u sound_prefix [OF ok] unfolding adds_def by blast
  then obtain s2 y where "f x s1 = (s2, Inr y)" "usable s2" "contents s2 = add_rows (contents s1) rs'"
    using assms(2) ok unfolding adds_def by fastforce
  then show "\<exists>s' y. call m f s = (s', Inr y) \<and> usable s' \<and> contents s' = add_rows (contents s) (rs @ rs')"
    using 1 by simp
qed

lemma escapes:
  assumes "usable s" "text_ok storable x"
  shows "\<exists>s' l. escape_string x s = (s', Inr l) \<and> usable s' \<and> contents s' = contents s \<and> lit l = Some x"
proof (cases x)
  case None
  then show ?thesis using assms(1) lit_null
    by (simp add: escape_string_def preludedb_sql_escape_def preludedb_sql_escape_fast_def)
next
  case (Some t)
  then show ?thesis using escape [OF assms(1)] assms(2) by (simp add: text_ok_def)
qed

lemma adds_escape:
  assumes "text_ok storable x" "\<And>l. lit l = Some x \<Longrightarrow> adds (f l) rs"
  shows "adds (call (escape_string x) f) rs"
  unfolding adds_def
proof (intro allI impI, elim conjE)
  fix s assume u: "usable s" and ok: "sound (add_rows (contents s) rs)"
  from u obtain s1 l where "escape_string x s = (s1, Inr l)" "usable s1" "contents s1 = contents s" "lit l = Some x"
    using escapes [OF u assms(1)] by blast
  with assms(2) [of l] show "\<exists>s' y. call (escape_string x) f s = (s', Inr y) \<and> usable s' \<and>
      contents s' = add_rows (contents s) rs"
    using ok unfolding adds_def by fastforce
qed

lemma adds_or_error_escape:
  assumes "text_ok storable x" "\<And>l. lit l = Some x \<Longrightarrow> adds (f l) rs"
  shows "adds (call (or_error (escape_string x) e) f) rs"
proof -
  have "call (or_error (escape_string x) e) f s = call (escape_string x) f s" if "usable s" for s
    using escapes [OF that assms(1)] by (auto simp: call_def or_error_def)
  then show ?thesis using adds_escape [OF assms] unfolding adds_def by simp
qed

lemma adds_escape_binary:
  assumes "x \<noteq> []" "length x < 2 ^ 62" "\<And>l. lit l = Some (Some x) \<Longrightarrow> adds (f l) rs"
  shows "adds (call (\<lambda>s. preludedb_sql_escape_binary s (Some x)) f) rs"
  unfolding adds_def
proof (intro allI impI, elim conjE)
  fix s assume u: "usable s" and ok: "sound (add_rows (contents s) rs)"
  from u obtain s1 l where "preludedb_sql_escape_binary s (Some x) = (s1, Inr l)" "usable s1"
    "contents s1 = contents s" "lit l = Some (Some x)"
    using escape_binary [OF u assms(1,2)] by blast
  with assms(3) [of l] show "\<exists>s' y. call (\<lambda>s. preludedb_sql_escape_binary s (Some x)) f s = (s', Inr y) \<and> usable s' \<and>
      contents s' = add_rows (contents s) rs"
    using ok unfolding adds_def by fastforce
qed

lemma adds_insert:
  assumes "insert_shape T C (map fst r)" "map lit vals = map Some (map snd r)"
  shows "adds (insert_row T C vals) [(T, r)]"
  unfolding adds_def
proof (intro allI impI, elim conjE)
  fix s assume u: "usable s" and ok: "sound (add_rows (contents s) [(T, r)])"
  have "zip (columns_in C) (map snd r) = r" using assms(1) zip_map_fst_snd [of r] by (simp add: insert_shape_def)
  then show "\<exists>s' x. insert_row T C vals s = (s', Inr x) \<and> usable s' \<and> contents s' = add_rows (contents s) [(T, r)]"
    using insert [OF u _ _ _ assms(2), of T C] assms(1) ok by (simp add: insert_shape_def)
qed

lemma adds_insert_then:
  assumes "insert_shape T C (map fst r)" "map lit vals = map Some (map snd r)" "\<And>x. adds (f x) rs"
  shows "adds (call (insert_row T C vals) f) ((T, r) # rs)"
  using adds_then [OF adds_insert [OF assms(1,2)], of f rs] assms(3) by simp

lemma lit_nat: "lit (dec_nat n) = Some (Some (dec_nat n))"
  using lit_int [of "int n"] by simp

lemma lit_optional_uint: "uint_ok 32 x \<Longrightarrow> 11 < k \<Longrightarrow> lit (get_optional_uint k x) = Some (map_option dec_nat x)"
  by (cases x) (simp_all add: optional_uint_printed lit_null lit_nat)

lemma adds_from:
  assumes "\<And>i x. x \<in> set xs \<Longrightarrow> adds (m i x) (f i x)"
  shows "adds (insert_from m i xs) (rows_from f i xs)"
  using assms
proof (induction xs arbitrary: i)
  case Nil
  show ?case by (simp add: adds_give)
next
  case (Cons x xs)
  have "adds (m i x) (f i x)" using Cons.prems by simp
  moreover have "adds (insert_from m (i + 1) xs) (rows_from f (i + 1) xs)" using Cons by simp
  ultimately show ?case by (simp add: adds_then)
qed

lemma adds_listed:
  assumes "\<And>i x. x \<in> set xs \<Longrightarrow> adds (m i x) (f i x)"
  shows "adds (insert_listed m xs) (rows_listed f xs)"
proof -
  show ?thesis
    unfolding insert_listed_def rows_listed_def
    by (rule adds_then, rule adds_from, erule assms) (use assms adds_give in auto)
qed

lemma adds_optional:
  "(\<And>x. v = Some x \<Longrightarrow> adds (m x) (f x)) \<Longrightarrow> adds (insert_optional m v) (rows_optional f v)"
  by (cases v) (simp_all add: insert_optional_def rows_optional_def adds_give)

section \<open>What a retrieval reads\<close>

text \<open>
  \<open>reads m db n rs x\<close>: with the tables \<open>db\<close> and \<open>n\<close> of the rows \<open>rs\<close> fetched, \<open>m\<close> returns \<open>x\<close> and
  leaves both as they are. \<open>finds m db x\<close> is the same for a call on the session.
\<close>

definition finds :: "(('w, 'd) sql, 'a) get_call \<Rightarrow> tables \<Rightarrow> 'a \<Rightarrow> bool" where
  "finds m db x \<longleftrightarrow> (\<forall>s. usable s \<and> contents s = db \<longrightarrow>
     (\<exists>s'. m s = Some (s', Inr x) \<and> usable s' \<and> contents s' = db))"

definition reads :: "(('w, 'd) reading, 'a) get_call \<Rightarrow> tables \<Rightarrow> nat \<Rightarrow> cell list list \<Rightarrow> 'a \<Rightarrow> bool" where
  "reads m db n rs x \<longleftrightarrow> (\<forall>s t. usable s \<and> contents s = db \<and> result t n rs \<longrightarrow>
     (\<exists>s' t'. m (s, t) = Some ((s', t'), Inr x) \<and> usable s' \<and> contents s' = db \<and> result t' n rs))"

lemma finds_got: "finds (got x) db x"
  by (simp add: finds_def give_def)

lemma reads_got: "x = y \<Longrightarrow> reads (got x) db n rs y"
  by (simp add: reads_def give_def)

lemma finds_then:
  assumes "finds m db x" "finds (f x) db y"
  shows "finds (get_then m f) db y"
  unfolding finds_def
proof (intro allI impI, elim conjE)
  fix s assume u: "usable s" "contents s = db"
  then obtain s1 where s1: "m s = Some (s1, Inr x)" "usable s1" "contents s1 = db"
    using assms(1) unfolding finds_def by blast
  then obtain s2 where "f x s1 = Some (s2, Inr y)" "usable s2" "contents s2 = db"
    using assms(2) unfolding finds_def by blast
  with s1 show "\<exists>s'. get_then m f s = Some (s', Inr y) \<and> usable s' \<and> contents s' = db" by simp
qed

lemma reads_then:
  assumes "reads m db n rs x" "reads (f x) db n rs y"
  shows "reads (get_then m f) db n rs y"
  unfolding reads_def
proof (intro allI impI, elim conjE)
  fix s t assume u: "usable s" "contents s = db" "result t n rs"
  then obtain s1 t1 where s1: "m (s, t) = Some ((s1, t1), Inr x)" "usable s1" "contents s1 = db" "result t1 n rs"
    using assms(1) unfolding reads_def by blast
  then obtain s2 t2 where "f x (s1, t1) = Some ((s2, t2), Inr y)" "usable s2" "contents s2 = db" "result t2 n rs"
    using assms(2) unfolding reads_def by blast
  with s1 show "\<exists>s' t'. get_then m f (s, t) = Some ((s', t'), Inr y) \<and> usable s' \<and> contents s' = db \<and>
      result t' n rs" by auto
qed

lemma reads_pure: "r = Inr x \<Longrightarrow> reads (ends (pure_result r)) db n rs x"
  by (simp add: reads_def pure_result_def)

lemma reads_session:
  assumes "finds m db x"
  shows "reads (on_session m) db n rs x"
  unfolding reads_def
proof (intro allI impI, elim conjE)
  fix s t assume u: "usable s" "contents s = db" "result t n rs"
  then obtain s1 where "m s = Some (s1, Inr x)" "usable s1" "contents s1 = db"
    using assms unfolding finds_def by blast
  with u show "\<exists>s' t'. on_session m (s, t) = Some ((s', t'), Inr x) \<and> usable s' \<and> contents s' = db \<and> result t' n rs"
    by (auto simp: on_session_def)
qed

text \<open>Columns: the cell \<open>c\<close> of the row is what the conversion is applied to.\<close>

lemma reads_field:
  "i < n \<Longrightarrow> j < length (rs ! i) \<Longrightarrow> reads (row_field i j) db n rs (cell_field j (rs ! i ! j))"
  unfolding reads_def using field by blast

lemma reads_column:
  assumes "i < n" "j < length (rs ! i)"
    and "\<And>v. rs ! i ! j = Some v \<Longrightarrow> x \<noteq> None \<and> conv \<lparr>fvalue = v, flen = length v, findex = j\<rparr> = Inr (the x)"
    and "rs ! i ! j = None \<Longrightarrow> x = None"
  shows "reads (get_column conv i j) db n rs x"
proof -
  have "reads (case cell_field j (rs ! i ! j) of
      None \<Rightarrow> got None | Some f \<Rightarrow> get_then (ends (pure_result (conv f))) (\<lambda>x. got (Some x))) db n rs x"
  proof (cases "rs ! i ! j")
    case None
    then show ?thesis using assms(4) by (auto simp: cell_field_def intro: reads_got)
  next
    case (Some v)
    then obtain y where y: "x = Some y" "conv \<lparr>fvalue = v, flen = length v, findex = j\<rparr> = Inr y"
      using assms(3) by auto
    show ?thesis
      unfolding cell_field_def Some
      by (simp, rule reads_then, rule reads_pure, rule y(2), rule reads_got) (simp add: y(1))
  qed
  then show ?thesis
    unfolding get_column_def by (rule reads_then [OF reads_field [OF assms(1,2)]])
qed

lemma reads_string: "i < n \<Longrightarrow> j < length (rs ! i) \<Longrightarrow> reads (get_string i j) db n rs (rs ! i ! j)"
  unfolding get_string_def
  by (rule reads_column) (auto simp: preludedb_sql_field_get_len_def preludedb_sql_field_get_value_def)

lemma reads_uint32:
  assumes "i < n" "j < length (rs ! i)" "rs ! i ! j = map_option dec_nat x" "uint_ok 32 x"
  shows "reads (get_uint32 i j) db n rs x"
  unfolding get_uint32_def
proof (rule reads_column [OF assms(1,2)])
  fix v assume "rs ! i ! j = Some v"
  then obtain m where m: "x = Some m" "v = dec_nat m" using assms(3) by auto
  then have "int m \<le> 2 ^ 32 - 1" using assms(4) m(1) by (simp add: uint_ok_def)
  then have "field_to_unsigned 32 (dec_int (int m)) = Inr (int m)" by (subst field_to_unsigned_dec_int) auto
  then show "x \<noteq> None \<and> map_sum id nat (preludedb_sql_field_to_uint32 \<lparr>fvalue = v, flen = length v, findex = j\<rparr>) = Inr (the x)"
    using m by (simp add: preludedb_sql_field_to_uint32_def)
qed (use assms in simp)

lemma reads_enum:
  assumes "i < n" "j < length (rs ! i)" "rs ! i ! j = enum_to_string codec enum v" "enum_ok storable codec enum v"
  shows "reads (get_enum codec enum i j) db n rs v"
proof -
  have "reads (get_optional_enum_column codec enum i j) db n rs (Some v)"
    unfolding get_optional_enum_column_def
    using assms by (intro reads_column) (auto simp: enum_ok_def preludedb_sql_field_get_value_def storable_text split: option.splits)
  then show ?thesis unfolding get_enum_def by (rule reads_then) (simp add: reads_got)
qed

section \<open>Results\<close>

text \<open>\<open>scans m db rs x\<close>: from the start of a result with the rows \<open>rs\<close>, \<open>m\<close> returns \<open>x\<close>.\<close>

definition scans :: "(('w, 'd) reading, 'a) get_call \<Rightarrow> tables \<Rightarrow> cell list list \<Rightarrow> 'a \<Rightarrow> bool" where
  "scans m db rs x \<longleftrightarrow> (\<forall>s t. usable s \<and> contents s = db \<and> result t 0 rs \<longrightarrow>
     (\<exists>s' t'. m (s, t) = Some ((s', t'), Inr x) \<and> usable s' \<and> contents s' = db))"

lemma fetch_row_reads:
  assumes "usable s" "result t n rs"
  shows "\<exists>t'. fetch_row (s, t) = ((s, t'), Inr (if n < length rs then Some n else None)) \<and>
    result t' (if n < length rs then Suc n else n) rs"
  using fetch [OF assms] by (auto simp: fetch_row_def)

lemma fetch_until_reads:
  assumes body: "\<And>i. i < length rs \<Longrightarrow> reads (body i) db (Suc i) rs (xs ! i, True)" and len: "length xs = length rs"
  shows "usable s \<Longrightarrow> contents s = db \<Longrightarrow> result t n rs \<Longrightarrow> n \<le> length rs \<Longrightarrow>
    \<exists>s' t'. fetch_until body (take n xs) (s, t) = Some ((s', t'), Inr xs) \<and> usable s' \<and> contents s' = db"
proof (induction "length rs - n" arbitrary: n s t)
  case 0
  then have "n = length rs" by simp
  then show ?case
    using fetch_row_reads [OF 0(2,4)] 0 len by (subst fetch_until.simps) auto
next
  case (Suc k)
  then have n: "n < length rs" by simp
  obtain t1 where t1: "fetch_row (s, t) = ((s, t1), Inr (Some n))" "result t1 (Suc n) rs"
    using fetch_row_reads [OF Suc(3,5)] n by auto
  obtain s2 t2 where b: "body n (s, t1) = Some ((s2, t2), Inr (xs ! n, True))" "usable s2" "contents s2 = db"
    "result t2 (Suc n) rs"
    using body [OF n] Suc(3,4) t1(2) unfolding reads_def by blast
  obtain s' t' where "fetch_until body (take (Suc n) xs) (s2, t2) = Some ((s', t'), Inr xs)" "usable s'"
    "contents s' = db"
  proof -
    have "k = length rs - Suc n" using Suc(2) by simp
    from Suc(1) [OF this b(2,3,4)] n that show ?thesis by auto
  qed
  then show ?case
    using t1(1) b(1) n len by (subst fetch_until.simps) (auto simp: take_Suc_conv_app_nth)
qed

lemma scans_until:
  assumes "\<And>i. i < length rs \<Longrightarrow> reads (body i) db (Suc i) rs (xs ! i, True)" "length xs = length rs"
  shows "scans (fetch_until body []) db rs xs"
  unfolding scans_def using fetch_until_reads [OF assms, of _ _ 0] by simp

lemma scans_rows:
  assumes "\<And>i. i < length rs \<Longrightarrow> reads (body i) db (Suc i) rs (xs ! i)" "length xs = length rs"
  shows "scans (fetch_rows body) db rs xs"
  unfolding fetch_rows_def
  by (rule scans_until) (rule reads_then, erule assms(1), rule reads_got, simp_all add: assms(2))

lemma scans_one:
  assumes "rs = [] \<Longrightarrow> x = None"
    and "rs \<noteq> [] \<Longrightarrow> \<exists>y. x = Some y \<and> reads (body 0) db 1 rs y"
  shows "scans (fetch_one body) db rs x"
  unfolding scans_def
proof (intro allI impI, elim conjE)
  fix s t assume u: "usable s" "contents s = db" "result t 0 rs"
  show "\<exists>s' t'. fetch_one body (s, t) = Some ((s', t'), Inr x) \<and> usable s' \<and> contents s' = db"
  proof (cases rs)
    case Nil
    then show ?thesis
      using fetch_row_reads [OF u(1,3)] assms(1) u by (auto simp: fetch_one_def get_then_def give_def)
  next
    case (Cons r rest)
    then obtain t1 where t1: "fetch_row (s, t) = ((s, t1), Inr (Some 0))" "result t1 1 rs"
      using fetch_row_reads [OF u(1,3)] by auto
    obtain y where y: "x = Some y" "reads (body 0) db 1 rs y" using assms(2) Cons by blast
    then obtain s2 t2 where "body 0 (s, t1) = Some ((s2, t2), Inr y)" "usable s2" "contents s2 = db"
      using u t1(2) unfolding reads_def by blast
    then show ?thesis using t1 y by (auto simp: fetch_one_def get_then_def give_def)
  qed
qed

lemma scans_then:
  assumes "scans m db rs x" "f x = on_session g" "finds g db y"
  shows "scans (get_then m f) db rs y"
  unfolding scans_def
proof (intro allI impI, elim conjE)
  fix s t assume u: "usable s" "contents s = db" "result t 0 rs"
  then obtain s1 t1 where 1: "m (s, t) = Some ((s1, t1), Inr x)" "usable s1" "contents s1 = db"
    using assms(1) unfolding scans_def by blast
  then obtain s2 where "g s1 = Some (s2, Inr y)" "usable s2" "contents s2 = db"
    using assms(3) unfolding finds_def by blast
  with 1 assms(2) show "\<exists>s' t'. get_then m f (s, t) = Some ((s', t'), Inr y) \<and> usable s' \<and> contents s' = db"
    by (auto simp: on_session_def)
qed

lemma scans_then_got:
  assumes "scans m db rs x" "f x = got y"
  shows "scans (get_then m f) db rs y"
  unfolding scans_def
proof (intro allI impI, elim conjE)
  fix s t assume u: "usable s" "contents s = db" "result t 0 rs"
  then obtain s1 t1 where "m (s, t) = Some ((s1, t1), Inr x)" "usable s1" "contents s1 = db"
    using assms(1) unfolding scans_def by blast
  then show "\<exists>s' t'. get_then m f (s, t) = Some ((s', t'), Inr y) \<and> usable s' \<and> contents s' = db"
    using assms(2) by (auto simp: give_def)
qed

text \<open>A query and what is done with its result.\<close>

lemma finds_table:
  assumes "plain_columns D" "plain_name T" "plain_conditions lit conds"
    and "has_columns T (columns_in D @ map fst conds @ order_keys ordered)"
    and "ordered \<longrightarrow> (\<forall>r \<in> set (db T). matches lit conds r \<longrightarrow> indexed r)"
    and "selected lit db D T conds ordered = rs" "length rs < 2 ^ 32 - 1" "scans body db rs x"
    and "q = query_text D T conds ordered"
  shows "finds (with_table q none body) db x"
  unfolding finds_def
proof (intro allI impI, elim conjE)
  fix s assume u: "usable s" "contents s = db"
  then obtain s1 t where 1: "preludedb_sql_query_sprintf s q True = (s1, Inr (Some t))" "usable s1"
    "contents s1 = db" "result t 0 rs"
    using select [OF u(1) assms(1-4)] assms(5,6,7,9) u(2) by auto
  then obtain s2 t2 where "body (s1, t) = Some ((s2, t2), Inr x)" "usable s2" "contents s2 = db"
    using assms(8) unfolding scans_def by blast
  with 1 show "\<exists>s'. with_table q none body s = Some (s', Inr x) \<and> usable s' \<and> contents s' = db"
    using released [of s2] by (auto simp: with_table_def)
qed

end

end
