(* ===== verification/Round_Trip.thy ===== *)
theory Round_Trip
  imports Message_Store
begin

text \<open>
  What inserting the parts of a message puts into the tables, and that retrieval makes the
  same parts of it. For every class: its rows, when it can be stored without loss, and two
  lemmas inside \<open>message_store\<close>, one for its insertion and one for its retrieval.
\<close>

section \<open>The rows of a message\<close>

text \<open>The columns that say whose row it is.\<close>

definition child_of :: "char \<Rightarrow> nat \<Rightarrow> int \<Rightarrow> stored_row" where
  "child_of pt m i = [(''_parent_type'', Some [pt]), (''_message_ident'', Some (dec_nat m)),
     (''_parent0_index'', Some (dec_int i))]"

abbreviation own_conditions :: "char \<Rightarrow> nat \<Rightarrow> (string \<times> string) list" where
  "own_conditions pt m \<equiv> [(''_parent_type'', char_literal pt), (''_message_ident'', dec_nat m)]"

abbreviation child_conditions :: "char \<Rightarrow> nat \<Rightarrow> nat \<Rightarrow> (string \<times> string) list" where
  "child_conditions pt m i \<equiv> [(''_parent_type'', char_literal pt), (''_message_ident'', dec_nat m),
     (''_parent0_index'', dec_nat i)]"

definition own_keys :: "bool \<Rightarrow> string list" where
  "own_keys ordered = [''_parent_type'', ''_message_ident''] @ order_keys ordered"

definition child_keys :: "bool \<Rightarrow> string list" where
  "child_keys ordered = [''_parent_type'', ''_message_ident'', ''_parent0_index''] @ order_keys ordered"

text \<open>
  \<open>owns db pt m rs\<close>: the rows of the message \<open>m\<close> with the parent type \<open>pt\<close> are \<open>rs\<close>. \<open>children\<close>
  are those of the parent with the number \<open>i\<close>.
\<close>

definition owns :: "tables \<Rightarrow> char \<Rightarrow> nat \<Rightarrow> (string \<times> stored_row) list \<Rightarrow> bool" where
  "owns db pt m rs \<longleftrightarrow> (\<forall>T. filter (\<lambda>r. cell_at r ''_parent_type'' = Some [pt] \<and>
     cell_at r ''_message_ident'' = Some (dec_nat m)) (db T) = rows_of T rs)"

definition children :: "nat \<Rightarrow> stored_row list \<Rightarrow> stored_row list" where
  "children i rs = filter (\<lambda>r. cell_at r ''_parent0_index'' = Some (dec_nat i)) rs"

text \<open>Elements of a list, in the order of their index and without the copy at -1.\<close>

lemma index_order_append:
  "\<forall>r \<in> set b. row_index r = -1 \<Longrightarrow> index_order (a @ b) = index_order a"
  by (simp add: index_order_def)

lemma row_index_int: "cell_at r ''_index'' = Some (dec_int k) \<Longrightarrow> row_index r = k"
  by (simp add: row_index_def)

lemma rows_from_indexes:
  assumes f: "\<And>k x. rows_of T (f k x) = [r k x]" and ix: "\<And>k x. cell_at (r k x) ''_index'' = Some (dec_int k)"
  shows "rows_of T (rows_from f i xs) = map (\<lambda>k. r (i + int k) (xs ! k)) [0..<length xs]"
proof (induction xs arbitrary: i)
  case (Cons x xs)
  have "rows_of T (rows_from f (i + 1) xs) = map (\<lambda>k. r (i + int k) ((x # xs) ! k)) [1..<length (x # xs)]"
    by (simp add: Cons map_Suc_upt [symmetric] del: upt_Suc) (simp add: algebra_simps)
  moreover have "[0..<length (x # xs)] = 0 # [1..<length (x # xs)]" by (simp add: upt_rec)
  ultimately show ?case by (simp add: f del: upt_Suc)
qed simp

lemma index_order_from:
  assumes "\<And>k x. cell_at (r k x) ''_index'' = Some (dec_int k)"
  shows "index_order (map (\<lambda>k. r (int k) (xs ! k)) [0..<n]) = map (\<lambda>k. r (int k) (xs ! k)) [0..<n]"
proof -
  have ix: "row_index (r k x) = k" for k x using assms by (simp add: row_index_int)
  have "filter (\<lambda>r. row_index r \<noteq> -1) (map (\<lambda>k. r (int k) (xs ! k)) [0..<n]) =
      map (\<lambda>k. r (int k) (xs ! k)) [0..<n]"
    using ix by (intro filter_True) auto
  moreover have "sorted (map row_index (map (\<lambda>k. r (int k) (xs ! k)) [0..<n]))"
    by (simp add: ix comp_def sorted_iff_nth_mono)
  ultimately show ?thesis unfolding index_order_def using sort_key_id_if_sorted by metis
qed

lemma index_order_listed:
  assumes f: "\<And>k x. rows_of T (f k x) = [r k x]" and ix: "\<And>k x. cell_at (r k x) ''_index'' = Some (dec_int k)"
  shows "index_order (rows_of T (rows_from f 0 xs)) = map (\<lambda>k. r (int k) (xs ! k)) [0..<length xs]"
    and "index_order (rows_of T (rows_listed f xs)) = map (\<lambda>k. r (int k) (xs ! k)) [0..<length xs]"
  using rows_from_indexes [where f = f and T = T and r = r and i = 0 and xs = xs, OF f ix]
    index_order_from [where r = r, OF ix]
  by (auto simp: rows_listed_def f index_order_append row_index_int [OF ix])

lemma indexed_listed:
  assumes f: "\<And>k x. rows_of T (f k x) = [r k x]" and ix: "\<And>k x. cell_at (r k x) ''_index'' = Some (dec_int k)"
  shows "\<forall>p \<in> set (rows_of T (rows_from f i xs)). indexed p"
    and "\<forall>p \<in> set (rows_of T (rows_listed f xs)). indexed p"
proof -
  have "indexed (r k x)" for k x by (simp add: indexed_def ix row_index_int [OF ix])
  then have ix0: "\<forall>p \<in> set (rows_of T (rows_from f i xs)). indexed p" for i
    by (auto simp: rows_from_indexes [where f = f and T = T and r = r, OF f ix])
  then show "\<forall>p \<in> set (rows_of T (rows_from f i xs)). indexed p" .
  show "\<forall>p \<in> set (rows_of T (rows_listed f xs)). indexed p"
    using ix0 \<open>\<And>x k. indexed (r k x)\<close> by (simp add: rows_listed_def f)
qed

text \<open>The rows below one of the elements of a list.\<close>

lemma children_simps [simp]:
  "children i [] = []" "children i (a @ b) = children i a @ children i b"
  by (simp_all add: children_def)

lemma children_from:
  assumes f: "\<And>k x. children i (rows_of T (f k x)) = (if k = int i then rows_of T (f k x) else [])"
  shows "children i (rows_of T (rows_from f j xs)) =
    (if j \<le> int i \<and> int i < j + int (length xs) then rows_of T (f (int i) (xs ! nat (int i - j))) else [])"
proof (induction xs arbitrary: j)
  case (Cons x xs)
  show ?case
  proof (cases "j = int i")
    case False
    have "nat (int i - j) = Suc (nat (int i - (j + 1)))" if "j \<le> int i" using that False by linarith
    then show ?thesis using False by (auto simp: f Cons)
  qed (simp add: f Cons)
qed auto

lemma children_listed:
  assumes f: "\<And>k x. children i (rows_of T (f k x)) = (if k = int i then rows_of T (f k x) else [])"
    and "i < length xs"
  shows "children i (rows_of T (rows_listed f xs)) = rows_of T (f (int i) (xs ! i))"
  using assms(2) by (simp add: rows_listed_def f children_from [where f = f and T = T, OF f])

lemma children_own:
  assumes "\<forall>r \<in> set rs. cell_at r ''_parent0_index'' = Some (dec_int k)"
  shows "children i rs = (if k = int i then rs else [])"
proof -
  have "dec_int k = dec_nat i \<longleftrightarrow> k = int i" using dec_int_inj [of k "int i"] by simp
  then show ?thesis using assms by (auto simp: children_def filter_empty_conv intro!: filter_True)
qed

lemma rows_of_from_none: "(\<And>k x. rows_of T (f k x) = []) \<Longrightarrow> rows_of T (rows_from f i xs) = []"
  by (induction xs arbitrary: i) simp_all

lemma in_rows_from: "p \<in> set (rows_from f i xs) \<Longrightarrow> \<exists>k x. p \<in> set (f k x)"
  by (induction xs arbitrary: i) auto

lemma rows_of_listed_none: "(\<And>k x. rows_of T (f k x) = []) \<Longrightarrow> rows_of T (rows_listed f xs) = []"
  by (simp add: rows_listed_def rows_of_from_none)

text \<open>A class whose objects are one row each.\<close>

definition single :: "string \<Rightarrow> (int \<Rightarrow> 'x \<Rightarrow> stored_row) \<Rightarrow> int \<Rightarrow> 'x \<Rightarrow> (string \<times> stored_row) list" where
  "single T g k x = [(T, g k x)]"

lemma rows_of_single [simp]: "rows_of U (single T g k x) = (if T = U then [g k x] else [])"
  by (simp add: single_def)

section \<open>Queries on a store\<close>

context message_store
begin

lemma own_conditions_plain:
  assumes "isalpha pt"
  shows "plain_conditions lit (own_conditions pt m)" "plain_conditions lit (child_conditions pt m i)"
proof -
  have n: "plain_name ''_parent_type''" "plain_name ''_message_ident''" "plain_name ''_parent0_index''" by code_simp+
  have d: "CHR '' '' \<notin> set (dec_nat k)" for k using dec_nat_digits [of k] by (auto simp: isdigit_def)
  have c: "CHR '' '' \<notin> set (char_literal pt)" using assms by (auto simp: char_literal_def isalpha_def)
  show "plain_conditions lit (own_conditions pt m)" "plain_conditions lit (child_conditions pt m i)"
    using n d c assms by (simp_all add: plain_conditions_def lit_nat lit_char)
qed

lemma matches_own:
  "isalpha pt \<Longrightarrow> matches lit (own_conditions pt m) = (\<lambda>r. cell_at r ''_parent_type'' = Some [pt] \<and>
     cell_at r ''_message_ident'' = Some (dec_nat m))"
  by (auto simp: matches_def lit_nat lit_char fun_eq_iff)

lemma matches_child:
  "isalpha pt \<Longrightarrow> matches lit (child_conditions pt m i) = (\<lambda>r. matches lit (own_conditions pt m) r \<and>
     cell_at r ''_parent0_index'' = Some (dec_nat i))"
  by (auto simp: matches_def lit_nat fun_eq_iff)

lemma finds_own:
  assumes "select_shape (own_keys ordered) D T cols" "owns db pt m rs" "isalpha pt"
    and "q = query_text D T (own_conditions pt m) ordered"
    and "ordered \<longrightarrow> (\<forall>r \<in> set (rows_of T rs). indexed r)"
    and "(if ordered then index_order else id) (rows_of T rs) = found" "length found < 2 ^ 32 - 1"
    and "scans body db (map (\<lambda>r. map (cell_at r) cols) found) x"
  shows "finds (with_table q none body) db x"
proof -
  have "filter (matches lit (own_conditions pt m)) (db T) = rows_of T rs"
    using assms(2) by (simp only: matches_own [OF assms(3)] owns_def)
  then show ?thesis
    using assms own_conditions_plain [OF assms(3)] set_filter [of "matches lit (own_conditions pt m)" "db T"]
    by (intro finds_table [where D = D and T = T and ordered = ordered, OF _ _ _ _ _ _ _ assms(8) assms(4)])
      (auto simp add: select_shape_def selected_def own_keys_def has_columns_def)
qed

lemma finds_children:
  assumes "select_shape (child_keys ordered) D T cols" "owns db pt m rs" "isalpha pt"
    and "q = query_text D T (child_conditions pt m i) ordered"
    and "ordered \<longrightarrow> (\<forall>r \<in> set (children i (rows_of T rs)). indexed r)"
    and "(if ordered then index_order else id) (children i (rows_of T rs)) = found" "length found < 2 ^ 32 - 1"
    and "scans body db (map (\<lambda>r. map (cell_at r) cols) found) x"
  shows "finds (with_table q none body) db x"
proof -
  have "filter (matches lit (child_conditions pt m i)) (db T) =
      children i (filter (matches lit (own_conditions pt m)) (db T))"
    by (simp only: matches_child [OF assms(3)] children_def filter_filter)
  also have "... = children i (rows_of T rs)"
    using assms(2) by (simp only: matches_own [OF assms(3)] owns_def)
  finally show ?thesis
    using assms own_conditions_plain [OF assms(3)] set_filter [of "matches lit (child_conditions pt m i)" "db T"]
    by (intro finds_table [where D = D and T = T and ordered = ordered, OF _ _ _ _ _ _ _ assms(8) assms(4)])
      (auto simp add: select_shape_def selected_def child_keys_def has_columns_def)
qed

text \<open>A list of objects, and an object that may be missing.\<close>

lemma scans_list:
  assumes "\<And>k n rs. k < n \<Longrightarrow> k < length xs \<Longrightarrow> rs ! k = map (cell_at (g (int k) (xs ! k))) cols \<Longrightarrow>
    reads (body k) db n rs (xs ! k)"
  shows "scans (fetch_rows body) db
    (map (\<lambda>r. map (cell_at r) cols) (map (\<lambda>k. g (int k) (xs ! k)) [0..<length xs])) xs"
  by (rule scans_rows, rule assms) simp_all

lemma finds_list:
  assumes "select_shape (child_keys True) D T cols" "owns db pt m rs" "isalpha pt"
    and "q = query_text D T (child_conditions pt m i) True"
    and "children i (rows_of T rs) = rows_of T (rows_listed (single T g) xs) \<or>
      children i (rows_of T rs) = rows_of T (rows_from (single T g) 0 xs)"
    and "\<And>k x. cell_at (g k x) ''_index'' = Some (dec_int k)" "length xs < 2 ^ 31"
    and "scans body db (map (\<lambda>r. map (cell_at r) cols) (map (\<lambda>k. g (int k) (xs ! k)) [0..<length xs])) y"
  shows "finds (with_table q none body) db y"
proof (rule finds_children [OF assms(1-4) _ _ _ assms(8)])
  show "True \<longrightarrow> (\<forall>r \<in> set (children i (rows_of T rs)). indexed r)"
    using assms(5) indexed_listed [where f = "single T g" and T = T and r = g] assms(6) by (metis rows_of_single)
  show "(if True then index_order else id) (children i (rows_of T rs)) = map (\<lambda>k. g (int k) (xs ! k)) [0..<length xs]"
    using assms(5) index_order_listed [where f = "single T g" and T = T and r = g and xs = xs] assms(6) by auto
qed (use assms(7) in simp)

lemma finds_list_own:
  assumes "select_shape (own_keys True) D T cols" "owns db pt m rs" "isalpha pt"
    and "q = query_text D T (own_conditions pt m) True"
    and "rows_of T rs = rows_of T (rows_listed f xs)" "\<And>k x. rows_of T (f k x) = [g k x]"
    and "\<And>k x. cell_at (g k x) ''_index'' = Some (dec_int k)" "length xs < 2 ^ 31"
    and "scans body db (map (\<lambda>r. map (cell_at r) cols) (map (\<lambda>k. g (int k) (xs ! k)) [0..<length xs])) y"
  shows "finds (with_table q none body) db y"
proof (rule finds_own [OF assms(1-4) _ _ _ assms(9)])
  show "True \<longrightarrow> (\<forall>r \<in> set (rows_of T rs). indexed r)"
    using assms(5) indexed_listed(2) [where f = f and T = T and r = g, OF assms(6,7)] by simp
  show "(if True then index_order else id) (rows_of T rs) = map (\<lambda>k. g (int k) (xs ! k)) [0..<length xs]"
    using assms(5) index_order_listed(2) [where f = f and T = T and r = g and xs = xs, OF assms(6,7)] by simp
qed (use assms(8) in simp)

lemma scans_optional:
  assumes "\<And>x n rs. 0 < n \<Longrightarrow> v = Some x \<Longrightarrow> rs ! 0 = map (cell_at (g x)) cols \<Longrightarrow> reads (body 0) db n rs x"
  shows "scans (fetch_one body) db (map (\<lambda>r. map (cell_at r) cols) (case v of None \<Rightarrow> [] | Some x \<Rightarrow> [g x])) v"
proof (rule scans_one)
  assume "map (\<lambda>r. map (cell_at r) cols) (case v of None \<Rightarrow> [] | Some x \<Rightarrow> [g x]) \<noteq> []"
  then obtain x where x: "v = Some x" by (cases v) auto
  then show "\<exists>y. v = Some y \<and> reads (body 0) db 1
      (map (\<lambda>r. map (cell_at r) cols) (case v of None \<Rightarrow> [] | Some x \<Rightarrow> [g x])) y"
    using assms [of 1 x] by simp
qed (cases v; simp)

lemma finds_optional:
  assumes "select_shape (child_keys False) D T cols" "owns db pt m rs" "isalpha pt"
    and "q = query_text D T (child_conditions pt m i) False"
    and "children i (rows_of T rs) = (case v of None \<Rightarrow> [] | Some x \<Rightarrow> [g x])"
    and "\<And>x n rs. 0 < n \<Longrightarrow> v = Some x \<Longrightarrow> rs ! 0 = map (cell_at (g x)) cols \<Longrightarrow> reads (body 0) db n rs x"
  shows "finds (with_table q none (fetch_one body)) db v"
  by (rule finds_children [OF assms(1-4) _ _ _ scans_optional [where g = g and cols = cols]])
    (use assms(5,6) in \<open>simp_all split: option.splits\<close>)

end

section \<open>Addresses and nodes\<close>

definition address_cells :: "idmef_codec \<Rightarrow> char \<Rightarrow> nat \<Rightarrow> int \<Rightarrow> int \<Rightarrow> idmef_address \<Rightarrow> stored_row" where
  "address_cells codec pt m i j x = child_of pt m i @ [(''_index'', Some (dec_int j)),
     (''ident'', address_ident x), (''category'', enum_to_string codec ADDRESS_CATEGORY (address_category x)),
     (''vlan_name'', address_vlan_name x), (''vlan_num'', map_option dec_int (address_vlan_num x)),
     (''address'', address_address x), (''netmask'', address_netmask x)]"

definition vlan_ok :: "int option \<Rightarrow> bool" where
  "vlan_ok v \<longleftrightarrow> (case v of None \<Rightarrow> True | Some n \<Rightarrow> 0 \<le> n \<and> n < 2 ^ 31)"

definition address_ok :: "(string \<Rightarrow> bool) \<Rightarrow> idmef_codec \<Rightarrow> idmef_address \<Rightarrow> bool" where
  "address_ok ok codec x \<longleftrightarrow> text_ok ok (address_ident x) \<and> enum_ok ok codec ADDRESS_CATEGORY (address_category x) \<and>
     text_ok ok (address_vlan_name x) \<and> text_ok ok (address_address x) \<and> text_ok ok (address_netmask x) \<and>
     vlan_ok (address_vlan_num x) \<and> address_address x \<noteq> None"

definition node_cells :: "idmef_codec \<Rightarrow> char \<Rightarrow> nat \<Rightarrow> int \<Rightarrow> idmef_node \<Rightarrow> stored_row" where
  "node_cells codec pt m i x = child_of pt m i @ [(''ident'', node_ident x),
     (''category'', enum_to_string codec NODE_CATEGORY (node_category x)), (''location'', node_location x),
     (''name'', node_name x)]"

definition node_rows :: "idmef_codec \<Rightarrow> char \<Rightarrow> nat \<Rightarrow> int \<Rightarrow> idmef_node \<Rightarrow> (string \<times> stored_row) list" where
  "node_rows codec pt m i x = (''Prelude_Node'', node_cells codec pt m i x) #
     rows_listed (single ''Prelude_Address'' (address_cells codec pt m i)) (node_addresses x)"

definition node_ok :: "(string \<Rightarrow> bool) \<Rightarrow> idmef_codec \<Rightarrow> idmef_node \<Rightarrow> bool" where
  "node_ok ok codec x \<longleftrightarrow> text_ok ok (node_ident x) \<and> enum_ok ok codec NODE_CATEGORY (node_category x) \<and>
     text_ok ok (node_location x) \<and> text_ok ok (node_name x) \<and>
     (\<forall>a \<in> set (node_addresses x). address_ok ok codec a) \<and> length (node_addresses x) < 2 ^ 31"

lemma vlan_ok_number:
  assumes "vlan_ok v"
  shows "map_option dec_int v = map_option dec_nat (map_option nat v)" "uint_ok 32 (map_option nat v)"
    "map_option as_int32 (map_option nat v) = v"
proof -
  show "map_option dec_int v = map_option dec_nat (map_option nat v)"
    using assms by (cases v) (simp_all add: vlan_ok_def dec_int_def)
  show "uint_ok 32 (map_option nat v)"
    using assms by (cases v) (simp_all add: vlan_ok_def uint_ok_def nat_less_iff)
  show "map_option as_int32 (map_option nat v) = v"
    using assms by (cases v) (simp_all add: vlan_ok_def as_int32_def nat_less_iff)
qed

text \<open>The rows of nodes at other positions, and of other kinds.\<close>

lemma children_node:
  "children i (rows_of T (node_rows codec pt m k x)) = (if k = int i then rows_of T (node_rows codec pt m k x) else [])"
  by (rule children_own)
    (auto simp: node_rows_def node_cells_def address_cells_def child_of_def cell_at_def rows_of_def rows_listed_def
      single_def dest: in_rows_from)

context message_store
begin

lemma lit_optional_int32: "vlan_ok x \<Longrightarrow> lit (get_optional_int32 16 x) = Some (map_option dec_int x)"
  by (cases x) (simp_all add: vlan_ok_def get_optional_int32_def dec_int_printed lit_int lit_null,
      simp add: snprintf_buf_def lit_null)

lemmas stored = lit_nat lit_int lit_char lit_optional_uint

lemma adds_address:
  assumes "address_ok storable codec x" "isalpha pt"
  shows "adds (insert_address codec pt m i j x) (single ''Prelude_Address'' (address_cells codec pt m i) j x)"
proof -
  note ok = assms [unfolded address_ok_def]
  show ?thesis
    unfolding insert_address_def single_def address_cells_def child_of_def append.simps
    by ((rule adds_escape, use ok in \<open>simp add: enum_ok_text\<close>)+, rule adds_insert)
      (simp only: list.map fst_conv, code_simp, use ok in \<open>simp add: stored lit_optional_int32\<close>)
qed

lemma adds_node:
  assumes "node_ok storable codec x" "isalpha pt"
  shows "adds (insert_node codec pt m i x) (node_rows codec pt m i x)"
proof -
  note ok = assms [unfolded node_ok_def]
  show ?thesis
    unfolding insert_node_def node_rows_def node_cells_def child_of_def append.simps
    by ((rule adds_escape adds_or_error_escape, use ok in \<open>simp add: enum_ok_text\<close>)+, rule adds_insert_then)
      (simp only: list.map fst_conv, code_simp, use ok in \<open>simp add: stored\<close>,
        use ok in \<open>auto intro: adds_listed adds_address\<close>)
qed

lemma reads_address:
  assumes ok: "address_ok storable codec x" and i: "i < n"
    and row: "rs ! i = [address_ident x, enum_to_string codec ADDRESS_CATEGORY (address_category x),
      address_vlan_name x, map_option dec_int (address_vlan_num x), address_address x, address_netmask x]"
  shows "reads (address_row codec i) db n rs x"
proof -
  have e: "enum_ok storable codec ADDRESS_CATEGORY (address_category x)" and v: "vlan_ok (address_vlan_num x)"
    using ok by (simp_all add: address_ok_def)
  note num = vlan_ok_number [OF v]
  have s: "j < 6 \<Longrightarrow> reads (get_string i j) db n rs (rs ! i ! j)" for j
    by (rule reads_string) (simp_all add: i row)
  have c: "reads (get_enum codec ADDRESS_CATEGORY i 1) db n rs (address_category x)"
    by (rule reads_enum) (simp_all add: i row e)
  have u: "reads (get_uint32 i 3) db n rs (map_option nat (address_vlan_num x))"
    by (rule reads_uint32) (simp_all add: i row num)
  show ?thesis
    unfolding address_row_def
    by (rule reads_then, rule s, simp, rule reads_then, rule c, rule reads_then, rule s, simp, rule reads_then, rule u,
        rule reads_then, rule s, simp, rule reads_then, rule s, simp, rule reads_got) (simp add: row num(3))
qed

lemma finds_address:
  assumes "owns db pt m rs" "isalpha pt" "\<forall>x \<in> set xs. address_ok storable codec x" "length xs < 2 ^ 31"
    and "children i (rows_of ''Prelude_Address'' rs) =
      rows_of ''Prelude_Address'' (rows_listed (single ''Prelude_Address'' (address_cells codec pt m (int i))) xs)"
  shows "finds (get_address codec m pt i) db xs"
  unfolding get_address_def
  by (rule finds_list [where D = "''ident, category, vlan_name, vlan_num, address, netmask''" and
        cols = "[''ident'', ''category'', ''vlan_name'', ''vlan_num'', ''address'', ''netmask'']" and
        T = "''Prelude_Address''" and i = i, OF _ assms(1,2)],
      code_simp, simp add: query_text_def, rule disjI1, rule assms(5),
      simp add: address_cells_def child_of_def cell_at_def, rule assms(4), rule scans_list, rule reads_address)
    (use assms(3) in \<open>simp_all add: address_cells_def child_of_def cell_at_def\<close>)

lemma finds_node:
  assumes "owns db pt m rs" "isalpha pt" "\<And>x. v = Some x \<Longrightarrow> node_ok storable codec x"
    and "\<And>T. T \<in> {''Prelude_Node'', ''Prelude_Address''} \<Longrightarrow>
      children i (rows_of T rs) = rows_of T (rows_optional (node_rows codec pt m (int i)) v)"
  shows "finds (get_node codec m pt i) db v"
  unfolding get_node_def
proof (rule finds_optional [where D = "''ident, category, location, name''" and T = "''Prelude_Node''" and i = i and
      g = "node_cells codec pt m (int i)" and cols = "[''ident'', ''category'', ''location'', ''name'']", OF _ assms(1,2)])
  show "select_shape (child_keys False) ''ident, category, location, name'' ''Prelude_Node'' [''ident'', ''category'', ''location'', ''name'']"
    by code_simp
  show "children i (rows_of ''Prelude_Node'' rs) = (case v of None \<Rightarrow> [] | Some x \<Rightarrow> [node_cells codec pt m (int i) x])"
    using assms(4) [of "''Prelude_Node''"] by (cases v) (simp_all add: rows_optional_def node_rows_def rows_of_listed_none)
next
  fix x and n :: nat and rs' assume n: "0 < n" and v: "v = Some x"
    and row: "rs' ! 0 = map (cell_at (node_cells codec pt m (int i) x)) [''ident'', ''category'', ''location'', ''name'']"
  note ok = assms(3) [OF v, unfolded node_ok_def]
  have row: "rs' ! 0 = [node_ident x, enum_to_string codec NODE_CATEGORY (node_category x), node_location x, node_name x]"
    using row by (simp add: node_cells_def child_of_def cell_at_def)
  have s: "j < 4 \<Longrightarrow> reads (get_string 0 j) db n rs' (rs' ! 0 ! j)" for j
    by (rule reads_string) (simp_all add: n row)
  have c: "reads (get_enum codec NODE_CATEGORY 0 1) db n rs' (node_category x)"
    by (rule reads_enum) (simp_all add: n row ok)
  have a: "finds (get_address codec m pt i) db (node_addresses x)"
    using ok assms(4) [of "''Prelude_Address''"]
    by (intro finds_address [OF assms(1,2)]) (simp_all add: v rows_optional_def node_rows_def)
  show "reads (get_then (get_string 0 0) (\<lambda>nident.
      get_then (get_enum codec NODE_CATEGORY 0 1) (\<lambda>category.
      get_then (get_string 0 2) (\<lambda>location.
      get_then (get_string 0 3) (\<lambda>name.
      get_then (on_session (get_address codec m pt i)) (\<lambda>addresses.
        got \<lparr>node_ident = nident, node_category = category, node_location = location,
             node_name = name, node_addresses = addresses\<rparr>)))))) db n rs' x"
    by (rule reads_then, rule s, simp, rule reads_then, rule c, rule reads_then, rule s, simp, rule reads_then, rule s, simp,
        rule reads_then, rule reads_session, rule a, rule reads_got) (simp add: row)
qed (simp add: query_text_def)

end

end
