(* ===== verification/Owned_Rows.thy ===== *)
theory Owned_Rows
  imports Round_Trip
begin

text \<open>
  The rows of a message and the constraints of the schema: they belong to the message by
  their parent type and their ident, a new ident has none of them yet, and no two of them
  share a primary key. The lemmas \<open>fit_*\<close> follow the combinators of insertion.
\<close>

section \<open>Whose rows\<close>

definition message_of :: "char \<Rightarrow> nat \<Rightarrow> stored_row" where
  "message_of pt m = [(''_parent_type'', Some [pt]), (''_message_ident'', Some (dec_nat m))]"

lemma rows_optional_simps [simp]: "rows_optional f None = []" "rows_optional f (Some x) = f x"
  by (simp_all add: rows_optional_def)

text \<open>Rows with a parent type belong to a message that is there.\<close>

definition no_orphans :: "char \<Rightarrow> string \<Rightarrow> tables \<Rightarrow> bool" where
  "no_orphans pt M db \<longleftrightarrow> (\<forall>T. \<forall>r \<in> set (db T). cell_at r ''_parent_type'' = Some [pt] \<longrightarrow>
     (\<exists>h \<in> set (db M). cell_at h ''_ident'' = cell_at r ''_message_ident''))"

text \<open>All the parts' rows belong to the message.\<close>

definition belongs :: "char \<Rightarrow> nat \<Rightarrow> stored_row \<Rightarrow> bool" where
  "belongs pt m r \<longleftrightarrow> cell_at r ''_parent_type'' = Some [pt] \<and> cell_at r ''_message_ident'' = Some (dec_nat m)"

lemma belongs_head [simp]: "belongs pt m (child_of pt m i @ r)" "belongs pt m (message_of pt m @ r)"
  by (simp_all add: belongs_def child_of_def message_of_def cell_at_def)

lemma in_rows_listed: "p \<in> set (rows_listed f xs) \<Longrightarrow> \<exists>k x. p \<in> set (f k x)"
  by (auto simp: rows_listed_def dest: in_rows_from split: if_splits)

lemma in_rows_optional: "p \<in> set (rows_optional f v) \<Longrightarrow> \<exists>x. p \<in> set (f x)"
  by (cases v) auto

text \<open>A new ident has no rows yet, so the parts are all there is.\<close>

lemma owns_new:
  assumes "no_orphans pt M db" "\<forall>r \<in> set (db M). cell_at r ''_ident'' \<noteq> Some (dec_nat n)"
    and "\<And>p. p \<in> set rs \<Longrightarrow> belongs pt n (snd p)" "cell_at r ''_parent_type'' = None"
  shows "owns (add_rows db ((M, r) # rs)) pt n rs"
  unfolding owns_def
proof
  fix T
  let ?own = "\<lambda>r. cell_at r ''_parent_type'' = Some [pt] \<and> cell_at r ''_message_ident'' = Some (dec_nat n)"
  have "filter ?own (db T) = []"
    using assms(1,2) by (fastforce simp: filter_empty_conv no_orphans_def)
  moreover have "filter ?own (rows_of T rs) = rows_of T rs"
    using assms(3) by (intro filter_True) (auto simp: rows_of_def belongs_def)
  ultimately show "filter ?own (add_rows db ((M, r) # rs) T) = rows_of T rs"
    using assms(4) by simp
qed

section \<open>Primary keys\<close>

text \<open>Rows that the constraints allow beside each other.\<close>

definition fit :: "(string \<times> stored_row) list \<Rightarrow> bool" where
  "fit rs \<longleftrightarrow> sound (add_rows (\<lambda>T. []) rs)"

lemma fit_Nil [simp]: "fit []"
  unfolding fit_def by (rule soundI) simp

lemma fit_row: "complete (required_columns T) r \<Longrightarrow> fit [(T, r)]"
  unfolding fit_def by (rule soundI) auto

lemma rows_of_none: "T \<notin> fst ` set rs \<Longrightarrow> rows_of T rs = []"
  by (induction rs) auto

lemma fit_append:
  assumes "fit rs" "fit rs'" "fst ` set rs \<inter> fst ` set rs' = {}"
  shows "fit (rs @ rs')"
proof -
  have none: "rows_of T rs = [] \<or> rows_of T rs' = []" for T
    using assms(3) rows_of_none [of T rs] rows_of_none [of T rs'] by blast
  show ?thesis
    unfolding fit_def [of "rs @ rs'"]
  proof (rule soundI)
    fix T assume T: "T \<in> set classic_tables"
    show "distinct (map (key_of (key_columns T)) (add_rows (\<lambda>T. []) (rs @ rs') T)) \<and>
        (\<forall>r \<in> set (add_rows (\<lambda>T. []) (rs @ rs') T). complete (required_columns T) r)"
      using soundD [OF assms(1) [unfolded fit_def] T] soundD [OF assms(2) [unfolded fit_def] T] none [of T] by fastforce
  qed
qed

text \<open>\<open>placed c k p\<close>: the position \<open>k\<close> is in the column of the row's key that \<open>c\<close> names for the table.\<close>

definition placed :: "(string \<Rightarrow> string) \<Rightarrow> int \<Rightarrow> string \<times> stored_row \<Rightarrow> bool" where
  "placed c k p \<longleftrightarrow> c (fst p) \<in> set (key_columns (fst p)) \<and> cell_at (snd p) (c (fst p)) = Some (dec_int k)"

lemma key_of_column: "key_of key r = key_of key r' \<Longrightarrow> c \<in> set key \<Longrightarrow> cell_at r c = cell_at r' c"
  by (simp add: key_of_def)

lemma fit_apart:
  assumes "fit rs" "fit rs'" "\<forall>p \<in> set rs. \<exists>k \<in> K. placed c k p" "\<forall>p \<in> set rs'. \<exists>k \<in> K'. placed c k p"
    and "K \<inter> K' = {}"
  shows "fit (rs @ rs')"
  unfolding fit_def
proof (rule soundI)
  fix T assume T: "T \<in> set classic_tables"
  note d = soundD [OF assms(1) [unfolded fit_def] T] soundD [OF assms(2) [unfolded fit_def] T]
  have "key_of (key_columns T) r \<noteq> key_of (key_columns T) r'" if "r \<in> set (rows_of T rs)" "r' \<in> set (rows_of T rs')" for r r'
  proof
    assume e: "key_of (key_columns T) r = key_of (key_columns T) r'"
    have "(T, r) \<in> set rs" "(T, r') \<in> set rs'" using that by (auto simp: rows_of_def)
    then obtain k k' where k: "k \<in> K" "k' \<in> K'" "placed c k (T, r)" "placed c k' (T, r')" using assms(3,4) by blast
    then have "dec_int k = dec_int k'" using key_of_column [OF e, of "c T"] by (simp add: placed_def)
    then show False using k(1,2) assms(5) by (auto simp: dec_int_inj)
  qed
  then have "key_of (key_columns T) ` set (rows_of T rs) \<inter> key_of (key_columns T) ` set (rows_of T rs') = {}"
    by blast
  then show "distinct (map (key_of (key_columns T)) (add_rows (\<lambda>T. []) (rs @ rs') T)) \<and>
      (\<forall>r \<in> set (add_rows (\<lambda>T. []) (rs @ rs') T). complete (required_columns T) r)"
    using d by auto
qed

definition fits_at :: "(string \<Rightarrow> string) \<Rightarrow> int \<Rightarrow> (string \<times> stored_row) list \<Rightarrow> bool" where
  "fits_at c k rs \<longleftrightarrow> fit rs \<and> (\<forall>p \<in> set rs. placed c k p)"

lemma fit_from:
  assumes "\<forall>k. \<forall>x \<in> set xs. fits_at c k (f k x)"
  shows "fit (rows_from f i xs) \<and> (\<forall>p \<in> set (rows_from f i xs). \<exists>k \<in> {i..<i + int (length xs)}. placed c k p)"
  using assms
proof (induction xs arbitrary: i)
  case (Cons x xs)
  have ih: "fit (rows_from f (i + 1) xs)"
    "\<forall>p \<in> set (rows_from f (i + 1) xs). \<exists>k \<in> {i + 1..<i + 1 + int (length xs)}. placed c k p"
    using Cons.IH [of "i + 1"] Cons.prems by simp_all
  have x: "fit (f i x)" "\<forall>p \<in> set (f i x). \<exists>k \<in> {i}. placed c k p" using Cons.prems by (simp_all add: fits_at_def)
  have "fit (f i x @ rows_from f (i + 1) xs)"
    by (rule fit_apart [OF x(1) ih(1) x(2) ih(2)]) auto
  moreover have "\<exists>k \<in> {i..<i + int (length (x # xs))}. placed c k p" if "p \<in> set (rows_from f i (x # xs))" for p
  proof (cases "p \<in> set (f i x)")
    case True
    then show ?thesis using x(2) by auto
  next
    case False
    then have "p \<in> set (rows_from f (i + 1) xs)" using that by simp
    then obtain k where "k \<in> {i + 1..<i + 1 + int (length xs)}" "placed c k p" using ih(2) by blast
    then show ?thesis by (intro bexI [of _ k]) auto
  qed
  ultimately show ?case by simp
qed simp

lemma fit_listed:
  assumes "\<forall>k. \<forall>x \<in> set xs. fits_at c k (f k x)"
  shows "fit (rows_listed f xs)"
proof (cases xs)
  case (Cons y ys)
  note numbered = fit_from [where f = f and xs = xs and i = 0 and c = c, OF assms]
  have "last xs \<in> set xs" using Cons by simp
  then have last: "fit (f (-1) (last xs))" "\<forall>p \<in> set (f (-1) (last xs)). \<exists>k \<in> {-1}. placed c k p"
    using assms unfolding fits_at_def by blast+
  have "fit (rows_from f 0 xs @ f (-1) (last xs))"
    by (rule fit_apart [OF conjunct1 [OF numbered] last(1) conjunct2 [OF numbered] last(2)]) auto
  then show ?thesis using Cons by (simp add: rows_listed_def)
qed (simp add: rows_listed_def)

text \<open>A message's rows beside those of other messages.\<close>

lemma sound_add:
  assumes "sound db" "fit rs"
    and rs: "\<And>p. p \<in> set rs \<Longrightarrow> set [''_parent_type'', ''_message_ident''] \<subseteq> set (key_columns (fst p)) \<and> belongs pt n (snd p)"
    and db: "\<And>T r. r \<in> set (db T) \<Longrightarrow> \<not> belongs pt n r"
  shows "sound (add_rows db rs)"
proof (rule soundI)
  fix T assume T: "T \<in> set classic_tables"
  note d = soundD [OF assms(1) T] soundD [OF assms(2) [unfolded fit_def] T]
  have "key_of (key_columns T) r \<noteq> key_of (key_columns T) r'" if r: "r \<in> set (db T)" and r': "r' \<in> set (rows_of T rs)" for r r'
  proof
    assume e: "key_of (key_columns T) r = key_of (key_columns T) r'"
    have "(T, r') \<in> set rs" using r' by (auto simp: rows_of_def)
    then have "cell_at r ''_parent_type'' = cell_at r' ''_parent_type''"
      "cell_at r ''_message_ident'' = cell_at r' ''_message_ident''" "belongs pt n r'"
      using rs [of "(T, r')"] key_of_column [OF e] by auto
    then show False using db [OF r] by (simp add: belongs_def)
  qed
  then show "distinct (map (key_of (key_columns T)) (add_rows db rs T)) \<and>
      (\<forall>r \<in> set (add_rows db rs T). complete (required_columns T) r)"
    using d by auto
qed

lemma sound_message:
  assumes "sound db" "M \<in> message_tables" "\<forall>r \<in> set (db M). cell_at r ''_ident'' \<noteq> Some (dec_nat n)"
  shows "sound (add_rows db [(M, (''_ident'', Some (dec_nat n)) # cells)])"
proof (rule soundI)
  fix T assume T: "T \<in> set classic_tables"
  have k: "key_columns M = [''_ident'']" "required_columns M = [''_ident'']"
    using assms(2) unfolding message_tables_def by (elim insertE emptyE; simp; code_simp)+
  show "distinct (map (key_of (key_columns T)) (add_rows db [(M, (''_ident'', Some (dec_nat n)) # cells)] T)) \<and>
      (\<forall>r \<in> set (add_rows db [(M, (''_ident'', Some (dec_nat n)) # cells)] T). complete (required_columns T) r)"
    using soundD [OF assms(1) T] k assms(3) by (auto simp: key_of_def complete_def cell_at_def)
qed

end
