(* ===== verification/Analyzer_Trip.thy ===== *)
theory Analyzer_Trip
  imports Owned_Rows
begin

text \<open>
  Processes, times and analyzers: their rows, when they can be stored without loss, that the
  constraints of the schema allow them, and that retrieval makes the same objects of them.
\<close>

section \<open>Processes\<close>

definition arg_cells :: "string \<Rightarrow> char \<Rightarrow> nat \<Rightarrow> int \<Rightarrow> int \<Rightarrow> string \<Rightarrow> stored_row" where
  "arg_cells c pt m i j x = child_of pt m i @ [(''_index'', Some (dec_int j)), (c, Some x)]"

definition process_cells :: "char \<Rightarrow> nat \<Rightarrow> int \<Rightarrow> idmef_process \<Rightarrow> stored_row" where
  "process_cells pt m i x = child_of pt m i @ [(''ident'', process_ident x), (''name'', process_name x),
     (''pid'', map_option dec_nat (process_pid x)), (''path'', process_path x)]"

definition process_rows :: "char \<Rightarrow> nat \<Rightarrow> int \<Rightarrow> idmef_process \<Rightarrow> (string \<times> stored_row) list" where
  "process_rows pt m i x = (''Prelude_Process'', process_cells pt m i x) #
     rows_from (single ''Prelude_ProcessArg'' (arg_cells ''arg'' pt m i)) 0 (process_args x) @
     rows_from (single ''Prelude_ProcessEnv'' (arg_cells ''env'' pt m i)) 0 (process_envs x)"

definition process_ok :: "(string \<Rightarrow> bool) \<Rightarrow> idmef_process \<Rightarrow> bool" where
  "process_ok ok x \<longleftrightarrow> text_ok ok (process_ident x) \<and> text_ok ok (process_name x) \<and> process_name x \<noteq> None \<and> uint_ok 32 (process_pid x) \<and>
     text_ok ok (process_path x) \<and> (\<forall>a \<in> set (process_args x). ok a) \<and> (\<forall>a \<in> set (process_envs x). ok a) \<and>
     length (process_args x) < 2 ^ 31 \<and> length (process_envs x) < 2 ^ 31"

lemma children_process:
  "children i (rows_of T (process_rows pt m k x)) = (if k = int i then rows_of T (process_rows pt m k x) else [])"
  by (rule children_own)
    (auto simp: process_rows_def process_cells_def arg_cells_def child_of_def cell_at_def rows_of_def single_def
      dest: in_rows_from)

context message_store
begin

lemma adds_process_arg:
  assumes "storable x" "isalpha pt"
  shows "adds (insert_process_arg pt m i j x) (single ''Prelude_ProcessArg'' (arg_cells ''arg'' pt m i) j x)"
  using assms unfolding insert_process_arg_def single_def arg_cells_def child_of_def append.simps
  by (intro adds_escape; (simp add: text_ok_def; fail)?)
    (rule adds_insert, simp only: list.map fst_conv, code_simp, simp add: stored)

lemma adds_process_env:
  assumes "storable x" "isalpha pt"
  shows "adds (insert_process_env pt m i j x) (single ''Prelude_ProcessEnv'' (arg_cells ''env'' pt m i) j x)"
  using assms unfolding insert_process_env_def single_def arg_cells_def child_of_def append.simps
  by (intro adds_escape; (simp add: text_ok_def; fail)?)
    (rule adds_insert, simp only: list.map fst_conv, code_simp, simp add: stored)

lemma adds_process:
  assumes "process_ok storable x" "isalpha pt"
  shows "adds (insert_process pt m i x) (process_rows pt m i x)"
proof -
  note ok = assms [unfolded process_ok_def]
  show ?thesis
    unfolding insert_process_def process_rows_def process_cells_def child_of_def append.simps
    by ((rule adds_escape, use ok in \<open>simp\<close>)+, rule adds_insert_then)
      (simp only: list.map fst_conv, code_simp, use ok in \<open>simp add: stored\<close>,
        use ok in \<open>auto intro!: adds_then adds_from adds_process_arg adds_process_env\<close>)
qed

lemma scans_strings:
  assumes "\<And>k. k < length xs \<Longrightarrow> cell_at (g (int k) (xs ! k)) c = Some (xs ! k)"
  shows "scans (get_then (fetch_rows (\<lambda>row. get_string row 0)) (\<lambda>xs. got (List.map_filter id xs))) db
    (map (\<lambda>r. map (cell_at r) [c]) (map (\<lambda>k. g (int k) (xs ! k)) [0..<length xs])) xs"
proof (rule scans_then_got)
  let ?rs = "map (\<lambda>r. map (cell_at r) [c]) (map (\<lambda>k. g (int k) (xs ! k)) [0..<length xs])"
  show "scans (fetch_rows (\<lambda>row. get_string row 0)) db ?rs (map Some xs)"
  proof (rule scans_rows)
    fix i assume i: "i < length ?rs"
    have "reads (get_string i 0) db (Suc i) ?rs (?rs ! i ! 0)" using i by (intro reads_string) simp_all
    moreover have "?rs ! i ! 0 = map Some xs ! i" using i assms by simp
    ultimately show "reads (get_string i 0) db (Suc i) ?rs (map Some xs ! i)" by simp
  qed simp
  have "List.map_filter id (map Some xs) = xs"
    by (induction xs) (simp_all add: List.map_filter_def)
  then show "got (List.map_filter id (map Some xs)) = got xs" by simp
qed

lemma finds_process_arg:
  assumes "owns db pt m rs" "isalpha pt" "length xs < 2 ^ 31" "i < 128"
    and "children i (rows_of ''Prelude_ProcessArg'' rs) =
      rows_of ''Prelude_ProcessArg'' (rows_from (single ''Prelude_ProcessArg'' (arg_cells ''arg'' pt m (int i))) 0 xs)"
  shows "finds (get_process_arg m pt (int i)) db xs"
proof -
  have i: "dec_int (as_int8 (int i)) = dec_nat i" using assms(4) by (simp add: as_int8_def)
  show ?thesis
    unfolding get_process_arg_def get_string_listed_def
    by (rule finds_list [where D = "''arg''" and T = "''Prelude_ProcessArg''" and cols = "[''arg'']" and i = i,
          OF _ assms(1,2)],
        code_simp, simp add: query_text_def i, rule disjI2, rule assms(5),
        simp add: arg_cells_def child_of_def cell_at_def, rule assms(3), rule scans_strings)
      (simp add: arg_cells_def child_of_def cell_at_def)
qed

lemma finds_process_env:
  assumes "owns db pt m rs" "isalpha pt" "length xs < 2 ^ 31"
    and "children i (rows_of ''Prelude_ProcessEnv'' rs) =
      rows_of ''Prelude_ProcessEnv'' (rows_from (single ''Prelude_ProcessEnv'' (arg_cells ''env'' pt m (int i))) 0 xs)"
  shows "finds (get_process_env m pt (int i)) db xs"
  unfolding get_process_env_def get_string_listed_def
  by (rule finds_list [where D = "''env''" and T = "''Prelude_ProcessEnv''" and cols = "[''env'']" and i = i,
        OF _ assms(1,2)],
      code_simp, simp add: query_text_def, rule disjI2, rule assms(4),
      simp add: arg_cells_def child_of_def cell_at_def, rule assms(3), rule scans_strings)
    (simp add: arg_cells_def child_of_def cell_at_def)

lemma finds_process:
  assumes "owns db pt m rs" "isalpha pt" "\<And>x. v = Some x \<Longrightarrow> process_ok storable x" "i < 128"
    and "\<And>T. T \<in> {''Prelude_Process'', ''Prelude_ProcessArg'', ''Prelude_ProcessEnv''} \<Longrightarrow>
      children i (rows_of T rs) = rows_of T (rows_optional (process_rows pt m (int i)) v)"
  shows "finds (get_process m pt i) db v"
  unfolding get_process_def
proof (rule finds_optional [where D = "''ident, name, pid, path''" and T = "''Prelude_Process''" and i = i and
      g = "process_cells pt m (int i)" and cols = "[''ident'', ''name'', ''pid'', ''path'']", OF _ assms(1,2)])
  show "select_shape (child_keys False) ''ident, name, pid, path'' ''Prelude_Process'' [''ident'', ''name'', ''pid'', ''path'']"
    by code_simp
  show "children i (rows_of ''Prelude_Process'' rs) = (case v of None \<Rightarrow> [] | Some x \<Rightarrow> [process_cells pt m (int i) x])"
    using assms(5) [of "''Prelude_Process''"] by (cases v) (simp_all add: rows_optional_def process_rows_def rows_of_from_none)
next
  fix x and n :: nat and rs' assume n: "0 < n" and v: "v = Some x"
    and row: "rs' ! 0 = map (cell_at (process_cells pt m (int i) x)) [''ident'', ''name'', ''pid'', ''path'']"
  note ok = assms(3) [OF v, unfolded process_ok_def]
  have row: "rs' ! 0 = [process_ident x, process_name x, map_option dec_nat (process_pid x), process_path x]"
    using row by (simp add: process_cells_def child_of_def cell_at_def)
  have s: "j < 4 \<Longrightarrow> reads (get_string 0 j) db n rs' (rs' ! 0 ! j)" for j
    by (rule reads_string) (simp_all add: n row)
  have p: "reads (get_uint32 0 2) db n rs' (process_pid x)"
    by (rule reads_uint32) (simp_all add: n row ok)
  have a: "finds (get_process_arg m pt (int i)) db (process_args x)"
    using ok assms(4) assms(5) [of "''Prelude_ProcessArg''"]
    by (intro finds_process_arg [OF assms(1,2)]) (simp_all add: v rows_optional_def process_rows_def rows_of_from_none)
  have e: "finds (get_process_env m pt (int i)) db (process_envs x)"
    using ok assms(5) [of "''Prelude_ProcessEnv''"]
    by (intro finds_process_env [OF assms(1,2)]) (simp_all add: v rows_optional_def process_rows_def rows_of_from_none)
  show "reads (get_then (get_string 0 0) (\<lambda>pident.
      get_then (get_string 0 1) (\<lambda>name.
      get_then (get_uint32 0 2) (\<lambda>pid.
      get_then (get_string 0 3) (\<lambda>path.
      get_then (on_session (get_process_arg m pt (int i))) (\<lambda>args.
      get_then (on_session (get_process_env m pt (int i))) (\<lambda>envs.
        got \<lparr>process_ident = pident, process_name = name, process_pid = pid, process_path = path,
             process_args = args, process_envs = envs\<rparr>)))))))  db n rs' x"
    by (rule reads_then, rule s, simp, rule reads_then, rule s, simp, rule reads_then, rule p, rule reads_then, rule s, simp,
        rule reads_then, rule reads_session, rule a, rule reads_then, rule reads_session, rule e, rule reads_got)
      (simp add: row)
qed (simp add: query_text_def)

end

section \<open>Times\<close>

definition utc_text :: "idmef_codec \<Rightarrow> idmef_time \<Rightarrow> string" where
  "utc_text codec t = (case gmtime (idmef_times codec) (time_sec t) of None \<Rightarrow> [] | Some utc \<Rightarrow> timestamp_text utc)"

text \<open>A time that the conversions of the C library take apart and put together again.\<close>

definition time_ok :: "(string \<Rightarrow> bool) \<Rightarrow> idmef_codec \<Rightarrow> idmef_time \<Rightarrow> bool" where
  "time_ok ok codec t \<longleftrightarrow>
     (case gmtime (idmef_times codec) (time_sec t) of
        None \<Rightarrow> False
      | Some utc \<Rightarrow> ok (timestamp_text utc) \<and> length (timestamp_text utc) + 2 < TIMESTAMP_STRING_SIZE \<and>
          timegm (idmef_times codec) \<lparr>tm_sec = tm_sec utc, tm_min = tm_min utc, tm_hour = tm_hour utc,
            tm_mday = tm_mday utc, tm_mon = tm_mon utc, tm_year = tm_year utc, tm_wday = 0, tm_yday = 0\<rparr> = time_sec t) \<and>
     - (2 ^ 31) \<le> time_gmtoff t \<and> time_gmtoff t < 2 ^ 31 \<and> time_usec t < 2 ^ 31"

definition time_cells :: "idmef_codec \<Rightarrow> idmef_time option \<Rightarrow> stored_row" where
  "time_cells codec t = [(''time'', map_option (utc_text codec) t),
     (''gmtoff'', map_option (\<lambda>t. dec_int (time_gmtoff t)) t), (''usec'', map_option (\<lambda>t. dec_nat (time_usec t)) t)]"

lemma dec_nat_no_quote: "CHR 0x27 \<notin> set (dec_nat n)"
proof
  assume "CHR 0x27 \<in> set (dec_nat n)"
  then have "isdigit (CHR 0x27)" using dec_nat_digits by blast
  then show False by (simp add: isdigit_def)
qed

lemma dec_int_no_quote: "CHR 0x27 \<notin> set (dec_int i)" "CHR 0x27 \<notin> set (dec_int2 i)"
  by (simp_all add: dec_int_def dec_int2_def Let_def dec_nat_no_quote)

lemma timestamp_no_quote: "CHR 0x27 \<notin> set (timestamp_text utc)"
  by (simp add: timestamp_text_def dec_int_no_quote)

context message_store
begin

lemma adds_time:
  assumes ok: "\<And>x. t = Some x \<Longrightarrow> time_ok storable codec x"
    and f: "\<And>a b c. lit a = Some (map_option (utc_text codec) t) \<Longrightarrow>
      lit (printed b) = Some (map_option (\<lambda>t. dec_int (time_gmtoff t)) t) \<Longrightarrow>
      lit (printed c) = Some (map_option (\<lambda>t. dec_nat (time_usec t)) t) \<Longrightarrow> adds (f (a, b, c)) rs"
  shows "adds (call (time_to_timestamp codec t (Some 16)) f) rs"
  unfolding adds_def
proof (intro allI impI, elim conjE)
  fix s assume u: "usable s" and sd: "sound (add_rows (contents s) rs)"
  note p = default_timestamps [OF u]
  have "\<exists>a b c. time_to_timestamp codec t (Some 16) s = (s, Inr (a, b, c)) \<and>
      lit a = Some (map_option (utc_text codec) t) \<and> lit (printed b) = Some (map_option (\<lambda>t. dec_int (time_gmtoff t)) t) \<and>
      lit (printed c) = Some (map_option (\<lambda>t. dec_nat (time_usec t)) t)"
  proof (cases t)
    case None
    then show ?thesis
      by (simp add: time_to_timestamp_def preludedb_sql_time_to_timestamp_def snprintf_buf_def TIMESTAMP_STRING_SIZE_def lit_null)
  next
    case (Some x)
    note k = ok [OF Some, unfolded time_ok_def]
    then obtain utc where utc: "gmtime (idmef_times codec) (time_sec x) = Some utc" by (auto split: option.splits)
    have b: "snprintf_buf 16 (dec_int (time_gmtoff x)) = dec_int (time_gmtoff x)"
      "snprintf_buf 16 (dec_int (int (time_usec x))) = dec_nat (time_usec x)"
      using k dec_int_printed [of "time_gmtoff x" 16] dec_int_printed [of "int (time_usec x)" 16] by simp_all
    show ?thesis
      using k Some utc b
      by (simp add: time_to_timestamp_def preludedb_sql_time_to_timestamp_def default_timestamp [OF p] utc_text_def
          lit_int lit_nat lit_quoted timestamp_no_quote)
  qed
  then obtain a b c where abc: "time_to_timestamp codec t (Some 16) s = (s, Inr (a, b, c))" "adds (f (a, b, c)) rs"
    using f by blast
  then show "\<exists>s' x. call (time_to_timestamp codec t (Some 16)) f s = (s', Inr x) \<and> usable s' \<and>
      contents s' = add_rows (contents s) rs"
    using u sd unfolding adds_def by auto
qed

lemma adds_createtime:
  assumes "\<And>x. t = Some x \<Longrightarrow> time_ok storable codec x" "isalpha pt"
  shows "adds (insert_createtime codec pt m t) [(''Prelude_CreateTime'', message_of pt m @ time_cells codec t)]"
  unfolding insert_createtime_def message_of_def time_cells_def append.simps
  by (rule adds_time, erule assms, simp only: prod.case, rule adds_insert)
    (simp only: list.map fst_conv, code_simp, use assms(2) in \<open>simp add: stored\<close>)

lemma adds_analyzertime:
  assumes "time_ok storable codec t" "isalpha pt"
  shows "adds (insert_analyzertime codec pt m t) [(''Prelude_AnalyzerTime'', message_of pt m @ time_cells codec (Some t))]"
  unfolding insert_analyzertime_def message_of_def time_cells_def append.simps
  by (rule adds_time, use assms in simp, simp only: prod.case, rule adds_insert)
    (simp only: list.map fst_conv, code_simp, use assms(2) in \<open>simp add: stored\<close>)

lemma reads_required:
  assumes "i < n" "j < length (rs ! i)" "rs ! i ! j = Some v"
    and "conv \<lparr>fvalue = v, flen = length v, findex = j\<rparr> = Inr x"
  shows "reads (required_column conv i j) db n rs x"
  unfolding required_column_def
  by (rule reads_then [OF reads_field [OF assms(1,2)]]) (simp add: cell_field_def assms(3) reads_pure assms(4))

lemma reads_timestamp:
  assumes i: "i < n" and j: "a < length (rs ! i)" "b < length (rs ! i)" "c < length (rs ! i)"
    and row: "rs ! i ! a = map_option (utc_text codec) t" "rs ! i ! b = map_option (\<lambda>t. dec_int (time_gmtoff t)) t"
      "rs ! i ! c = map_option (\<lambda>t. dec_nat (time_usec t)) t"
    and ok: "\<And>x. t = Some x \<Longrightarrow> time_ok storable codec x"
  shows "reads (get_timestamp codec i a b (Some c)) db n rs t"
proof (cases t)
  case None
  show ?thesis
    unfolding get_timestamp_def
    by (rule reads_then [OF reads_field [OF i j(1)]]) (simp add: None row cell_field_def reads_got)
next
  case (Some x)
  note k = ok [OF Some, unfolded time_ok_def]
  then obtain utc where utc: "gmtime (idmef_times codec) (time_sec x) = Some utc" by (auto split: option.splits)
  have g: "preludedb_sql_field_to_int32 \<lparr>fvalue = dec_int (time_gmtoff x), flen = l, findex = b\<rparr> = Inr (time_gmtoff x)" for l
    using k by (simp add: preludedb_sql_field_to_int32_def field_to_signed_dec_int)
  have u: "preludedb_sql_field_to_uint32 \<lparr>fvalue = dec_nat (time_usec x), flen = l, findex = c\<rparr> = Inr (int (time_usec x))" for l
    using k field_to_unsigned_dec_int [of 32 "int (time_usec x)"] by (simp add: preludedb_sql_field_to_uint32_def)
  have t: "preludedb_sql_time_from_timestamp (idmef_times codec) (timestamp_text utc) (time_gmtoff x) (time_usec x) = Inr x"
    using k utc by (simp add: preludedb_sql_time_from_timestamp_def scan_timestamp_text)
  show ?thesis
    unfolding get_timestamp_def
    by (rule reads_then [OF reads_field [OF i j(1)]])
      (simp add: Some row cell_field_def utc_text_def utc preludedb_sql_field_get_value_def,
       rule reads_then, rule reads_required [OF i j(2)], simp add: Some row, rule refl,
       rule reads_then, rule reads_required [OF i j(3)], simp add: Some row, simp add: u,
       rule reads_then, rule reads_pure, rule g, rule reads_then, rule reads_pure, simp add: t, rule reads_got, rule refl)
qed

lemma finds_time:
  assumes "owns db pt m rs" "isalpha pt" "\<And>x. t = Some x \<Longrightarrow> time_ok storable codec x"
    and "q = query_text ''time, gmtoff, usec'' T (own_conditions pt m) False"
    and "select_shape (own_keys False) ''time, gmtoff, usec'' T [''time'', ''gmtoff'', ''usec'']"
    and "rows_of T rs = [] \<and> t = None \<or> rows_of T rs = [message_of pt m @ time_cells codec t]"
  shows "finds (get_time_row codec q) db t"
proof -
  let ?cols = "[''time'', ''gmtoff'', ''usec'']"
  let ?v = "if rows_of T rs = [] then None else Some t"
  have "scans (fetch_one (\<lambda>row. get_timestamp codec row 0 1 (Some 2))) db
      (map (\<lambda>r. map (cell_at r) ?cols) (case ?v of None \<Rightarrow> [] | Some x \<Rightarrow> [message_of pt m @ time_cells codec x])) ?v"
  proof (rule scans_optional)
    fix x and n :: nat and rs' assume n: "0 < n" and v: "?v = Some x"
      and row: "rs' ! 0 = map (cell_at (message_of pt m @ time_cells codec x)) ?cols"
    then have "x = t" by (auto split: if_splits)
    then show "reads (get_timestamp codec 0 0 1 (Some 2)) db n rs' x"
      using n row assms(3)
      by (intro reads_timestamp) (simp_all add: message_of_def time_cells_def cell_at_def)
  qed
  moreover have "rows_of T rs = (case ?v of None \<Rightarrow> [] | Some x \<Rightarrow> [message_of pt m @ time_cells codec x])"
    using assms(6) by auto
  ultimately have s: "scans (fetch_one (\<lambda>row. get_timestamp codec row 0 1 (Some 2))) db
      (map (\<lambda>r. map (cell_at r) ?cols) (rows_of T rs)) ?v"
    by simp
  show ?thesis
    unfolding get_time_row_def
    by (rule finds_own [OF assms(5,1,2,4) _ _ _ scans_then_got [OF s]]) (use assms(6) in auto)
qed

end

section \<open>Analyzers\<close>

definition analyzer_cells :: "char \<Rightarrow> nat \<Rightarrow> int \<Rightarrow> idmef_analyzer \<Rightarrow> stored_row" where
  "analyzer_cells pt m i x = message_of pt m @ [(''_index'', Some (dec_int i)),
     (''analyzerid'', analyzer_analyzerid x), (''name'', analyzer_name x), (''manufacturer'', analyzer_manufacturer x),
     (''model'', analyzer_model x), (''version'', analyzer_version x), (''class'', analyzer_class x),
     (''ostype'', analyzer_ostype x), (''osversion'', analyzer_osversion x)]"

definition analyzer_rows :: "idmef_codec \<Rightarrow> char \<Rightarrow> nat \<Rightarrow> int \<Rightarrow> idmef_analyzer \<Rightarrow> (string \<times> stored_row) list" where
  "analyzer_rows codec pt m i x = (''Prelude_Analyzer'', analyzer_cells pt m i x) #
     rows_optional (node_rows codec pt m i) (analyzer_node x) @
     rows_optional (process_rows pt m i) (analyzer_process x)"

definition analyzer_ok :: "(string \<Rightarrow> bool) \<Rightarrow> idmef_codec \<Rightarrow> idmef_analyzer \<Rightarrow> bool" where
  "analyzer_ok ok codec x \<longleftrightarrow>
     list_all (text_ok ok) [analyzer_analyzerid x, analyzer_name x, analyzer_manufacturer x, analyzer_model x,
       analyzer_version x, analyzer_class x, analyzer_ostype x, analyzer_osversion x] \<and>
     (case analyzer_node x of None \<Rightarrow> True | Some n \<Rightarrow> node_ok ok codec n) \<and>
     (case analyzer_process x of None \<Rightarrow> True | Some p \<Rightarrow> process_ok ok p)"

definition analyzer_columns :: "string list" where
  "analyzer_columns = [''analyzerid'', ''name'', ''manufacturer'', ''model'', ''version'', ''class'', ''ostype'', ''osversion'']"

definition analyzer_tables :: "string set" where
  "analyzer_tables = {''Prelude_Node'', ''Prelude_Address'', ''Prelude_Process'', ''Prelude_ProcessArg'', ''Prelude_ProcessEnv''}"

text \<open>Which tables the parts of an analyzer are in.\<close>

lemma analyzer_part_tables:
  "T \<in> {''Prelude_Node'', ''Prelude_Address''} \<Longrightarrow> rows_of T (rows_optional (process_rows pt m i) v) = []"
  "T \<in> {''Prelude_Process'', ''Prelude_ProcessArg'', ''Prelude_ProcessEnv''} \<Longrightarrow>
     rows_of T (rows_optional (node_rows codec pt m i) w) = []"
  "rows_of ''Prelude_Analyzer'' (rows_optional (process_rows pt m i) v) = []"
  "rows_of ''Prelude_Analyzer'' (rows_optional (node_rows codec pt m i) w) = []"
  by (cases v; cases w; auto simp: process_rows_def node_rows_def rows_of_listed_none rows_of_from_none)+

lemma node_other_tables: "T \<noteq> ''Prelude_Node'' \<Longrightarrow> T \<noteq> ''Prelude_Address'' \<Longrightarrow> rows_of T (node_rows codec pt m i x) = []"
  by (simp add: node_rows_def rows_of_listed_none)

lemma process_other_tables:
  "T \<noteq> ''Prelude_Process'' \<Longrightarrow> T \<noteq> ''Prelude_ProcessArg'' \<Longrightarrow> T \<noteq> ''Prelude_ProcessEnv'' \<Longrightarrow>
     rows_of T (process_rows pt m i x) = []"
  by (simp add: process_rows_def rows_of_from_none)

lemma analyzer_other_tables:
  assumes "T \<notin> insert ''Prelude_Analyzer'' analyzer_tables"
  shows "rows_of T (analyzer_rows codec pt m i x) = []"
proof -
  have "''Prelude_Analyzer'' \<noteq> T" using assms by blast
  then show ?thesis
    using assms unfolding analyzer_rows_def analyzer_tables_def
    by (cases "analyzer_node x"; cases "analyzer_process x") (simp_all add: node_other_tables process_other_tables)
qed

lemma analyzers_other_tables:
  "T \<notin> insert ''Prelude_Analyzer'' analyzer_tables \<Longrightarrow> rows_of T (rows_listed (analyzer_rows codec pt m) xs) = []"
  by (simp add: rows_of_listed_none analyzer_other_tables)

lemma children_optional:
  assumes "\<And>x. children i (rows_of T (f x)) = (if k = int i then rows_of T (f x) else [])"
  shows "children i (rows_of T (rows_optional f v)) = (if k = int i then rows_of T (rows_optional f v) else [])"
  using assms by (cases v) simp_all

lemma children_analyzer:
  assumes "T \<in> analyzer_tables"
  shows "children i (rows_of T (analyzer_rows codec pt m k x)) =
    (if k = int i then rows_of T (analyzer_rows codec pt m k x) else [])"
proof -
  have "T \<noteq> ''Prelude_Analyzer''" using assms by (auto simp: analyzer_tables_def)
  then show ?thesis
    by (simp add: analyzer_rows_def children_optional children_node children_process)
qed

context message_store
begin

lemma adds_analyzer:
  assumes "analyzer_ok storable codec x" "isalpha pt"
  shows "adds (insert_analyzer codec pt m i x) (analyzer_rows codec pt m i x)"
proof -
  note ok = assms [unfolded analyzer_ok_def list.pred_inject]
  show ?thesis
    unfolding insert_analyzer_def analyzer_rows_def analyzer_cells_def message_of_def append.simps
    by ((rule adds_escape, use ok in \<open>simp\<close>)+, rule adds_insert_then)
      (simp only: list.map fst_conv, code_simp, use ok in \<open>simp add: stored\<close>,
        use ok in \<open>auto intro!: adds_then adds_optional adds_node adds_process\<close>)
qed

lemma reads_analyzer:
  assumes own: "owns db pt m rs" "isalpha pt" and ok: "analyzer_ok storable codec x" and i: "i < n" "i < 128"
    and row: "rs' ! i = map (cell_at (analyzer_cells pt m (int i) x)) analyzer_columns"
    and sub: "\<And>T. T \<in> analyzer_tables \<Longrightarrow> children i (rows_of T rs) = rows_of T (analyzer_rows codec pt m (int i) x)"
  shows "reads (analyzer_row codec m pt i) db n rs' x"
proof -
  have row: "rs' ! i = [analyzer_analyzerid x, analyzer_name x, analyzer_manufacturer x, analyzer_model x,
      analyzer_version x, analyzer_class x, analyzer_ostype x, analyzer_osversion x]"
    using row by (simp add: analyzer_cells_def message_of_def cell_at_def analyzer_columns_def)
  have s: "j < 8 \<Longrightarrow> reads (get_string i j) db n rs' (rs' ! i ! j)" for j
    by (rule reads_string) (simp_all add: i row)
  have nd: "finds (get_node codec m pt i) db (analyzer_node x)"
  proof (rule finds_node [OF own])
    show "children i (rows_of T rs) = rows_of T (rows_optional (node_rows codec pt m (int i)) (analyzer_node x))"
      if "T \<in> {''Prelude_Node'', ''Prelude_Address''}" for T
      using sub [of T] that analyzer_part_tables(1) [OF that]
      by (auto simp: analyzer_tables_def analyzer_rows_def simp del: rows_optional_simps)
  qed (use ok in \<open>simp add: analyzer_ok_def\<close>)
  have pr: "finds (get_process m pt i) db (analyzer_process x)"
  proof (rule finds_process [OF own _ i(2)])
    show "children i (rows_of T rs) = rows_of T (rows_optional (process_rows pt m (int i)) (analyzer_process x))"
      if "T \<in> {''Prelude_Process'', ''Prelude_ProcessArg'', ''Prelude_ProcessEnv''}" for T
      using sub [of T] that analyzer_part_tables(2) [OF that]
      by (auto simp: analyzer_tables_def analyzer_rows_def simp del: rows_optional_simps)
  qed (use ok in \<open>simp add: analyzer_ok_def\<close>)
  show ?thesis
    unfolding analyzer_row_def
    by (rule reads_then, rule s, simp, rule reads_then, rule s, simp, rule reads_then, rule s, simp,
        rule reads_then, rule s, simp, rule reads_then, rule s, simp, rule reads_then, rule s, simp,
        rule reads_then, rule s, simp, rule reads_then, rule s, simp,
        rule reads_then, rule reads_session, rule nd, rule reads_then, rule reads_session, rule pr, rule reads_got)
      (simp add: row)
qed

lemma finds_analyzer:
  assumes own: "owns db pt m rs" "isalpha pt" and ok: "\<forall>x \<in> set xs. analyzer_ok storable codec x" "length xs \<le> 128"
    and rows: "\<And>T. T \<in> insert ''Prelude_Analyzer'' analyzer_tables \<Longrightarrow>
      rows_of T rs = rows_of T (rows_listed (analyzer_rows codec pt m) xs)"
  shows "finds (get_analyzer codec m pt) db xs"
  unfolding get_analyzer_def
proof (rule finds_list_own [where D = "''analyzerid, name, manufacturer, model, version, class, ostype, osversion''" and
      T = "''Prelude_Analyzer''" and cols = analyzer_columns and g = "analyzer_cells pt m", OF _ own _ rows])
  show "select_shape (own_keys True) ''analyzerid, name, manufacturer, model, version, class, ostype, osversion'' ''Prelude_Analyzer''
      analyzer_columns" by code_simp
  show "rows_of ''Prelude_Analyzer'' (analyzer_rows codec pt m k x) = [analyzer_cells pt m k x]" for k x
    by (simp add: analyzer_rows_def analyzer_part_tables)
  show "cell_at (analyzer_cells pt m k x) ''_index'' = Some (dec_int k)" for k x
    by (simp add: analyzer_cells_def message_of_def cell_at_def)
  show "scans (fetch_rows (analyzer_row codec m pt)) db
      (map (\<lambda>r. map (cell_at r) analyzer_columns) (map (\<lambda>k. analyzer_cells pt m (int k) (xs ! k)) [0..<length xs])) xs"
  proof (rule scans_list)
    fix k n :: nat and rs' assume k: "k < n" "k < length xs"
      and row: "rs' ! k = map (cell_at (analyzer_cells pt m (int k) (xs ! k))) analyzer_columns"
    have "children k (rows_of T rs) = rows_of T (analyzer_rows codec pt m (int k) (xs ! k))" if "T \<in> analyzer_tables" for T
      using rows [of T] that children_listed [OF children_analyzer [OF that] k(2)] by simp
    then show "reads (analyzer_row codec m pt k) db n rs' (xs ! k)"
      using ok k by (intro reads_analyzer [OF own _ _ _ row]) auto
  qed
qed (use ok(2) in \<open>simp_all add: query_text_def\<close>)

end

lemma node_belongs: "p \<in> set (node_rows codec pt m i x) \<Longrightarrow> belongs pt m (snd p)"
  by (auto simp: node_rows_def node_cells_def address_cells_def single_def dest!: in_rows_listed)

lemma process_belongs: "p \<in> set (process_rows pt m i x) \<Longrightarrow> belongs pt m (snd p)"
  by (auto simp: process_rows_def process_cells_def arg_cells_def single_def dest!: in_rows_from)

lemma analyzer_belongs: "p \<in> set (analyzer_rows codec pt m i x) \<Longrightarrow> belongs pt m (snd p)"
  by (auto simp: analyzer_rows_def analyzer_cells_def dest!: in_rows_optional node_belongs process_belongs)

section \<open>The constraints of the schema\<close>

lemma schema_facts:
  "required_columns ''Prelude_Address'' = [''_message_ident'', ''_parent_type'', ''_parent0_index'', ''_index'', ''category'', ''address'']"
  "key_columns ''Prelude_Address'' = [''_parent_type'', ''_message_ident'', ''_parent0_index'', ''_index'']"
  "required_columns ''Prelude_Node'' = [''_message_ident'', ''_parent_type'', ''_parent0_index'']"
  "key_columns ''Prelude_Node'' = [''_parent_type'', ''_message_ident'', ''_parent0_index'']"
  "required_columns ''Prelude_Process'' = [''_message_ident'', ''_parent_type'', ''_parent0_index'', ''name'']"
  "key_columns ''Prelude_Process'' = [''_parent_type'', ''_message_ident'', ''_parent0_index'']"
  "required_columns ''Prelude_ProcessArg'' = [''_message_ident'', ''_parent_type'', ''_parent0_index'', ''_index'', ''arg'']"
  "key_columns ''Prelude_ProcessArg'' = [''_parent_type'', ''_message_ident'', ''_parent0_index'', ''_index'']"
  "required_columns ''Prelude_ProcessEnv'' = [''_message_ident'', ''_parent_type'', ''_parent0_index'', ''_index'', ''env'']"
  "key_columns ''Prelude_ProcessEnv'' = [''_parent_type'', ''_message_ident'', ''_parent0_index'', ''_index'']"
  "required_columns ''Prelude_Analyzer'' = [''_message_ident'', ''_parent_type'', ''_index'']"
  "key_columns ''Prelude_Analyzer'' = [''_parent_type'', ''_message_ident'', ''_index'']"
  "required_columns ''Prelude_AdditionalData'' = [''_message_ident'', ''_parent_type'', ''_index'', ''type'', ''data'']"
  "key_columns ''Prelude_AdditionalData'' = [''_parent_type'', ''_message_ident'', ''_index'']"
  "required_columns ''Prelude_CreateTime'' = [''_message_ident'', ''_parent_type'', ''time'', ''usec'', ''gmtoff'']"
  "key_columns ''Prelude_CreateTime'' = [''_parent_type'', ''_message_ident'']"
  "required_columns ''Prelude_AnalyzerTime'' = [''_message_ident'', ''_parent_type'', ''time'', ''usec'', ''gmtoff'']"
  "key_columns ''Prelude_AnalyzerTime'' = [''_parent_type'', ''_message_ident'']"
  by code_simp+

lemmas row_facts = schema_facts complete_def cell_at_def child_of_def message_of_def placed_def

lemma enum_ok_given: "enum_ok ok codec enum v \<Longrightarrow> \<exists>t. enum_to_string codec enum v = Some t"
  by (auto simp: enum_ok_def split: option.splits)

lemma address_fits:
  "address_ok ok codec x \<Longrightarrow> fits_at (\<lambda>T. ''_index'') j (single ''Prelude_Address'' (address_cells codec pt m i) j x)"
  unfolding fits_at_def single_def
  by (intro conjI fit_row) (auto simp: address_ok_def address_cells_def row_facts dest!: enum_ok_given)

lemma node_tables: "fst ` set (node_rows codec pt m i x) \<subseteq> {''Prelude_Node'', ''Prelude_Address''}"
  by (auto simp: node_rows_def single_def dest!: in_rows_listed)

lemma process_tables:
  "fst ` set (process_rows pt m i x) \<subseteq> {''Prelude_Process'', ''Prelude_ProcessArg'', ''Prelude_ProcessEnv''}"
  by (auto simp: process_rows_def single_def dest!: in_rows_from)

lemma node_fits:
  assumes "node_ok ok codec x"
  shows "fits_at (\<lambda>T. ''_parent0_index'') i (node_rows codec pt m i x)"
proof -
  have "fit (rows_listed (single ''Prelude_Address'' (address_cells codec pt m i)) (node_addresses x))"
    by (rule fit_listed [where c = "\<lambda>T. ''_index''"]) (use assms address_fits in \<open>auto simp: node_ok_def\<close>)
  then have "fit ([(''Prelude_Node'', node_cells codec pt m i x)] @
      rows_listed (single ''Prelude_Address'' (address_cells codec pt m i)) (node_addresses x))"
    by (intro fit_append fit_row) (auto simp: node_cells_def row_facts single_def dest!: in_rows_listed)
  moreover have "placed (\<lambda>T. ''_parent0_index'') i p" if "p \<in> set (node_rows codec pt m i x)" for p
    using that by (auto simp: node_rows_def node_cells_def address_cells_def single_def row_facts dest!: in_rows_listed)
  ultimately show ?thesis by (simp add: fits_at_def node_rows_def)
qed

lemma arg_fits:
  "fits_at (\<lambda>T. ''_index'') j (single ''Prelude_ProcessArg'' (arg_cells ''arg'' pt m i) j y)"
  "fits_at (\<lambda>T. ''_index'') j (single ''Prelude_ProcessEnv'' (arg_cells ''env'' pt m i) j y)"
  unfolding fits_at_def single_def by (intro conjI fit_row; simp add: arg_cells_def row_facts)+

lemma process_fits:
  assumes "process_ok ok x"
  shows "fits_at (\<lambda>T. ''_parent0_index'') i (process_rows pt m i x)"
proof -
  have "fit (rows_from (single ''Prelude_ProcessArg'' (arg_cells ''arg'' pt m i)) 0 (process_args x))"
    by (rule conjunct1, rule fit_from [where c = "\<lambda>T. ''_index''"]) (simp add: arg_fits)
  moreover have "fit (rows_from (single ''Prelude_ProcessEnv'' (arg_cells ''env'' pt m i)) 0 (process_envs x))"
    by (rule conjunct1, rule fit_from [where c = "\<lambda>T. ''_index''"]) (simp add: arg_fits)
  ultimately have "fit ([(''Prelude_Process'', process_cells pt m i x)] @
      rows_from (single ''Prelude_ProcessArg'' (arg_cells ''arg'' pt m i)) 0 (process_args x) @
      rows_from (single ''Prelude_ProcessEnv'' (arg_cells ''env'' pt m i)) 0 (process_envs x))"
    using assms
    by (intro fit_append fit_row) (auto simp: process_ok_def process_cells_def row_facts single_def dest!: in_rows_from)
  moreover have "placed (\<lambda>T. ''_parent0_index'') i p" if "p \<in> set (process_rows pt m i x)" for p
    using that by (auto simp: process_rows_def process_cells_def arg_cells_def single_def row_facts dest!: in_rows_from)
  ultimately show ?thesis by (simp add: fits_at_def process_rows_def)
qed

lemma analyzer_fits:
  assumes "analyzer_ok ok codec x"
  shows "fits_at (\<lambda>T. if T = ''Prelude_Analyzer'' then ''_index'' else ''_parent0_index'') i (analyzer_rows codec pt m i x)"
proof -
  let ?n = "rows_optional (node_rows codec pt m i) (analyzer_node x)"
    and ?p = "rows_optional (process_rows pt m i) (analyzer_process x)"
  have "fit ?n \<and> (\<forall>p \<in> set ?n. placed (\<lambda>T. ''_parent0_index'') i p) \<and> fst ` set ?n \<subseteq> {''Prelude_Node'', ''Prelude_Address''}"
  proof (cases "analyzer_node x")
    case (Some y)
    then have "node_ok ok codec y" using assms by (simp add: analyzer_ok_def)
    from node_fits [OF this, of i pt m] node_tables [of codec pt m i y] show ?thesis unfolding Some rows_optional_simps fits_at_def by blast
  qed simp
  then have n: "fit ?n" "\<forall>p \<in> set ?n. placed (\<lambda>T. ''_parent0_index'') i p" "fst ` set ?n \<subseteq> {''Prelude_Node'', ''Prelude_Address''}"
    by blast+
  have "fit ?p \<and> (\<forall>p \<in> set ?p. placed (\<lambda>T. ''_parent0_index'') i p) \<and>
      fst ` set ?p \<subseteq> {''Prelude_Process'', ''Prelude_ProcessArg'', ''Prelude_ProcessEnv''}"
  proof (cases "analyzer_process x")
    case (Some y)
    then have "process_ok ok y" using assms by (simp add: analyzer_ok_def)
    from process_fits [OF this, of i pt m] process_tables [of pt m i y] show ?thesis unfolding Some rows_optional_simps fits_at_def by blast
  qed simp
  then have p: "fit ?p" "\<forall>p \<in> set ?p. placed (\<lambda>T. ''_parent0_index'') i p"
    "fst ` set ?p \<subseteq> {''Prelude_Process'', ''Prelude_ProcessArg'', ''Prelude_ProcessEnv''}"
    by blast+
  have "fit ([(''Prelude_Analyzer'', analyzer_cells pt m i x)] @ ?n @ ?p)"
  proof (intro fit_append fit_row n(1) p(1))
    show "complete (required_columns ''Prelude_Analyzer'') (analyzer_cells pt m i x)"
      by (simp add: analyzer_cells_def row_facts)
  qed (use n(3) p(3) in fastforce)+
  moreover have "placed (\<lambda>T. if T = ''Prelude_Analyzer'' then ''_index'' else ''_parent0_index'') i (T, r)"
    if "(T, r) \<in> set (?n @ ?p)" for T r
  proof -
    have "T \<noteq> ''Prelude_Analyzer''" using that n(3) p(3) by fastforce
    then show ?thesis using that n(2) p(2) by (auto simp: placed_def)
  qed
  moreover have "placed (\<lambda>T. if T = ''Prelude_Analyzer'' then ''_index'' else ''_parent0_index'') i
      (''Prelude_Analyzer'', analyzer_cells pt m i x)"
    by (simp add: analyzer_cells_def row_facts)
  ultimately show ?thesis by (auto simp: fits_at_def analyzer_rows_def)
qed

lemma time_fits:
  "T \<in> {''Prelude_CreateTime'', ''Prelude_AnalyzerTime''} \<Longrightarrow> fit [(T, message_of pt m @ time_cells codec (Some t))]" if
  "time_ok ok codec t"
  using that by (intro fit_row) (auto simp: time_ok_def utc_text_def time_cells_def row_facts split: option.splits)

lemma analyzers_in_tables: "fst ` set (rows_listed (analyzer_rows codec pt m) xs) \<subseteq> insert ''Prelude_Analyzer'' analyzer_tables"
proof -
  have "fst ` set (analyzer_rows codec pt m k x) \<subseteq> insert ''Prelude_Analyzer'' analyzer_tables" for k x
  proof -
    have "fst ` set (rows_optional (node_rows codec pt m k) (analyzer_node x)) \<subseteq> {''Prelude_Node'', ''Prelude_Address''}"
      using node_tables [of codec pt m k] by (cases "analyzer_node x") simp_all
    moreover have "fst ` set (rows_optional (process_rows pt m k) (analyzer_process x)) \<subseteq>
        {''Prelude_Process'', ''Prelude_ProcessArg'', ''Prelude_ProcessEnv''}"
      using process_tables [of pt m k] by (cases "analyzer_process x") simp_all
    ultimately show ?thesis
      unfolding analyzer_rows_def analyzer_tables_def list.set image_insert set_append image_Un by auto
  qed
  then show ?thesis by (fastforce dest!: in_rows_listed)
qed

end
