(* ===== verification/Heartbeat_Trip.thy ===== *)
theory Heartbeat_Trip
  imports Analyzer_Trip
begin

text \<open>
  Additional data and whole heartbeats: their rows, when they can be stored without loss, that
  the constraints of the schema allow them, and that retrieval makes the same objects of them.
\<close>

section \<open>Additional data\<close>

text \<open>The bytes an additional data is stored as, and when the type's conversion gives it back.\<close>

definition data_bytes :: "idmef_codec \<Rightarrow> idmef_data \<Rightarrow> string option" where
  "data_bytes codec d =
     (case d of
        Data_byte_string b \<Rightarrow> Some b
      | Data_char_string t \<Rightarrow> Some t
      | Data_char c \<Rightarrow> Some [c]
      | _ \<Rightarrow> (case data_to_string codec d of Inl e \<Rightarrow> None | Inr t \<Rightarrow> Some t))"

definition additional_data_ok :: "(string \<Rightarrow> bool) \<Rightarrow> idmef_codec \<Rightarrow> idmef_additional_data \<Rightarrow> bool" where
  "additional_data_ok ok codec x \<longleftrightarrow> enum_ok ok codec ADDITIONAL_DATA_TYPE (ad_type x) \<and> text_ok ok (ad_meaning x) \<and>
     (case data_bytes codec (ad_data x) of
        None \<Rightarrow> False
      | Some b \<Rightarrow> b \<noteq> [] \<and> length b < 2 ^ 62 \<and>
          data_of_type codec (additional_data_type_of codec (ad_type x)) b = Inr (ad_data x))"

definition additional_data_cells ::
    "idmef_codec \<Rightarrow> char \<Rightarrow> nat \<Rightarrow> int \<Rightarrow> idmef_additional_data \<Rightarrow> stored_row" where
  "additional_data_cells codec pt m i x = message_of pt m @ [(''_index'', Some (dec_int i)),
     (''type'', enum_to_string codec ADDITIONAL_DATA_TYPE (ad_type x)), (''meaning'', ad_meaning x),
     (''data'', data_bytes codec (ad_data x))]"

context message_store
begin

lemma adds_data:
  assumes "data_bytes codec d = Some b" "b \<noteq> []" "length b < 2 ^ 62" "\<And>l. lit l = Some (Some b) \<Longrightarrow> adds (f l) rs"
  shows "adds (call (get_data_insert codec d) f) rs"
proof -
  have "(get_data_insert codec d :: (('w, 'd) sql, string) sql_call) = (\<lambda>s. preludedb_sql_escape_binary s (Some b))"
    using assms(1) unfolding get_data_insert_def data_bytes_def
    by (cases d) (auto simp: fun_eq_iff call_def pure_result_def split: sum.splits)
  then show ?thesis using adds_escape_binary [of b f rs] assms(2-4) by simp
qed

lemma adds_additional_data:
  assumes "additional_data_ok storable codec x" "isalpha pt"
  shows "adds (insert_additional_data codec pt m i x)
    (single ''Prelude_AdditionalData'' (additional_data_cells codec pt m) i x)"
proof -
  note ok = assms [unfolded additional_data_ok_def]
  obtain b where b: "data_bytes codec (ad_data x) = Some b" "b \<noteq> []" "length b < 2 ^ 62"
    using ok by (auto split: option.splits)
  show ?thesis
    unfolding insert_additional_data_def single_def additional_data_cells_def message_of_def append.simps
    by ((rule adds_escape, use ok in \<open>simp add: enum_ok_text\<close>)+, rule adds_data [OF b], rule adds_insert)
      (simp only: list.map fst_conv, code_simp, use assms(2) b in \<open>simp add: stored\<close>)
qed

lemma reads_additional_data:
  assumes ok: "additional_data_ok storable codec x" and i: "i < n"
    and row: "rs ! i = map (cell_at (additional_data_cells codec pt m k x)) [''type'', ''meaning'', ''data'']"
  shows "reads (additional_data_row codec i) db n rs (x, True)"
proof -
  obtain b where b: "data_bytes codec (ad_data x) = Some b" "b \<noteq> []" "length b < 2 ^ 62"
    "data_of_type codec (additional_data_type_of codec (ad_type x)) b = Inr (ad_data x)"
    using ok by (auto simp: additional_data_ok_def split: option.splits)
  have row: "rs ! i = [enum_to_string codec ADDITIONAL_DATA_TYPE (ad_type x), ad_meaning x, Some b]"
    using row b by (simp add: additional_data_cells_def message_of_def cell_at_def)
  let ?f = "\<lparr>fvalue = b, flen = length b, findex = 2\<rparr>"
  have t: "reads (get_enum codec ADDITIONAL_DATA_TYPE i 0) db n rs (ad_type x)"
    using ok by (intro reads_enum) (simp_all add: i row additional_data_ok_def)
  have m: "reads (get_string i 1) db n rs (rs ! i ! 1)"
    by (rule reads_string) (simp_all add: i row)
  have f: "reads (row_field i 2) db n rs (Some ?f)"
    using reads_field [of i n 2 rs db] i row by (simp add: cell_field_def)
  have u: "finds (ends (\<lambda>s. classic_unescape_binary_safe s ?f ty)) db (b, length b)" for ty
    unfolding finds_def
  proof (intro allI impI, elim conjE)
    fix s assume "usable s" "contents s = db"
    then show "\<exists>s'. ends (\<lambda>s. classic_unescape_binary_safe s ?f ty) s = Some (s', Inr (b, length b)) \<and>
        usable s' \<and> contents s' = db"
      using unescape_binary [of s b] b(3)
      by (auto simp: classic_unescape_binary_safe_def preludedb_sql_field_get_len_def preludedb_sql_field_get_value_def)
  qed
  have c: "reads (let r = Inr (ad_data x) in if ty = Some AD_DATE_TIME then unreleased r else ends (pure_result r))
      db n rs (ad_data x)" for ty
    by (auto simp: reads_def unreleased_def pure_result_def Let_def)
  show ?thesis
    unfolding additional_data_row_def
    by (rule reads_then, rule t, rule reads_then, rule m, rule reads_then, rule f)
      (simp only: option.case, rule reads_then, rule reads_session, rule u, simp only: prod.case b(4),
        rule reads_then, rule c, rule reads_got, simp add: row)
qed

lemma finds_additional_data:
  assumes own: "owns db pt m rs" "isalpha pt" and ok: "\<forall>x \<in> set xs. additional_data_ok storable codec x" "length xs < 2 ^ 31"
    and rows: "rows_of ''Prelude_AdditionalData'' rs =
      rows_of ''Prelude_AdditionalData'' (rows_listed (single ''Prelude_AdditionalData'' (additional_data_cells codec pt m)) xs)"
  shows "finds (get_additional_data codec m pt) db xs"
  unfolding get_additional_data_def
proof (rule finds_list_own [where D = "''type, meaning, data''" and T = "''Prelude_AdditionalData''" and
      cols = "[''type'', ''meaning'', ''data'']" and g = "additional_data_cells codec pt m", OF _ own _ rows])
  let ?rs = "map (\<lambda>r. map (cell_at r) [''type'', ''meaning'', ''data''])
    (map (\<lambda>k. additional_data_cells codec pt m (int k) (xs ! k)) [0..<length xs])"
  show "select_shape (own_keys True) ''type, meaning, data'' ''Prelude_AdditionalData'' [''type'', ''meaning'', ''data'']" by code_simp
  show "cell_at (additional_data_cells codec pt m k x) ''_index'' = Some (dec_int k)" for k x
    by (simp add: additional_data_cells_def message_of_def cell_at_def)
  show "scans (fetch_until (additional_data_row codec) []) db ?rs xs"
    by (rule scans_until) (use ok(1) in \<open>auto intro!: reads_additional_data\<close>)
qed (use ok(2) in \<open>simp_all add: query_text_def\<close>)

end

section \<open>Heartbeats\<close>

definition heartbeat_cells :: "idmef_heartbeat \<Rightarrow> stored_row" where
  "heartbeat_cells x = [(''messageid'', heartbeat_messageid x),
     (''heartbeat_interval'', map_option dec_nat (heartbeat_interval x))]"

definition heartbeat_parts :: "idmef_codec \<Rightarrow> nat \<Rightarrow> idmef_heartbeat \<Rightarrow> (string \<times> stored_row) list" where
  "heartbeat_parts codec n x =
     rows_listed (analyzer_rows codec (CHR ''H'') n) (heartbeat_analyzers x) @
     (''Prelude_CreateTime'', message_of (CHR ''H'') n @ time_cells codec (heartbeat_create_time x)) #
     rows_optional (\<lambda>t. [(''Prelude_AnalyzerTime'', message_of (CHR ''H'') n @ time_cells codec (Some t))])
       (heartbeat_analyzer_time x) @
     rows_listed (single ''Prelude_AdditionalData'' (additional_data_cells codec (CHR ''H'') n))
       (heartbeat_additional_data x)"

text \<open>
  The limits are those of the code: an argument of a process is looked for under a position
  that is a \<open>char\<close>.
\<close>

definition heartbeat_ok :: "(string \<Rightarrow> bool) \<Rightarrow> idmef_codec \<Rightarrow> idmef_heartbeat \<Rightarrow> bool" where
  "heartbeat_ok ok codec x \<longleftrightarrow> text_ok ok (heartbeat_messageid x) \<and> uint_ok 32 (heartbeat_interval x) \<and>
     list_all (analyzer_ok ok codec) (heartbeat_analyzers x) \<and> length (heartbeat_analyzers x) \<le> 128 \<and>
     (case heartbeat_create_time x of None \<Rightarrow> False | Some t \<Rightarrow> time_ok ok codec t) \<and>
     (case heartbeat_analyzer_time x of None \<Rightarrow> True | Some t \<Rightarrow> time_ok ok codec t) \<and>
     list_all (additional_data_ok ok codec) (heartbeat_additional_data x) \<and>
     length (heartbeat_additional_data x) < 2 ^ 31"

lemma heartbeat_belongs: "p \<in> set (heartbeat_parts codec n x) \<Longrightarrow> belongs (CHR ''H'') n (snd p)"
  by (auto simp: heartbeat_parts_def additional_data_cells_def single_def
      dest!: in_rows_optional in_rows_listed analyzer_belongs)

definition heartbeat_tables :: "string set" where
  "heartbeat_tables = {''Prelude_Analyzer'', ''Prelude_CreateTime'', ''Prelude_AnalyzerTime'', ''Prelude_AdditionalData''} \<union>
     analyzer_tables"

lemma heartbeat_in_tables: "fst ` set (heartbeat_parts codec n x) \<subseteq> heartbeat_tables"
proof -
  have "fst ` set (rows_optional (\<lambda>t. [(''Prelude_AnalyzerTime'', message_of (CHR ''H'') n @ time_cells codec (Some t))])
      (heartbeat_analyzer_time x)) \<subseteq> {''Prelude_AnalyzerTime''}"
    by (cases "heartbeat_analyzer_time x") simp_all
  moreover have "fst ` set (rows_listed (single ''Prelude_AdditionalData'' (additional_data_cells codec (CHR ''H'') n))
      (heartbeat_additional_data x)) \<subseteq> {''Prelude_AdditionalData''}"
    by (auto simp: single_def dest!: in_rows_listed)
  ultimately show ?thesis
    using analyzers_in_tables [of codec "CHR ''H''" n "heartbeat_analyzers x"]
    unfolding heartbeat_parts_def heartbeat_tables_def set_append image_Un list.set image_insert by auto
qed

lemma heartbeat_keys: "T \<in> heartbeat_tables \<Longrightarrow> set [''_parent_type'', ''_message_ident''] \<subseteq> set (key_columns T)"
  unfolding heartbeat_tables_def analyzer_tables_def by (elim UnE insertE emptyE; simp add: schema_facts)

lemma heartbeat_fits:
  assumes "heartbeat_ok ok codec x"
  shows "fit (heartbeat_parts codec n x)"
proof -
  let ?a = "rows_listed (analyzer_rows codec (CHR ''H'') n) (heartbeat_analyzers x)"
    and ?t = "rows_optional (\<lambda>t. [(''Prelude_AnalyzerTime'', message_of (CHR ''H'') n @ time_cells codec (Some t))])
       (heartbeat_analyzer_time x)"
    and ?d = "rows_listed (single ''Prelude_AdditionalData'' (additional_data_cells codec (CHR ''H'') n)) (heartbeat_additional_data x)"
  note k = assms [unfolded heartbeat_ok_def list_all_iff]
  obtain c where c: "heartbeat_create_time x = Some c" "time_ok ok codec c" using k by (auto split: option.splits)
  have a: "fit ?a"
    by (rule fit_listed [where c = "\<lambda>T. if T = ''Prelude_Analyzer'' then ''_index'' else ''_parent0_index''"])
      (use k analyzer_fits in blast)
  have t: "fit ?t" using k time_fits [of ok codec] by (cases "heartbeat_analyzer_time x") simp_all
  have d: "fit ?d"
  proof (rule fit_listed [where c = "\<lambda>T. ''_index''"], intro allI ballI)
    fix i y assume "y \<in> set (heartbeat_additional_data x)"
    then have "additional_data_ok ok codec y" using k by blast
    then show "fits_at (\<lambda>T. ''_index'') i (single ''Prelude_AdditionalData'' (additional_data_cells codec (CHR ''H'') n) i y)"
      unfolding fits_at_def single_def
      by (intro conjI fit_row)
        (auto simp: additional_data_ok_def additional_data_cells_def row_facts dest!: enum_ok_given split: option.splits)
  qed
  have at: "fst ` set ?a \<subseteq> insert ''Prelude_Analyzer'' analyzer_tables" by (rule analyzers_in_tables)
  have tt: "fst ` set ?t \<subseteq> {''Prelude_AnalyzerTime''}" by (cases "heartbeat_analyzer_time x") simp_all
  have dt: "fst ` set ?d \<subseteq> {''Prelude_AdditionalData''}" by (auto simp: single_def dest!: in_rows_listed)
  have "fit (?a @ [(''Prelude_CreateTime'', message_of (CHR ''H'') n @ time_cells codec (Some c))] @ ?t @ ?d)"
  proof (intro fit_append a t d time_fits [OF c(2)])
    show "fst ` set ?t \<inter> fst ` set ?d = {}" using tt dt by fastforce
    show "fst ` set ?a \<inter> fst ` set ([(''Prelude_CreateTime'', message_of (CHR ''H'') n @ time_cells codec (Some c))] @ ?t @ ?d) = {}"
      using at tt dt unfolding analyzer_tables_def by fastforce
    show "fst ` set [(''Prelude_CreateTime'', message_of (CHR ''H'') n @ time_cells codec (Some c))] \<inter> fst ` set (?t @ ?d) = {}"
      using tt dt by fastforce
  qed simp
  then show ?thesis by (simp add: heartbeat_parts_def c(1))
qed

lemma heartbeat_sound:
  assumes "heartbeat_ok ok codec x" "sound db" "no_orphans (CHR ''H'') ''Prelude_Heartbeat'' db"
    and "\<forall>r \<in> set (db ''Prelude_Heartbeat''). cell_at r ''_ident'' \<noteq> Some (dec_nat n)"
  shows "sound (add_rows (add_rows db [(''Prelude_Heartbeat'', (''_ident'', Some (dec_nat n)) # heartbeat_cells x)])
    (heartbeat_parts codec n x))"
proof (rule sound_add [where pt = "CHR ''H''" and n = n])
  show "sound (add_rows db [(''Prelude_Heartbeat'', (''_ident'', Some (dec_nat n)) # heartbeat_cells x)])"
    by (rule sound_message [OF assms(2) _ assms(4)]) (simp add: message_tables_def)
  show "fit (heartbeat_parts codec n x)" by (rule heartbeat_fits [OF assms(1)])
  show "set [''_parent_type'', ''_message_ident''] \<subseteq> set (key_columns (fst p)) \<and> belongs (CHR ''H'') n (snd p)"
    if "p \<in> set (heartbeat_parts codec n x)" for p
    using heartbeat_keys [of "fst p"] heartbeat_in_tables [of codec n x] heartbeat_belongs [OF that] that by blast
  show "\<not> belongs (CHR ''H'') n r"
    if "r \<in> set (add_rows db [(''Prelude_Heartbeat'', (''_ident'', Some (dec_nat n)) # heartbeat_cells x)] T)" for T r
  proof -
    have "r \<in> set (db T) \<or> r = (''_ident'', Some (dec_nat n)) # heartbeat_cells x" using that by (auto split: if_splits)
    then show ?thesis
      using assms(3,4) by (fastforce simp: no_orphans_def belongs_def heartbeat_cells_def cell_at_def)
  qed
qed

text \<open>A heartbeat that is in the tables under an ident.\<close>

definition heartbeat_stored :: "idmef_codec \<Rightarrow> tables \<Rightarrow> nat \<Rightarrow> idmef_heartbeat \<Rightarrow> bool" where
  "heartbeat_stored codec db n x \<longleftrightarrow> owns db (CHR ''H'') n (heartbeat_parts codec n x) \<and>
     filter (\<lambda>r. cell_at r ''_ident'' = Some (dec_nat n)) (db ''Prelude_Heartbeat'') =
       [(''_ident'', Some (dec_nat n)) # heartbeat_cells x]"

definition with_heartbeat :: "idmef_codec \<Rightarrow> tables \<Rightarrow> nat \<Rightarrow> idmef_heartbeat \<Rightarrow> tables" where
  "with_heartbeat codec db n x = add_rows db
     ((''Prelude_Heartbeat'', (''_ident'', Some (dec_nat n)) # heartbeat_cells x) # heartbeat_parts codec n x)"

lemma heartbeat_parts_elsewhere: "rows_of ''Prelude_Heartbeat'' (heartbeat_parts codec n x) = []"
  by (cases "heartbeat_analyzer_time x")
    (simp_all add: heartbeat_parts_def rows_of_listed_none analyzers_other_tables analyzer_tables_def)

lemma heartbeat_stored_new:
  assumes "no_orphans (CHR ''H'') ''Prelude_Heartbeat'' db"
    and "\<forall>r \<in> set (db ''Prelude_Heartbeat''). cell_at r ''_ident'' \<noteq> Some (dec_nat n)"
  shows "heartbeat_stored codec (with_heartbeat codec db n x) n x"
  unfolding heartbeat_stored_def with_heartbeat_def
proof
  show "owns (add_rows db ((''Prelude_Heartbeat'', (''_ident'', Some (dec_nat n)) # heartbeat_cells x) # heartbeat_parts codec n x))
      (CHR ''H'') n (heartbeat_parts codec n x)"
    by (rule owns_new [OF assms]) (simp_all add: heartbeat_belongs heartbeat_cells_def cell_at_def)
qed (use assms(2) heartbeat_parts_elsewhere in \<open>auto simp: cell_at_def filter_empty_conv\<close>)

lemma heartbeat_stored_kept:
  assumes "heartbeat_stored codec db m y"
    and "\<forall>r \<in> set (db ''Prelude_Heartbeat''). cell_at r ''_ident'' \<noteq> Some (dec_nat n)"
  shows "heartbeat_stored codec (with_heartbeat codec db n x) m y"
proof -
  have "(''_ident'', Some (dec_nat m)) # heartbeat_cells y \<in> set (db ''Prelude_Heartbeat'')"
    using assms(1) filter_is_subset [of "\<lambda>r. cell_at r ''_ident'' = Some (dec_nat m)" "db ''Prelude_Heartbeat''"]
    unfolding heartbeat_stored_def by simp
  then have "m \<noteq> n" using assms(2) by (fastforce simp: cell_at_def)
  then have d: "dec_nat m \<noteq> dec_nat n" by (simp add: dec_nat_inj)
  have "filter (\<lambda>r. cell_at r ''_parent_type'' = Some [CHR ''H''] \<and> cell_at r ''_message_ident'' = Some (dec_nat m))
      (rows_of T (heartbeat_parts codec n x)) = []" for T
  proof -
    have "belongs (CHR ''H'') n r" if "r \<in> set (rows_of T (heartbeat_parts codec n x))" for r
      using that heartbeat_belongs [of "(T, r)"] by (auto simp: rows_of_def)
    then show ?thesis using d by (auto simp: filter_empty_conv belongs_def)
  qed
  then show ?thesis
    using assms(1) d heartbeat_parts_elsewhere [of codec n x]
    by (auto simp: heartbeat_stored_def with_heartbeat_def owns_def cell_at_def heartbeat_cells_def)
qed

lemma heartbeat_no_orphans:
  assumes "no_orphans (CHR ''H'') ''Prelude_Heartbeat'' db"
  shows "no_orphans (CHR ''H'') ''Prelude_Heartbeat'' (with_heartbeat codec db n x)"
  unfolding no_orphans_def
proof (intro allI ballI impI)
  fix T r assume r: "r \<in> set (with_heartbeat codec db n x T)" and pt: "cell_at r ''_parent_type'' = Some [CHR ''H'']"
  let ?h = "(''_ident'', Some (dec_nat n)) # heartbeat_cells x"
  have h: "?h \<in> set (with_heartbeat codec db n x ''Prelude_Heartbeat'')" by (simp add: with_heartbeat_def)
  consider "r \<in> set (db T)" | "r = ?h" | "(T, r) \<in> set (heartbeat_parts codec n x)"
    using r by (auto simp: with_heartbeat_def rows_of_def split: if_splits)
  then show "\<exists>h \<in> set (with_heartbeat codec db n x ''Prelude_Heartbeat''). cell_at h ''_ident'' = cell_at r ''_message_ident''"
  proof cases
    case 1
    then show ?thesis using assms pt unfolding no_orphans_def with_heartbeat_def by fastforce
  next
    case 2
    then show ?thesis using pt by (simp add: heartbeat_cells_def cell_at_def)
  next
    case 3
    then have "cell_at r ''_message_ident'' = Some (dec_nat n)" using heartbeat_belongs [OF 3] by (simp add: belongs_def)
    then show ?thesis using h by (intro bexI [of _ ?h]) (simp_all add: cell_at_def)
  qed
qed

lemma heartbeat_with_sound:
  assumes "heartbeat_ok ok codec x" "sound db" "no_orphans (CHR ''H'') ''Prelude_Heartbeat'' db"
    and "\<forall>r \<in> set (db ''Prelude_Heartbeat''). cell_at r ''_ident'' \<noteq> Some (dec_nat n)"
  shows "sound (with_heartbeat codec db n x)"
  using heartbeat_sound [OF assms] by (simp add: with_heartbeat_def)

context message_store
begin

lemma adds_heartbeat_parts:
  assumes "heartbeat_ok storable codec x"
  shows "adds (call (insert_listed (insert_analyzer codec (CHR ''H'') n) (heartbeat_analyzers x)) (\<lambda>_.
     call (insert_createtime codec (CHR ''H'') n (heartbeat_create_time x)) (\<lambda>_.
     call (insert_optional (insert_analyzertime codec (CHR ''H'') n) (heartbeat_analyzer_time x)) (\<lambda>_.
       insert_listed (insert_additional_data codec (CHR ''H'') n) (heartbeat_additional_data x))))) (heartbeat_parts codec n x)"
proof -
  have h: "isalpha (CHR ''H'')" by code_simp
  have "heartbeat_parts codec n x = rows_listed (analyzer_rows codec (CHR ''H'') n) (heartbeat_analyzers x) @
      ([(''Prelude_CreateTime'', message_of (CHR ''H'') n @ time_cells codec (heartbeat_create_time x))] @
      (rows_optional (\<lambda>t. [(''Prelude_AnalyzerTime'', message_of (CHR ''H'') n @ time_cells codec (Some t))])
       (heartbeat_analyzer_time x) @
      rows_listed (single ''Prelude_AdditionalData'' (additional_data_cells codec (CHR ''H'') n))
       (heartbeat_additional_data x)))"
    by (simp add: heartbeat_parts_def)
  then show ?thesis
    using assms h
    by (simp only: heartbeat_ok_def list_all_iff)
      (intro adds_then adds_listed adds_optional adds_analyzer adds_createtime adds_analyzertime adds_additional_data;
        auto split: option.splits)
qed

lemma heartbeat_inserted:
  assumes "usable s" "heartbeat_ok storable codec x" "sound (contents s)"
    and "no_orphans (CHR ''H'') ''Prelude_Heartbeat'' (contents s)" "idents_left (contents s ''Prelude_Heartbeat'')"
  obtains n s' where "insert_heartbeat codec x s = (s', Inr ())" "usable s'"
    "contents s' = add_rows (contents s)
       ((''Prelude_Heartbeat'', (''_ident'', Some (dec_nat n)) # heartbeat_cells x) # heartbeat_parts codec n x)"
    "\<forall>r \<in> set (contents s ''Prelude_Heartbeat''). cell_at r ''_ident'' \<noteq> Some (dec_nat n)"
proof -
  have ok: "text_ok storable (heartbeat_messageid x)" "uint_ok 32 (heartbeat_interval x)"
    using assms(2) by (simp_all add: heartbeat_ok_def)
  obtain s1 l where 1: "escape_string (heartbeat_messageid x) s = (s1, Inr l)" "usable s1" "contents s1 = contents s"
    "lit l = Some (heartbeat_messageid x)"
    using escapes [OF assms(1) ok(1)] by blast
  have c: "''Prelude_Heartbeat'' \<in> message_tables" "plain_columns ''messageid, heartbeat_interval''"
    "columns_in ''messageid, heartbeat_interval'' = [''messageid'', ''heartbeat_interval'']"
    "has_columns ''Prelude_Heartbeat'' [''messageid'', ''heartbeat_interval'']"
    by (simp add: message_tables_def, code_simp+)
  have v: "map lit [l, get_optional_uint 16 (heartbeat_interval x)] = map Some (map snd (heartbeat_cells x))"
    using 1(4) lit_optional_uint [OF ok(2)] by (simp add: heartbeat_cells_def)
  have z: "zip [''messageid'', ''heartbeat_interval''] (map snd (heartbeat_cells x)) = heartbeat_cells x"
    by (simp add: heartbeat_cells_def)
  obtain n s2 s3 where 2: "insert_row ''Prelude_Heartbeat'' ''messageid, heartbeat_interval''
      [l, get_optional_uint 16 (heartbeat_interval x)] s1 = (s2, Inr ())"
    "get_last_insert_ident ''Prelude_Heartbeat'' s2 = (s3, Inr n)" "usable s3"
    "contents s3 = add_rows (contents s) [(''Prelude_Heartbeat'', (''_ident'', Some (dec_nat n)) # heartbeat_cells x)]"
    "\<forall>r \<in> set (contents s ''Prelude_Heartbeat''). cell_at r ''_ident'' \<noteq> Some (dec_nat n)"
    using insert_message [OF 1(2) c(1,2) v] assms(3,5) c(4) unfolding c(3) z 1(3)
    by (auto simp: heartbeat_cells_def)
  have sd: "sound (add_rows (contents s3) (heartbeat_parts codec n x))"
    unfolding 2(4) by (rule heartbeat_sound [OF assms(2,3,4) 2(5)])
  obtain s4 y where 3: "call (insert_listed (insert_analyzer codec (CHR ''H'') n) (heartbeat_analyzers x)) (\<lambda>_.
     call (insert_createtime codec (CHR ''H'') n (heartbeat_create_time x)) (\<lambda>_.
     call (insert_optional (insert_analyzertime codec (CHR ''H'') n) (heartbeat_analyzer_time x)) (\<lambda>_.
       insert_listed (insert_additional_data codec (CHR ''H'') n) (heartbeat_additional_data x)))) s3 = (s4, Inr y)"
    "usable s4" "contents s4 = add_rows (contents s3) (heartbeat_parts codec n x)"
    using adds_heartbeat_parts [OF assms(2)] 2(3) sd unfolding adds_def by blast
  have "insert_heartbeat codec x s = (s4, Inr ())"
    unfolding insert_heartbeat_def using 1(1) 2(1,2) 3(1) by simp
  then show thesis using that 3 2(4,5) by simp
qed

lemma finds_value: "x = y \<Longrightarrow> finds (got x) db y"
  using finds_got by simp

lemma scans_message:
  assumes "rs \<noteq> []" "reads (body 0) db 1 rs x"
  shows "scans (get_then (ends fetch_row) (\<lambda>row. case row of None \<Rightarrow> ends (fail Undefined) | Some i \<Rightarrow> body i)) db rs x"
  unfolding scans_def
proof (intro allI impI, elim conjE)
  fix s t assume u: "usable s" "contents s = db" "result t 0 rs"
  then obtain t1 where t1: "fetch_row (s, t) = ((s, t1), Inr (Some 0))" "result t1 1 rs"
    using fetch_row_reads [OF u(1,3)] assms(1) by auto
  then show "\<exists>s' t'. get_then (ends fetch_row) (\<lambda>row. case row of None \<Rightarrow> ends (fail Undefined) | Some i \<Rightarrow> body i) (s, t) =
      Some ((s', t'), Inr x) \<and> usable s' \<and> contents s' = db"
    using assms(2) u unfolding reads_def by (fastforce simp: get_then_def)
qed

text \<open>The row of a message is found by its ident.\<close>

lemma finds_message_row:
  assumes "select_shape [''_ident''] D T cols" "q = query_text D T [(''_ident'', dec_nat n)] False"
    and "filter (\<lambda>r. cell_at r ''_ident'' = Some (dec_nat n)) (db T) = [row]"
    and "\<And>k rs. 0 < k \<Longrightarrow> rs ! 0 = map (cell_at row) cols \<Longrightarrow> reads (body 0) db k rs x"
  shows "finds (message_row body q) db x"
  unfolding message_row_def
proof (rule finds_table [where conds = "[(''_ident'', dec_nat n)]" and ordered = False, OF _ _ _ _ _ refl _ _ assms(2)])
  have "plain_name ''_ident''" "CHR '' '' \<notin> set (dec_nat n)"
    using dec_nat_digits [of n] by (code_simp, auto simp: isdigit_def)
  then show "plain_conditions lit [(''_ident'', dec_nat n)]" by (simp add: plain_conditions_def lit_nat)
  have "matches lit [(''_ident'', dec_nat n)] = (\<lambda>r. cell_at r ''_ident'' = Some (dec_nat n))"
    by (auto simp: matches_def lit_nat fun_eq_iff)
  then have sel: "selected lit db D T [(''_ident'', dec_nat n)] False = [map (cell_at row) cols]"
    using assms(1,3) by (simp add: selected_def select_shape_def)
  show "length (selected lit db D T [(''_ident'', dec_nat n)] False) < 2 ^ 32 - 1" by (simp add: sel)
  show "scans (get_then (ends fetch_row) (\<lambda>row. case row of None \<Rightarrow> ends (fail Undefined) | Some i \<Rightarrow> body i)) db
      (selected lit db D T [(''_ident'', dec_nat n)] False) x"
    by (rule scans_message) (simp_all add: sel assms(4))
qed (use assms(1) in \<open>simp_all add: select_shape_def order_keys_def has_columns_def\<close>)

lemma finds_heartbeat:
  assumes ok: "heartbeat_ok storable codec x" and own: "owns db (CHR ''H'') n (heartbeat_parts codec n x)"
    and row: "filter (\<lambda>r. cell_at r ''_ident'' = Some (dec_nat n)) (db ''Prelude_Heartbeat'') =
      [(''_ident'', Some (dec_nat n)) # heartbeat_cells x]"
  shows "finds (classic_get_heartbeat codec n) db (MESSAGE_HEARTBEAT (Some x))"
proof -
  have h: "isalpha (CHR ''H'')" by code_simp
  note k = ok [unfolded heartbeat_ok_def list_all_iff]
  have r: "finds (get_heartbeat_row n) db (heartbeat_messageid x, heartbeat_interval x)"
    unfolding get_heartbeat_row_def
  proof (rule finds_message_row [where D = "''messageid, heartbeat_interval''" and T = "''Prelude_Heartbeat''" and
        cols = "[''messageid'', ''heartbeat_interval'']" and n = n and db = db, OF _ _ row])
    show "select_shape [''_ident''] ''messageid, heartbeat_interval'' ''Prelude_Heartbeat'' [''messageid'', ''heartbeat_interval'']"
      by code_simp
    fix j :: nat and rs assume j: "0 < j"
      and c: "rs ! 0 = map (cell_at ((''_ident'', Some (dec_nat n)) # heartbeat_cells x)) [''messageid'', ''heartbeat_interval'']"
    have c: "rs ! 0 = [heartbeat_messageid x, map_option dec_nat (heartbeat_interval x)]"
      using c by (simp add: heartbeat_cells_def cell_at_def)
    have m: "reads (get_string 0 0) db j rs (rs ! 0 ! 0)" by (rule reads_string) (simp_all add: j c)
    have i: "reads (get_uint32 0 1) db j rs (heartbeat_interval x)"
      using k by (intro reads_uint32) (simp_all add: j c)
    show "reads (get_then (get_string 0 0) (\<lambda>messageid.
        get_then (get_uint32 0 1) (\<lambda>interval. got (messageid, interval)))) db j rs (heartbeat_messageid x, heartbeat_interval x)"
      by (rule reads_then, rule m, rule reads_then, rule i, rule reads_got) (simp add: c)
  qed (simp add: query_text_def)
  have a: "finds (get_analyzer codec n (CHR ''H'')) db (heartbeat_analyzers x)"
  proof (rule finds_analyzer [OF own h])
    show "rows_of T (heartbeat_parts codec n x) = rows_of T (rows_listed (analyzer_rows codec (CHR ''H'') n) (heartbeat_analyzers x))"
      if "T \<in> insert ''Prelude_Analyzer'' analyzer_tables" for T
      using that unfolding analyzer_tables_def
      by (cases "heartbeat_analyzer_time x"; elim insertE emptyE) (simp_all add: heartbeat_parts_def rows_of_listed_none)
  qed (use k in auto)
  have none: "rows_of T (rows_listed (analyzer_rows codec (CHR ''H'') n) (heartbeat_analyzers x)) = []"
    if "T \<in> {''Prelude_CreateTime'', ''Prelude_AnalyzerTime'', ''Prelude_AdditionalData''}" for T
    using that by (intro analyzers_other_tables) (auto simp: analyzer_tables_def)
  have c: "finds (get_create_time codec n (CHR ''H'')) db (heartbeat_create_time x)"
    unfolding get_create_time_def
  proof (rule finds_time [OF own h _ _, where T = "''Prelude_CreateTime''"])
    show "select_shape (own_keys False) ''time, gmtoff, usec'' ''Prelude_CreateTime'' [''time'', ''gmtoff'', ''usec'']" by code_simp
    show "rows_of ''Prelude_CreateTime'' (heartbeat_parts codec n x) = [] \<and> heartbeat_create_time x = None \<or>
        rows_of ''Prelude_CreateTime'' (heartbeat_parts codec n x) =
          [message_of (CHR ''H'') n @ time_cells codec (heartbeat_create_time x)]"
      by (cases "heartbeat_analyzer_time x") (simp_all add: heartbeat_parts_def none rows_of_listed_none)
  qed (use k in \<open>simp_all add: query_text_def\<close>)
  have t: "finds (get_analyzer_time codec n (CHR ''H'')) db (heartbeat_analyzer_time x)"
    unfolding get_analyzer_time_def
  proof (rule finds_time [OF own h _ _, where T = "''Prelude_AnalyzerTime''"])
    show "select_shape (own_keys False) ''time, gmtoff, usec'' ''Prelude_AnalyzerTime'' [''time'', ''gmtoff'', ''usec'']" by code_simp
    show "rows_of ''Prelude_AnalyzerTime'' (heartbeat_parts codec n x) = [] \<and> heartbeat_analyzer_time x = None \<or>
        rows_of ''Prelude_AnalyzerTime'' (heartbeat_parts codec n x) =
          [message_of (CHR ''H'') n @ time_cells codec (heartbeat_analyzer_time x)]"
      by (cases "heartbeat_analyzer_time x") (simp_all add: heartbeat_parts_def none rows_of_listed_none)
  qed (use k in \<open>simp_all add: query_text_def\<close>)
  have d: "finds (get_additional_data codec n (CHR ''H'')) db (heartbeat_additional_data x)"
  proof (rule finds_additional_data [OF own h])
    show "rows_of ''Prelude_AdditionalData'' (heartbeat_parts codec n x) = rows_of ''Prelude_AdditionalData''
        (rows_listed (single ''Prelude_AdditionalData'' (additional_data_cells codec (CHR ''H'') n)) (heartbeat_additional_data x))"
      by (cases "heartbeat_analyzer_time x") (simp_all add: heartbeat_parts_def none)
  qed (use k in auto)
  show ?thesis
    unfolding classic_get_heartbeat_def
    by (rule finds_then, rule r, simp only: prod.case, rule finds_then, rule a, rule finds_then, rule c,
        rule finds_then, rule t, rule finds_then, rule d, rule finds_value) simp
qed

text \<open>What an insertion and a retrieval of a heartbeat do.\<close>

lemma heartbeat_inserts:
  assumes "usable s" "heartbeat_ok storable codec x" "sound (contents s)"
    and "no_orphans (CHR ''H'') ''Prelude_Heartbeat'' (contents s)" "idents_left (contents s ''Prelude_Heartbeat'')"
  obtains n s' where "insert_heartbeat codec x s = (s', Inr ())" "usable s'" "contents s' = with_heartbeat codec (contents s) n x"
    "\<forall>r \<in> set (contents s ''Prelude_Heartbeat''). cell_at r ''_ident'' \<noteq> Some (dec_nat n)"
  using heartbeat_inserted [OF assms] unfolding with_heartbeat_def by metis

lemma heartbeat_retrieved:
  assumes "usable s" "heartbeat_ok storable codec x" "heartbeat_stored codec (contents s) n x"
  obtains s' where "classic_get_heartbeat codec n s = Some (s', Inr (MESSAGE_HEARTBEAT (Some x)))" "usable s'"
    "contents s' = contents s"
  using finds_heartbeat [of codec x "contents s" n] assms unfolding heartbeat_stored_def finds_def by metis

end

end
