(* ===== verification/Sqlite_Store.thy ===== *)
theory Sqlite_Store
  imports Heartbeat_Trip
begin

text \<open>
  SQLite as a store of messages. \<open>sqlite_engine\<close> says what the library is relied on for when
  it works on a database with the classic schema: what its literals denote, what an INSERT
  adds, what a SELECT gives, which ident a message gets, and BEGIN and COMMIT. A session of
  the plugin on such a library is a \<open>message_store\<close>, except that an empty text is read back as NULL.
\<close>

section \<open>Statements\<close>

definition cell_bytes :: "cell \<Rightarrow> string" where
  "cell_bytes c = (case c of None \<Rightarrow> [] | Some v \<Rightarrow> v)"

definition max_ident_text :: "string \<Rightarrow> string" where
  "max_ident_text T = ''SELECT max(_ident) FROM '' @ T @ '';''"

text \<open>A statement that is ready to give these rows.\<close>

definition gives :: "sqlite_stmt \<Rightarrow> nat \<Rightarrow> cell list list \<Rightarrow> bool" where
  "gives st n rs \<longleftrightarrow> st_rows st = map (map cell_bytes) rs \<and> st_pos st = 0 \<and> st_end st = SQLITE_DONE \<and>
     length (st_columns st) = n"

locale sqlite_engine =
  fixes lib :: "'w libsqlite"
    and tbl :: "'w \<Rightarrow> tables"
    and lit :: "string \<Rightarrow> cell option"
    and autocommit :: "'w \<Rightarrow> bool"
  assumes quote: "lite_quote lib = double_quotes"
    and null_literal: "lit ''NULL'' = Some None"
    and int_literal: "lit (dec_int k) = Some (Some (dec_int k))"
    and text_literal: "CHR 0x00 \<notin> set x \<Longrightarrow> lit (quoted_literal x) = Some (Some x)"
    and blob_literal: "lit (hex_literal x) = Some (Some x)"
    and start: "autocommit w \<Longrightarrow> \<exists>w'. lite_exec lib w ''BEGIN'' = (w', Inr ()) \<and> tbl w' = tbl w \<and> \<not> autocommit w'"
    and commit: "\<not> autocommit w \<Longrightarrow> \<exists>w'. lite_exec lib w ''COMMIT'' = (w', Inr ()) \<and> tbl w' = tbl w \<and> autocommit w'"
    and insert: "T \<notin> message_tables \<Longrightarrow> plain_name T \<Longrightarrow> plain_columns C \<Longrightarrow> has_columns T (columns_in C) \<Longrightarrow>
      map lit vals = map Some cells \<Longrightarrow> length cells = length (columns_in C) \<Longrightarrow>
      sound (add_rows (tbl w) [(T, zip (columns_in C) cells)]) \<Longrightarrow>
      \<exists>w'. lite_exec lib w (insert_text T C vals) = (w', Inr ()) \<and> autocommit w' = autocommit w \<and>
        tbl w' = add_rows (tbl w) [(T, zip (columns_in C) cells)]"
    and insert_message: "T \<in> message_tables \<Longrightarrow> plain_columns C \<Longrightarrow> has_columns T (columns_in C) \<Longrightarrow>
      map lit vals = map Some cells \<Longrightarrow> length cells = length (columns_in C) \<Longrightarrow>
      sound (tbl w) \<Longrightarrow> idents_left (tbl w T) \<Longrightarrow>
      \<exists>n w' w'' st. lite_exec lib w (insert_text T C vals) = (w', Inr ()) \<and> autocommit w' = autocommit w \<and>
        tbl w' = add_rows (tbl w) [(T, (''_ident'', Some (dec_nat n)) # zip (columns_in C) cells)] \<and> n < 2 ^ 63 \<and>
        (\<forall>r \<in> set (tbl w T). cell_at r ''_ident'' \<noteq> Some (dec_nat n)) \<and>
        lite_prepare lib w' (max_ident_text T) = (w'', Inr st) \<and> gives st 1 [[Some (dec_nat n)]] \<and>
        autocommit w'' = autocommit w \<and> tbl w'' = tbl w'"
    and select: "plain_name T \<Longrightarrow> plain_columns D \<Longrightarrow> plain_conditions lit conds \<Longrightarrow>
      has_columns T (columns_in D @ map fst conds @ order_keys ordered) \<Longrightarrow>
      (ordered \<longrightarrow> (\<forall>r \<in> set (tbl w T). matches lit conds r \<longrightarrow> indexed r)) \<Longrightarrow>
      \<exists>w' st. lite_prepare lib w (query_text D T conds ordered) = (w', Inr st) \<and>
        gives st (length (columns_in D)) (selected lit (tbl w) D T conds ordered) \<and>
        autocommit w' = autocommit w \<and> tbl w' = tbl w"

section \<open>Empty texts\<close>

text \<open>The plugin gives NULL for a column without bytes: the tables as they can be read.\<close>

definition read_cell :: "cell \<Rightarrow> cell" where
  "read_cell c = (if c = Some [] then None else c)"

definition read_row :: "stored_row \<Rightarrow> stored_row" where
  "read_row r = map (map_prod id read_cell) r"

definition read_tables :: "tables \<Rightarrow> tables" where
  "read_tables db = (\<lambda>T. map read_row (db T))"

lemma cell_bytes_read [simp]: "cell_bytes (read_cell c) = cell_bytes c"
  by (auto simp: cell_bytes_def read_cell_def split: option.splits)

lemma read_cell_simps [simp]: "read_cell None = None" "v \<noteq> [] \<Longrightarrow> read_cell (Some v) = Some v"
  by (simp_all add: read_cell_def)

lemma cell_at_read [simp]: "cell_at (read_row r) c = read_cell (cell_at r c)"
proof -
  have "map_of (map (map_prod id read_cell) r) c = map_option read_cell (map_of r c)"
    by (induction r) auto
  then show ?thesis by (simp add: cell_at_def read_row_def split: option.splits)
qed

lemma read_row_Cons [simp]: "read_row ((c, v) # r) = (c, read_cell v) # read_row r"
  by (simp add: read_row_def)

lemma read_zip [simp]: "read_row (zip cs vs) = zip cs (map read_cell vs)"
  by (induction cs vs rule: list_induct2') (simp_all add: read_row_def)

lemma read_add [simp]:
  "read_tables (add_rows db [(T, r)]) = add_rows (read_tables db) [(T, read_row r)]"
  by (auto simp: read_tables_def add_rows_def rows_of_def fun_eq_iff)

lemma read_sound: "sound (read_tables db) \<Longrightarrow> sound db"
  unfolding read_tables_def by (rule sound_mapped [where g = read_cell], assumption, rule cell_at_read, simp)

lemma read_cell_Some: "read_cell c = Some v \<longleftrightarrow> c = Some v \<and> v \<noteq> []"
  by (auto simp: read_cell_def)

lemma dec_nat_not_empty: "dec_nat n \<noteq> []"
  by simp

text \<open>What a literal denotes, as it will be read.\<close>

definition read_literal :: "(string \<Rightarrow> cell option) \<Rightarrow> string \<Rightarrow> cell option" where
  "read_literal lit l = map_option read_cell (lit l)"

lemma read_literal_Some: "read_literal lit l = Some (Some v) \<longleftrightarrow> lit l = Some (Some v) \<and> v \<noteq> []"
  by (auto simp: read_literal_def read_cell_Some)

lemma read_plain_conditions: "plain_conditions (read_literal lit) conds \<Longrightarrow> plain_conditions lit conds"
  by (fastforce simp: plain_conditions_def read_literal_Some)

lemma read_matches:
  assumes "plain_conditions (read_literal lit) conds"
  shows "matches (read_literal lit) conds (read_row r) = matches lit conds r"
proof -
  have "cell_at (read_row r) c \<noteq> None \<and> read_literal lit l = Some (cell_at (read_row r) c) \<longleftrightarrow>
      cell_at r c \<noteq> None \<and> lit l = Some (cell_at r c)" if m: "(c, l) \<in> set conds" for c l
  proof -
    obtain v where "lit l = Some (Some v)" "v \<noteq> []"
      using assms m by (auto simp: plain_conditions_def read_literal_Some)
    then show ?thesis unfolding cell_at_read by (auto simp: read_literal_def read_cell_def)
  qed
  then show ?thesis unfolding matches_def by blast
qed

lemma read_row_index: "row_index (read_row r) = row_index r"
proof (cases "cell_at r ''_index''")
  case (Some t)
  then show ?thesis by (cases t) (simp_all add: row_index_def read_cell_def strto_scan_def)
qed (simp add: row_index_def)

lemma read_indexed: "indexed (read_row r) = indexed r"
  using dec_int_nonempty by (simp add: indexed_def read_row_index read_cell_Some)

lemma sort_key_map:
  "(\<And>x. k (f x) = k' x) \<Longrightarrow> sort_key k (map f xs) = map f (sort_key k' xs)"
proof -
  assume k: "\<And>x. k (f x) = k' x"
  have "insort_key k (f x) (map f ys) = map f (insort_key k' x ys)" for x ys
    by (induction ys) (simp_all add: k)
  then show ?thesis by (induction xs) simp_all
qed

lemma read_selected:
  assumes "plain_conditions (read_literal lit) conds"
  shows "selected (read_literal lit) (read_tables db) D T conds ordered =
    map (map read_cell) (selected lit db D T conds ordered)"
proof -
  have "filter (matches (read_literal lit) conds) (read_tables db T) = map read_row (filter (matches lit conds) (db T))"
    by (simp add: read_tables_def filter_map comp_def read_matches [OF assms])
  moreover have "index_order (map read_row rs) = map read_row (index_order rs)" for rs
    by (simp add: index_order_def filter_map comp_def read_row_index sort_key_map [where k' = row_index])
  ultimately show ?thesis by (simp add: selected_def comp_def)
qed

section \<open>Sessions\<close>

text \<open>
  A connected session of the plugin, inside or outside a transaction, and a result that is to
  give \<open>rs\<close> and of which \<open>n\<close> rows were fetched.
\<close>

definition sqlite_session :: "'w libsqlite \<Rightarrow> ('w \<Rightarrow> bool) \<Rightarrow> bool \<Rightarrow> ('w, sqlite_stmt) sql \<Rightarrow> bool" where
  "sqlite_session lib autocommit ac s \<longleftrightarrow> status_connected s \<and> (\<exists>rx. sql_plugin s = sqlite_plugin lib rx) \<and>
     autocommit (session s) = ac"

definition sqlite_result :: "sqlite_stmt sql_table \<Rightarrow> nat \<Rightarrow> cell list list \<Rightarrow> bool" where
  "sqlite_result t n rs \<longleftrightarrow> n \<le> length rs \<and> length rs < 2 ^ 32 - 1 \<and>
     litecur.holds t (take n (map (map cell_bytes) rs)) \<and>
     sqlite_pending (tdata t) = drop n (map (map cell_bytes) rs) \<and> (tdone t \<longrightarrow> n = length rs) \<and>
     (\<forall>r \<in> set rs. length r < 2 ^ 31 \<and> Some [] \<notin> set r)"

lemma gives_result:
  assumes "gives st k rs" "0 < k" "k < 2 ^ 31" "length rs < 2 ^ 32 - 1" "\<forall>r \<in> set rs. length r = k"
  shows "sqlite_result (preludedb_sql_table_new st) 0 (map (map read_cell) rs)"
proof -
  have "sqlite_wf st" using assms by (auto simp: gives_def sqlite_wf_def)
  moreover have "tdata (preludedb_sql_table_new st) = st" "\<not> tdone (preludedb_sql_table_new st)"
    by (simp_all add: preludedb_sql_table_new_def)
  moreover have "Some [] \<notin> set (map read_cell r)" for r by (auto simp: read_cell_def)
  ultimately show ?thesis
    using assms by (auto simp: sqlite_result_def gives_def litecur.holds_new sqlite_pending_def comp_def)
qed

lemma sqlite_fetch:
  assumes pl: "sql_plugin s = sqlite_plugin lib rx" and "sqlite_result t n rs"
  shows "\<exists>t'. preludedb_sql_table_fetch_row s t = (s, t', Inr (if n < length rs then Some n else None)) \<and>
    sqlite_result t' (if n < length rs then Suc n else n) rs"
proof -
  define bs where "bs = map (map cell_bytes) rs"
  note r = assms(2) [unfolded sqlite_result_def, folded bs_def]
  have len: "length bs = length rs" by (simp add: bs_def)
  have h: "litecur.holds t (take n bs)" using r by blast
  show ?thesis
  proof (cases "n < length rs")
    case False
    then have n: "n = length rs" "take n bs = bs" using r len by auto
    have "sqlite_pending (tdata t) = []" "length (take n bs) < NEXT_ROW" using r n len by (simp_all add: NEXT_ROW_def)
    then obtain t' where "preludedb_sql_table_fetch_row s t = (s, t', Inr None)" "litecur.holds t' (take n bs)"
      "sqlite_pending (tdata t') = []"
      using litecur.fetch_row_end [OF sqlite_serves [OF pl] h] by blast
    then show ?thesis using r n len by (auto simp: sqlite_result_def bs_def [symmetric])
  next
    case True
    have p: "sqlite_pending (tdata t) = bs ! n # drop (Suc n) bs" using r True len by (simp add: Cons_nth_drop_Suc)
    have b: "length (take n bs) + length (drop (Suc n) bs) < 2 ^ 32 - 2" "\<not> tdone t" using r True len by auto
    obtain t' where "preludedb_sql_table_fetch_row s t = (s, t', Inr (Some (length (take n bs))))"
      "litecur.holds t' (take n bs @ [bs ! n])" "sqlite_pending (tdata t') = drop (Suc n) bs" "\<not> tdone t'"
      using litecur.fetch_row_next [OF sqlite_serves [OF pl] h p b(2,1)] by blast
    then show ?thesis
      using r True len by (auto simp: sqlite_result_def bs_def [symmetric] take_Suc_conv_app_nth)
  qed
qed

lemma sqlite_field:
  assumes pl: "sql_plugin s = sqlite_plugin lib rx" and "sqlite_result t n rs" "i < n" "j < length (rs ! i)"
  shows "\<exists>t'. row_field i j (s, t) = Some ((s, t'), Inr (cell_field j (rs ! i ! j))) \<and> sqlite_result t' n rs"
proof -
  define bs where "bs = map (map cell_bytes) rs"
  note r = assms(2) [unfolded sqlite_result_def, folded bs_def]
  have h: "litecur.holds t (take n bs)" using r by blast
  have i: "i < length (take n bs)" "i < length rs" and len: "length bs = length rs" using r assms(3) by (auto simp: bs_def)
  have row: "take n bs ! i = map cell_bytes (rs ! i)" using assms(3) i by (simp add: bs_def)
  have "rs ! i \<in> set rs" using i by simp
  then have k: "length (rs ! i) < 2 ^ 31" "Some [] \<notin> set (rs ! i)" using r by blast+
  have "length (take n bs ! i) = length (st_columns (tdata t))"
    using h i(1) unfolding litecur.holds_def sqlite_good_def by blast
  then have c: "j < length (st_columns (tdata t))" "j < 2 ^ 31" using row assms(4) k(1) by simp_all
  obtain t' where t': "preludedb_sql_row_get_field s t i (int j) =
      (s, t', Inr (if take n bs ! i ! j = [] then None else Some j))" "field_at t' i j = sqlite_slot (take n bs ! i ! j)"
    "litecur.holds t' (take n bs)" "tdata t' = tdata t" "tdone t' = tdone t"
    using sqlite_get_field_holds [OF pl h i(1) c] by blast
  have cell: "take n bs ! i ! j = cell_bytes (rs ! i ! j)" using row assms(4) by simp
  have "rs ! i ! j \<noteq> Some []" using k(2) assms(4) nth_mem by metis
  then have "row_field i j (s, t) = Some ((s, t'), Inr (cell_field j (rs ! i ! j)))"
    using t' by (cases "rs ! i ! j")
      (auto simp: row_field_def cell cell_bytes_def cell_field_def sqlite_slot_def slot_field_def)
  then show ?thesis using r t' by (auto simp: sqlite_result_def bs_def [symmetric])
qed

text \<open>Queries of a connected session.\<close>

lemma sqlite_statement:
  assumes "status_connected s" "sql_plugin s = sqlite_plugin lib rx" "\<not> strncase_eq q ''SELECT'' 6"
    and "lite_exec lib (session s) q = (w, Inr ())"
  shows "\<exists>s'. preludedb_sql_query s q want = (s', Inr None) \<and> status_connected s' \<and>
    sql_plugin s' = sqlite_plugin lib rx \<and> session s' = w"
proof -
  have "p_query (sql_plugin s) = sqlite_query lib" using assms(2) by (simp add: sqlite_plugin_def)
  then show ?thesis
    using assms by (simp add: preludedb_sql_query_def assert_connected_def sqlite_query_def Let_def)
qed

lemma sqlite_select:
  assumes "status_connected s" "sql_plugin s = sqlite_plugin lib rx" "strncase_eq q ''SELECT'' 6"
    and "lite_prepare lib (session s) q = (w, Inr st)" "st_columns st \<noteq> []"
  shows "\<exists>s'. preludedb_sql_query s q True = (s', Inr (Some (preludedb_sql_table_new st))) \<and> status_connected s' \<and>
    sql_plugin s' = sqlite_plugin lib rx \<and> session s' = w"
proof -
  have "p_query (sql_plugin s) = sqlite_query lib" using assms(2) by (simp add: sqlite_plugin_def)
  then show ?thesis
    using assms by (simp add: preludedb_sql_query_def assert_connected_def sqlite_query_def Let_def)
qed

lemma selects: "strncase_eq (''SELECT '' @ q) ''SELECT'' 6"
  by (simp add: strncase_eq_def tolower_def Let_def)

lemma inserts_no_select: "\<not> strncase_eq (insert_text T C vals) ''SELECT'' 6"
  by (simp add: insert_text_def strncase_eq_def tolower_def Let_def)

lemma sqlite_insert_row:
  assumes "status_connected s" "sql_plugin s = sqlite_plugin lib rx"
    and "lite_exec lib (session s) (insert_text T C vals) = (w, Inr ())"
  shows "\<exists>s'. insert_row T C vals s = (s', Inr ()) \<and> status_connected s' \<and> sql_plugin s' = sqlite_plugin lib rx \<and>
    session s' = w"
  using sqlite_statement [OF assms(1,2) inserts_no_select assms(3), of False]
  by (auto simp: insert_row_def preludedb_sql_insert_def insert_text_def)

section \<open>The connection\<close>

text \<open>The plugin never reports the error on which a session is disconnected.\<close>

lemma sqlite_query_error:
  "snd (sqlite_query lib w q want) = Inl e \<Longrightarrow> \<not> preludedb_error_check e PRELUDEDB_ERROR_CONNECTION"
  by (auto simp: sqlite_query_def preludedb_error_check_def preludedb_error_verbose_def
      split: if_splits prod.splits sum.splits)

lemma sqlite_next_error: "sqlite_next d = Next_error e \<Longrightarrow> \<not> preludedb_error_check e PRELUDEDB_ERROR_CONNECTION"
  by (auto simp: sqlite_next_def preludedb_error_check_def preludedb_error_verbose_def
      split: if_splits sqlite_end.splits)

lemma new_row_error: "preludedb_sql_table_new_row cc t i = Inl e \<Longrightarrow> e = Undefined"
  by (auto simp: preludedb_sql_table_new_row_def Let_def split: prod.splits if_splits)

lemma sqlite_seq_fetch_error:
  "snd (seq_fetch sqlite_get_column_count sqlite_next t i) = Inl e \<Longrightarrow>
     \<not> preludedb_error_check e PRELUDEDB_ERROR_CONNECTION"
proof (induction sqlite_get_column_count sqlite_next t i rule: seq_fetch.induct)
  case (1 t i)
  have u: "\<not> preludedb_error_check Undefined PRELUDEDB_ERROR_CONNECTION"
    by (simp add: preludedb_error_check_def)
  show ?case
  proof (cases "sqlite_next (tdata t)")
    case (Next_row d' fill)
    then have fill: "\<And>row e. fill row \<noteq> Inl e"
      by (auto simp: sqlite_next_def split: if_splits sqlite_end.splits)
    show ?thesis
      using 1 Next_row fill u
      by (auto simp: seq_fetch.simps [of sqlite_get_column_count sqlite_next t i] dest!: new_row_error
          split: if_splits sum.splits option.splits)
  qed (use 1(2) sqlite_next_error in \<open>auto simp: seq_fetch.simps [of _ _ t] split: if_splits\<close>)
qed

lemma sqlite_keeps_connection: "connection_kept (sqlite_plugin lib rx)"
proof -
  have q: "\<not> preludedb_error_check e PRELUDEDB_ERROR_CONNECTION"
    if "snd (p_query (sqlite_plugin lib rx) w q b) = Inl e" for w q b e
    using sqlite_query_error [of lib w q b e] that by (simp add: sqlite_plugin_def)
  have r: "\<not> preludedb_error_check e PRELUDEDB_ERROR_CONNECTION"
    if "snd (plugin_sql_fetch_row (sqlite_plugin lib rx) w t i) = Inl e" for w t i e
    using sqlite_seq_fetch_error [of t i e] that
    by (auto simp: sqlite_plugin_def plugin_sql_fetch_row_def sqlite_fetch_row_def seq_fetch_row_def
        preludedb_error_check_def split: if_splits)
  have "\<not> preludedb_error_check e PRELUDEDB_ERROR_CONNECTION"
    if "snd (plugin_sql_fetch_field (sqlite_plugin lib rx) w t i c) = Inl e" for w t i c e
    using that by (auto simp: sqlite_plugin_def plugin_sql_fetch_field_def preludedb_error_check_def
        PRELUDEDB_ENOTSUP_def preludedb_error_verbose_def)
  then show ?thesis using q r by (simp add: connection_kept_def)
qed

section \<open>The last ident\<close>

lemma sqlite_last_ident:
  assumes "status_connected s" "sql_plugin s = sqlite_plugin lib rx"
    and "lite_prepare lib (session s) (max_ident_text T) = (w, Inr st)" "gives st 1 [[Some (dec_nat n)]]" "n < 2 ^ 63"
  shows "\<exists>s'. get_last_insert_ident T s = (s', Inr n) \<and> status_connected s' \<and> sql_plugin s' = sqlite_plugin lib rx \<and>
    session s' = w"
proof -
  let ?q = "''SELECT max(_ident) FROM '' @ T @ '';''"
  have cols: "st_columns st \<noteq> []" using assms(4) by (auto simp: gives_def)
  have "strncase_eq ?q ''SELECT'' 6" using selects [of "''max(_ident) FROM '' @ T @ '';''"] by simp
  then obtain s1 where s1: "preludedb_sql_query s ?q True = (s1, Inr (Some (preludedb_sql_table_new st)))"
    "status_connected s1" "sql_plugin s1 = sqlite_plugin lib rx" "session s1 = w"
    using sqlite_select [OF assms(1,2) _ assms(3) [unfolded max_ident_text_def] cols] by blast
  have "sqlite_result (preludedb_sql_table_new st) 0 [[Some (dec_nat n)]]"
    using gives_result [OF assms(4)] by simp
  then obtain t where t: "preludedb_sql_table_fetch_row s1 (preludedb_sql_table_new st) = (s1, t, Inr (Some 0))"
    "sqlite_result t 1 [[Some (dec_nat n)]]"
    using sqlite_fetch [OF s1(3)] by fastforce
  have h: "litecur.holds t [[dec_nat n]]" using t(2) by (simp add: sqlite_result_def cell_bytes_def)
  then have "0 < length (st_columns (tdata t))" unfolding litecur.holds_def sqlite_good_def by fastforce
  then obtain t' where "preludedb_sql_row_get_field s1 t 0 0 = (s1, t', Inr (Some 0))" "field_at t' 0 0 = sqlite_slot (dec_nat n)"
    using sqlite_get_field_holds [OF s1(3) h, of 0 0] by auto
  moreover have "preludedb_sql_field_to_uint64 (slot_field (sqlite_slot (dec_nat n)) 0) = Inr (int n)"
    using field_to_unsigned_dec_int [of 64 "int n"] assms(5)
    by (simp add: slot_field_def sqlite_slot_def preludedb_sql_field_to_uint64_def)
  ultimately show ?thesis
    using s1 t(1) by (simp add: get_last_insert_ident_def preludedb_sql_query_sprintf_def)
qed

lemma sqlite_escapes:
  assumes "status_connected s" "f (sql_plugin s) (session s) x = Inr l"
  shows "sql_escape_with f s x = (s, Inr l)"
  using assms by (simp add: sql_escape_with_def assert_connected_def lock_def unlock_def)

section \<open>The store\<close>

definition sqlite_storable :: "string \<Rightarrow> bool" where
  "sqlite_storable x \<longleftrightarrow> x \<noteq> [] \<and> CHR 0x00 \<notin> set x"

context sqlite_engine
begin

lemma store_escape:
  assumes "sqlite_session lib autocommit ac s" "sqlite_storable x"
  shows "escape_string (Some x) s = (s, Inr (quoted_literal x))"
proof -
  obtain rx where s: "status_connected s" "sql_plugin s = sqlite_plugin lib rx" using assms(1) by (auto simp: sqlite_session_def)
  have x: "takeWhile (\<lambda>c. c \<noteq> CHR 0x00) x = x"
    using assms(2) unfolding sqlite_storable_def by (blast intro: c_str_id)
  have "plugin_sql_escape (sql_plugin s) (session s) (c_str x) = Inr (quoted_literal x)"
    by (simp add: s(2) plugin_sql_escape_def sqlite_plugin_def sqlite_escape_def c_str_def x quote quoted_literal_def)
  from sqlite_escapes [where f = plugin_sql_escape, OF s(1) this] show ?thesis
    by (simp add: escape_string_def preludedb_sql_escape_def preludedb_sql_escape_fast_def)
qed

lemma store_escape_binary:
  assumes "sqlite_session lib autocommit ac s" "length x < 2 ^ 62"
  shows "preludedb_sql_escape_binary s (Some x) = (s, Inr (hex_literal x))"
proof -
  obtain rx where s: "status_connected s" "sql_plugin s = sqlite_plugin lib rx" using assms(1) by (auto simp: sqlite_session_def)
  have "p_escape_binary (sql_plugin s) = None" by (simp add: s(2) sqlite_plugin_def)
  from sqlite_escapes [where f = plugin_sql_escape_binary, OF s(1) default_escape_is_hex_literal [OF this assms(2)]] show ?thesis
    by (simp add: preludedb_sql_escape_binary_def)
qed

lemma store_unescape_binary:
  assumes "sqlite_session lib autocommit ac s"
  shows "preludedb_sql_unescape_binary s x = (s, Inr x)"
proof -
  obtain rx where s: "status_connected s" "sql_plugin s = sqlite_plugin lib rx" using assms(1) by (auto simp: sqlite_session_def)
  have "plugin_sql_unescape_binary (sql_plugin s) (session s) x = Inr x"
    by (simp add: s(2) sqlite_plugin_def plugin_sql_unescape_binary_def)
  from sqlite_escapes [where f = plugin_sql_unescape_binary, OF s(1) this] show ?thesis
    by (simp add: preludedb_sql_unescape_binary_def)
qed

text \<open>Values that denote the cells to be read denote cells that are read as these.\<close>

lemma read_values:
  assumes "map (read_literal lit) vals = map Some cells"
  obtains raw where "map lit vals = map Some raw" "cells = map read_cell raw"
proof -
  have "\<exists>raw. map lit vals = map Some raw \<and> cells = map read_cell raw"
    using assms
  proof (induction vals arbitrary: cells)
    case (Cons v vals)
    then obtain c cs where "cells = c # cs" by (cases cells) auto
    with Cons.prems obtain raw r where "lit v = Some r" "c = read_cell r" "map lit vals = map Some raw" "cs = map read_cell raw"
      using Cons.IH [of cs] by (auto simp: read_literal_def)
    then show ?case using \<open>cells = c # cs\<close> by (intro exI [of _ "r # raw"]) simp
  qed simp
  then show thesis using that by blast
qed

end

sublocale sqlite_engine \<subseteq> store: message_store "\<lambda>s. read_tables (tbl (session s))" "sqlite_session lib autocommit ac"
    sqlite_result "read_literal lit" sqlite_storable for ac
proof unfold_locales
  show "sqlite_session lib autocommit ac (s\<lparr>sql_refcount := k\<rparr>) \<and>
      read_tables (tbl (session (s\<lparr>sql_refcount := k\<rparr>))) = read_tables (tbl (session s))"
    if "sqlite_session lib autocommit ac s" for s k
    using that by (simp add: sqlite_session_def)
  show "p_build_timestamp_string (sql_plugin s) = None" if "sqlite_session lib autocommit ac s" for s
    using that by (auto simp: sqlite_session_def sqlite_plugin_def)
  show "read_literal lit ''NULL'' = Some None" by (simp add: read_literal_def null_literal)
  show "read_literal lit (dec_int k) = Some (Some (dec_int k))" for k
    using dec_int_nonempty [of k] by (simp add: read_literal_def int_literal)
  show "read_literal lit (char_literal c) = Some (Some [c])" if "isalpha c" for c
  proof -
    have "c \<noteq> CHR 0x27" "c \<noteq> CHR 0x00" using that by (auto simp: isalpha_def)
    then show ?thesis
      using text_literal [of "[c]"] by (simp add: read_literal_def char_literal_def quoted_literal_def)
  qed
  show "read_literal lit (CHR 0x27 # x @ [CHR 0x27]) = Some (Some x)" if "sqlite_storable x" "CHR 0x27 \<notin> set x" for x
  proof -
    have "double_quotes x = x" using that(2) by (induction x) auto
    then show ?thesis using that(1) text_literal [of x] by (simp add: read_literal_def quoted_literal_def sqlite_storable_def)
  qed
  show "c_str x = x" if "sqlite_storable x" for x
    using that unfolding sqlite_storable_def c_str_def by (blast intro: c_str_id)
  show "\<exists>s' l. escape_string (Some x) s = (s', Inr l) \<and> sqlite_session lib autocommit ac s' \<and>
      read_tables (tbl (session s')) = read_tables (tbl (session s)) \<and> read_literal lit l = Some (Some x)"
    if "sqlite_session lib autocommit ac s" "sqlite_storable x" for s x
    using store_escape [OF that] that text_literal [of x]
    by (auto simp: read_literal_def sqlite_storable_def)
  show "\<exists>s' l. preludedb_sql_escape_binary s (Some x) = (s', Inr l) \<and> sqlite_session lib autocommit ac s' \<and>
      read_tables (tbl (session s')) = read_tables (tbl (session s)) \<and> read_literal lit l = Some (Some x)"
    if "sqlite_session lib autocommit ac s" "x \<noteq> []" "length x < 2 ^ 62" for s x
    using store_escape_binary [OF that(1,3)] that blob_literal [of x] by (auto simp: read_literal_def)
  show "\<exists>s'. preludedb_sql_unescape_binary s x = (s', Inr x) \<and> sqlite_session lib autocommit ac s' \<and>
      read_tables (tbl (session s')) = read_tables (tbl (session s))"
    if "sqlite_session lib autocommit ac s" for s x
    using store_unescape_binary [OF that] that by auto
next
  fix s T C and vals :: "string list" and cells :: "cell list"
  assume u: "sqlite_session lib autocommit ac s" and T: "T \<notin> message_tables" "plain_name T" "plain_columns C"
    and v: "map (read_literal lit) vals = map Some cells" and c: "has_columns T (columns_in C)" "length cells = length (columns_in C)"
    and ok: "sound (add_rows (read_tables (tbl (session s))) [(T, zip (columns_in C) cells)])"
  obtain rx where s: "status_connected s" "sql_plugin s = sqlite_plugin lib rx" "autocommit (session s) = ac"
    using u by (auto simp: sqlite_session_def)
  obtain raw where raw: "map lit vals = map Some raw" "cells = map read_cell raw" by (rule read_values [OF v])
  have "sound (read_tables (add_rows (tbl (session s)) [(T, zip (columns_in C) raw)]))"
    using ok by (simp add: raw(2))
  then obtain w where w: "lite_exec lib (session s) (insert_text T C vals) = (w, Inr ())" "autocommit w = ac"
    "tbl w = add_rows (tbl (session s)) [(T, zip (columns_in C) raw)]"
    using insert [OF T c(1) raw(1)] c(2) raw(2) read_sound s(3) by fastforce
  then show "\<exists>s'. insert_row T C vals s = (s', Inr ()) \<and> sqlite_session lib autocommit ac s' \<and>
      read_tables (tbl (session s')) = add_rows (read_tables (tbl (session s))) [(T, zip (columns_in C) cells)]"
    using sqlite_insert_row [OF s(1,2) w(1)] by (auto simp: sqlite_session_def raw(2))
next
  fix s T C and vals :: "string list" and cells :: "cell list"
  assume u: "sqlite_session lib autocommit ac s" and T: "T \<in> message_tables" "plain_columns C"
    and v: "map (read_literal lit) vals = map Some cells" and c: "has_columns T (columns_in C)" "length cells = length (columns_in C)"
    and ok: "sound (read_tables (tbl (session s)))" and left: "idents_left (read_tables (tbl (session s)) T)"
  obtain rx where s: "status_connected s" "sql_plugin s = sqlite_plugin lib rx" "autocommit (session s) = ac"
    using u by (auto simp: sqlite_session_def)
  obtain raw where raw: "map lit vals = map Some raw" "cells = map read_cell raw" by (rule read_values [OF v])
  have left': "idents_left (tbl (session s) T)"
    using left by (fastforce simp: idents_left_def read_tables_def read_cell_Some)
  obtain n w w2 st where w: "lite_exec lib (session s) (insert_text T C vals) = (w, Inr ())" "autocommit w = autocommit (session s)"
    "tbl w = add_rows (tbl (session s)) [(T, (''_ident'', Some (dec_nat n)) # zip (columns_in C) raw)]" "n < 2 ^ 63"
    "\<forall>r \<in> set (tbl (session s) T). cell_at r ''_ident'' \<noteq> Some (dec_nat n)"
    "lite_prepare lib w (max_ident_text T) = (w2, Inr st)" "gives st 1 [[Some (dec_nat n)]]"
    "autocommit w2 = autocommit (session s)" "tbl w2 = tbl w"
    using insert_message [OF T c(1) raw(1) _ read_sound [OF ok] left'] c(2) raw(2) by auto
  obtain s1 where s1: "insert_row T C vals s = (s1, Inr ())" "status_connected s1" "sql_plugin s1 = sqlite_plugin lib rx"
    "session s1 = w"
    using sqlite_insert_row [OF s(1,2) w(1)] by blast
  obtain s2 where s2: "get_last_insert_ident T s1 = (s2, Inr n)" "status_connected s2" "sql_plugin s2 = sqlite_plugin lib rx"
    "session s2 = w2"
    using sqlite_last_ident [OF s1(2,3) _ w(7,4), of T w2] w(6) s1(4) by auto
  have new: "\<forall>r \<in> set (read_tables (tbl (session s)) T). cell_at r ''_ident'' \<noteq> Some (dec_nat n)"
    using w(5) by (auto simp: read_tables_def read_cell_Some)
  show "\<exists>n s' s''. insert_row T C vals s = (s', Inr ()) \<and> get_last_insert_ident T s' = (s'', Inr n) \<and>
      sqlite_session lib autocommit ac s'' \<and>
      read_tables (tbl (session s'')) = add_rows (read_tables (tbl (session s)))
        [(T, (''_ident'', Some (dec_nat n)) # zip (columns_in C) cells)] \<and>
      (\<forall>r \<in> set (read_tables (tbl (session s)) T). cell_at r ''_ident'' \<noteq> Some (dec_nat n))"
    by (rule exI [of _ n], rule exI [of _ s1], rule exI [of _ s2])
      (use s1(1) s2 w(3,8,9) s(3) new raw(2) in \<open>auto simp: sqlite_session_def\<close>)
next
  fix s D T conds ordered
  assume u: "sqlite_session lib autocommit ac s" and T: "plain_columns D" "plain_name T"
    and pc: "plain_conditions (read_literal lit) conds" and c: "has_columns T (columns_in D @ map fst conds @ order_keys ordered)"
    and ix: "ordered \<longrightarrow> (\<forall>r \<in> set (read_tables (tbl (session s)) T). matches (read_literal lit) conds r \<longrightarrow> indexed r)"
    and len: "length (selected (read_literal lit) (read_tables (tbl (session s))) D T conds ordered) < 2 ^ 32 - 1"
  obtain rx where s: "status_connected s" "sql_plugin s = sqlite_plugin lib rx" "autocommit (session s) = ac"
    using u by (auto simp: sqlite_session_def)
  have ix': "ordered \<longrightarrow> (\<forall>r \<in> set (tbl (session s) T). matches lit conds r \<longrightarrow> indexed r)"
    using ix by (simp add: read_tables_def read_matches [OF pc] read_indexed)
  obtain w st where w: "lite_prepare lib (session s) (query_text D T conds ordered) = (w, Inr st)"
    "gives st (length (columns_in D)) (selected lit (tbl (session s)) D T conds ordered)"
    "autocommit w = autocommit (session s)" "tbl w = tbl (session s)"
    using select [OF T(2,1) read_plain_conditions [OF pc] c ix'] by blast
  have cols: "columns_in D \<noteq> []" by (cases D) (auto simp: columns_in_def split: list.splits)
  have sel: "selected (read_literal lit) (read_tables (tbl (session s))) D T conds ordered =
      map (map read_cell) (selected lit (tbl (session s)) D T conds ordered)"
    by (rule read_selected [OF pc])
  have "sqlite_result (preludedb_sql_table_new st) 0
      (selected (read_literal lit) (read_tables (tbl (session s))) D T conds ordered)"
    unfolding sel
  proof (rule gives_result [OF w(2)])
    show "length (selected lit (tbl (session s)) D T conds ordered) < 2 ^ 32 - 1" using len unfolding sel length_map .
    show "\<forall>r \<in> set (selected lit (tbl (session s)) D T conds ordered). length r = length (columns_in D)"
      by (auto simp: selected_def)
  qed (use T(1) cols in \<open>simp_all add: plain_columns_def\<close>)
  moreover have "strncase_eq (query_text D T conds ordered) ''SELECT'' 6" unfolding query_text_def by (rule selects)
  moreover have "st_columns st \<noteq> []" using w(2) cols by (auto simp: gives_def)
  ultimately show "\<exists>s' t. preludedb_sql_query_sprintf s (query_text D T conds ordered) True = (s', Inr (Some t)) \<and>
      sqlite_session lib autocommit ac s' \<and> read_tables (tbl (session s')) = read_tables (tbl (session s)) \<and>
      sqlite_result t 0 (selected (read_literal lit) (read_tables (tbl (session s))) D T conds ordered)"
    using sqlite_select [OF s(1,2) _ w(1)] w(3,4) s(3)
    by (fastforce simp: preludedb_sql_query_sprintf_def sqlite_session_def)
next
  show "\<exists>t'. preludedb_sql_table_fetch_row s t = (s, t', Inr (if n < length rs then Some n else None)) \<and>
      sqlite_result t' (if n < length rs then Suc n else n) rs"
    if "sqlite_session lib autocommit ac s" "sqlite_result t n rs" for s t n rs
    using that(1) sqlite_fetch [OF _ that(2), of s lib] unfolding sqlite_session_def by blast
  show "\<exists>t'. row_field i j (s, t) = Some ((s, t'), Inr (cell_field j (rs ! i ! j))) \<and> sqlite_result t' n rs"
    if "sqlite_session lib autocommit ac s" "sqlite_result t n rs" "i < n" "j < length (rs ! i)" for s t n rs i j
    using that(1) sqlite_field [OF _ that(2-4), of s lib] unfolding sqlite_session_def by blast
qed

end
