(* ===== verification/Heartbeat_Store.thy ===== *)
theory Heartbeat_Store
  imports Sqlite_Store
begin

text \<open>
  The whole insertion of a heartbeat into SQLite: the plugin handler's transaction around the
  rows, and what the archive holds afterwards.
\<close>

text \<open>An open transaction around an insertion: what the session keeps besides the tables.\<close>

lemma connected_query:
  assumes "status_connected s" "sql_plugin s = sqlite_plugin lib rx" "\<not> strncase_eq q ''SELECT'' 6"
    and "lite_exec lib (session s) q = (w, Inr ())"
  shows "\<exists>s'. preludedb_sql_query s q False = (s', Inr None) \<and> status_connected s' \<and> sql_plugin s' = sqlite_plugin lib rx \<and>
    session s' = w \<and> mutex s' = mutex s \<and> status_transaction s' = status_transaction s \<and>
    internal_transaction_disabled s' = internal_transaction_disabled s"
proof -
  obtain s' where "preludedb_sql_query s q False = (s', Inr None)" "status_connected s'" "sql_plugin s' = sqlite_plugin lib rx"
    "session s' = w"
    using sqlite_statement [OF assms, of False] by auto
  then show ?thesis
    using query_connected(1) [OF assms(1), of q False] query_frame [of s q False] by simp
qed

section \<open>The archive of heartbeats\<close>

text \<open>
  What the tables hold, as a map from idents to heartbeats: the abstract state of which
  insertion is an update at a new ident and retrieval a lookup.
\<close>

definition archive_of :: "idmef_codec \<Rightarrow> tables \<Rightarrow> (nat \<rightharpoonup> idmef_heartbeat) \<Rightarrow> bool" where
  "archive_of codec db A \<longleftrightarrow> sound db \<and> no_orphans (CHR ''H'') ''Prelude_Heartbeat'' db \<and>
     (\<forall>n x. A n = Some x \<longrightarrow> heartbeat_ok sqlite_storable codec x \<and> heartbeat_stored codec db n x)"

lemma archive_tables:
  "archive_of codec db A \<Longrightarrow> sound db \<and> no_orphans (CHR ''H'') ''Prelude_Heartbeat'' db"
  by (simp add: archive_of_def)

lemma archive_at:
  "archive_of codec db A \<Longrightarrow> A n = Some x \<Longrightarrow> heartbeat_ok sqlite_storable codec x \<and> heartbeat_stored codec db n x"
  by (simp add: archive_of_def)

lemma archive_empty: "sound db \<Longrightarrow> no_orphans (CHR ''H'') ''Prelude_Heartbeat'' db \<Longrightarrow> archive_of codec db (\<lambda>n. None)"
  by (simp add: archive_of_def)

lemma archive_new_ident:
  assumes "archive_of codec db A" "\<forall>r \<in> set (db ''Prelude_Heartbeat''). cell_at r ''_ident'' \<noteq> Some (dec_nat n)"
  shows "A n = None"
proof (rule ccontr)
  assume "A n \<noteq> None"
  then obtain x where "heartbeat_stored codec db n x" using archive_at [OF assms(1)] by blast
  then have "filter (\<lambda>r. cell_at r ''_ident'' = Some (dec_nat n)) (db ''Prelude_Heartbeat'') \<noteq> []"
    unfolding heartbeat_stored_def by simp
  then show False using assms(2) by (simp add: filter_empty_conv)
qed

lemma archive_update:
  assumes "archive_of codec db A" "heartbeat_ok sqlite_storable codec x"
    and new: "\<forall>r \<in> set (db ''Prelude_Heartbeat''). cell_at r ''_ident'' \<noteq> Some (dec_nat n)"
  shows "archive_of codec (with_heartbeat codec db n x) (A(n \<mapsto> x))"
  unfolding archive_of_def
proof (intro conjI allI impI)
  show "sound (with_heartbeat codec db n x)"
    using heartbeat_with_sound [OF assms(2)] new archive_tables [OF assms(1)] by blast
  show "no_orphans (CHR ''H'') ''Prelude_Heartbeat'' (with_heartbeat codec db n x)"
    using heartbeat_no_orphans archive_tables [OF assms(1)] by blast
  fix m y assume y: "(A(n \<mapsto> x)) m = Some y"
  show "heartbeat_ok sqlite_storable codec y"
    using y assms(2) archive_at [OF assms(1)] by (auto split: if_splits)
  show "heartbeat_stored codec (with_heartbeat codec db n x) m y"
  proof (cases "m = n")
    case True
    then show ?thesis using y new heartbeat_stored_new archive_tables [OF assms(1)] by simp
  next
    case False
    then show ?thesis using y new heartbeat_stored_kept archive_at [OF assms(1)] by simp
  qed
qed

context sqlite_engine
begin

lemma heartbeat_insertion:
  assumes s: "status_connected s" "sql_plugin s = sqlite_plugin lib rx" "autocommit (session s)"
    and tr: "\<not> status_transaction s" "\<not> internal_transaction_disabled s"
    and ok: "heartbeat_ok sqlite_storable codec x" "sound (read_tables (tbl (session s)))"
      "no_orphans (CHR ''H'') ''Prelude_Heartbeat'' (read_tables (tbl (session s)))"
      "idents_left (read_tables (tbl (session s)) ''Prelude_Heartbeat'')"
  obtains n s' where "classic_insert se codec (Some (MESSAGE_HEARTBEAT (Some x))) s = (s', Inr ())"
    "sqlite_session lib autocommit True s'" "mutex s' = mutex s" "\<not> status_transaction s'"
    "\<not> internal_transaction_disabled s'" "sql_plugin s' = sqlite_plugin lib rx"
    "read_tables (tbl (session s')) = with_heartbeat codec (read_tables (tbl (session s))) n x"
    "\<forall>r \<in> set (read_tables (tbl (session s)) ''Prelude_Heartbeat''). cell_at r ''_ident'' \<noteq> Some (dec_nat n)"
proof -
  have b: "\<not> strncase_eq ''BEGIN'' ''SELECT'' 6" "\<not> strncase_eq ''COMMIT'' ''SELECT'' 6"
    by (simp_all add: strncase_eq_def tolower_def Let_def)
  obtain w where w: "lite_exec lib (session s) ''BEGIN'' = (w, Inr ())" "tbl w = tbl (session s)" "\<not> autocommit w"
    using start [OF s(3)] by blast
  obtain s1 where s1: "preludedb_sql_query (lock s) ''BEGIN'' False = (s1, Inr None)" "status_connected s1"
    "sql_plugin s1 = sqlite_plugin lib rx" "session s1 = w" "mutex s1 = Suc (mutex s)"
    "\<not> internal_transaction_disabled s1"
    using connected_query [of "lock s" lib rx, OF _ _ b(1)] s w(1) tr by auto
  define s2 where "s2 = s1\<lparr>status_transaction := True\<rparr>"
  have start: "preludedb_sql_transaction_start s = (s2, Inr ())"
    using s1(1) tr by (simp add: preludedb_sql_transaction_start_def sql_transaction_start_ext_def s2_def)
  have u: "sqlite_session lib autocommit False s2" and c: "tbl (session s2) = tbl (session s)"
    using s1 w by (auto simp: s2_def sqlite_session_def)
  obtain n s3 where s3: "insert_heartbeat codec x s2 = (s3, Inr ())" "sqlite_session lib autocommit False s3"
    "read_tables (tbl (session s3)) = with_heartbeat codec (read_tables (tbl (session s))) n x"
    "\<forall>r \<in> set (read_tables (tbl (session s)) ''Prelude_Heartbeat''). cell_at r ''_ident'' \<noteq> Some (dec_nat n)"
    using store.heartbeat_inserts [OF u ok(1)] ok(2-4) unfolding c by metis
  have "live s2" using s1(2,3) sqlite_keeps_connection by (simp add: live_def s2_def)
  then have "same_state s2 (fst (insert_heartbeat codec x s2))"
    using inserts_heartbeat [of codec x] unfolding sends_def by blast
  then have k: "status_transaction s3" "mutex s3 = Suc (mutex s)" "\<not> internal_transaction_disabled s3"
    "sql_plugin s3 = sqlite_plugin lib rx" "status_connected s3"
    using s1 s3(1) by (simp_all add: same_state_def s2_def)
  obtain w' where w': "lite_exec lib (session s3) ''COMMIT'' = (w', Inr ())" "tbl w' = tbl (session s3)" "autocommit w'"
    using commit [of "session s3"] s3(2) by (auto simp: sqlite_session_def)
  obtain s4 where s4: "preludedb_sql_query s3 ''COMMIT'' False = (s4, Inr None)" "status_connected s4"
    "sql_plugin s4 = sqlite_plugin lib rx" "session s4 = w'" "mutex s4 = mutex s3" "\<not> internal_transaction_disabled s4"
    using connected_query [OF k(5,4) b(2) w'(1)] k(3) by auto
  let ?s = "unlock (s4\<lparr>status_transaction := False\<rparr>)"
  have "preludedb_sql_transaction_end s3 = (?s, Inr ())"
    using s4(1) k(1,3) by (simp add: preludedb_sql_transaction_end_def sql_transaction_end_ext_def)
  then have "classic_insert se codec (Some (MESSAGE_HEARTBEAT (Some x))) s = (?s, Inr ())"
    using start s3(1) by (simp add: classic_insert_def insert_message_def insert_optional_def in_transaction_def)
  then show thesis
    using that [of ?s n] s3 s4 w' k(2,3) by (auto simp: sqlite_session_def)
qed

lemma archive_insertion:
  assumes s: "status_connected s" "sql_plugin s = sqlite_plugin lib rx" "autocommit (session s)"
    and tr: "\<not> status_transaction s" "\<not> internal_transaction_disabled s"
    and x: "heartbeat_ok sqlite_storable codec x" "idents_left (read_tables (tbl (session s)) ''Prelude_Heartbeat'')"
    and A: "archive_of codec (read_tables (tbl (session s))) A"
  obtains n s' where "classic_insert se codec (Some (MESSAGE_HEARTBEAT (Some x))) s = (s', Inr ())" "A n = None"
    "status_connected s'" "sql_plugin s' = sqlite_plugin lib rx" "autocommit (session s')" "mutex s' = mutex s"
    "\<not> status_transaction s'" "\<not> internal_transaction_disabled s'"
    "archive_of codec (read_tables (tbl (session s'))) (A(n \<mapsto> x))"
proof -
  note t = archive_tables [OF A]
  obtain n s' where i: "classic_insert se codec (Some (MESSAGE_HEARTBEAT (Some x))) s = (s', Inr ())"
    "sqlite_session lib autocommit True s'" "mutex s' = mutex s" "\<not> status_transaction s'"
    "\<not> internal_transaction_disabled s'" "sql_plugin s' = sqlite_plugin lib rx"
    "read_tables (tbl (session s')) = with_heartbeat codec (read_tables (tbl (session s))) n x"
    "\<forall>r \<in> set (read_tables (tbl (session s)) ''Prelude_Heartbeat''). cell_at r ''_ident'' \<noteq> Some (dec_nat n)"
    by (rule heartbeat_insertion [OF s tr x(1) conjunct1 [OF t] conjunct2 [OF t] x(2)])
  show thesis
    using that [of s' n] i archive_new_ident [OF A i(8)] archive_update [OF A x(1) i(8)]
    by (simp add: sqlite_session_def)
qed

lemma heartbeat_lookup:
  assumes "sqlite_session lib autocommit a s" "heartbeat_ok sqlite_storable codec x"
    "heartbeat_stored codec (read_tables (tbl (session s))) n x"
  obtains s' where "classic_get_heartbeat codec n s = Some (s', Inr (MESSAGE_HEARTBEAT (Some x)))"
    "read_tables (tbl (session s')) = read_tables (tbl (session s))"
  using store.heartbeat_retrieved [OF assms] by metis

lemma archive_lookup:
  assumes "sqlite_session lib autocommit a s" "archive_of codec (read_tables (tbl (session s))) A" "A n = Some x"
  obtains s' where "classic_get_heartbeat codec n s = Some (s', Inr (MESSAGE_HEARTBEAT (Some x)))"
  using heartbeat_lookup [OF assms(1)] archive_at [OF assms(2,3)] by metis

end

end
