(* ===== verification/Table_Engine.thy ===== *)
theory Table_Engine
  imports Sqlite_Store
begin

text \<open>
  A database engine that does what \<open>sqlite_engine\<close> asks for: it reads the statements of the
  classic format from their text, keeps the tables of the schema with their constraints, and
  gives back the tables of the start when a transaction is rolled back. It stands for
  libsqlite3 where a theorem is applied to a concrete library.
\<close>

section \<open>Literals\<close>

definition word_char :: "char \<Rightarrow> bool" where
  "word_char c \<longleftrightarrow> isalnum c \<or> c = CHR ''-''"

definition take_literal :: "string \<Rightarrow> (cell \<times> string) option" where
  "take_literal s =
     (if take 1 s = [CHR 0x27] then map_option (map_prod Some id) (read_quoted_literal s)
      else if take 2 s = [CHR ''X'', CHR 0x27] then map_option (map_prod Some id) (read_hex_literal s)
      else let w = takeWhile word_char s
           in if w = [] then None
              else Some (if w = ''NULL'' then None else Some w, dropWhile word_char s))"

definition literal :: "string \<Rightarrow> cell option" where
  "literal l = (case take_literal l of Some (v, rest) \<Rightarrow> if rest = [] then Some v else None | None \<Rightarrow> None)"

fun take_literals :: "nat \<Rightarrow> string \<Rightarrow> cell list option" where
  "take_literals 0 s = None"
| "take_literals (Suc k) s =
     (case take_literal s of
        None \<Rightarrow> None
      | Some (v, rest) \<Rightarrow>
          if rest = '')'' then Some [v]
          else if take 2 rest = '', '' then map_option (\<lambda>vs. v # vs) (take_literals k (drop 2 rest))
          else None)"

section \<open>INSERT\<close>

definition parse_insert :: "string \<Rightarrow> (string \<times> string \<times> cell list) option" where
  "parse_insert q =
     (let T = takeWhile (\<lambda>c. c \<noteq> CHR '' '') (drop 12 q); r = dropWhile (\<lambda>c. c \<noteq> CHR '' '') (drop 12 q);
          C = takeWhile (\<lambda>c. c \<noteq> CHR '')'') (drop 2 r); r' = dropWhile (\<lambda>c. c \<noteq> CHR '')'') (drop 2 r)
      in if take 12 q = ''INSERT INTO '' \<and> take 2 r = '' ('' \<and> take 9 r' = '') VALUES(''
         then map_option (\<lambda>vs. (T, C, vs)) (take_literals (length q) (drop 9 r')) else None)"

definition ident_of :: "stored_row \<Rightarrow> nat" where
  "ident_of r = dec_value (cell_bytes (cell_at r ''_ident''))"

definition next_ident :: "stored_row list \<Rightarrow> nat" where
  "next_ident rs = Suc (foldr max (map ident_of rs) 0)"

type_synonym table_world = "tables \<times> tables option"

definition insert_into :: "tables \<Rightarrow> string \<Rightarrow> string list \<Rightarrow> cell list \<Rightarrow> tables option" where
  "insert_into db T cols cells =
     (let row = (if T \<in> message_tables then [(''_ident'', Some (dec_nat (next_ident (db T))))] else []) @ zip cols cells;
          db' = add_rows db [(T, row)]
      in if has_columns T cols \<and> length cells = length cols \<and> sound db' then Some db' else None)"

definition engine_exec :: "table_world \<Rightarrow> string \<Rightarrow> table_world \<times> (string + unit)" where
  "engine_exec w q =
     (case w of (db, saved) \<Rightarrow>
        if q = ''BEGIN'' then (if saved = None then ((db, Some db), Inr ()) else (w, Inl ''in a transaction''))
        else if q = ''COMMIT'' then (if saved = None then (w, Inl ''no transaction'') else ((db, None), Inr ()))
        else if q = ''ROLLBACK''
        then (case saved of None \<Rightarrow> (w, Inl ''no transaction'') | Some old \<Rightarrow> ((old, None), Inr ()))
        else case parse_insert q of
               None \<Rightarrow> (w, Inl ''syntax error'')
             | Some (T, C, cells) \<Rightarrow>
                 (case insert_into db T (columns_in C) cells of
                    None \<Rightarrow> (w, Inl ''constraint failed'')
                  | Some db' \<Rightarrow> ((db', saved), Inr ())))"

section \<open>SELECT\<close>

fun parse_conditions :: "string list \<Rightarrow> ((string \<times> string) list \<times> bool) option" where
  "parse_conditions (c # e # l # rest) =
     (if e \<noteq> ''='' then None
      else if rest = [] then Some ([(c, l)], False)
      else if hd rest \<noteq> ''AND'' then None
      else if tl rest = [''_index'', ''!='', ''-1'', ''ORDER'', ''BY'', ''_index'', ''ASC''] then Some ([(c, l)], True)
      else map_option (\<lambda>(cs, ordered). ((c, l) # cs, ordered)) (parse_conditions (tl rest)))"
| "parse_conditions _ = None"

definition statement :: "string list \<Rightarrow> cell list list \<Rightarrow> sqlite_stmt" where
  "statement cols rs = \<lparr>st_columns = cols, st_rows = map (map cell_bytes) rs, st_pos = 0, st_end = SQLITE_DONE\<rparr>"

definition engine_select :: "tables \<Rightarrow> string list \<Rightarrow> sqlite_stmt option" where
  "engine_select db ws =
     (let D = join_sep '' '' (takeWhile (\<lambda>w. w \<noteq> ''FROM'') ws)
      in case dropWhile (\<lambda>w. w \<noteq> ''FROM'') ws of
           f # T # w # cs \<Rightarrow>
             (case parse_conditions cs of
                None \<Rightarrow> None
              | Some (conds, ordered) \<Rightarrow>
                  if w = ''WHERE'' \<and> has_columns T (columns_in D @ map fst conds @ order_keys ordered)
                  then Some (statement (columns_in D) (selected literal db D T conds ordered)) else None)
         | _ \<Rightarrow> None)"

definition engine_prepare :: "table_world \<Rightarrow> string \<Rightarrow> table_world \<times> (string + sqlite_stmt)" where
  "engine_prepare w q =
     (case split_on (CHR '' '') q of
        [] \<Rightarrow> (w, Inl ''syntax error'')
      | s # ws \<Rightarrow>
          if s \<noteq> ''SELECT'' then (w, Inl ''syntax error'')
          else if length ws = 3 \<and> take 2 ws = [''max(_ident)'', ''FROM'']
          then (w, Inr (statement [''max(_ident)'']
                  [[Some (dec_nat (foldr max (map ident_of (fst w (butlast (ws ! 2)))) 0))]]))
          else case engine_select (fst w) ws of None \<Rightarrow> (w, Inl ''no such column'') | Some st \<Rightarrow> (w, Inr st))"

definition table_engine :: "table_world libsqlite" where
  "table_engine = \<lparr>lite_exists = (\<lambda>f. True), lite_open = (\<lambda>f w. (w, Inr ())),
     lite_create_regexp = (\<lambda>w. (w, Inr ())), lite_close = (\<lambda>w. w), lite_quote = double_quotes,
     lite_exec = engine_exec, lite_prepare = engine_prepare, lite_version = 3\<rparr>"

section \<open>Its literals are read back\<close>

lemma read_quoted_body_rest:
  "read_quoted_body l = Some (v, []) \<Longrightarrow> no_quote rest \<Longrightarrow> read_quoted_body (l @ rest) = Some (v, rest)"
proof (induction l arbitrary: v rule: read_quoted_body.induct)
  case (2 c)
  then show ?case by (cases rest) (auto split: if_splits)
qed (auto split: if_splits)

lemma read_hex_body_rest:
  "read_hex_body l = Some (v, []) \<Longrightarrow> read_hex_body (l @ rest) = Some (v, rest)"
proof (induction l arbitrary: v rule: read_hex_body.induct)
  case (2 a)
  then show ?case by (cases rest) (auto split: if_splits)
qed (auto split: if_splits option.splits)

lemma take_literal_rest:
  assumes "literal l = Some v" "rest \<noteq> []" "\<not> word_char (hd rest)" "hd rest \<noteq> CHR 0x27"
  shows "take_literal (l @ rest) = Some (v, rest)"
proof -
  obtain r rs where rest: "rest = r # rs" using assms(2) by (cases rest) auto
  have nq: "no_quote rest" using assms(4) rest by simp
  have l: "take_literal l = Some (v, [])" using assms(1) by (auto simp: literal_def split: option.splits if_splits)
  show ?thesis
  proof (cases "take 1 l = [CHR 0x27]")
    case True
    then obtain b where b: "l = CHR 0x27 # b" by (cases l) auto
    then obtain x where "read_quoted_body b = Some (x, [])" "v = Some x"
      using l by (auto simp: take_literal_def read_quoted_literal_def)
    then show ?thesis using read_quoted_body_rest [OF _ nq] b by (simp add: take_literal_def read_quoted_literal_def)
  next
    case False
    show ?thesis
    proof (cases "take 2 l = [CHR ''X'', CHR 0x27]")
      case True
      then obtain b where b: "l = CHR ''X'' # CHR 0x27 # b" by (cases l; cases "tl l") auto
      then obtain x where "read_hex_body b = Some (x, [])" "v = Some x"
        using l by (auto simp: take_literal_def read_hex_literal_def)
      then show ?thesis using read_hex_body_rest [of b x rest] b by (simp add: take_literal_def read_hex_literal_def)
    next
      case False2: False
      have w: "takeWhile word_char l \<noteq> []" "dropWhile word_char l = []" "v = (if takeWhile word_char l = ''NULL'' then None else Some (takeWhile word_char l))"
        using l False False2 by (auto simp: take_literal_def Let_def split: if_splits)
      have all: "\<forall>c \<in> set l. word_char c" using w(2) by (simp add: dropWhile_eq_Nil_conv)
      have tw: "takeWhile word_char l = l" using all by (simp add: takeWhile_eq_all_conv)
      have tw': "takeWhile word_char (l @ rest) = l" "dropWhile word_char (l @ rest) = rest"
        using all assms(3) rest by (simp_all add: takeWhile_append2 dropWhile_append2)
      have "take 1 (l @ rest) \<noteq> [CHR 0x27]" "take 2 (l @ rest) \<noteq> [CHR ''X'', CHR 0x27]"
        using False False2 w(1) rest assms(4) by (cases l; cases "tl l"; auto)+
      then show ?thesis using w(1) w(3) [unfolded tw] tw' tw by (auto simp: take_literal_def)
    qed
  qed
qed

lemma take_literals_values:
  assumes "map literal vals = map Some cells" "vals \<noteq> []" "length vals \<le> k"
  shows "take_literals k (join_sep '', '' vals @ '')'') = Some cells"
  using assms
proof (induction vals arbitrary: cells k)
  case (Cons l vals)
  obtain c cs where cells: "cells = c # cs" and c: "literal l = Some c" "map literal vals = map Some cs"
    using Cons.prems(1) by (cases cells) auto
  obtain j where k: "k = Suc j" "length vals \<le> j" using Cons.prems(3) by (cases k) auto
  show ?case
  proof (cases "vals = []")
    case True
    have "take_literal (l @ '')'') = Some (c, '')'')"
      by (rule take_literal_rest [OF c(1)]) (simp_all add: word_char_def isalnum_def isdigit_def isalpha_def)
    then show ?thesis using True c cells k by simp
  next
    case False
    have "take_literal (l @ '', '' @ join_sep '', '' vals @ '')'') = Some (c, '', '' @ join_sep '', '' vals @ '')'')"
      by (rule take_literal_rest [OF c(1)]) (simp_all add: word_char_def isalnum_def isdigit_def isalpha_def)
    then show ?thesis using False cells k Cons.IH [OF c(2) False k(2)] by (cases vals) simp_all
  qed
qed simp

lemma literal_word: "take 1 x \<noteq> [CHR 0x27] \<Longrightarrow> \<forall>c \<in> set x. word_char c \<Longrightarrow> x \<noteq> [] \<Longrightarrow>
    literal x = Some (if x = ''NULL'' then None else Some x)"
proof -
  assume x: "take 1 x \<noteq> [CHR 0x27]" "\<forall>c \<in> set x. word_char c" "x \<noteq> []"
  have "\<not> word_char (CHR 0x27)" by code_simp
  then have "take 2 x \<noteq> [CHR ''X'', CHR 0x27]" using x(2) by (cases x; cases "tl x"; auto)
  moreover have tw: "takeWhile word_char x = x" "dropWhile word_char x = []"
    using x(2) by (simp_all add: takeWhile_eq_all_conv dropWhile_eq_Nil_conv)
  ultimately show ?thesis using x(1,3) unfolding literal_def take_literal_def tw by simp
qed

lemma literal_int: "literal (dec_int k) = Some (Some (dec_int k))"
proof -
  have d: "\<forall>c \<in> set (dec_int k). isdigit c \<or> c = CHR ''-''"
    using dec_nat_digits by (auto simp: dec_int_def)
  have w: "\<forall>c \<in> set (dec_int k). word_char c" using d by (auto simp: word_char_def isalnum_def)
  have "CHR 0x27 \<notin> set (dec_int k)" using d by (auto simp: isdigit_def)
  then have "take 1 (dec_int k) \<noteq> [CHR 0x27]" by (cases "dec_int k") auto
  moreover have "dec_int k \<noteq> ''NULL''"
  proof
    assume "dec_int k = ''NULL''"
    then show False using d by (auto simp: isdigit_def)
  qed
  ultimately show ?thesis using literal_word [OF _ w] dec_int_nonempty [of k] by simp
qed

lemma literal_text: "literal (quoted_literal x) = Some (Some x)"
  using quolit.rd_lit [of "[]" x] by (simp add: literal_def take_literal_def quoted_literal_def)

lemma literal_blob: "literal (hex_literal x) = Some (Some x)"
  using hexlit.rd_lit [of "[]" x] by (simp add: literal_def take_literal_def hex_literal_def)

section \<open>Its INSERTs\<close>

lemma parse_insert_text:
  assumes "plain_name T" "plain_columns C" "map literal vals = map Some cells" "vals \<noteq> []"
  shows "parse_insert (insert_text T C vals) = Some (T, C, cells)"
proof -
  let ?rest = "'') VALUES('' @ join_sep '', '' vals @ '')''"
  have q: "insert_text T C vals = ''INSERT INTO '' @ T @ '' ('' @ C @ ?rest" by (simp add: insert_text_def)
  have T: "\<forall>c \<in> set T. c \<noteq> CHR '' ''" using assms(1) by (auto simp: plain_name_def isalnum_def isdigit_def isalpha_def)
  have C: "\<forall>c \<in> set C. c \<noteq> CHR '')''" using assms(2) by (auto simp: plain_columns_def isalnum_def isdigit_def isalpha_def)
  have t: "takeWhile (\<lambda>c. c \<noteq> CHR '' '') (T @ '' ('' @ C @ ?rest) = T"
    "dropWhile (\<lambda>c. c \<noteq> CHR '' '') (T @ '' ('' @ C @ ?rest) = '' ('' @ C @ ?rest"
    using T by (simp_all add: takeWhile_append2 dropWhile_append2)
  have c: "takeWhile (\<lambda>c. c \<noteq> CHR '')'') (C @ ?rest) = C" "dropWhile (\<lambda>c. c \<noteq> CHR '')'') (C @ ?rest) = ?rest"
    using C by (simp_all add: takeWhile_append2 dropWhile_append2)
  have len: "length vals \<le> length (insert_text T C vals)"
  proof -
    have "length vs \<le> Suc (length (join_sep '', '' vs))" for vs :: "string list"
      by (induction vs rule: induct_list012) auto
    from this [of vals] show ?thesis by (simp add: insert_text_def)
  qed
  have d: "drop 12 (insert_text T C vals) = T @ '' ('' @ C @ ?rest" "take 12 (insert_text T C vals) = ''INSERT INTO ''"
    unfolding q by simp_all
  show ?thesis
    unfolding parse_insert_def Let_def d t
    using c take_literals_values [OF assms(3,4) len] by simp
qed

lemma foldr_max_ge: "n \<in> set ns \<Longrightarrow> n \<le> foldr max ns (0 :: nat)"
  by (induction ns) auto

lemma foldr_max_in: "foldr max ns (0 :: nat) \<in> insert 0 (set ns)"
  by (induction ns) (auto simp: max_def)

lemma ident_of_dec [simp]: "ident_of ((''_ident'', Some (dec_nat n)) # r) = n"
  by (simp add: ident_of_def cell_at_def cell_bytes_def)

lemma next_ident_fresh:
  assumes "r \<in> set rs"
  shows "cell_at r ''_ident'' \<noteq> Some (dec_nat (next_ident rs))"
proof
  assume "cell_at r ''_ident'' = Some (dec_nat (next_ident rs))"
  then have "ident_of r = next_ident rs" by (simp add: ident_of_def cell_bytes_def)
  moreover have "ident_of r \<le> foldr max (map ident_of rs) 0" using assms by (intro foldr_max_ge) simp
  ultimately show False by (simp add: next_ident_def)
qed

lemma next_ident_small:
  assumes "idents_left rs"
  shows "next_ident rs < 2 ^ 63"
proof -
  have "ident_of r < 2 ^ 63 - 1" if "r \<in> set rs" for r
    using assms that by (auto simp: idents_left_def ident_of_def cell_bytes_def)
  then have "foldr max (map ident_of rs) 0 < 2 ^ 63 - 1"
    using foldr_max_in [of "map ident_of rs"] by auto
  then show ?thesis by (simp add: next_ident_def)
qed

lemma max_ident_added:
  "foldr max (map ident_of (rs @ [(''_ident'', Some (dec_nat (next_ident rs))) # r])) 0 = next_ident rs"
proof -
  have "foldr max (ns @ [Suc (foldr max ns 0)]) 0 = Suc (foldr max ns (0 :: nat))" for ns
  proof -
    have m: "foldr max ns m = max (foldr max ns 0) m" for m :: nat by (induction ns) (simp_all add: max.assoc)
    show ?thesis using m [of "Suc (foldr max ns 0)"] by simp
  qed
  then show ?thesis by (simp add: next_ident_def)
qed

section \<open>Its SELECTs\<close>

lemma split_on_nonempty [simp]: "split_on d s \<noteq> []"
  by (cases s) (auto split: list.splits)

lemma split_on_append: "split_on d (a @ d # b) = split_on d a @ split_on d b"
proof (induction a)
  case (Cons c a)
  obtain w ws where "split_on d a = w # ws" using split_on_nonempty [of d a] by (cases "split_on d a") auto
  then show ?case using Cons by simp
qed simp

lemma split_on_word: "d \<notin> set a \<Longrightarrow> split_on d a = [a]"
  by (induction a) auto

lemma join_split: "join_sep [d] (split_on d s) = s"
proof (induction s)
  case (Cons c s)
  obtain w ws where "split_on d s = w # ws" using split_on_nonempty [of d s] by (cases "split_on d s") auto
  then show ?case using Cons by (cases ws) auto
qed simp

abbreviation order_words :: "string list" where
  "order_words \<equiv> [''AND'', ''_index'', ''!='', ''-1'', ''ORDER'', ''BY'', ''_index'', ''ASC'']"

fun condition_words :: "(string \<times> string) list \<Rightarrow> bool \<Rightarrow> string list" where
  "condition_words [] ordered = []"
| "condition_words ((c, l) # conds) ordered = c # ''='' # l #
     (if conds = [] then (if ordered then order_words else []) else ''AND'' # condition_words conds ordered)"

lemma plain_name_no_blank: "plain_name T \<Longrightarrow> CHR '' '' \<notin> set T"
  by (auto simp: plain_name_def isalnum_def isdigit_def isalpha_def)

lemma split_one:
  assumes "CHR '' '' \<notin> set c" "CHR '' '' \<notin> set l"
  shows "split_on (CHR '' '') (c @ '' = '' @ l @ CHR '' '' # rest) = c # ''='' # l # split_on (CHR '' '') rest"
    and "split_on (CHR '' '') (c @ '' = '' @ l) = [c, ''='', l]"
proof -
  have e: "split_on (CHR '' '') (''= '' @ s) = ''='' # split_on (CHR '' '') s" for s by simp
  show "split_on (CHR '' '') (c @ '' = '' @ l @ CHR '' '' # rest) = c # ''='' # l # split_on (CHR '' '') rest"
    using split_on_append [of "CHR '' ''" c "''= '' @ l @ CHR '' '' # rest"] e [of "l @ CHR '' '' # rest"]
      split_on_append [of "CHR '' ''" l rest] split_on_word [OF assms(1)] split_on_word [OF assms(2)] by simp
  show "split_on (CHR '' '') (c @ '' = '' @ l) = [c, ''='', l]"
    using split_on_append [of "CHR '' ''" c "''= '' @ l"] e [of l] split_on_word [OF assms(1)] split_on_word [OF assms(2)] by simp
qed

lemma split_order: "split_on (CHR '' '') ''AND _index != -1 ORDER BY _index ASC'' = order_words"
  by code_simp

lemma split_conditions:
  assumes "plain_conditions lit conds"
  shows "split_on (CHR '' '') (join_sep '' AND '' (map (\<lambda>(c, l). c @ '' = '' @ l) conds) @ (if ordered then in_order else [])) =
    condition_words conds ordered"
  using assms
proof (induction conds)
  case Nil
  then show ?case by (simp add: plain_conditions_def)
next
  case (Cons cl conds)
  obtain c l where cl: "cl = (c, l)" by (cases cl)
  have b: "CHR '' '' \<notin> set c" "CHR '' '' \<notin> set l"
    using Cons.prems cl plain_name_no_blank by (auto simp: plain_conditions_def)
  show ?case
  proof (cases "conds = []")
    case True
    then show ?thesis
      using split_one(2) [OF b] split_one(1) [OF b, of "''AND _index != -1 ORDER BY _index ASC''"] split_order
      by (simp add: cl)
  next
    case False
    then have "plain_conditions lit conds" using Cons.prems by (simp add: plain_conditions_def)
    note ih = Cons.IH [OF this]
    let ?rest = "join_sep '' AND '' (map (\<lambda>(c, l). c @ '' = '' @ l) conds) @ (if ordered then in_order else [])"
    have "join_sep '' AND '' (map (\<lambda>(c, l). c @ '' = '' @ l) (cl # conds)) @ (if ordered then in_order else []) =
        c @ '' = '' @ l @ CHR '' '' # ''AND '' @ ?rest"
      using False by (cases conds) (simp_all add: cl)
    then have "split_on (CHR '' '') (join_sep '' AND '' (map (\<lambda>(c, l). c @ '' = '' @ l) (cl # conds)) @ (if ordered then in_order else [])) =
        c # ''='' # l # split_on (CHR '' '') (''AND '' @ ?rest)"
      by (simp only: split_one(1) [OF b])
    also have "split_on (CHR '' '') (''AND '' @ ?rest) = ''AND'' # condition_words conds ordered"
      using ih by simp
    finally show ?thesis using False by (simp add: cl)
  qed
qed

lemma parse_condition_words: "conds \<noteq> [] \<Longrightarrow> parse_conditions (condition_words conds ordered) = Some (conds, ordered)"
proof (induction conds)
  case (Cons cl conds)
  obtain c l where cl: "cl = (c, l)" by (cases cl)
  show ?case
  proof (cases conds)
    case Nil
    then show ?thesis by (simp add: cl)
  next
    case (Cons cl' conds')
    then have "parse_conditions (condition_words conds ordered) = Some (conds, ordered)" using Cons.IH by simp
    moreover have "condition_words conds ordered \<noteq> tl order_words" by (cases cl') (simp add: Cons)
    ultimately show ?thesis using Cons by (simp add: cl)
  qed
qed simp

lemma split_query:
  assumes "plain_name T" "plain_conditions lit conds"
  shows "split_on (CHR '' '') (query_text D T conds ordered) =
    ''SELECT'' # split_on (CHR '' '') D @ ''FROM'' # T # ''WHERE'' # condition_words conds ordered"
proof -
  let ?c = "join_sep '' AND '' (map (\<lambda>(c, l). c @ '' = '' @ l) conds) @ (if ordered then in_order else [])"
  have q: "query_text D T conds ordered = ''SELECT'' @ CHR '' '' # D @ CHR '' '' # ''FROM'' @ CHR '' '' # T @ CHR '' '' # ''WHERE'' @ CHR '' '' # ?c"
    by (simp add: query_text_def)
  have w: "split_on (CHR '' '') ''SELECT'' = [''SELECT'']" "split_on (CHR '' '') ''FROM'' = [''FROM'']"
    "split_on (CHR '' '') ''WHERE'' = [''WHERE'']" by simp_all
  show ?thesis
    unfolding q split_on_append w split_conditions [OF assms(2)] split_on_word [OF plain_name_no_blank [OF assms(1)]] by simp
qed

lemma engine_selects:
  assumes "plain_name T" "plain_columns D" "plain_conditions literal conds"
    and "has_columns T (columns_in D @ map fst conds @ order_keys ordered)"
  shows "engine_prepare w (query_text D T conds ordered) =
    (w, Inr (statement (columns_in D) (selected literal (fst w) D T conds ordered)))"
proof -
  let ?ws = "split_on (CHR '' '') D @ ''FROM'' # T # ''WHERE'' # condition_words conds ordered"
  have f: "\<forall>x \<in> set (split_on (CHR '' '') D). x \<noteq> ''FROM''" using assms(2) by (auto simp: plain_columns_def)
  have c: "conds \<noteq> []" using assms(3) by (simp add: plain_conditions_def)
  have tw: "takeWhile (\<lambda>w. w \<noteq> ''FROM'') ?ws = split_on (CHR '' '') D"
    "dropWhile (\<lambda>w. w \<noteq> ''FROM'') ?ws = ''FROM'' # T # ''WHERE'' # condition_words conds ordered"
    using f by (simp_all add: takeWhile_append2 dropWhile_append2)
  have "engine_select (fst w) ?ws = Some (statement (columns_in D) (selected literal (fst w) D T conds ordered))"
    unfolding engine_select_def tw using assms(4) c by (simp add: join_split parse_condition_words)
  moreover have "length ?ws \<noteq> 3"
    using c by (cases conds; cases "hd conds") auto
  ultimately show ?thesis
    unfolding engine_prepare_def split_query [OF assms(1,3)] by simp
qed

lemma engine_max_ident:
  assumes "T \<in> message_tables"
  shows "engine_prepare w (max_ident_text T) =
    (w, Inr (statement [''max(_ident)''] [[Some (dec_nat (foldr max (map ident_of (fst w T)) 0))]]))"
proof -
  have "split_on (CHR '' '') (max_ident_text T) = [''SELECT'', ''max(_ident)'', ''FROM'', T @ '';'']"
    using assms unfolding message_tables_def max_ident_text_def by (elim insertE emptyE) simp_all
  then show ?thesis by (simp add: engine_prepare_def)
qed

section \<open>It is an engine\<close>

lemma statement_gives: "length cols = n \<Longrightarrow> gives (statement cols rs) n rs"
  by (simp add: gives_def statement_def)

lemma insert_text_no_transaction: "insert_text T C vals \<notin> {''BEGIN'', ''COMMIT'', ''ROLLBACK''}"
  by (simp add: insert_text_def)

lemma engine_inserts:
  assumes "plain_name T" "plain_columns C" "map literal vals = map Some cells" "length cells = length (columns_in C)"
    and "insert_into (fst w) T (columns_in C) cells = Some db"
  shows "engine_exec w (insert_text T C vals) = ((db, snd w), Inr ())"
proof -
  have "columns_in C \<noteq> []" by (simp add: columns_in_def)
  then have "vals \<noteq> []" using assms(3,4) by auto
  then show ?thesis
    using parse_insert_text [OF assms(1,2,3)] insert_text_no_transaction [of T C vals] assms(5)
    by (cases w) (simp add: engine_exec_def)
qed

interpretation engine: sqlite_engine table_engine fst literal "\<lambda>w. snd w = None"
proof unfold_locales
  show "lite_quote table_engine = double_quotes" by (simp add: table_engine_def)
  show "literal ''NULL'' = Some None" by code_simp
  show "literal (dec_int k) = Some (Some (dec_int k))" for k by (rule literal_int)
  show "literal (quoted_literal x) = Some (Some x)" for x by (rule literal_text)
  show "literal (hex_literal x) = Some (Some x)" for x by (rule literal_blob)
  show "\<exists>w'. lite_exec table_engine w ''BEGIN'' = (w', Inr ()) \<and> fst w' = fst w \<and> snd w' \<noteq> None"
    if "snd w = None" for w
    using that by (cases w) (simp add: table_engine_def engine_exec_def)
  show "\<exists>w'. lite_exec table_engine w ''COMMIT'' = (w', Inr ()) \<and> fst w' = fst w \<and> snd w' = None"
    if "snd w \<noteq> None" for w
    using that by (cases w) (auto simp: table_engine_def engine_exec_def)
next
  fix T C and vals :: "string list" and cells :: "cell list" and w :: table_world
  assume T: "T \<notin> message_tables" "plain_name T" "plain_columns C" "has_columns T (columns_in C)"
    and v: "map literal vals = map Some cells" "length cells = length (columns_in C)"
    and ok: "sound (add_rows (fst w) [(T, zip (columns_in C) cells)])"
  have "insert_into (fst w) T (columns_in C) cells = Some (add_rows (fst w) [(T, zip (columns_in C) cells)])"
    using T v(2) ok by (simp add: insert_into_def Let_def)
  from engine_inserts [OF T(2,3) v this]
  show "\<exists>w'. lite_exec table_engine w (insert_text T C vals) = (w', Inr ()) \<and> (snd w' = None) = (snd w = None) \<and>
      fst w' = add_rows (fst w) [(T, zip (columns_in C) cells)]"
    by (simp add: table_engine_def)
next
  fix T C and vals :: "string list" and cells :: "cell list" and w :: table_world
  assume T: "T \<in> message_tables" "plain_columns C" "has_columns T (columns_in C)"
    and v: "map literal vals = map Some cells" "length cells = length (columns_in C)"
    and ok: "sound (fst w)" and left: "idents_left (fst w T)"
  let ?n = "next_ident (fst w T)"
  let ?db = "add_rows (fst w) [(T, (''_ident'', Some (dec_nat ?n)) # zip (columns_in C) cells)]"
  have name: "plain_name T" using T(1) unfolding message_tables_def by (elim insertE emptyE; simp; code_simp)
  have new: "\<forall>r \<in> set (fst w T). cell_at r ''_ident'' \<noteq> Some (dec_nat ?n)" using next_ident_fresh by blast
  have "insert_into (fst w) T (columns_in C) cells = Some ?db"
    using T v(2) sound_message [OF ok T(1) new] by (simp add: insert_into_def Let_def)
  from engine_inserts [OF name T(2) v this]
  have e: "lite_exec table_engine w (insert_text T C vals) = ((?db, snd w), Inr ())" by (simp add: table_engine_def)
  have "foldr max (map ident_of (?db T)) 0 = ?n"
    using max_ident_added [of "fst w T"] by simp
  then have p: "lite_prepare table_engine (?db, snd w) (max_ident_text T) =
      ((?db, snd w), Inr (statement [''max(_ident)''] [[Some (dec_nat ?n)]]))"
    using engine_max_ident [OF T(1), of "(?db, snd w)"] by (simp add: table_engine_def)
  show "\<exists>n w' w'' st. lite_exec table_engine w (insert_text T C vals) = (w', Inr ()) \<and>
      (snd w' = None) = (snd w = None) \<and>
      fst w' = add_rows (fst w) [(T, (''_ident'', Some (dec_nat n)) # zip (columns_in C) cells)] \<and> n < 2 ^ 63 \<and>
      (\<forall>r \<in> set (fst w T). cell_at r ''_ident'' \<noteq> Some (dec_nat n)) \<and>
      lite_prepare table_engine w' (max_ident_text T) = (w'', Inr st) \<and> gives st 1 [[Some (dec_nat n)]] \<and>
      (snd w'' = None) = (snd w = None) \<and> fst w'' = fst w'"
    by (rule exI [of _ ?n], rule exI [of _ "(?db, snd w)"], rule exI [of _ "(?db, snd w)"],
        rule exI [of _ "statement [''max(_ident)''] [[Some (dec_nat ?n)]]"])
      (use next_ident_small [OF left] in \<open>simp add: e p new statement_gives del: add_rows_simps\<close>)
next
  fix T D and conds :: "(string \<times> string) list" and ordered and w :: table_world
  assume "plain_name T" "plain_columns D" "plain_conditions literal conds"
    "has_columns T (columns_in D @ map fst conds @ order_keys ordered)"
  from engine_selects [OF this, of w]
  show "\<exists>w' st. lite_prepare table_engine w (query_text D T conds ordered) = (w', Inr st) \<and>
      gives st (length (columns_in D)) (selected literal (fst w) D T conds ordered) \<and>
      (snd w' = None) = (snd w = None) \<and> fst w' = fst w"
    by (simp add: table_engine_def statement_gives)
qed

end
