(* ===== verification/Admin.thy ===== *)
theory Admin
  imports Db Path_Parser
begin

text \<open>
  The transfers of the administration tool (src/preludedb-admin.c): copy, move, delete, save,
  print and load, and the commands that count, update and optimize, over the functions of the
  library. Command line parsing, help texts, times and messages to the user are left out; a
  signal is the initial value of \<open>stop_processing\<close>. A loop that does not end is \<open>None\<close>.
\<close>

section \<open>State\<close>

text \<open>The static variables of the file.\<close>

record admin =
  adm_limit :: int
  adm_limit_copy :: int
  adm_offset :: int
  adm_offset_copy :: int
  events_per_transaction :: nat
  cur_count :: nat
  stop_processing :: bool

definition as_int :: "int \<Rightarrow> int" where
  "as_int x = signed_take_bit 31 x"

lemma as_int_small: "- (2 ^ 31) \<le> x \<Longrightarrow> x < 2 ^ 31 \<Longrightarrow> as_int x = x"
  by (simp add: as_int_def signed_take_bit_int_eq_self)

text \<open>The functions that \<open>setup_message_type\<close> stores for alerts or heartbeats.\<close>

record ('w, 'd) message_ops =
  op_get_message :: "nat \<Rightarrow> (('w, 'd) sql, idmef_message) get_call"
  op_get_idents :: "('w, 'd) preludedb \<Rightarrow> idmef_criteria option \<Rightarrow> int \<Rightarrow> int \<Rightarrow> idents_order \<Rightarrow>
    ('w, 'd) preludedb \<times> (db_error + 'd result_idents option)"
  op_delete_from_list :: "('w, 'd) sql \<Rightarrow> nat list \<Rightarrow> ('w, 'd) sql \<times> (db_error + nat)"
  op_delete_from_result_idents :: "('w, 'd) sql \<times> 'd sql_table \<Rightarrow> ((('w, 'd) sql \<times> 'd sql_table) \<times> (db_error + nat)) option"

definition setup_message_type :: "('w, 'd) format_plugin \<Rightarrow> string \<Rightarrow> ('w, 'd) message_ops option" where
  "setup_message_type p type =
     (if strcase_eq type ''alert'' then
        Some \<lparr>op_get_message = preludedb_get_alert p, op_get_idents = preludedb_get_alert_idents p,
          op_delete_from_list = preludedb_delete_alert_from_list p,
          op_delete_from_result_idents = preludedb_delete_alert_from_result_idents p\<rparr>
      else if strcase_eq type ''heartbeat'' then
        Some \<lparr>op_get_message = preludedb_get_heartbeat p, op_get_idents = preludedb_get_heartbeat_idents p,
          op_delete_from_list = preludedb_delete_heartbeat_from_list p,
          op_delete_from_result_idents = preludedb_delete_heartbeat_from_result_idents p\<rparr>
      else None)"

section \<open>Transactions of a transfer\<close>

definition with_sql :: "('w, 'd) preludedb \<Rightarrow> ('w, 'd) sql \<Rightarrow> ('w, 'd) preludedb" where
  "with_sql db s = db\<lparr>db_sql := s\<rparr>"

definition count_events :: "admin \<Rightarrow> nat \<Rightarrow> admin" where
  "count_events adm n = adm\<lparr>cur_count := (cur_count adm + n) mod 2 ^ 64\<rparr>"

text \<open>The results of the two transaction calls are not looked at.\<close>

definition flush_transaction_if_needed ::
    "admin \<Rightarrow> ('w, 'd) preludedb \<Rightarrow> nat option \<Rightarrow> nat \<Rightarrow> admin \<times> ('w, 'd) preludedb \<times> nat option" where
  "flush_transaction_if_needed adm db event_no increment =
     (case event_no of
        None \<Rightarrow> (count_events adm increment, db, None)
      | Some n \<Rightarrow>
          if events_per_transaction adm \<noteq> 0 then
            (let k = (n + increment) mod 2 ^ 32
             in if k \<ge> events_per_transaction adm \<or> increment = 0 \<and> k \<noteq> 0 then
                  (let s1 = fst (preludedb_transaction_end (db_sql db));
                       s2 = fst (preludedb_transaction_start s1)
                   in (count_events adm k, with_sql db s2, Some 0))
                else (adm, db, Some k))
          else (adm, db, Some n))"

definition admin_transaction_start :: "admin \<Rightarrow> ('w, 'd) preludedb \<Rightarrow> ('w, 'd) preludedb" where
  "admin_transaction_start adm db =
     (if events_per_transaction adm > 1 then with_sql db (fst (preludedb_transaction_start (db_sql db))) else db)"

definition admin_transaction_end ::
    "(string option \<Rightarrow> db_error \<Rightarrow> string) \<Rightarrow> admin \<Rightarrow> ('w, 'd) preludedb \<Rightarrow> bool \<Rightarrow> nat \<Rightarrow> admin \<times> ('w, 'd) preludedb" where
  "admin_transaction_end se adm db failed event_no =
     (if events_per_transaction adm > 1 then
        (if failed then (adm, with_sql db (fst (preludedb_transaction_abort se (db_sql db))))
         else (count_events adm event_no, with_sql db (fst (preludedb_transaction_end (db_sql db)))))
      else (adm, db))"

section \<open>Pages of idents\<close>

text \<open>
  The next page, at most \<open>events_per_transaction\<close> idents and no more than what is left of the
  count. A transfer that does not remove its messages skips those already counted.
\<close>

definition fetch_message_idents_limited ::
    "('w, 'd) message_ops \<Rightarrow> ('w, 'd) format_plugin \<Rightarrow> idmef_criteria option \<Rightarrow> admin \<Rightarrow> ('w, 'd) preludedb \<Rightarrow> bool \<Rightarrow>
       (admin \<times> ('w, 'd) preludedb \<times> (db_error + ('d result_idents \<times> nat) option)) option" where
  "fetch_message_idents_limited ops p criteria adm db no_increment =
     (let local_limit = (if adm_limit_copy adm < 0 then int (events_per_transaction adm)
                         else min (int (events_per_transaction adm)) (adm_limit_copy adm));
          skip = as_int (as_int (adm_offset adm) + (if no_increment then 0 else int (cur_count adm)))
      in case op_get_idents ops db criteria (as_int local_limit) skip ORDER_BY_NONE of
           (db1, Inl e) \<Rightarrow> Some (adm, db1, Inl e)
         | (db1, Inr None) \<Rightarrow> Some (adm, db1, Inr None)
         | (db1, Inr (Some r)) \<Rightarrow>
             (case preludedb_result_idents_get_count p (db_sql db1) (ri_res r) of
                None \<Rightarrow> None
              | Some (s, t, Inl e) \<Rightarrow> Some (adm, with_sql db1 s, Inl e)
              | Some (s, t, Inr n) \<Rightarrow>
                  if as_int (int n) < 0 then Some (adm, with_sql db1 s, Inl RawError)
                  else (let adm1 = (if adm_limit_copy adm > 0 then adm\<lparr>adm_limit_copy := adm_limit_copy adm - int n\<rparr> else adm)
                        in Some (adm1, with_sql db1 s, Inr (Some (r\<lparr>ri_res := t\<rparr>, n))))))"

section \<open>Copy and move\<close>

record ('w, 'd, 'v, 'e) transfer =
  tr_admin :: admin
  tr_src :: "('w, 'd) preludedb"
  tr_dst :: "('v, 'e) preludedb"
  dst_event_no :: nat

definition flush_dst :: "nat \<Rightarrow> ('w, 'd, 'v, 'e) transfer \<Rightarrow> ('w, 'd, 'v, 'e) transfer" where
  "flush_dst increment st =
     (let (adm, db, n) = flush_transaction_if_needed (tr_admin st) (tr_dst st) (Some (dst_event_no st)) increment
      in st\<lparr>tr_admin := adm, tr_dst := db, dst_event_no := the n\<rparr>)"

definition DELETE_TABLE :: nat where
  "DELETE_TABLE = 1024"

text \<open>
  The table of idents to delete has 1024 entries; writing behind them is \<open>Undefined\<close>. When
  deleting fails, the loop goes on without resetting the table and without counting the event.
\<close>

definition remember_ident ::
    "('w, 'd) message_ops \<Rightarrow> nat \<Rightarrow> nat list \<Rightarrow> ('w, 'd, 'v, 'e) transfer \<Rightarrow> ('w, 'd, 'v, 'e) transfer \<times> (db_error + nat list)" where
  "remember_ident ops ident delete_tbl st =
     (if length delete_tbl \<ge> DELETE_TABLE then (st, Inl Undefined)
      else
        (let tbl = delete_tbl @ [ident]; ept = events_per_transaction (tr_admin st)
         in if ept \<noteq> 0 \<and> dst_event_no st \<ge> ept \<or> length tbl \<ge> DELETE_TABLE then
              (case op_delete_from_list ops (db_sql (tr_src st)) tbl of
                 (s, Inl e) \<Rightarrow> (st\<lparr>tr_src := with_sql (tr_src st) s\<rparr>, Inr tbl)
               | (s, Inr n) \<Rightarrow> (flush_dst 1 (st\<lparr>tr_src := with_sql (tr_src st) s\<rparr>), Inr []))
            else (flush_dst 1 st, Inr tbl)))"

definition copy_one ::
    "('w, 'd) message_ops \<Rightarrow> ('v, 'e) format_plugin \<Rightarrow> bool \<Rightarrow> nat \<Rightarrow> nat list \<Rightarrow> ('w, 'd, 'v, 'e) transfer \<Rightarrow>
       (('w, 'd, 'v, 'e) transfer \<times> (db_error + nat list)) option" where
  "copy_one ops dp del ident delete_tbl st =
     (case op_get_message ops ident (db_sql (tr_src st)) of
        None \<Rightarrow> None
      | Some (s, Inl e) \<Rightarrow> Some (st\<lparr>tr_src := with_sql (tr_src st) s\<rparr>, Inl e)
      | Some (s, Inr msg) \<Rightarrow>
          (case preludedb_insert_message dp msg (db_sql (tr_dst st)) of
             (d, ret) \<Rightarrow>
               (let st1 = st\<lparr>tr_src := with_sql (tr_src st) s, tr_dst := with_sql (tr_dst st) d\<rparr>
                in case ret of
                     Inl e \<Rightarrow> Some (st1, Inl e)
                   | Inr _ \<Rightarrow>
                       Some (if del then remember_ident ops ident delete_tbl st1 else (flush_dst 1 st1, Inr delete_tbl)))))"

definition copy_finish ::
    "('w, 'd) message_ops \<Rightarrow> nat list \<Rightarrow> (db_error + unit) \<Rightarrow> ('w, 'd, 'v, 'e) transfer \<Rightarrow>
       ('w, 'd, 'v, 'e) transfer \<times> (db_error + unit)" where
  "copy_finish ops delete_tbl ret st =
     (let st1 = flush_dst 0 st
      in if delete_tbl = [] then (st1, ret)
         else (case op_delete_from_list ops (db_sql (tr_src st1)) delete_tbl of
                 (s, Inl e) \<Rightarrow> (st1\<lparr>tr_src := with_sql (tr_src st1) s\<rparr>, Inl RawError)
               | (s, Inr n) \<Rightarrow> (st1\<lparr>tr_src := with_sql (tr_src st1) s\<rparr>, ret)))"

partial_function (option) copy_iterate ::
    "('w, 'd) message_ops \<Rightarrow> ('w, 'd) format_plugin \<Rightarrow> ('v, 'e) format_plugin \<Rightarrow> bool \<Rightarrow> 'd sql_table \<Rightarrow> nat \<Rightarrow> nat list \<Rightarrow>
       ('w, 'd, 'v, 'e) transfer \<Rightarrow> (('w, 'd, 'v, 'e) transfer \<times> (db_error + unit)) option" where
  "copy_iterate ops p dp del t ident_idx delete_tbl st =
     (case preludedb_result_idents_get p (db_sql (tr_src st), t) ident_idx of
        (sr, ret) \<Rightarrow>
          (case ret of
             Inl e \<Rightarrow> Some (copy_finish ops delete_tbl (Inl e) (st\<lparr>tr_src := with_sql (tr_src st) (fst sr)\<rparr>))
           | Inr i \<Rightarrow>
               (case i of
                  None \<Rightarrow> Some (copy_finish ops delete_tbl (Inr ()) (st\<lparr>tr_src := with_sql (tr_src st) (fst sr)\<rparr>))
                | Some ident \<Rightarrow>
                    Option.bind (copy_one ops dp del ident delete_tbl (st\<lparr>tr_src := with_sql (tr_src st) (fst sr)\<rparr>)) (\<lambda>x.
                      case snd x of
                        Inl e \<Rightarrow> Some (fst x, Inl e)
                      | Inr tbl \<Rightarrow> copy_iterate ops p dp del (snd sr) (ident_idx + 1) tbl (fst x)))))"

text \<open>The pages, as long as there are any. A result of no idents is not released.\<close>

partial_function (option) copy_pages ::
    "('w, 'd) message_ops \<Rightarrow> ('w, 'd) format_plugin \<Rightarrow> ('v, 'e) format_plugin \<Rightarrow> idmef_criteria option \<Rightarrow> bool \<Rightarrow>
       ('w, 'd, 'v, 'e) transfer \<Rightarrow> (('w, 'd, 'v, 'e) transfer \<times> (db_error + unit)) option" where
  "copy_pages ops p dp criteria del st =
     Option.bind (fetch_message_idents_limited ops p criteria (tr_admin st) (tr_src st) del) (\<lambda>f.
       case snd (snd f) of
         Inl e \<Rightarrow> Some (st\<lparr>tr_admin := fst f, tr_src := fst (snd f)\<rparr>, Inl e)
       | Inr page \<Rightarrow>
           (case page of
              None \<Rightarrow> Some (st\<lparr>tr_admin := fst f, tr_src := fst (snd f)\<rparr>, Inr ())
            | Some rn \<Rightarrow>
                if snd rn = 0 then Some (st\<lparr>tr_admin := fst f, tr_src := fst (snd f)\<rparr>, Inr ())
                else Option.bind (copy_iterate ops p dp del (ri_res (fst rn)) 0 [] (st\<lparr>tr_admin := fst f, tr_src := fst (snd f)\<rparr>)) (\<lambda>x.
                  let st2 = (fst x)\<lparr>tr_src := fst (preludedb_result_idents_destroy (tr_src (fst x)) (fst rn))\<rparr>
                  in case snd x of
                       Inl e \<Rightarrow> Some (st2, Inl e)
                     | Inr u \<Rightarrow>
                         if stop_processing (tr_admin st2) then Some (st2, Inr ())
                         else copy_pages ops p dp criteria del st2)))"

definition do_cmd_copy_move ::
    "(string option \<Rightarrow> db_error \<Rightarrow> string) \<Rightarrow> ('w, 'd) message_ops \<Rightarrow> ('w, 'd) format_plugin \<Rightarrow> ('v, 'e) format_plugin \<Rightarrow>
       idmef_criteria option \<Rightarrow> bool \<Rightarrow> admin \<Rightarrow> ('w, 'd) preludedb \<Rightarrow> ('v, 'e) preludedb \<Rightarrow>
       (admin \<times> ('w, 'd) preludedb \<times> ('v, 'e) preludedb \<times> (db_error + unit)) option" where
  "do_cmd_copy_move se ops p dp criteria del adm src dst =
     Option.bind (copy_pages ops p dp criteria del
       \<lparr>tr_admin = adm, tr_src = src, tr_dst = admin_transaction_start adm dst, dst_event_no = 0\<rparr>) (\<lambda>(st, ret).
       let (adm1, dst1) = admin_transaction_end se (tr_admin st) (tr_dst st) (\<not> is_ok ret) (dst_event_no st)
       in Some (adm1, tr_src st, dst1, ret))"

section \<open>Delete and optimize\<close>

partial_function (option) delete_pages ::
    "('w, 'd) message_ops \<Rightarrow> ('w, 'd) format_plugin \<Rightarrow> idmef_criteria option \<Rightarrow> admin \<Rightarrow> ('w, 'd) preludedb \<Rightarrow> nat \<Rightarrow>
       (admin \<times> ('w, 'd) preludedb \<times> nat \<times> (db_error + nat)) option" where
  "delete_pages ops p criteria adm db event_no =
     Option.bind (fetch_message_idents_limited ops p criteria adm db True) (\<lambda>f.
       case snd (snd f) of
         Inl e \<Rightarrow> Some (fst f, fst (snd f), event_no, Inl e)
       | Inr page \<Rightarrow>
           (case page of
              None \<Rightarrow> Some (fst f, fst (snd f), event_no, Inr 0)
            | Some rn \<Rightarrow>
                if snd rn = 0 then Some (fst f, fst (snd f), event_no, Inr 0)
                else Option.bind (op_delete_from_result_idents ops (db_sql (fst (snd f)), ri_res (fst rn))) (\<lambda>x.
                  let db2 = fst (preludedb_result_idents_destroy (with_sql (fst (snd f)) (fst (fst x))) (fst rn));
                      g = flush_transaction_if_needed (fst f) db2 (Some event_no) (snd rn)
                  in case snd x of
                       Inl e \<Rightarrow> Some (fst g, fst (snd g), the (snd (snd g)), Inl e)
                     | Inr n \<Rightarrow>
                         if stop_processing (fst g) then Some (fst g, fst (snd g), the (snd (snd g)), Inr n)
                         else delete_pages ops p criteria (fst g) (fst (snd g)) (the (snd (snd g))))))"

text \<open>Nothing is deleted without criteria. A format without an optimisation is no error.\<close>

definition delete_optimize :: "('w, 'd) format_plugin \<Rightarrow> ('w, 'd) preludedb \<Rightarrow> nat \<Rightarrow> ('w, 'd) preludedb \<times> (db_error + nat)" where
  "delete_optimize p db n =
     (case preludedb_optimize p (db_sql db) of
        (s, Inl e) \<Rightarrow> (with_sql db s, if preludedb_error_check e PRELUDE_ERROR_ENOSYS then Inr 0 else Inl e)
      | (s, Inr _) \<Rightarrow> (with_sql db s, Inr 0))"

definition cmd_delete ::
    "(string option \<Rightarrow> db_error \<Rightarrow> string) \<Rightarrow> ('w, 'd) message_ops \<Rightarrow> ('w, 'd) format_plugin \<Rightarrow> idmef_criteria option \<Rightarrow>
       bool \<Rightarrow> admin \<Rightarrow> ('w, 'd) preludedb \<Rightarrow> (admin \<times> ('w, 'd) preludedb \<times> (db_error + nat)) option" where
  "cmd_delete se ops p criteria run_optimize adm db =
     (if criteria = None then Some (adm, db, Inl RawError)
      else Option.bind (delete_pages ops p criteria adm (admin_transaction_start adm db) 0) (\<lambda>(adm1, db1, event_no, ret).
        let (adm2, db2) = admin_transaction_end se adm1 db1 (\<not> is_ok ret) event_no
        in case ret of
             Inl e \<Rightarrow> Some (adm2, db2, Inl e)
           | Inr n \<Rightarrow>
               if run_optimize then (let (db3, r) = delete_optimize p db2 n in Some (adm2, db3, r))
               else Some (adm2, db2, Inr n)))"

section \<open>Save and print\<close>

text \<open>
  The messages of a page in turn, given to \<open>out\<close>. When saving, a message that cannot be
  retrieved or written is skipped and not counted, and the page always succeeds; when
  printing, the first that cannot be retrieved ends the command.
\<close>

partial_function (option) save_iterate_message ::
    "('w, 'd) message_ops \<Rightarrow> ('w, 'd) format_plugin \<Rightarrow> (idmef_message \<Rightarrow> db_error option) \<Rightarrow> 'd sql_table \<Rightarrow> nat \<Rightarrow> admin \<Rightarrow>
       ('w, 'd) preludedb \<Rightarrow> idmef_message list \<Rightarrow> (admin \<times> ('w, 'd) preludedb \<times> idmef_message list) option" where
  "save_iterate_message ops p write t ident_idx adm db out =
     (if stop_processing adm then Some (adm, db, out)
      else (case preludedb_result_idents_get p (db_sql db, t) ident_idx of
              (sr, ret) \<Rightarrow>
                (case ret of
                   Inl e \<Rightarrow> Some (adm, with_sql db (fst sr), out)
                 | Inr i \<Rightarrow>
                     (case i of
                        None \<Rightarrow> Some (adm, with_sql db (fst sr), out)
                      | Some ident \<Rightarrow>
                          Option.bind (op_get_message ops ident (fst sr)) (\<lambda>x.
                            case snd x of
                              Inl e \<Rightarrow> save_iterate_message ops p write (snd sr) (ident_idx + 1) adm (with_sql db (fst x)) out
                            | Inr msg \<Rightarrow>
                                if write msg \<noteq> None
                                then save_iterate_message ops p write (snd sr) (ident_idx + 1) adm (with_sql db (fst x)) out
                                else save_iterate_message ops p write (snd sr) (ident_idx + 1) (count_events adm 1)
                                       (with_sql db (fst x)) (out @ [msg]))))))"

partial_function (option) save_pages ::
    "('w, 'd) message_ops \<Rightarrow> ('w, 'd) format_plugin \<Rightarrow> (idmef_message \<Rightarrow> db_error option) \<Rightarrow> idmef_criteria option \<Rightarrow> admin \<Rightarrow>
       ('w, 'd) preludedb \<Rightarrow> idmef_message list \<Rightarrow>
       (admin \<times> ('w, 'd) preludedb \<times> idmef_message list \<times> (db_error + unit)) option" where
  "save_pages ops p write criteria adm db out =
     Option.bind (fetch_message_idents_limited ops p criteria adm db False) (\<lambda>f.
       case snd (snd f) of
         Inl e \<Rightarrow> Some (fst f, fst (snd f), out, Inl e)
       | Inr page \<Rightarrow>
           (case page of
              None \<Rightarrow> Some (fst f, fst (snd f), out, Inr ())
            | Some rn \<Rightarrow>
                if snd rn = 0 then Some (fst f, fst (snd f), out, Inr ())
                else Option.bind (save_iterate_message ops p write (ri_res (fst rn)) 0 (fst f) (fst (snd f)) out) (\<lambda>x.
                  let db2 = fst (preludedb_result_idents_destroy (fst (snd x)) (fst rn))
                  in if stop_processing (fst x) then Some (fst x, db2, snd (snd x), Inr ())
                     else save_pages ops p write criteria (fst x) db2 (snd (snd x)))))"

partial_function (option) print_iterate_message ::
    "('w, 'd) message_ops \<Rightarrow> ('w, 'd) format_plugin \<Rightarrow> 'd sql_table \<Rightarrow> nat \<Rightarrow> admin \<Rightarrow>
       ('w, 'd) preludedb \<Rightarrow> idmef_message list \<Rightarrow> (admin \<times> ('w, 'd) preludedb \<times> idmef_message list \<times> (db_error + unit)) option" where
  "print_iterate_message ops p t ident_idx adm db out =
     (if stop_processing adm then Some (adm, db, out, Inr ())
      else (case preludedb_result_idents_get p (db_sql db, t) ident_idx of
              (sr, ret) \<Rightarrow>
                (case ret of
                   Inl e \<Rightarrow> Some (adm, with_sql db (fst sr), out, Inl e)
                 | Inr i \<Rightarrow>
                     (case i of
                        None \<Rightarrow> Some (adm, with_sql db (fst sr), out, Inr ())
                      | Some ident \<Rightarrow>
                          Option.bind (op_get_message ops ident (fst sr)) (\<lambda>x.
                            case snd x of
                              Inl e \<Rightarrow> Some (adm, with_sql db (fst x), out, Inl e)
                            | Inr msg \<Rightarrow>
                                print_iterate_message ops p (snd sr) (ident_idx + 1) (count_events adm 1)
                                  (with_sql db (fst x)) (out @ [msg]))))))"

partial_function (option) print_pages ::
    "('w, 'd) message_ops \<Rightarrow> ('w, 'd) format_plugin \<Rightarrow> idmef_criteria option \<Rightarrow> admin \<Rightarrow> ('w, 'd) preludedb \<Rightarrow>
       idmef_message list \<Rightarrow> (admin \<times> ('w, 'd) preludedb \<times> idmef_message list \<times> (db_error + unit)) option" where
  "print_pages ops p criteria adm db out =
     Option.bind (fetch_message_idents_limited ops p criteria adm db False) (\<lambda>f.
       case snd (snd f) of
         Inl e \<Rightarrow> Some (fst f, fst (snd f), out, Inl e)
       | Inr page \<Rightarrow>
           (case page of
              None \<Rightarrow> Some (fst f, fst (snd f), out, Inr ())
            | Some rn \<Rightarrow>
                if snd rn = 0 then Some (fst f, fst (snd f), out, Inr ())
                else Option.bind (print_iterate_message ops p (ri_res (fst rn)) 0 (fst f) (fst (snd f)) out) (\<lambda>x.
                  let db2 = fst (preludedb_result_idents_destroy (fst (snd x)) (fst rn))
                  in if \<not> is_ok (snd (snd (snd x))) \<or> stop_processing (fst x) then Some (fst x, db2, snd (snd x))
                     else print_pages ops p criteria (fst x) db2 (fst (snd (snd x))))))"

section \<open>Load\<close>

text \<open>
  A file is what \<open>prelude_msg_read\<close> returns in turn, ending with the end of the file; \<open>decode\<close> is
  \<open>idmef_message_read\<close>. \<open>Inr None\<close> is the end, \<open>Inr (Some None)\<close> a message that was skipped.
\<close>

definition do_read_message ::
    "('m \<Rightarrow> db_error + idmef_message) \<Rightarrow> admin \<Rightarrow> (db_error + 'm) list \<Rightarrow> admin \<times> (db_error + idmef_message option option)" where
  "do_read_message decode adm io =
     (case io of
        [] \<Rightarrow> (adm, Inr None)
      | Inl e # rest \<Rightarrow> (adm, Inl e)
      | Inr m # rest \<Rightarrow>
          if adm_offset_copy adm > 0 then (adm\<lparr>adm_offset_copy := adm_offset_copy adm - 1\<rparr>, Inr (Some None))
          else if adm_limit adm \<noteq> -1 \<and> int (cur_count adm) \<ge> adm_limit adm mod 2 ^ 64 then (adm, Inr None)
          else (adm, map_sum id (\<lambda>msg. Some (Some msg)) (decode m)))"

text \<open>\<open>wanted\<close> is \<open>idmef_criteria_match\<close>; a message that does not match is counted all the same.\<close>

fun load_from_file ::
    "('m \<Rightarrow> db_error + idmef_message) \<Rightarrow> (idmef_message \<Rightarrow> bool) \<Rightarrow> ('v, 'e) format_plugin \<Rightarrow> (db_error + 'm) list \<Rightarrow>
       admin \<Rightarrow> ('v, 'e) preludedb \<Rightarrow> nat \<Rightarrow> admin \<times> ('v, 'e) preludedb \<times> nat \<times> (db_error + unit)" where
  "load_from_file decode wanted p io adm db event_no =
     (if stop_processing adm then (adm, db, event_no, Inr ())
      else (case do_read_message decode adm io of
              (adm1, Inl e) \<Rightarrow> (adm1, db, event_no, Inl e)
            | (adm1, Inr None) \<Rightarrow> (adm1, db, event_no, Inr ())
            | (adm1, Inr (Some None)) \<Rightarrow> (case io of [] \<Rightarrow> (adm1, db, event_no, Inr ())
                | m # rest \<Rightarrow> load_from_file decode wanted p rest adm1 db event_no)
            | (adm1, Inr (Some (Some msg))) \<Rightarrow>
                (case (if wanted msg then preludedb_insert_message p msg (db_sql db) else (db_sql db, Inr ())) of
                   (s, Inl e) \<Rightarrow> (adm1, with_sql db s, event_no, Inl e)
                 | (s, Inr _) \<Rightarrow>
                     (case flush_transaction_if_needed adm1 (with_sql db s) (Some event_no) 1 of
                        (adm2, db2, n) \<Rightarrow> (case io of [] \<Rightarrow> (adm2, db2, the n, Inr ())
                          | m # rest \<Rightarrow> load_from_file decode wanted p rest adm2 db2 (the n))))))"

fun load_files ::
    "('m \<Rightarrow> db_error + idmef_message) \<Rightarrow> (idmef_message \<Rightarrow> bool) \<Rightarrow> ('v, 'e) format_plugin \<Rightarrow> (db_error + 'm) list list \<Rightarrow>
       admin \<Rightarrow> ('v, 'e) preludedb \<Rightarrow> nat \<Rightarrow> admin \<times> ('v, 'e) preludedb \<times> nat \<times> (db_error + unit)" where
  "load_files decode wanted p [] adm db event_no = (adm, db, event_no, Inr ())"
| "load_files decode wanted p (io # files) adm db event_no =
     (case load_from_file decode wanted p io (adm\<lparr>adm_offset_copy := adm_offset adm\<rparr>) db event_no of
        (adm1, db1, n, Inl e) \<Rightarrow> (adm1, db1, n, Inl e)
      | (adm1, db1, n, Inr _) \<Rightarrow> load_files decode wanted p files adm1 db1 n)"

definition cmd_load ::
    "(string option \<Rightarrow> db_error \<Rightarrow> string) \<Rightarrow> ('m \<Rightarrow> db_error + idmef_message) \<Rightarrow> (idmef_message \<Rightarrow> bool) \<Rightarrow> ('v, 'e) format_plugin \<Rightarrow>
       (db_error + 'm) list list \<Rightarrow> admin \<Rightarrow> ('v, 'e) preludedb \<Rightarrow> admin \<times> ('v, 'e) preludedb \<times> (db_error + unit)" where
  "cmd_load se decode wanted p files adm db =
     (case load_files decode wanted p files adm (admin_transaction_start adm db) 0 of
        (adm1, db1, n, ret) \<Rightarrow>
          (let (adm2, db2) = admin_transaction_end se adm1 db1 (\<not> is_ok ret) n in (adm2, db2, ret)))"

section \<open>Opening a database\<close>

definition db_new_from_string ::
    "(string \<Rightarrow> ('w, 'd) preludedb_plugin_sql option) \<Rightarrow> (string \<Rightarrow> db_error + unit) \<Rightarrow> (string \<Rightarrow> ('w, 'd) format_plugin option) \<Rightarrow>
       'w \<Rightarrow> string option option \<Rightarrow> string \<Rightarrow> db_error + ('w, 'd) preludedb" where
  "db_new_from_string plugins fopen formats w logging str =
     res_bind (preludedb_sql_settings_new_from_string str) (\<lambda>settings.
     res_bind (preludedb_sql_new plugins fopen w None settings) (\<lambda>sql.
       case preludedb_new formats sql None of
         Inl (s, e) \<Rightarrow> Inl e
       | Inr db \<Rightarrow> Inr (case logging of
             None \<Rightarrow> db
           | Some file \<Rightarrow> with_sql db (fst (preludedb_sql_enable_query_logging fopen (db_sql db) file)))))"

section \<open>Options\<close>

text \<open>The value is the one \<open>strtoll\<close> or \<open>atoi\<close> read; \<open>False\<close> reports an invalid number, which is stored all the same.\<close>

definition set_count :: "int \<Rightarrow> admin \<Rightarrow> admin \<times> bool" where
  "set_count n adm =
     (if n = - (2 ^ 63) \<or> n = 2 ^ 63 - 1 then (adm\<lparr>adm_limit := n\<rparr>, False)
      else (adm\<lparr>adm_limit := n, adm_limit_copy := n\<rparr>, True))"

definition set_offset :: "int \<Rightarrow> admin \<Rightarrow> admin \<times> bool" where
  "set_offset n adm =
     (if n = - (2 ^ 63) \<or> n = 2 ^ 63 - 1 then (adm\<lparr>adm_offset := n\<rparr>, False)
      else (adm\<lparr>adm_offset := (if n < 0 then 0 else n)\<rparr>, True))"

definition set_events_per_transaction :: "int \<Rightarrow> admin \<Rightarrow> admin" where
  "set_events_per_transaction n adm = adm\<lparr>events_per_transaction := nat (n mod 2 ^ 32)\<rparr>"

section \<open>Optimize, count and update\<close>

definition cmd_optimize :: "('w, 'd) format_plugin \<Rightarrow> ('w, 'd) preludedb \<Rightarrow> ('w, 'd) preludedb \<times> (db_error + unit)" where
  "cmd_optimize p db = (case preludedb_optimize p (db_sql db) of (s, ret) \<Rightarrow> (with_sql db s, ret))"

text \<open>
  The number of messages of a type: a selection of one path, of whose result the first field is
  printed. \<open>uint32\<close> is \<open>idmef_value_get_uint32\<close>. A result without a row leaves a pointer unset,
  and when the field cannot be read the function returns without releasing anything.
\<close>

definition count_path :: "string \<Rightarrow> string" where
  "count_path type = snprintf_buf 128 (''count('' @ type @ ''.create_time)'')"

definition count_value ::
    "(value_type \<Rightarrow> string \<Rightarrow> db_error + idmef_value) \<Rightarrow> (idmef_value option \<Rightarrow> nat) \<Rightarrow> ('w, 'd) format_plugin \<Rightarrow>
       ('w, 'd) preludedb \<Rightarrow> 'd result_values \<Rightarrow> selected_path \<Rightarrow> ('w, 'd) preludedb \<times> (db_error + nat option)" where
  "count_value of_string uint32 p db r sp =
     (case preludedb_result_values_get_row p (db_sql db) (rv_res r) 0 of
        (s, t, Inl e) \<Rightarrow> (fst (preludedb_result_values_destroy (with_sql db s) r), Inl e)
      | (s, t, Inr None) \<Rightarrow> (with_sql db s, Inl Undefined)
      | (s, t, Inr (Some row)) \<Rightarrow>
          (case preludedb_result_values_get_field of_string p s t row sp of
             (s2, t2, Inl e) \<Rightarrow> (with_sql db s2, Inl e)
           | (s2, t2, Inr (v, n)) \<Rightarrow>
               (fst (preludedb_result_values_destroy (with_sql db s2) r), Inr (Some (uint32 v)))))"

definition cmd_count ::
    "(path_token list \<Rightarrow> path_token list \<Rightarrow> string) \<Rightarrow> (string \<Rightarrow> db_error + idmef_path) \<Rightarrow> (selected_path \<Rightarrow> nat) \<Rightarrow>
       (value_type \<Rightarrow> string \<Rightarrow> db_error + idmef_value) \<Rightarrow> (idmef_value option \<Rightarrow> nat) \<Rightarrow> ('w, 'd) format_plugin \<Rightarrow>
       idmef_criteria option \<Rightarrow> admin \<Rightarrow> ('w, 'd) preludedb \<Rightarrow> string \<Rightarrow> ('w, 'd) preludedb \<times> (db_error + nat option)" where
  "cmd_count msg path_new cc of_string uint32 p criteria adm db type =
     (case preludedb_selected_path_new_string msg path_new (count_path type) of
        Inl e \<Rightarrow> (db, Inl e)
      | Inr sp \<Rightarrow>
          (let ps = preludedb_path_selection_add cc preludedb_path_selection_new sp
           in case preludedb_get_values p db ps criteria False (as_int (adm_limit adm)) (as_int (adm_offset adm)) of
                (db1, Inl e) \<Rightarrow> (db1, Inl e)
              | (db1, Inr None) \<Rightarrow> (db1, Inr None)
              | (db1, Inr (Some r)) \<Rightarrow> count_value of_string uint32 p db1 r (last (selecteds ps))))"

text \<open>The order is a list of selected paths, the arguments are pairs of a path and a value; a last one alone is dropped.\<close>

fun add_orders ::
    "(string \<Rightarrow> db_error + selected_path) \<Rightarrow> (selected_path \<Rightarrow> nat) \<Rightarrow> path_selection \<Rightarrow> string list \<Rightarrow> db_error + path_selection" where
  "add_orders new cc selection [] = Inr selection"
| "add_orders new cc selection (ptr # ptrs) =
     res_bind (new ptr) (\<lambda>selected. add_orders new cc (preludedb_path_selection_add cc selection selected) ptrs)"

fun update_pairs ::
    "(string \<Rightarrow> db_error + idmef_path) \<Rightarrow> (idmef_path \<Rightarrow> string \<Rightarrow> db_error + idmef_value) \<Rightarrow> string list \<Rightarrow>
       db_error + (idmef_path \<times> idmef_value) list" where
  "update_pairs path_new value_new (a # b # args) =
     res_bind (path_new a) (\<lambda>path. res_bind (value_new path b) (\<lambda>v.
       map_sum id (Cons (path, v)) (update_pairs path_new value_new args)))"
| "update_pairs path_new value_new _ = Inr []"

definition cmd_update ::
    "(path_token list \<Rightarrow> path_token list \<Rightarrow> string) \<Rightarrow> (string \<Rightarrow> db_error + idmef_path) \<Rightarrow>
       (idmef_path \<Rightarrow> string \<Rightarrow> db_error + idmef_value) \<Rightarrow> (selected_path \<Rightarrow> nat) \<Rightarrow> ('w, 'd) format_plugin \<Rightarrow>
       idmef_criteria option \<Rightarrow> string option \<Rightarrow> admin \<Rightarrow> ('w, 'd) preludedb \<Rightarrow> string list \<Rightarrow>
       ('w, 'd) preludedb \<times> (db_error + unit)" where
  "cmd_update msg path_new value_new cc p criteria update_order adm db args =
     (case (case update_order of
              None \<Rightarrow> Inr None
            | Some order \<Rightarrow> map_sum id Some (add_orders (preludedb_selected_path_new_string msg path_new) cc
                preludedb_path_selection_new (split_on (CHR '','') order))) of
        Inl e \<Rightarrow> (db, Inl e)
      | Inr selection \<Rightarrow>
          (case update_pairs path_new value_new args of
             Inl e \<Rightarrow> (db, Inl e)
           | Inr pv \<Rightarrow>
               (case preludedb_update p (db_sql db) pv criteria selection (as_int (adm_limit adm)) (as_int (adm_offset adm)) of
                  (s, ret) \<Rightarrow> (with_sql db s, ret))))"

end
