(* ===== verification/Message_Transfer.thy ===== *)
theory Message_Transfer
  imports Admin
begin

text \<open>
  What a transfer of the administration tool does when nothing fails: what it asks of the
  format it reads from and the one it writes to, a page of idents, and all pages.
\<close>

section \<open>Source and destination\<close>

text \<open>
  A format that serves pages of \<open>contents\<close>, which lists idents and messages: a page is a section
  of the list, \<open>holds\<close> says which idents a result has, and reading changes nothing.
\<close>

definition ident_pages ::
    "('w, 'd) message_ops \<Rightarrow> ('w, 'd) format_plugin \<Rightarrow> idmef_criteria option \<Rightarrow> (('w, 'd) preludedb \<Rightarrow> bool) \<Rightarrow>
       ('d sql_table \<Rightarrow> nat list \<Rightarrow> bool) \<Rightarrow> (('w, 'd) sql \<Rightarrow> (nat \<times> idmef_message) list) \<Rightarrow> bool" where
  "ident_pages ops p criteria ok holds contents \<longleftrightarrow>
     (\<forall>db limit offset. ok db \<longrightarrow> 0 \<le> limit \<longrightarrow> 0 \<le> offset \<longrightarrow>
        (\<exists>db1. ok db1 \<and> contents (db_sql db1) = contents (db_sql db) \<and>
          (let page = take (nat limit) (drop (nat offset) (contents (db_sql db)))
           in if page = [] then op_get_idents ops db criteria limit offset ORDER_BY_NONE = (db1, Inr None)
              else \<exists>r. op_get_idents ops db criteria limit offset ORDER_BY_NONE = (db1, Inr (Some r)) \<and>
                holds (ri_res r) (map fst page)))) \<and>
     (\<forall>db t ids. ok db \<longrightarrow> holds t ids \<longrightarrow>
        (\<exists>s t'. preludedb_result_idents_get_count p (db_sql db) t = Some (s, t', Inr (length ids)) \<and> holds t' ids \<and>
          ok (with_sql db s) \<and> contents s = contents (db_sql db))) \<and>
     (\<forall>db t ids i. ok db \<longrightarrow> holds t ids \<longrightarrow>
        (\<exists>s t'. preludedb_result_idents_get p (db_sql db, t) i = ((s, t'), Inr (if i < length ids then Some (ids ! i) else None)) \<and>
          holds t' ids \<and> ok (with_sql db s) \<and> contents s = contents (db_sql db))) \<and>
     (\<forall>db r. ok db \<longrightarrow> ok (fst (preludedb_result_idents_destroy db r)) \<and>
        contents (db_sql (fst (preludedb_result_idents_destroy db r))) = contents (db_sql db)) \<and>
     (\<forall>db. ok db \<longrightarrow> distinct (map fst (contents (db_sql db))) \<and> length (contents (db_sql db)) < 2 ^ 31)"

text \<open>One that also gives every message and deletes what it is told.\<close>

definition ident_source ::
    "('w, 'd) message_ops \<Rightarrow> ('w, 'd) format_plugin \<Rightarrow> idmef_criteria option \<Rightarrow> (('w, 'd) preludedb \<Rightarrow> bool) \<Rightarrow>
       ('d sql_table \<Rightarrow> nat list \<Rightarrow> bool) \<Rightarrow> (('w, 'd) sql \<Rightarrow> (nat \<times> idmef_message) list) \<Rightarrow> bool" where
  "ident_source ops p criteria ok holds contents \<longleftrightarrow> ident_pages ops p criteria ok holds contents \<and>
     (\<forall>db x. ok db \<longrightarrow> x \<in> set (contents (db_sql db)) \<longrightarrow>
        (\<exists>s. op_get_message ops (fst x) (db_sql db) = Some (s, Inr (snd x)) \<and> ok (with_sql db s) \<and>
          contents s = contents (db_sql db))) \<and>
     (\<forall>db ids. ok db \<longrightarrow>
        (\<exists>s n. op_delete_from_list ops (db_sql db) ids = (s, Inr n) \<and> ok (with_sql db s) \<and>
          contents s = filter (\<lambda>x. fst x \<notin> set ids) (contents (db_sql db))))"

text \<open>A format that takes every message, and whose log the transactions do not change.\<close>

definition message_sink ::
    "('v, 'e) format_plugin \<Rightarrow> (('v, 'e) preludedb \<Rightarrow> bool) \<Rightarrow> (('v, 'e) sql \<Rightarrow> idmef_message list) \<Rightarrow> bool" where
  "message_sink p ok log \<longleftrightarrow>
     (\<forall>db msg. ok db \<longrightarrow> (\<exists>s. preludedb_insert_message p msg (db_sql db) = (s, Inr ()) \<and> ok (with_sql db s) \<and>
        log s = log (db_sql db) @ [msg])) \<and>
     (\<forall>db. ok db \<longrightarrow> ok (with_sql db (fst (preludedb_transaction_start (db_sql db)))) \<and>
        log (fst (preludedb_transaction_start (db_sql db))) = log (db_sql db)) \<and>
     (\<forall>db. ok db \<longrightarrow> ok (with_sql db (fst (preludedb_transaction_end (db_sql db)))) \<and>
        log (fst (preludedb_transaction_end (db_sql db))) = log (db_sql db))"

lemma with_sql_simps [simp]: "db_sql (with_sql db s) = s" "with_sql (with_sql db s) s' = with_sql db s'"
  by (simp_all add: with_sql_def)

lemma sink_insert:
  assumes "message_sink p ok log" "ok db"
  obtains s where "preludedb_insert_message p msg (db_sql db) = (s, Inr ())" "ok (with_sql db s)" "log s = log (db_sql db) @ [msg]"
  using assms unfolding message_sink_def by blast

lemma sink_transactions:
  assumes "message_sink p ok log" "ok db"
  shows "ok (with_sql db (fst (preludedb_transaction_start (db_sql db))))"
    "log (fst (preludedb_transaction_start (db_sql db))) = log (db_sql db)"
    "ok (with_sql db (fst (preludedb_transaction_end (db_sql db))))"
    "log (fst (preludedb_transaction_end (db_sql db))) = log (db_sql db)"
  using assms unfolding message_sink_def by blast+

lemma source_page:
  assumes "ident_pages ops p criteria ok holds contents" "ok db" "0 \<le> limit" "0 \<le> offset"
  obtains db1 where "ok db1" "contents (db_sql db1) = contents (db_sql db)"
    "take (nat limit) (drop (nat offset) (contents (db_sql db))) = []"
    "op_get_idents ops db criteria limit offset ORDER_BY_NONE = (db1, Inr None)"
  | db1 r where "ok db1" "contents (db_sql db1) = contents (db_sql db)"
    "take (nat limit) (drop (nat offset) (contents (db_sql db))) \<noteq> []"
    "op_get_idents ops db criteria limit offset ORDER_BY_NONE = (db1, Inr (Some r))"
    "holds (ri_res r) (map fst (take (nat limit) (drop (nat offset) (contents (db_sql db)))))"
proof -
  obtain db1 where "ok db1" "contents (db_sql db1) = contents (db_sql db)"
    "let page = take (nat limit) (drop (nat offset) (contents (db_sql db)))
     in if page = [] then op_get_idents ops db criteria limit offset ORDER_BY_NONE = (db1, Inr None)
        else \<exists>r. op_get_idents ops db criteria limit offset ORDER_BY_NONE = (db1, Inr (Some r)) \<and> holds (ri_res r) (map fst page)"
    using conjunct1 [OF assms(1) [unfolded ident_pages_def]] assms(2-4) by blast
  then show thesis using that by (auto simp: Let_def split: if_splits)
qed

lemma page_reads:
  assumes "ident_pages ops p criteria ok holds contents" "ok db"
  shows "holds t ids \<Longrightarrow> \<exists>s t'. preludedb_result_idents_get_count p (db_sql db) t = Some (s, t', Inr (length ids)) \<and> holds t' ids \<and>
      ok (with_sql db s) \<and> contents s = contents (db_sql db)"
    "holds t ids \<Longrightarrow> \<exists>s t'. preludedb_result_idents_get p (db_sql db, t) i = ((s, t'), Inr (if i < length ids then Some (ids ! i) else None)) \<and>
      holds t' ids \<and> ok (with_sql db s) \<and> contents s = contents (db_sql db)"
    "ok (fst (preludedb_result_idents_destroy db r)) \<and>
      contents (db_sql (fst (preludedb_result_idents_destroy db r))) = contents (db_sql db)"
    "distinct (map fst (contents (db_sql db))) \<and> length (contents (db_sql db)) < 2 ^ 31"
  using assms unfolding ident_pages_def by blast+

lemma source_pages: "ident_source ops p criteria ok holds contents \<Longrightarrow> ident_pages ops p criteria ok holds contents"
  by (simp add: ident_source_def)

lemma source_reads:
  assumes "ident_source ops p criteria ok holds contents" "ok db"
  shows "x \<in> set (contents (db_sql db)) \<Longrightarrow> \<exists>s. op_get_message ops (fst x) (db_sql db) = Some (s, Inr (snd x)) \<and> ok (with_sql db s) \<and>
      contents s = contents (db_sql db)"
    "\<exists>s n. op_delete_from_list ops (db_sql db) ids = (s, Inr n) \<and> ok (with_sql db s) \<and>
      contents s = filter (\<lambda>x. fst x \<notin> set ids) (contents (db_sql db))"
  using assms unfolding ident_source_def by blast+

section \<open>Counting\<close>

text \<open>Flushing keeps the sum of the counted events and those of the open transaction.\<close>

definition dst_ready :: "(('v, 'e) preludedb \<Rightarrow> bool) \<Rightarrow> ('w, 'd, 'v, 'e) transfer \<Rightarrow> bool" where
  "dst_ready ok st \<longleftrightarrow> ok (tr_dst st) \<and> 0 < events_per_transaction (tr_admin st) \<and>
     events_per_transaction (tr_admin st) < 2 ^ 31 \<and> dst_event_no st < events_per_transaction (tr_admin st)"

definition transferred :: "('w, 'd, 'v, 'e) transfer \<Rightarrow> nat" where
  "transferred st = cur_count (tr_admin st) + dst_event_no st"

definition same_options :: "admin \<Rightarrow> admin \<Rightarrow> bool" where
  "same_options a b \<longleftrightarrow> (\<exists>n. b = a\<lparr>cur_count := n\<rparr>)"

lemma same_options_refl [simp]: "same_options a a"
  unfolding same_options_def by (rule exI [of _ "cur_count a"]) simp

lemma same_options_fields:
  "same_options a b \<Longrightarrow> adm_limit_copy b = adm_limit_copy a \<and> adm_offset b = adm_offset a \<and>
     events_per_transaction b = events_per_transaction a \<and> stop_processing b = stop_processing a"
  unfolding same_options_def by auto

lemma same_options_trans: "same_options a b \<Longrightarrow> same_options b c \<Longrightarrow> same_options a c"
  unfolding same_options_def by auto

lemma flush_dst_ready:
  assumes "message_sink p ok log" "dst_ready ok st" "transferred st + n < 2 ^ 31"
  shows "dst_ready ok (flush_dst n st)" "tr_src (flush_dst n st) = tr_src st"
    "log (db_sql (tr_dst (flush_dst n st))) = log (db_sql (tr_dst st))"
    "transferred (flush_dst n st) = transferred st + n" "same_options (tr_admin st) (tr_admin (flush_dst n st))"
    "n = 0 \<Longrightarrow> dst_event_no (flush_dst n st) = 0"
proof -
  note r = assms(2) [unfolded dst_ready_def]
  have e: "(dst_event_no st + n) mod 2 ^ 32 = dst_event_no st + n"
    "(cur_count (tr_admin st) + (dst_event_no st + n)) mod 2 ^ 64 = cur_count (tr_admin st) + (dst_event_no st + n)"
    using assms(3) by (simp_all add: transferred_def)
  let ?s = "fst (preludedb_transaction_end (db_sql (tr_dst st)))"
  have d: "ok (with_sql (tr_dst st) (fst (preludedb_transaction_start ?s)))"
    "log (fst (preludedb_transaction_start ?s)) = log (db_sql (tr_dst st))"
    using sink_transactions [OF assms(1), of "tr_dst st"] sink_transactions [OF assms(1), of "with_sql (tr_dst st) ?s"] r by simp_all
  have f: "flush_dst n st =
      (if dst_event_no st + n \<ge> events_per_transaction (tr_admin st) \<or> n = 0 \<and> dst_event_no st \<noteq> 0
       then st\<lparr>tr_admin := (tr_admin st)\<lparr>cur_count := cur_count (tr_admin st) + (dst_event_no st + n)\<rparr>,
          tr_dst := with_sql (tr_dst st) (fst (preludedb_transaction_start ?s)), dst_event_no := 0\<rparr>
       else st\<lparr>dst_event_no := dst_event_no st + n\<rparr>)"
    using r e by (auto simp: flush_dst_def flush_transaction_if_needed_def count_events_def Let_def)
  show "dst_ready ok (flush_dst n st)" "tr_src (flush_dst n st) = tr_src st"
    "log (db_sql (tr_dst (flush_dst n st))) = log (db_sql (tr_dst st))"
    "transferred (flush_dst n st) = transferred st + n"
    using r d by (auto simp: f dst_ready_def transferred_def)
  show "dst_event_no (flush_dst n st) = 0" if "n = 0"
    using that r unfolding f by auto
  show "same_options (tr_admin st) (tr_admin (flush_dst n st))"
    by (simp add: f) (auto simp: same_options_def)
qed

section \<open>One page\<close>

text \<open>What the source holds besides the idents that wait for their deletion.\<close>

definition left_over :: "(('w, 'd) sql \<Rightarrow> (nat \<times> idmef_message) list) \<Rightarrow> ('w, 'd, 'v, 'e) transfer \<Rightarrow> nat list \<Rightarrow> (nat \<times> idmef_message) list" where
  "left_over contents st tbl = filter (\<lambda>x. fst x \<notin> set tbl) (contents (db_sql (tr_src st)))"

text \<open>A step or several of the transfer: messages go to the log and, when moving, out of the source.\<close>

definition moves ::
    "bool \<Rightarrow> (('w, 'd) preludedb \<Rightarrow> bool) \<Rightarrow> (('w, 'd) sql \<Rightarrow> (nat \<times> idmef_message) list) \<Rightarrow> (('v, 'e) preludedb \<Rightarrow> bool) \<Rightarrow>
       (('v, 'e) sql \<Rightarrow> idmef_message list) \<Rightarrow> (nat \<times> idmef_message) list \<Rightarrow>
       ('w, 'd, 'v, 'e) transfer \<times> nat list \<Rightarrow> ('w, 'd, 'v, 'e) transfer \<times> nat list \<Rightarrow> bool" where
  "moves del oks contents okd log xs a b \<longleftrightarrow>
     oks (tr_src (fst b)) \<and> dst_ready okd (fst b) \<and>
     log (db_sql (tr_dst (fst b))) = log (db_sql (tr_dst (fst a))) @ map snd xs \<and>
     transferred (fst b) = transferred (fst a) + length xs \<and> same_options (tr_admin (fst a)) (tr_admin (fst b)) \<and>
     length (snd b) < DELETE_TABLE \<and> (\<not> del \<longrightarrow> snd b = []) \<and>
     left_over contents (fst b) (snd b) =
       (if del then filter (\<lambda>x. fst x \<notin> fst ` set xs) (left_over contents (fst a) (snd a)) else left_over contents (fst a) (snd a))"

lemma moves_trans:
  assumes "moves del oks contents okd log xs a b" "moves del oks contents okd log ys b c"
  shows "moves del oks contents okd log (xs @ ys) a c"
  using assms unfolding moves_def by (auto intro: same_options_trans simp: image_Un)

lemma copy_one_moves:
  assumes S: "ident_source ops p criteria oks holds contents" and D: "message_sink dp okd log"
    and st: "oks (tr_src st)" "dst_ready okd st" "transferred st + 1 < 2 ^ 31" "length tbl < DELETE_TABLE" "\<not> del \<longrightarrow> tbl = []"
    and x: "x \<in> set (left_over contents st tbl)"
  shows "\<exists>st' tbl'. copy_one ops dp del (fst x) tbl st = Some (st', Inr tbl') \<and>
    moves del oks contents okd log [x] (st, tbl) (st', tbl')"
proof -
  obtain s where s: "op_get_message ops (fst x) (db_sql (tr_src st)) = Some (s, Inr (snd x))" "oks (with_sql (tr_src st) s)"
    "contents s = contents (db_sql (tr_src st))"
    using source_reads(1) [OF S st(1), of x] x by (auto simp: left_over_def)
  obtain d where d: "preludedb_insert_message dp (snd x) (db_sql (tr_dst st)) = (d, Inr ())" "okd (with_sql (tr_dst st) d)"
    "log d = log (db_sql (tr_dst st)) @ [snd x]"
    using sink_insert [OF D] st(2) by (auto simp: dst_ready_def)
  define st1 where "st1 = st\<lparr>tr_src := with_sql (tr_src st) s, tr_dst := with_sql (tr_dst st) d\<rparr>"
  have r1: "dst_ready okd st1" "transferred st1 = transferred st" "tr_admin st1 = tr_admin st"
    using st(2) d(2) by (simp_all add: st1_def dst_ready_def transferred_def)
  note fl = flush_dst_ready [OF D, where n = 1]
  have c: "copy_one ops dp del (fst x) tbl st =
      Some (if del then remember_ident ops (fst x) tbl st1 else (flush_dst 1 st1, Inr tbl))"
    using s(1) d(1) by (simp add: copy_one_def st1_def)
  show ?thesis
  proof (cases del)
    case False
    then show ?thesis
      using c fl [OF r1(1)] r1 st s d
      by (auto simp: moves_def left_over_def st1_def DELETE_TABLE_def)
  next
    case True
    define del_now where "del_now \<longleftrightarrow> events_per_transaction (tr_admin st1) \<noteq> 0 \<and> dst_event_no st1 \<ge> events_per_transaction (tr_admin st1) \<or>
      length (tbl @ [fst x]) \<ge> DELETE_TABLE"
    show ?thesis
    proof (cases del_now)
      case False
      then have "remember_ident ops (fst x) tbl st1 = (flush_dst 1 st1, Inr (tbl @ [fst x]))"
        using st(4) by (auto simp: remember_ident_def del_now_def Let_def simp del: length_append)
      then show ?thesis
        using c fl [OF r1(1)] r1 st s d False True
        by (auto simp: moves_def left_over_def st1_def del_now_def intro!: filter_cong)
    next
      case now: True
      obtain s2 n where s2: "op_delete_from_list ops (db_sql (tr_src st1)) (tbl @ [fst x]) = (s2, Inr n)"
        "oks (with_sql (tr_src st1) s2)"
        "contents s2 = filter (\<lambda>y. fst y \<notin> set (tbl @ [fst x])) (contents (db_sql (tr_src st1)))"
        using source_reads(2) [OF S, of "tr_src st1" "tbl @ [fst x]"] s(2) by (auto simp: st1_def)
      define st2 where "st2 = st1\<lparr>tr_src := with_sql (tr_src st1) s2\<rparr>"
      have r2: "dst_ready okd st2" "transferred st2 = transferred st" "tr_admin st2 = tr_admin st" "tr_dst st2 = tr_dst st1"
        using r1 by (simp_all add: st2_def dst_ready_def transferred_def)
      have "remember_ident ops (fst x) tbl st1 = (flush_dst 1 st2, Inr [])"
        using st(4) now s2(1) by (simp add: remember_ident_def del_now_def st2_def Let_def del: length_append)
      then show ?thesis
        using c fl [OF r2(1)] r2 st s d s2(2,3) True
        by (auto simp: moves_def left_over_def st1_def st2_def DELETE_TABLE_def intro!: filter_cong)
    qed
  qed
qed

text \<open>All of a page, from its position on.\<close>

lemma copy_iterate_moves:
  assumes S: "ident_source ops p criteria oks holds contents" and D: "message_sink dp okd log"
  shows "oks (tr_src st) \<Longrightarrow> dst_ready okd st \<Longrightarrow> transferred st + length xs < 2 ^ 31 \<Longrightarrow> length tbl < DELETE_TABLE \<Longrightarrow>
    (\<not> del \<longrightarrow> tbl = []) \<Longrightarrow> holds t ids \<Longrightarrow> drop i ids = map fst xs \<Longrightarrow> distinct (map fst xs) \<Longrightarrow>
    set xs \<subseteq> set (left_over contents st tbl) \<Longrightarrow>
    \<exists>st'. copy_iterate ops p dp del t i tbl st = Some (st', Inr ()) \<and> dst_event_no st' = 0 \<and>
      moves del oks contents okd log xs (st, tbl) (st', [])"
proof (induction xs arbitrary: st tbl t i)
  case Nil
  obtain s t' where g: "preludedb_result_idents_get p (db_sql (tr_src st), t) i = ((s, t'), Inr None)"
    "oks (with_sql (tr_src st) s)" "contents s = contents (db_sql (tr_src st))"
    using page_reads(2) [OF source_pages [OF S] Nil(1) Nil(6), of i] Nil(7) by auto
  define st1 where "st1 = st\<lparr>tr_src := with_sql (tr_src st) s\<rparr>"
  have r1: "dst_ready okd st1" "transferred st1 + 0 < 2 ^ 31" using Nil(2,3) by (simp_all add: st1_def dst_ready_def transferred_def)
  note fl = flush_dst_ready [OF D r1]
  have c: "copy_iterate ops p dp del t i tbl st = Some (copy_finish ops tbl (Inr ()) st1)"
    by (subst copy_iterate.simps) (simp add: g(1) st1_def)
  show ?case
  proof (cases "tbl = []")
    case True
    then have "copy_finish ops tbl (Inr ()) st1 = (flush_dst 0 st1, Inr ())" by (simp add: copy_finish_def)
    then show ?thesis
      using c fl g(2,3) True by (auto simp: moves_def left_over_def st1_def DELETE_TABLE_def transferred_def)
  next
    case False
    then have d: del using Nil(5) by blast
    have src: "tr_src (flush_dst 0 st1) = with_sql (tr_src st) s" using fl(2) by (simp add: st1_def)
    obtain s2 n where s2: "op_delete_from_list ops s tbl = (s2, Inr n)" "oks (with_sql (tr_src st) s2)"
      "contents s2 = filter (\<lambda>y. fst y \<notin> set tbl) (contents s)"
      using source_reads(2) [OF S g(2), of tbl] by auto
    have f: "copy_finish ops tbl (Inr ()) st1 = ((flush_dst 0 st1)\<lparr>tr_src := with_sql (tr_src st) s2\<rparr>, Inr ())"
      using False s2(1) src by (simp add: copy_finish_def Let_def)
    have "dst_event_no (flush_dst 0 st1) = 0" "dst_ready okd (flush_dst 0 st1)"
      "log (db_sql (tr_dst (flush_dst 0 st1))) = log (db_sql (tr_dst st))"
      "transferred (flush_dst 0 st1) = transferred st" "same_options (tr_admin st) (tr_admin (flush_dst 0 st1))"
      using fl by (simp_all add: st1_def transferred_def)
    then show ?thesis
      using c f s2(2,3) g(3) d
      by (auto simp: moves_def left_over_def DELETE_TABLE_def transferred_def dst_ready_def)
  qed
next
  case (Cons x xs)
  have d: "drop i ids = fst x # map fst xs" using Cons.prems(7) by simp
  then have "i < length ids" by (metis drop_all list.distinct(1) not_le)
  then have i: "i < length ids" "ids ! i = fst x" "drop (Suc i) ids = map fst xs"
    using d by (simp_all add: Cons_nth_drop_Suc [symmetric])
  obtain s t' where g: "preludedb_result_idents_get p (db_sql (tr_src st), t) i = ((s, t'), Inr (Some (fst x)))" "holds t' ids"
    "oks (with_sql (tr_src st) s)" "contents s = contents (db_sql (tr_src st))"
    using page_reads(2) [OF source_pages [OF S] Cons.prems(1) Cons.prems(6), of i] i by auto
  define st1 where "st1 = st\<lparr>tr_src := with_sql (tr_src st) s\<rparr>"
  have r1: "oks (tr_src st1)" "dst_ready okd st1" "transferred st1 + 1 < 2 ^ 31" "transferred st1 = transferred st"
    "left_over contents st1 tbl = left_over contents st tbl"
    using Cons.prems(2,3) g by (simp_all add: st1_def dst_ready_def transferred_def left_over_def)
  obtain st2 tbl2 where s2: "copy_one ops dp del (fst x) tbl st1 = Some (st2, Inr tbl2)"
    "moves del oks contents okd log [x] (st1, tbl) (st2, tbl2)"
    using copy_one_moves [OF S D r1(1,2,3) Cons.prems(4,5), of x] Cons.prems(9) r1(5) by auto
  note m = s2(2) [unfolded moves_def fst_conv snd_conv]
  have "fst x \<notin> fst ` set xs" using Cons.prems(8) by simp
  then have ne: "fst x \<noteq> fst y" if "y \<in> set xs" for y using that by (metis imageI)
  have lo: "left_over contents st2 tbl2 =
      (if del then filter (\<lambda>y. fst y \<noteq> fst x) (left_over contents st tbl) else left_over contents st tbl)"
    using m r1(5) by simp
  have sub: "set xs \<subseteq> set (left_over contents st2 tbl2)"
  proof
    fix y assume y: "y \<in> set xs"
    then show "y \<in> set (left_over contents st2 tbl2)" using lo ne [OF y] Cons.prems(9) by auto
  qed
  have "\<exists>st'. copy_iterate ops p dp del t' (Suc i) tbl2 st2 = Some (st', Inr ()) \<and> dst_event_no st' = 0 \<and>
      moves del oks contents okd log xs (st2, tbl2) (st', [])"
    using m r1(4) Cons.prems(3,8) g(2) i(3) sub by (intro Cons.IH) auto
  then obtain st' where st': "copy_iterate ops p dp del t' (Suc i) tbl2 st2 = Some (st', Inr ())" "dst_event_no st' = 0"
    "moves del oks contents okd log xs (st2, tbl2) (st', [])" by blast
  have "moves del oks contents okd log [x] (st, tbl) (st2, tbl2)"
    using s2(2) r1(4,5) by (simp add: moves_def st1_def)
  from moves_trans [OF this st'(3)] have "moves del oks contents okd log (x # xs) (st, tbl) (st', [])" by simp
  moreover have "copy_iterate ops p dp del t i tbl st = Some (st', Inr ())"
    by (subst copy_iterate.simps) (simp add: g(1) s2(1) [unfolded st1_def] st'(1) [unfolded Suc_eq_plus1 [symmetric]] )
  ultimately show ?case using st'(2) by blast
qed

section \<open>All pages\<close>

text \<open>The messages that a transfer still has to do.\<close>

definition position :: "bool \<Rightarrow> ('w, 'd, 'v, 'e) transfer \<Rightarrow> nat" where
  "position del st = nat (adm_offset (tr_admin st)) + (if del then 0 else cur_count (tr_admin st))"

definition limited :: "int \<Rightarrow> 'a list \<Rightarrow> 'a list" where
  "limited n xs = (if n < 0 then xs else take (nat n) xs)"

definition todo :: "bool \<Rightarrow> (('w, 'd) sql \<Rightarrow> (nat \<times> idmef_message) list) \<Rightarrow> ('w, 'd, 'v, 'e) transfer \<Rightarrow> (nat \<times> idmef_message) list" where
  "todo del contents st = limited (adm_limit_copy (tr_admin st)) (drop (position del st) (contents (db_sql (tr_src st))))"

lemma take_limited:
  "take k (limited n xs) = take (nat (if n < 0 then int k else min (int k) n)) xs"
  by (auto simp: limited_def min_def)

lemma limited_rest: "drop k (limited n xs) = limited (if n > 0 then n - int k else n) (drop k xs)" if "int k \<le> n \<or> n \<le> 0"
  using that by (auto simp: limited_def take_drop nat_diff_distrib)

lemma filter_out_section:
  assumes "distinct (map fst ms)"
  shows "filter (\<lambda>x. fst x \<notin> fst ` set (take n (drop m ms))) ms = take m ms @ drop (m + n) ms"
proof -
  let ?p = "take n (drop m ms)"
  have ms: "ms = take m ms @ ?p @ drop (m + n) ms"
    by (metis append_take_drop_id drop_drop add.commute)
  then have d: "distinct (map fst (take m ms @ ?p @ drop (m + n) ms))" using assms by simp
  then have "\<forall>x \<in> set (take m ms) \<union> set (drop (m + n) ms). fst x \<notin> fst ` set ?p"
    unfolding map_append distinct_append set_append set_map by (blast intro: imageI)
  then have "filter (\<lambda>x. fst x \<notin> fst ` set ?p) (take m ms) = take m ms"
    "filter (\<lambda>x. fst x \<notin> fst ` set ?p) (drop (m + n) ms) = drop (m + n) ms"
    "filter (\<lambda>x. fst x \<notin> fst ` set ?p) ?p = []"
    by (simp_all add: filter_empty_conv)
  then have "filter (\<lambda>x. fst x \<notin> fst ` set ?p) (take m ms @ ?p @ drop (m + n) ms) = take m ms @ drop (m + n) ms"
    by (simp only: filter_append append_Nil)
  then show ?thesis using ms by simp
qed

text \<open>Fetching gives the first of what is to be done.\<close>

lemma fetch_page:
  assumes S: "ident_pages ops p criteria oks holds contents" and st: "oks (tr_src st)" "0 \<le> adm_offset (tr_admin st)"
    and b: "nat (adm_offset (tr_admin st)) + cur_count (tr_admin st) < 2 ^ 31" "events_per_transaction (tr_admin st) < 2 ^ 31"
    and xs: "xs = take (events_per_transaction (tr_admin st)) (todo del contents st)"
  shows "\<exists>src ret. fetch_message_idents_limited ops p criteria (tr_admin st) (tr_src st) del =
      Some (if adm_limit_copy (tr_admin st) > 0 then (tr_admin st)\<lparr>adm_limit_copy := adm_limit_copy (tr_admin st) - int (length xs)\<rparr>
            else tr_admin st, src, ret) \<and>
    oks src \<and> contents (db_sql src) = contents (db_sql (tr_src st)) \<and>
    (if xs = [] then ret = Inr None else \<exists>r. ret = Inr (Some (r, length xs)) \<and> holds (ri_res r) (map fst xs))"
proof -
  let ?adm = "tr_admin st" and ?ms = "contents (db_sql (tr_src st))"
  define lim where "lim = (if adm_limit_copy ?adm < 0 then int (events_per_transaction ?adm)
    else min (int (events_per_transaction ?adm)) (adm_limit_copy ?adm))"
  have lim: "0 \<le> lim" "as_int lim = lim" using b(2) by (auto simp: lim_def intro!: as_int_small)
  have off: "as_int (as_int (adm_offset ?adm) + (if del then 0 else int (cur_count ?adm))) = int (position del st)"
    using b(1) st(2) by (auto simp: position_def as_int_small nat_less_iff)
  have page: "take (nat lim) (drop (position del st) ?ms) = xs"
    unfolding xs todo_def take_limited lim_def by simp
  have len: "length xs < 2 ^ 31"
    using page_reads(4) [OF S st(1)] page by (metis length_drop length_take min.strict_coboundedI1 min.strict_coboundedI2 less_imp_diff_less)
  have ns: "as_int (int (length xs)) = int (length xs)" using len by (simp add: as_int_small)
  show ?thesis
  proof (rule source_page [OF S st(1) lim(1), of "int (position del st)"])
    fix db1 assume "oks db1" "contents (db_sql db1) = ?ms" "take (nat lim) (drop (nat (int (position del st))) ?ms) = []"
      "op_get_idents ops (tr_src st) criteria lim (int (position del st)) ORDER_BY_NONE = (db1, Inr None)"
    then show ?thesis
      using page off lim(2) by (simp add: fetch_message_idents_limited_def lim_def [symmetric] Let_def)
  next
    fix db1 r assume 2: "oks db1" "contents (db_sql db1) = ?ms" "take (nat lim) (drop (nat (int (position del st))) ?ms) \<noteq> []"
      "op_get_idents ops (tr_src st) criteria lim (int (position del st)) ORDER_BY_NONE = (db1, Inr (Some r))"
      "holds (ri_res r) (map fst (take (nat lim) (drop (nat (int (position del st))) ?ms)))"
    obtain s t' where c: "preludedb_result_idents_get_count p (db_sql db1) (ri_res r) = Some (s, t', Inr (length xs))" "holds t' (map fst xs)"
      "oks (with_sql db1 s)" "contents s = contents (db_sql db1)"
      using page_reads(1) [OF S 2(1), of "ri_res r" "map fst xs"] 2(5) page by auto
    show ?thesis
      using 2 page off lim(2) c ns
      by (auto simp: fetch_message_idents_limited_def lim_def [symmetric] Let_def intro!: exI [of _ "with_sql db1 s"])
  qed simp
qed

definition at_page :: "(('w, 'd) preludedb \<Rightarrow> bool) \<Rightarrow> (('v, 'e) preludedb \<Rightarrow> bool) \<Rightarrow> nat \<Rightarrow> ('w, 'd, 'v, 'e) transfer \<Rightarrow> bool" where
  "at_page oks okd n st \<longleftrightarrow> oks (tr_src st) \<and> dst_ready okd st \<and> dst_event_no st = 0 \<and> \<not> stop_processing (tr_admin st) \<and>
     0 \<le> adm_offset (tr_admin st) \<and> nat (adm_offset (tr_admin st)) + cur_count (tr_admin st) + n < 2 ^ 31"

text \<open>A page done: what is left is the rest.\<close>

lemma todo_after_page:
  assumes d: "distinct (map fst (contents (db_sql (tr_src st))))"
    and xs: "xs = take k (todo del contents st)"
    and c: "contents (db_sql (tr_src st')) = (if del then filter (\<lambda>x. fst x \<notin> fst ` set xs) (contents (db_sql (tr_src st)))
      else contents (db_sql (tr_src st)))"
    and a: "adm_offset (tr_admin st') = adm_offset (tr_admin st)" "cur_count (tr_admin st') = cur_count (tr_admin st) + length xs"
    "adm_limit_copy (tr_admin st') = (if adm_limit_copy (tr_admin st) > 0 then adm_limit_copy (tr_admin st) - int (length xs)
      else adm_limit_copy (tr_admin st))"
  shows "todo del contents st' = drop (length xs) (todo del contents st)"
proof -
  let ?ms = "contents (db_sql (tr_src st))" and ?l = "adm_limit_copy (tr_admin st)"
  define m where "m = length xs"
  define r where "r = drop (position del st) ?ms"
  have xr: "xs = take m r"
    using xs by (auto simp: m_def todo_def limited_def r_def [symmetric] min_def)
  have l: "int m \<le> ?l \<or> ?l \<le> 0"
    using xs by (auto simp: m_def todo_def limited_def)
  have "drop (position del st') (contents (db_sql (tr_src st'))) = drop m r"
  proof (cases del)
    case True
    have o: "position del st' = position del st" using True a(1) by (simp add: position_def)
    have "contents (db_sql (tr_src st')) = take (position del st) ?ms @ drop (position del st + m) ?ms"
      using c True filter_out_section [OF d, of m "position del st"] xr by (simp add: r_def)
    moreover have "drop (position del st) (take (position del st) ?ms @ drop (position del st + m) ?ms) = drop (position del st + m) ?ms"
      by (cases "position del st \<le> length ?ms") simp_all
    ultimately show ?thesis using o by (simp add: r_def add.commute)
  next
    case False
    then show ?thesis using c a by (simp add: position_def r_def m_def add.commute add.left_commute)
  qed
  then show ?thesis
    using limited_rest [OF l, of r] a(3) by (simp add: todo_def r_def m_def)
qed

lemma copy_pages_done:
  assumes S: "ident_source ops p criteria oks holds contents" and D: "message_sink dp okd log"
  shows "at_page oks okd (length (todo del contents st)) st \<Longrightarrow>
    \<exists>st'. copy_pages ops p dp criteria del st = Some (st', Inr ()) \<and> oks (tr_src st') \<and> dst_ready okd st' \<and> dst_event_no st' = 0 \<and>
      log (db_sql (tr_dst st')) = log (db_sql (tr_dst st)) @ map snd (todo del contents st) \<and>
      cur_count (tr_admin st') = cur_count (tr_admin st) + length (todo del contents st) \<and>
      events_per_transaction (tr_admin st') = events_per_transaction (tr_admin st) \<and>
      contents (db_sql (tr_src st')) = (if del then filter (\<lambda>x. fst x \<notin> fst ` set (todo del contents st)) (contents (db_sql (tr_src st)))
        else contents (db_sql (tr_src st)))"
proof (induction "length (todo del contents st)" arbitrary: st rule: less_induct)
  case less
  note r = less.prems [unfolded at_page_def]
  define xs where "xs = take (events_per_transaction (tr_admin st)) (todo del contents st)"
  define adm where "adm = (if adm_limit_copy (tr_admin st) > 0
      then (tr_admin st)\<lparr>adm_limit_copy := adm_limit_copy (tr_admin st) - int (length xs)\<rparr> else tr_admin st)"
  have ept: "0 < events_per_transaction (tr_admin st)" "events_per_transaction (tr_admin st) < 2 ^ 31"
    using r by (simp_all add: dst_ready_def)
  obtain src ret where f: "fetch_message_idents_limited ops p criteria (tr_admin st) (tr_src st) del = Some (adm, src, ret)"
    "oks src" "contents (db_sql src) = contents (db_sql (tr_src st))"
    "if xs = [] then ret = Inr None else \<exists>r. ret = Inr (Some (r, length xs)) \<and> holds (ri_res r) (map fst xs)"
    using fetch_page [OF source_pages [OF S] _ _ _ ept(2) xs_def] r unfolding adm_def by force
  define st1 where "st1 = st\<lparr>tr_admin := adm, tr_src := src\<rparr>"
  have a1: "dst_ready okd st1" "oks (tr_src st1)" "transferred st1 = cur_count (tr_admin st)" "tr_dst st1 = tr_dst st"
    "left_over contents st1 [] = contents (db_sql (tr_src st))" "cur_count adm = cur_count (tr_admin st)"
    "adm_offset adm = adm_offset (tr_admin st)" "events_per_transaction adm = events_per_transaction (tr_admin st)"
    "stop_processing adm = stop_processing (tr_admin st)"
    using r f(2,3) by (auto simp: st1_def adm_def dst_ready_def transferred_def left_over_def)
  show ?case
  proof (cases "xs = []")
    case True
    then have "todo del contents st = []" using ept(1) by (simp add: xs_def)
    moreover have "copy_pages ops p dp criteria del st = Some (st1, Inr ())"
      by (subst copy_pages.simps) (use f True in \<open>simp add: st1_def\<close>)
    ultimately show ?thesis using a1 r f by (auto simp: st1_def dst_ready_def)
  next
    case False
    then obtain ri where ri: "ret = Inr (Some (ri, length xs))" "holds (ri_res ri) (map fst xs)" using f(4) by auto
    have sub: "set xs \<subseteq> set (contents (db_sql (tr_src st)))"
      unfolding xs_def todo_def limited_def by (auto dest!: in_set_takeD in_set_dropD split: if_splits)
    have d: "distinct (map fst (contents (db_sql (tr_src st))))" using page_reads(4) [OF source_pages [OF S]] r by blast
    then have dx: "distinct (map fst xs)"
      unfolding xs_def todo_def limited_def by (auto simp: take_map [symmetric] drop_map [symmetric])
    have len: "length xs \<le> length (todo del contents st)" "0 < length xs" using False by (simp_all add: xs_def)
    obtain st2 where it: "copy_iterate ops p dp del (ri_res ri) 0 [] st1 = Some (st2, Inr ())" "dst_event_no st2 = 0"
      "moves del oks contents okd log xs (st1, []) (st2, [])"
      using copy_iterate_moves [OF S D a1(2,1), of xs "[]" del "ri_res ri" "map fst xs" 0] a1(3,5) r ri(2) dx sub len
      by (auto simp: DELETE_TABLE_def)
    note m = it(3) [unfolded moves_def fst_conv snd_conv]
    define st3 where "st3 = st2\<lparr>tr_src := fst (preludedb_result_idents_destroy (tr_src st2) ri)\<rparr>"
    have c3: "oks (tr_src st3)" "contents (db_sql (tr_src st3)) = (if del then filter (\<lambda>x. fst x \<notin> fst ` set xs) (contents (db_sql (tr_src st)))
        else contents (db_sql (tr_src st)))"
      using page_reads(3) [OF source_pages [OF S], of "tr_src st2" ri] m a1(5) by (auto simp: st3_def left_over_def)
    have so: "adm_limit_copy (tr_admin st3) = adm_limit_copy adm" "adm_offset (tr_admin st3) = adm_offset (tr_admin st)"
      "events_per_transaction (tr_admin st3) = events_per_transaction (tr_admin st)" "\<not> stop_processing (tr_admin st3)"
      "cur_count (tr_admin st3) = cur_count (tr_admin st) + length xs" "dst_event_no st3 = 0" "dst_ready okd st3"
      "log (db_sql (tr_dst st3)) = log (db_sql (tr_dst st)) @ map snd xs"
      using m a1 r it(2) same_options_fields [of adm "tr_admin st2"]
      by (auto simp: st3_def st1_def transferred_def dst_ready_def)
    have t: "todo del contents st3 = drop (length xs) (todo del contents st)"
      by (rule todo_after_page [OF d xs_def c3(2) so(2,5)]) (simp add: so(1) adm_def)
    have tx: "todo del contents st = xs @ todo del contents st3"
      using t by (metis append_take_drop_id append_eq_conv_conj xs_def)
    have "copy_pages ops p dp criteria del st = copy_pages ops p dp criteria del st3"
      by (subst copy_pages.simps) (use f(1) ri(1) it(1) len(2) so(4) in \<open>simp add: st1_def st3_def\<close>)
    moreover have "at_page oks okd (length (todo del contents st3)) st3"
      using r c3(1) so len(1) t by (auto simp: at_page_def)
    ultimately show ?thesis
      using less.hyps [of st3] len c3(2) so tx by (auto simp: image_Un)
  qed
qed

section \<open>The command\<close>

lemma copy_move_done:
  assumes S: "ident_source ops p criteria oks holds contents" and D: "message_sink dp okd log"
    and ok: "oks src" "okd dst"
    and opts: "0 < events_per_transaction adm" "events_per_transaction adm < 2 ^ 31" "cur_count adm = 0" "\<not> stop_processing adm"
      "0 \<le> adm_offset adm" "nat (adm_offset adm) + length xs < 2 ^ 31"
    and xs: "xs = limited (adm_limit_copy adm) (drop (nat (adm_offset adm)) (contents (db_sql src)))"
  shows "\<exists>adm' src' dst'. do_cmd_copy_move se ops p dp criteria del adm src dst = Some (adm', src', dst', Inr ()) \<and>
    log (db_sql dst') = log (db_sql dst) @ map snd xs \<and> cur_count adm' = length xs \<and>
    contents (db_sql src') = (if del then filter (\<lambda>x. fst x \<notin> fst ` set xs) (contents (db_sql src)) else contents (db_sql src))"
proof -
  define st where "st = \<lparr>tr_admin = adm, tr_src = src, tr_dst = admin_transaction_start adm dst, dst_event_no = 0\<rparr>"
  have d: "okd (admin_transaction_start adm dst)" "log (db_sql (admin_transaction_start adm dst)) = log (db_sql dst)"
    using sink_transactions [OF D ok(2)] ok(2) by (simp_all add: admin_transaction_start_def)
  have t: "todo del contents st = xs" using opts(3) by (simp add: todo_def position_def st_def xs)
  have "at_page oks okd (length (todo del contents st)) st"
    using ok(1) d(1) opts t by (simp add: at_page_def dst_ready_def st_def)
  from copy_pages_done [OF S D this] obtain st' where st': "copy_pages ops p dp criteria del st = Some (st', Inr ())"
    "dst_ready okd st'" "dst_event_no st' = 0" "log (db_sql (tr_dst st')) = log (db_sql dst) @ map snd xs"
    "cur_count (tr_admin st') = length xs"
    "contents (db_sql (tr_src st')) = (if del then filter (\<lambda>x. fst x \<notin> fst ` set xs) (contents (db_sql src)) else contents (db_sql src))"
    using d(2) opts(3) unfolding t by (auto simp: st_def)
  have o: "okd (tr_dst st')" using st'(2) by (simp add: dst_ready_def)
  obtain adm2 dst2 where e: "admin_transaction_end se (tr_admin st') (tr_dst st') False 0 = (adm2, dst2)" by fastforce
  have "log (db_sql dst2) = log (db_sql (tr_dst st'))" "cur_count adm2 = cur_count (tr_admin st')"
    using e sink_transactions(4) [OF D o] st'(5) opts(6)
    by (auto simp: admin_transaction_end_def count_events_def split: if_splits)
  then show ?thesis
    using st' e by (simp add: do_cmd_copy_move_def st_def)
qed

end
