(* ===== verification/Save_Load.thy ===== *)
theory Save_Load
  imports Message_Transfer
begin

text \<open>
  Saving to a file and loading from it: a save whose last message cannot be retrieved turns
  around the end of the list for ever, and the number of messages of a load is a whole number
  of transactions.
\<close>

section \<open>Save\<close>

text \<open>Every message is answered, by the message or an error; the last one by an error.\<close>

definition last_is_broken ::
    "('w, 'd) message_ops \<Rightarrow> (('w, 'd) preludedb \<Rightarrow> bool) \<Rightarrow> (('w, 'd) sql \<Rightarrow> (nat \<times> 'a) list) \<Rightarrow> bool" where
  "last_is_broken ops ok contents \<longleftrightarrow>
     (\<forall>db x. ok db \<longrightarrow> x \<in> set (contents (db_sql db)) \<longrightarrow>
        (\<exists>s r. op_get_message ops (fst x) (db_sql db) = Some (s, r) \<and> ok (with_sql db s) \<and> contents s = contents (db_sql db) \<and>
          (x = last (contents (db_sql db)) \<longrightarrow> (\<exists>e. r = Inl e))))"

lemma broken_answer:
  assumes "last_is_broken ops ok contents" "ok db" "x \<in> set (contents (db_sql db))"
  obtains s r where "op_get_message ops (fst x) (db_sql db) = Some (s, r)" "ok (with_sql db s)" "contents s = contents (db_sql db)"
    "x = last (contents (db_sql db)) \<longrightarrow> (\<exists>e. r = Inl e)"
  using assms unfolding last_is_broken_def by blast

text \<open>A page adds to the count what was saved of it, never all of the last page.\<close>

lemma save_iterate_counts:
  assumes S: "ident_pages ops p criteria ok holds contents" and B: "last_is_broken ops ok contents"
  shows "ok db \<Longrightarrow> holds t ids \<Longrightarrow> drop i ids = map fst xs \<Longrightarrow> set xs \<subseteq> set (contents (db_sql db)) \<Longrightarrow>
    \<not> stop_processing adm \<Longrightarrow> cur_count adm + length xs < 2 ^ 64 \<Longrightarrow>
    \<exists>k db' out'. save_iterate_message ops p wr t i adm db out = Some (adm\<lparr>cur_count := cur_count adm + k\<rparr>, db', out') \<and>
      ok db' \<and> contents (db_sql db') = contents (db_sql db) \<and> k \<le> length xs \<and>
      (last (contents (db_sql db)) \<in> set xs \<longrightarrow> k < length xs)"
proof (induction xs arbitrary: db t i adm out)
  case Nil
  obtain s t' where "preludedb_result_idents_get p (db_sql db, t) i = ((s, t'), Inr None)" "ok (with_sql db s)" "contents s = contents (db_sql db)"
    using page_reads(2) [OF S Nil(1,2), of i] Nil(3) by auto
  then show ?case
    using Nil(5) by (subst save_iterate_message.simps) (auto intro!: exI [of _ 0])
next
  case (Cons x xs)
  have d: "drop i ids = fst x # map fst xs" using Cons.prems(3) by simp
  then have "i < length ids" by (metis drop_all list.distinct(1) not_le)
  then have i: "i < length ids" "ids ! i = fst x" "drop (i + 1) ids = map fst xs"
    using d by (simp_all add: Cons_nth_drop_Suc [symmetric])
  obtain s t' where g: "preludedb_result_idents_get p (db_sql db, t) i = ((s, t'), Inr (Some (fst x)))" "holds t' ids"
    "ok (with_sql db s)" "contents s = contents (db_sql db)"
    using page_reads(2) [OF S Cons.prems(1,2), of i] i by auto
  obtain s2 r where m: "op_get_message ops (fst x) s = Some (s2, r)" "ok (with_sql db s2)" "contents s2 = contents (db_sql db)"
    "x = last (contents (db_sql db)) \<longrightarrow> (\<exists>e. r = Inl e)"
    using broken_answer [OF B g(3), of x] Cons.prems(4) g(4) by auto
  note IH = Cons.IH [OF _ g(2) i(3), of "with_sql db s2"]
  note step = save_iterate_message.simps [of ops p wr t i adm db out]
  show ?case
  proof (cases "\<exists>msg. r = Inr msg \<and> wr msg = None")
    case True
    then obtain msg where r: "r = Inr msg" "wr msg = None" by blast
    have c: "count_events adm 1 = adm\<lparr>cur_count := cur_count adm + 1\<rparr>"
      using Cons.prems(6) by (simp add: count_events_def)
    obtain k db' out' where "save_iterate_message ops p wr t' (i + 1) (adm\<lparr>cur_count := cur_count adm + 1\<rparr>) (with_sql db s2) (out @ [msg]) =
        Some (adm\<lparr>cur_count := cur_count adm + 1 + k\<rparr>, db', out')" "ok db'" "contents (db_sql db') = contents (db_sql db)"
      "k \<le> length xs" "last (contents (db_sql db)) \<in> set xs \<longrightarrow> k < length xs"
      using IH [of "adm\<lparr>cur_count := cur_count adm + 1\<rparr>" "out @ [msg]"] m(2,3) Cons.prems(4,5,6) by auto
    then show ?thesis
      using step Cons.prems(5) g(1) m(1,4) r c by (intro exI [of _ "Suc k"]) auto
  next
    case False
    obtain k db' out' where k: "save_iterate_message ops p wr t' (i + 1) adm (with_sql db s2) out =
        Some (adm\<lparr>cur_count := cur_count adm + k\<rparr>, db', out')" "ok db'" "contents (db_sql db') = contents (db_sql db)"
      "k \<le> length xs"
      using IH [of adm out] m(2,3) Cons.prems(4,5,6) by auto
    have "save_iterate_message ops p wr t i adm db out = save_iterate_message ops p wr t' (i + 1) adm (with_sql db s2) out"
      using step Cons.prems(5) g(1) m(1) False by (cases r) auto
    then show ?thesis using k by (intro exI [of _ k]) auto
  qed
qed

text \<open>The state in which every page of a save leaves the next one.\<close>

definition before_the_end ::
    "('w, 'd) message_ops \<Rightarrow> ('w, 'd) format_plugin \<Rightarrow> idmef_criteria option \<Rightarrow> (('w, 'd) preludedb \<Rightarrow> bool) \<Rightarrow>
       ('d sql_table \<Rightarrow> nat list \<Rightarrow> bool) \<Rightarrow> (('w, 'd) sql \<Rightarrow> (nat \<times> idmef_message) list) \<Rightarrow> admin \<Rightarrow> ('w, 'd) preludedb \<Rightarrow> bool" where
  "before_the_end ops p criteria ok holds contents adm db \<longleftrightarrow>
     ident_pages ops p criteria ok holds contents \<and> last_is_broken ops ok contents \<and> ok db \<and> \<not> stop_processing adm \<and>
     adm_limit_copy adm < 0 \<and> 0 < events_per_transaction adm \<and> events_per_transaction adm < 2 ^ 31 \<and> 0 \<le> adm_offset adm \<and>
     nat (adm_offset adm) + cur_count adm < length (contents (db_sql db))"

text \<open>One page further, and still before the end.\<close>

lemma save_page_step:
  assumes "before_the_end ops p criteria ok holds contents adm db"
  shows "\<exists>adm1 db1 r n adm2 db2 out2.
    fetch_message_idents_limited ops p criteria adm db False = Some (adm1, db1, Inr (Some (r, n))) \<and> n \<noteq> 0 \<and>
    save_iterate_message ops p wr (ri_res r) 0 adm1 db1 out = Some (adm2, db2, out2) \<and> \<not> stop_processing adm2 \<and>
    before_the_end ops p criteria ok holds contents adm2 (fst (preludedb_result_idents_destroy db2 r))"
proof -
  note inv = assms [unfolded before_the_end_def]
  then have S: "ident_pages ops p criteria ok holds contents" and B: "last_is_broken ops ok contents" by blast+
  let ?ms = "contents (db_sql db)" and ?n = "nat (adm_offset adm) + cur_count adm"
  have len: "length ?ms < 2 ^ 31" using page_reads(4) [OF S] inv by blast
  define st where "st = \<lparr>tr_admin = adm, tr_src = db, tr_dst = db, dst_event_no = 0\<rparr>"
  define xs where "xs = take (events_per_transaction adm) (drop ?n ?ms)"
  have t: "xs = take (events_per_transaction (tr_admin st)) (todo False contents st)"
    using inv by (simp add: xs_def st_def todo_def position_def limited_def)
  have ne: "xs \<noteq> []" using inv by (simp add: xs_def)
  obtain db1 r where f: "fetch_message_idents_limited ops p criteria adm db False = Some (adm, db1, Inr (Some (r, length xs)))"
    "ok db1" "contents (db_sql db1) = ?ms" "holds (ri_res r) (map fst xs)"
    using fetch_page [OF S _ _ _ _ t] inv ne len by (auto simp: st_def)
  have sub: "set xs \<subseteq> set (contents (db_sql db1))"
    unfolding f(3) xs_def by (auto dest!: in_set_takeD in_set_dropD)
  have "cur_count adm + length xs \<le> length ?ms" using inv by (simp add: xs_def) linarith
  then have "cur_count adm + length xs < 2 ^ 64" using len by simp
  then obtain k db2 out2 where it: "save_iterate_message ops p wr (ri_res r) 0 adm db1 out =
      Some (adm\<lparr>cur_count := cur_count adm + k\<rparr>, db2, out2)" "ok db2" "contents (db_sql db2) = ?ms" "k \<le> length xs"
      "last ?ms \<in> set xs \<longrightarrow> k < length xs"
    using save_iterate_counts [OF S B f(2,4) _ sub, of 0 adm wr out] f(3) inv by auto
  have "?n + k < length ?ms"
  proof (cases "?n + events_per_transaction adm < length ?ms")
    case True then show ?thesis using it(4) by (simp add: xs_def)
  next
    case False
    then have "xs = drop ?n ?ms" by (simp add: xs_def)
    then have "last ?ms \<in> set xs" "?n + length xs = length ?ms"
      using ne inv last_drop [of ?n ?ms] last_in_set [of xs] by auto
    then show ?thesis using it(5) by simp
  qed
  then have "before_the_end ops p criteria ok holds contents (adm\<lparr>cur_count := cur_count adm + k\<rparr>) (fst (preludedb_result_idents_destroy db2 r))"
    using inv it(3) page_reads(3) [OF S it(2), of r] by (simp add: before_the_end_def add.assoc)
  then show ?thesis using f(1) it(1) ne inv by auto
qed

lemma save_goes_on:
  assumes "save_pages ops p wr criteria adm db out = Some y"
  shows "\<not> before_the_end ops p criteria ok holds contents adm db"
proof (rule save_pages.raw_induct [where P = "\<lambda>ops p wr criteria adm db out y. \<not> before_the_end ops p criteria ok holds contents adm db", OF _ assms])
  fix f ops p wr criteria adm db out y
  assume IH: "\<And>ops p wr criteria adm db out y. f ops p wr criteria adm db out = Some y \<Longrightarrow>
      \<not> before_the_end ops p criteria ok holds contents adm db"
    and body: "Option.bind (fetch_message_idents_limited ops p criteria adm db False) (\<lambda>f'.
       case snd (snd f') of
         Inl e \<Rightarrow> Some (fst f', fst (snd f'), out, Inl e)
       | Inr page \<Rightarrow>
           (case page of
              None \<Rightarrow> Some (fst f', fst (snd f'), out, Inr ())
            | Some rn \<Rightarrow>
                if snd rn = 0 then Some (fst f', fst (snd f'), out, Inr ())
                else Option.bind (save_iterate_message ops p wr (ri_res (fst rn)) 0 (fst f') (fst (snd f')) out) (\<lambda>x.
                  let db2 = fst (preludedb_result_idents_destroy (fst (snd x)) (fst rn))
                  in if stop_processing (fst x) then Some (fst x, db2, snd (snd x), Inr ())
                     else f ops p wr criteria (fst x) db2 (snd (snd x))))) = Some y"
  show "\<not> before_the_end ops p criteria ok holds contents adm db"
  proof
    assume "before_the_end ops p criteria ok holds contents adm db"
    from save_page_step [OF this, of wr out] body show False by (auto simp: Let_def dest: IH)
  qed
qed

section \<open>Load\<close>

declare load_from_file.simps [simp del]

text \<open>Messages before the offset are read and dropped.\<close>

lemma load_skip_one:
  assumes "\<not> stop_processing adm" "adm_offset_copy adm = int (Suc j)"
  shows "load_from_file decode wanted p (Inr m # rest) adm db ev =
    load_from_file decode wanted p rest (adm\<lparr>adm_offset_copy := int j\<rparr>) db ev"
  using assms by (subst load_from_file.simps) (simp add: do_read_message_def)

lemma load_skips:
  "\<not> stop_processing adm \<Longrightarrow> adm_offset_copy adm = int k \<Longrightarrow>
    load_from_file decode wanted p (map Inr ms) adm db ev =
    load_from_file decode wanted p (map Inr (drop k ms)) (adm\<lparr>adm_offset_copy := int (k - length ms)\<rparr>) db ev"
proof (induction ms arbitrary: adm k)
  case Nil
  then have "adm\<lparr>adm_offset_copy := int k\<rparr> = adm" by simp
  then show ?case by simp
next
  case (Cons m ms)
  show ?case
  proof (cases k)
    case 0
    then have "adm\<lparr>adm_offset_copy := 0\<rparr> = adm" using Cons.prems by simp
    then show ?thesis using 0 by simp
  next
    case (Suc j)
    have "load_from_file decode wanted p (map Inr (m # ms)) adm db ev =
        load_from_file decode wanted p (map Inr ms) (adm\<lparr>adm_offset_copy := int j\<rparr>) db ev"
      using Cons.prems Suc by (simp add: load_skip_one del: of_nat_Suc)
    then show ?thesis
      using Cons.prems Suc Cons.IH [of "adm\<lparr>adm_offset_copy := int j\<rparr>" j] by simp
  qed
qed

text \<open>The least multiple of \<open>m\<close> that is not below \<open>n\<close>.\<close>

definition round_up :: "nat \<Rightarrow> nat \<Rightarrow> nat" where
  "round_up m n = m * ((n + m - 1) div m)"

lemma round_up_bounds: "0 < m \<Longrightarrow> n \<le> round_up m n \<and> round_up m n < n + m"
proof -
  assume m: "0 < m"
  have "(n + m - 1) div m * m + (n + m - 1) mod m = n + m - 1" "(n + m - 1) mod m < m"
    using m by (simp_all add: div_mult_mod_eq)
  then have "round_up m n + (n + m - 1) mod m = n + m - 1" "(n + m - 1) mod m < m"
    by (simp_all only: round_up_def mult.commute)
  then show ?thesis using m by linarith
qed

lemma round_up_dvd [simp]: "m dvd round_up m n"
  by (simp add: round_up_def)

lemma round_up_least:
  assumes "0 < m" "m dvd c" shows "n \<le> c \<longleftrightarrow> round_up m n \<le> c"
proof
  assume "n \<le> c"
  show "round_up m n \<le> c"
  proof (rule ccontr)
    assume "\<not> round_up m n \<le> c"
    then have "c < round_up m n" "m dvd round_up m n - c" using assms(2) by (simp_all add: dvd_diff_nat)
    then have "m \<le> round_up m n - c" by (auto dest!: dvd_imp_le)
    then show False using round_up_bounds [OF assms(1), of n] \<open>n \<le> c\<close> by linarith
  qed
qed (use round_up_bounds [OF assms(1), of n] in linarith)

definition load_ready :: "(('v, 'e) preludedb \<Rightarrow> bool) \<Rightarrow> nat \<Rightarrow> admin \<Rightarrow> ('v, 'e) preludedb \<Rightarrow> nat \<Rightarrow> bool" where
  "load_ready ok n adm db ev \<longleftrightarrow> ok db \<and> \<not> stop_processing adm \<and> adm_limit adm = int n \<and> n < 2 ^ 31 \<and>
     0 < events_per_transaction adm \<and> events_per_transaction adm < 2 ^ 31 \<and> events_per_transaction adm dvd cur_count adm \<and>
     cur_count adm \<le> round_up (events_per_transaction adm) n \<and> ev < events_per_transaction adm \<and>
     (cur_count adm = round_up (events_per_transaction adm) n \<longrightarrow> ev = 0)"

text \<open>One message counted.\<close>

lemma flush_counts:
  assumes D: "message_sink p ok log" and r: "load_ready ok n adm db ev" "cur_count adm < n"
  shows "\<exists>adm' db' ev'. flush_transaction_if_needed adm db (Some ev) 1 = (adm', db', Some ev') \<and>
    load_ready ok n adm' db' ev' \<and> log (db_sql db') = log (db_sql db) \<and> cur_count adm' + ev' = Suc (cur_count adm + ev) \<and>
    events_per_transaction adm' = events_per_transaction adm \<and> adm_offset_copy adm' = adm_offset_copy adm"
proof -
  let ?m = "events_per_transaction adm"
  note i = r(1) [unfolded load_ready_def]
  have lt: "cur_count adm < round_up ?m n" using r(2) round_up_bounds [of ?m n] i by linarith
  have "?m dvd round_up ?m n - cur_count adm" using i by (simp add: dvd_diff_nat)
  then have "?m \<le> round_up ?m n - cur_count adm" using lt by (auto dest!: dvd_imp_le)
  then have le: "cur_count adm + ?m \<le> round_up ?m n" using lt by linarith
  have big: "cur_count adm + ?m < 2 ^ 64" "ev + 1 < 2 ^ 32" using le round_up_bounds [of ?m n] i by simp_all
  let ?s = "fst (preludedb_transaction_end (db_sql db))"
  have d: "ok (with_sql db (fst (preludedb_transaction_start ?s)))" "log (fst (preludedb_transaction_start ?s)) = log (db_sql db)"
    using sink_transactions [OF D, of db] sink_transactions [OF D, of "with_sql db ?s"] i by simp_all
  show ?thesis
  proof (cases "ev + 1 = ?m")
    case True
    then show ?thesis
      using i big le d by (auto simp: flush_transaction_if_needed_def count_events_def Let_def load_ready_def)
  next
    case False
    then have "flush_transaction_if_needed adm db (Some ev) 1 = (adm, db, Some (ev + 1))"
      using i big by (simp add: flush_transaction_if_needed_def Let_def)
    then show ?thesis using i False lt by (simp add: load_ready_def)
  qed
qed

lemma load_rounds_up:
  assumes D: "message_sink p ok log" and W: "\<forall>msg. wanted msg"
  shows "load_ready ok n adm db ev \<Longrightarrow> adm_offset_copy adm = 0 \<Longrightarrow> map decode ms = map Inr msgs \<Longrightarrow>
    \<exists>adm' db' ev'. load_from_file decode wanted p (map Inr ms) adm db ev = (adm', db', ev', Inr ()) \<and> ok db' \<and>
      log (db_sql db') = log (db_sql db) @ take (round_up (events_per_transaction adm) n - (cur_count adm + ev)) msgs"
proof (induction ms arbitrary: adm db ev msgs)
  case Nil
  then show ?case by (subst load_from_file.simps) (auto simp: load_ready_def do_read_message_def)
next
  case (Cons m ms)
  let ?m = "events_per_transaction adm"
  note i = Cons.prems(1) [unfolded load_ready_def]
  have full: "n \<le> cur_count adm \<longleftrightarrow> round_up ?m n \<le> cur_count adm" using round_up_least [of ?m] i by blast
  have lim: "adm_limit adm mod 2 ^ 64 = int n" using i by simp
  show ?case
  proof (cases "n \<le> cur_count adm")
    case True
    then have "do_read_message decode adm (Inr m # map Inr ms) = (adm, Inr None)"
      using lim i Cons.prems(2) by (simp add: do_read_message_def)
    then show ?thesis using True full i by (subst load_from_file.simps) simp
  next
    case False
    obtain msg msgs' where msgs: "msgs = msg # msgs'" "decode m = Inr msg" "map decode ms = map Inr msgs'"
      using Cons.prems(3) by (cases msgs) auto
    obtain s where s: "preludedb_insert_message p msg (db_sql db) = (s, Inr ())" "ok (with_sql db s)" "log s = log (db_sql db) @ [msg]"
      using sink_insert [OF D] i by blast
    have r: "load_ready ok n adm (with_sql db s) ev" using i s(2) by (simp add: load_ready_def)
    obtain adm2 db2 ev2 where f: "flush_transaction_if_needed adm (with_sql db s) (Some ev) 1 = (adm2, db2, Some ev2)"
      "load_ready ok n adm2 db2 ev2" "log (db_sql db2) = log s" "cur_count adm2 + ev2 = Suc (cur_count adm + ev)"
      "events_per_transaction adm2 = ?m" "adm_offset_copy adm2 = adm_offset_copy adm"
      using flush_counts [OF D r] False by auto
    have rd: "do_read_message decode adm (Inr m # map Inr ms) = (adm, Inr (Some (Some msg)))"
      using lim False Cons.prems(2) msgs(2) by (simp add: do_read_message_def)
    have "cur_count adm + ev < round_up ?m n"
    proof -
      have lt: "cur_count adm < round_up ?m n" using False full by linarith
      moreover have "?m dvd round_up ?m n - cur_count adm" using i by (simp add: dvd_diff_nat)
      ultimately have "?m \<le> round_up ?m n - cur_count adm" by (auto dest!: dvd_imp_le)
      then show ?thesis using i lt by linarith
    qed
    then have t: "take (round_up ?m n - (cur_count adm + ev)) msgs = msg # take (round_up ?m n - Suc (cur_count adm + ev)) msgs'"
      using msgs(1) by (simp add: take_Cons' Suc_diff_Suc [symmetric])
    have "\<exists>adm' db' ev'. load_from_file decode wanted p (map Inr ms) adm2 db2 ev2 = (adm', db', ev', Inr ()) \<and> ok db' \<and>
        log (db_sql db') = log (db_sql db2) @ take (round_up (events_per_transaction adm2) n - (cur_count adm2 + ev2)) msgs'"
      using Cons.IH [OF f(2) _ msgs(3)] f(6) Cons.prems(2) by simp
    moreover have "load_from_file decode wanted p (map Inr (m # ms)) adm db ev = load_from_file decode wanted p (map Inr ms) adm2 db2 ev2"
      using i rd W s f(1) by (subst load_from_file.simps) simp
    ultimately show ?thesis using t f s(3) by auto
  qed
qed

lemma cmd_load_rounds_up:
  assumes D: "message_sink p ok log" and W: "\<forall>msg. wanted msg" and ok: "ok db"
    and opts: "0 < events_per_transaction adm" "events_per_transaction adm < 2 ^ 31" "cur_count adm = 0" "\<not> stop_processing adm"
      "adm_offset adm = int k" "adm_limit adm = int n" "n < 2 ^ 31"
    and ms: "map decode (drop k ms) = map Inr msgs"
  shows "\<exists>adm' db'. cmd_load se decode wanted p [map Inr ms] adm db = (adm', db', Inr ()) \<and>
    log (db_sql db') = log (db_sql db) @ take (round_up (events_per_transaction adm) n) msgs"
proof -
  define db0 where "db0 = admin_transaction_start adm db"
  have d: "ok db0" "log (db_sql db0) = log (db_sql db)"
    using sink_transactions [OF D ok] ok by (simp_all add: admin_transaction_start_def db0_def)
  define adm1 where "adm1 = adm\<lparr>adm_offset_copy := int (k - length ms)\<rparr>"
  have sk: "load_from_file decode wanted p (map Inr ms) (adm\<lparr>adm_offset_copy := adm_offset adm\<rparr>) db0 0 =
      load_from_file decode wanted p (map Inr (drop k ms)) adm1 db0 0"
    using load_skips [of "adm\<lparr>adm_offset_copy := adm_offset adm\<rparr>" k] opts by (simp add: adm1_def)
  have "\<exists>adm' db' ev'. load_from_file decode wanted p (map Inr (drop k ms)) adm1 db0 0 = (adm', db', ev', Inr ()) \<and> ok db' \<and>
      log (db_sql db') = log (db_sql db) @ take (round_up (events_per_transaction adm) n) msgs"
  proof (cases "k \<le> length ms")
    case True
    have "load_ready ok n adm1 db0 0" using d opts True by (simp add: load_ready_def adm1_def)
    from load_rounds_up [OF D W this _ ms] show ?thesis using True d(2) opts(3) by (simp add: adm1_def)
  next
    case False
    then show ?thesis using ms d opts(4) by (subst load_from_file.simps) (auto simp: adm1_def do_read_message_def)
  qed
  then obtain adm2 db2 ev2 where l: "load_from_file decode wanted p (map Inr (drop k ms)) adm1 db0 0 = (adm2, db2, ev2, Inr ())"
    "ok db2" "log (db_sql db2) = log (db_sql db) @ take (round_up (events_per_transaction adm) n) msgs" by blast
  obtain adm3 db3 where e: "admin_transaction_end se adm2 db2 False ev2 = (adm3, db3)" by fastforce
  have "log (db_sql db3) = log (db_sql db2)"
    using e sink_transactions(4) [OF D l(2)] by (auto simp: admin_transaction_end_def split: if_splits)
  then show ?thesis using l e sk by (simp add: cmd_load_def db0_def [symmetric])
qed

end
