(* ===== verification/Object_Heap.thy ===== *)
theory Object_Heap
  imports Path_Selection "HOL-Library.Multiset"
begin

text \<open>
  The objects of a selected path as they lie in memory (src/preludedb-path-selection.c): with a
  counter of references, the arguments of a function as pointers that own what they point to.
  \<open>Path_Selection\<close> has the trees that they stand for. An address is a number, 0 is NULL; the heap
  maps the addresses of objects that are allocated, and an access to another one is \<open>Undefined\<close>.
\<close>

section \<open>Objects\<close>

datatype object_content =
    Data_string string
  | Data_path idmef_path
  | Data_int int
  | Data_function object_function "nat list"

record heap_object =
  ob_refcount :: "32 word"
  ob_data :: object_content

type_synonym object_heap = "nat \<rightharpoonup> heap_object"

definition object_args :: "heap_object \<Rightarrow> nat list" where
  "object_args ob = (case ob_data ob of Data_function f args \<Rightarrow> args | _ \<Rightarrow> [])"

text \<open>What \<open>object_new\<close> is given: the type and its data. \<open>a\<close> is what \<open>malloc\<close> returns.\<close>

datatype new_object = New_path string | New_string string | New_int int | New_function object_function

text \<open>When the path is none, the memory is not released and no object is made of it.\<close>

definition preludedb_selected_object_new_at ::
    "(string \<Rightarrow> db_error + idmef_path) \<Rightarrow> nat \<Rightarrow> new_object \<Rightarrow> object_heap \<Rightarrow> object_heap \<times> (db_error + nat)" where
  "preludedb_selected_object_new_at path_new a new h =
     (case (case new of
              New_path t \<Rightarrow> map_sum id Data_path (path_new t)
            | New_string t \<Rightarrow> Inr (Data_string t)
            | New_int i \<Rightarrow> Inr (Data_int i)
            | New_function f \<Rightarrow> Inr (Data_function f [])) of
        Inl e \<Rightarrow> (h, Inl e)
      | Inr d \<Rightarrow> (h(a \<mapsto> \<lparr>ob_refcount = 1, ob_data = d\<rparr>), Inr a))"

definition preludedb_selected_object_ref :: "nat \<Rightarrow> object_heap \<Rightarrow> db_error + object_heap" where
  "preludedb_selected_object_ref a h =
     (case h a of None \<Rightarrow> Inl Undefined | Some ob \<Rightarrow> Inr (h(a \<mapsto> ob\<lparr>ob_refcount := ob_refcount ob + 1\<rparr>)))"

text \<open>The pointer of an object that is no function shares its place with other data.\<close>

definition object_push_arg :: "nat \<Rightarrow> nat \<Rightarrow> object_heap \<Rightarrow> db_error + object_heap" where
  "object_push_arg a arg h =
     (case h a of
        None \<Rightarrow> Inl Undefined
      | Some ob \<Rightarrow>
          (case ob_data ob of
             Data_function f args \<Rightarrow> Inr (h(a \<mapsto> ob\<lparr>ob_data := Data_function f (args @ [arg])\<rparr>))
           | _ \<Rightarrow> Inl Undefined))"

text \<open>
  Destroying gives one reference back; with the last one the arguments are destroyed in turn and
  then the object is freed. The function is the loop over the arguments; one that does not end
  is \<open>None\<close>.
\<close>

partial_function (option) destroy_args :: "nat list \<Rightarrow> object_heap \<Rightarrow> (db_error + object_heap) option" where
  "destroy_args as h =
     (case as of
        [] \<Rightarrow> Some (Inr h)
      | a # rest \<Rightarrow>
          Option.bind
            (if a = 0 then Some (Inr h)
             else (case h a of
                     None \<Rightarrow> Some (Inl Undefined)
                   | Some ob \<Rightarrow>
                       if ob_refcount ob - 1 > 0 then Some (Inr (h(a \<mapsto> ob\<lparr>ob_refcount := ob_refcount ob - 1\<rparr>)))
                       else Option.bind (destroy_args (object_args ob) (h(a \<mapsto> ob\<lparr>ob_refcount := ob_refcount ob - 1\<rparr>)))
                              (\<lambda>r. Some (map_sum id (\<lambda>h2. h2(a := None)) r))))
            (\<lambda>r. case r of Inl e \<Rightarrow> Some (Inl e) | Inr h2 \<Rightarrow> destroy_args rest h2))"

definition preludedb_selected_object_destroy :: "nat \<Rightarrow> object_heap \<Rightarrow> (db_error + object_heap) option" where
  "preludedb_selected_object_destroy a h = destroy_args [a] h"

section \<open>Selections\<close>

text \<open>A path owns its object; a selection owns its paths and counts its references.\<close>

record heap_selection =
  hs_refcount :: int
  hs_objects :: "nat list"

definition preludedb_selected_path_destroy :: "nat \<Rightarrow> object_heap \<Rightarrow> (db_error + object_heap) option" where
  "preludedb_selected_path_destroy a h = preludedb_selected_object_destroy a h"

definition preludedb_path_selection_ref :: "heap_selection \<Rightarrow> heap_selection" where
  "preludedb_path_selection_ref sel = sel\<lparr>hs_refcount := hs_refcount sel + 1\<rparr>"

definition preludedb_path_selection_destroy ::
    "heap_selection \<Rightarrow> object_heap \<Rightarrow> (db_error + object_heap \<times> heap_selection option) option" where
  "preludedb_path_selection_destroy sel h =
     (if hs_refcount sel - 1 \<noteq> 0 then Some (Inr (h, Some (sel\<lparr>hs_refcount := hs_refcount sel - 1\<rparr>)))
      else map_option (map_sum id (\<lambda>h2. (h2, None))) (destroy_args (hs_objects sel) h))"

section \<open>Exact counters\<close>

definition args_of :: "object_heap \<Rightarrow> nat \<Rightarrow> nat list" where
  "args_of h b = (case h b of None \<Rightarrow> [] | Some ob \<Rightarrow> object_args ob)"

text \<open>
  The owners of an object: the handles \<open>H\<close> that are outside, and the arguments of the objects
  that are not being destroyed, which are \<open>D\<close>.
\<close>

definition owners :: "nat set \<Rightarrow> object_heap \<Rightarrow> nat multiset \<Rightarrow> nat \<Rightarrow> nat" where
  "owners D h H a = count H a + (\<Sum>b \<in> dom h - D. count (mset (args_of h b)) a)"

definition counted :: "nat set \<Rightarrow> object_heap \<Rightarrow> nat multiset \<Rightarrow> bool" where
  "counted D h H \<longleftrightarrow> finite (dom h) \<and> D \<subseteq> dom h \<and> 0 \<notin> dom h \<and>
     (\<forall>a ob. h a = Some ob \<longrightarrow> unat (ob_refcount ob) = owners D h H a \<and> (a \<in> D \<longleftrightarrow> owners D h H a = 0)) \<and>
     set_mset H \<subseteq> dom h \<and> (\<forall>b \<in> dom h - D. set (args_of h b) \<subseteq> dom h)"

lemma countedD:
  assumes "counted D h H"
  shows "finite (dom h)" "D \<subseteq> dom h" "0 \<notin> dom h" "h a = Some ob \<Longrightarrow> unat (ob_refcount ob) = owners D h H a"
    "a \<in> dom h \<Longrightarrow> a \<in> D \<longleftrightarrow> owners D h H a = 0" "a \<in># H \<Longrightarrow> a \<in> dom h"
    "b \<in> dom h - D \<Longrightarrow> a \<in> set (args_of h b) \<Longrightarrow> a \<in> dom h"
  using assms unfolding counted_def by auto

lemma countedI:
  assumes "finite (dom h)" "D \<subseteq> dom h" "0 \<notin> dom h" "\<And>a ob. h a = Some ob \<Longrightarrow> unat (ob_refcount ob) = owners D h H a"
    "\<And>a. a \<in> dom h \<Longrightarrow> a \<in> D \<longleftrightarrow> owners D h H a = 0" "set_mset H \<subseteq> dom h"
    "\<And>b. b \<in> dom h - D \<Longrightarrow> set (args_of h b) \<subseteq> dom h"
  shows "counted D h H"
  unfolding counted_def using assms by blast

lemma args_of_update [simp]:
  "args_of (h(a \<mapsto> ob)) b = (if b = a then object_args ob else args_of h b)"
  by (simp add: args_of_def)

lemma object_args_refcount [simp]: "object_args (ob\<lparr>ob_refcount := n\<rparr>) = object_args ob"
  by (simp add: object_args_def)

lemma args_of_some: "h a = Some ob \<Longrightarrow> args_of h a = object_args ob"
  by (simp add: args_of_def)

text \<open>A counter changes, the owners do not.\<close>

lemma owners_refcount:
  "h a = Some ob \<Longrightarrow> owners D (h(a \<mapsto> ob\<lparr>ob_refcount := n\<rparr>)) H x = owners D h H x"
  unfolding owners_def by (auto intro!: sum.cong arg_cong2 [where f = "(+)"] simp: args_of_some insert_absorb domI)

lemma owners_zero: "count H a = 0 \<Longrightarrow> \<forall>b \<in> dom h - D. a \<notin> set (args_of h b) \<Longrightarrow> owners D h H a = 0"
  unfolding owners_def by (auto intro!: sum.neutral)

lemma owners_add: "owners D h (H + K) x = owners D h H x + count K x"
  by (simp add: owners_def)

text \<open>An object that starts to be destroyed hands its arguments over.\<close>

lemma owners_dying:
  assumes "finite (dom h)" "h a = Some ob" "a \<notin> D"
  shows "owners (insert a D) h (H + mset (object_args ob)) x = owners D h H x"
proof -
  have "dom h - D = insert a (dom h - insert a D)" using assms(2,3) by auto
  moreover have "a \<notin> dom h - insert a D" "finite (dom h - insert a D)" using assms(1) by auto
  ultimately have "(\<Sum>b \<in> dom h - D. count (mset (args_of h b)) x) =
      count (mset (args_of h a)) x + (\<Sum>b \<in> dom h - insert a D. count (mset (args_of h b)) x)"
    using sum.insert [of "dom h - insert a D" a "\<lambda>b. count (mset (args_of h b)) x"] by presburger
  then show ?thesis using args_of_some [of h a ob] assms(2) by (simp add: owners_def)
qed

lemma counted_live:
  assumes "counted D h H" "a \<in># H"
  obtains ob where "h a = Some ob" "a \<notin> D" "a \<noteq> 0" "ob_refcount ob \<noteq> 0" "unat (ob_refcount ob) = owners D h H a"
proof -
  obtain ob where ob: "h a = Some ob" using countedD(6) [OF assms] by auto
  have "0 < owners D h H a" using assms(2) by (simp add: owners_def)
  then show thesis
    using that [of ob] ob countedD(3,4,5) [OF assms(1)] by (metis domI unat_0 less_irrefl)
qed

lemma unat_decrement: "w \<noteq> 0 \<Longrightarrow> unat (w - 1) = unat w - 1" for w :: "32 word"
  by (simp add: unat_minus_one)

text \<open>One reference less, and others are left.\<close>

lemma counted_decrement:
  assumes c: "counted D h (add_mset a H)" and ob: "h a = Some ob" and more: "ob_refcount ob - 1 > 0"
  shows "counted D (h(a \<mapsto> ob\<lparr>ob_refcount := ob_refcount ob - 1\<rparr>)) H"
proof (rule countedI)
  let ?h = "h(a \<mapsto> ob\<lparr>ob_refcount := ob_refcount ob - 1\<rparr>)"
  have o: "owners D h (add_mset a H) x = owners D ?h H x + (if x = a then 1 else 0)" for x
    unfolding owners_refcount [where h = h and a = a, OF ob] by (simp add: owners_def)
  have dom: "dom ?h = dom h" and args: "args_of ?h = args_of h"
    using ob args_of_some [of h a, OF ob] by (auto simp: fun_eq_iff)
  have nz: "ob_refcount ob \<noteq> 0" "ob_refcount ob - 1 \<noteq> 0"
    using counted_live [OF c, of a] ob more by (force, simp add: word_gt_0)
  have rc: "unat (ob_refcount ob - 1) = owners D ?h H a"
    using countedD(4) [OF c, of a, OF ob] o [of a] unat_decrement [OF nz(1)] by presburger
  then have rc2: "owners D ?h H a \<noteq> 0" using nz(2) by (metis unat_eq_zero)
  show "finite (dom ?h)" "D \<subseteq> dom ?h" "0 \<notin> dom ?h" unfolding dom using countedD(1-3) [OF c] .
  show "set_mset H \<subseteq> dom ?h" unfolding dom using countedD(6) [OF c] by auto
  show "set (args_of ?h b) \<subseteq> dom ?h" if "b \<in> dom ?h - D" for b
    using countedD(7) [OF c, of b] that unfolding dom args by blast
  show "unat (ob_refcount ob') = owners D ?h H x" if "?h x = Some ob'" for x ob'
    using that rc countedD(4) [OF c, of x ob'] o [of x] by (cases "x = a") auto
  show "x \<in> D \<longleftrightarrow> owners D ?h H x = 0" if "x \<in> dom ?h" for x
    using that countedD(5) [OF c, of x] countedD(5) [OF c, of a] countedD(2) [OF c] counted_live [OF c, of a] o [of x] rc2 unfolding dom by (cases "x = a") auto
qed

text \<open>The last one: the arguments are the next to lose a reference.\<close>

lemma counted_dying:
  assumes c: "counted D h (add_mset a H)" and ob: "h a = Some ob" and last: "\<not> ob_refcount ob - 1 > 0"
  shows "counted (insert a D) (h(a \<mapsto> ob\<lparr>ob_refcount := ob_refcount ob - 1\<rparr>)) (H + mset (object_args ob))"
proof (rule countedI)
  let ?h = "h(a \<mapsto> ob\<lparr>ob_refcount := ob_refcount ob - 1\<rparr>)" and ?H = "H + mset (object_args ob)"
  obtain nz: "ob_refcount ob \<noteq> 0" and nd: "a \<notin> D" using counted_live [OF c, of a] ob by force
  have z: "ob_refcount ob - 1 = 0" using last by (simp add: word_gt_0)
  have "owners (insert a D) ?h ?H x = owners D h H x" for x
    unfolding owners_refcount [where h = h and a = a, OF ob] by (rule owners_dying [OF countedD(1) [OF c] ob nd])
  then have o: "owners D h (add_mset a H) x = owners (insert a D) ?h ?H x + (if x = a then 1 else 0)" for x
    by (simp add: owners_def)
  have dom: "dom ?h = dom h" and args: "args_of ?h = args_of h"
    using ob args_of_some [of h a, OF ob] by (auto simp: fun_eq_iff)
  have rc: "owners (insert a D) ?h ?H a = 0"
    using countedD(4) [OF c, of a, OF ob] o [of a] unat_decrement [OF nz] z by simp
  have sub: "set (object_args ob) \<subseteq> dom h"
    using countedD(7) [OF c, of a] ob nd args_of_some [of h a, OF ob] by auto
  show "finite (dom ?h)" "insert a D \<subseteq> dom ?h" "0 \<notin> dom ?h" unfolding dom using countedD(1-3) [OF c] ob by auto
  show "set_mset ?H \<subseteq> dom ?h" unfolding dom using countedD(6) [OF c] sub by auto
  show "set (args_of ?h b) \<subseteq> dom ?h" if "b \<in> dom ?h - insert a D" for b
    using countedD(7) [OF c, of b] that unfolding dom args by blast
  show "unat (ob_refcount ob') = owners (insert a D) ?h ?H x" if "?h x = Some ob'" for x ob'
    using that rc z countedD(4) [OF c, of x ob'] o [of x] by (cases "x = a") auto
  show "x \<in> insert a D \<longleftrightarrow> owners (insert a D) ?h ?H x = 0" if "x \<in> dom ?h" for x
    using that countedD(5) [OF c, of x] o [of x] rc unfolding dom by (cases "x = a") auto
qed

text \<open>The object itself goes when its arguments are gone.\<close>

lemma counted_free:
  assumes c: "counted (insert a D) h H" and a: "a \<notin> D"
  shows "counted D (h(a := None)) H"
proof -
  have na: "owners (insert a D) h H a = 0" using countedD(2,5) [OF c] by auto
  then have "count H a = 0" and no_arg: "a \<notin> set (args_of h b)" if "b \<in> dom h - insert a D" for b
    using that countedD(1) [OF c] by (auto simp: owners_def)
  then have H: "a \<notin># H" using na by (auto simp: owners_def count_eq_zero_iff)
  have "dom (h(a := None)) - D = dom h - insert a D" by auto
  moreover have "args_of (h(a := None)) b = args_of h b" if "b \<in> dom h - insert a D" for b using that by (auto simp: args_of_def)
  ultimately have o: "owners D (h(a := None)) H x = owners (insert a D) h H x" for x
    unfolding owners_def by (auto intro!: sum.cong)
  have d: "D \<subseteq> dom (h(a := None))" using countedD(2) [OF c] a by auto
  have n: "unat (ob_refcount ob) = owners (insert a D) h H x \<and> (x \<in> D \<longleftrightarrow> owners (insert a D) h H x = 0)"
    if "(h(a := None)) x = Some ob" for x ob
  proof -
    have "x \<noteq> a" "h x = Some ob" using that by (auto split: if_splits)
    then show ?thesis using countedD(4,5) [OF c, of x] by auto
  qed
  have ar: "set (args_of (h(a := None)) b) \<subseteq> dom (h(a := None))" if "b \<in> dom (h(a := None)) - D" for b
  proof -
    have b: "b \<in> dom h - insert a D" using that by auto
    then have "args_of (h(a := None)) b = args_of h b" by (auto simp: args_of_def)
    then show ?thesis using b countedD(7) [OF c b] no_arg [OF b] by auto
  qed
  have "set_mset H \<subseteq> dom (h(a := None))" using countedD(6) [OF c] H by auto
  then show ?thesis
    unfolding counted_def o using countedD(1,3) [OF c] d n ar by simp
qed

section \<open>Destroying\<close>

definition kept_data :: "object_heap \<Rightarrow> object_heap \<Rightarrow> bool" where
  "kept_data h h' \<longleftrightarrow> (\<forall>b ob'. h' b = Some ob' \<longrightarrow> (\<exists>ob. h b = Some ob \<and> ob_data ob' = ob_data ob))"

lemma kept_data_trans: "kept_data h h1 \<Longrightarrow> kept_data h1 h2 \<Longrightarrow> kept_data h h2"
  unfolding kept_data_def by metis

lemma kept_data_dom: "kept_data h h' \<Longrightarrow> dom h' \<subseteq> dom h"
  unfolding kept_data_def by blast

definition destroys :: "nat list \<Rightarrow> nat set \<Rightarrow> object_heap \<Rightarrow> nat multiset \<Rightarrow> bool" where
  "destroys as D h H \<longleftrightarrow> (\<exists>h'. destroy_args as h = Some (Inr h') \<and> counted D h' H \<and> kept_data h h' \<and> (\<forall>d \<in> D. h' d = h d))"

lemma destroys_nil: "counted D h H \<Longrightarrow> destroys [] D h H"
  unfolding destroys_def by (subst destroy_args.simps) (simp add: kept_data_def)

text \<open>One step of the loop, when others hold the object and when none does.\<close>

lemma destroys_decrement:
  assumes ob: "h a = Some ob" "a \<noteq> 0" "a \<notin> D" and more: "ob_refcount ob - 1 > 0"
    and rest: "destroys rest D (h(a \<mapsto> ob\<lparr>ob_refcount := ob_refcount ob - 1\<rparr>)) H"
  shows "destroys (a # rest) D h H"
proof -
  obtain h' where h': "destroy_args rest (h(a \<mapsto> ob\<lparr>ob_refcount := ob_refcount ob - 1\<rparr>)) = Some (Inr h')" "counted D h' H"
    "kept_data (h(a \<mapsto> ob\<lparr>ob_refcount := ob_refcount ob - 1\<rparr>)) h'"
    "\<forall>d \<in> D. h' d = (h(a \<mapsto> ob\<lparr>ob_refcount := ob_refcount ob - 1\<rparr>)) d"
    using rest unfolding destroys_def by blast
  have "destroy_args (a # rest) h = Some (Inr h')"
    using ob(1,2) more h'(1) by (subst destroy_args.simps) simp
  moreover have "kept_data h (h(a \<mapsto> ob\<lparr>ob_refcount := ob_refcount ob - 1\<rparr>))"
    using ob(1) by (simp add: kept_data_def)
  ultimately show ?thesis
    using h' ob(3) kept_data_trans unfolding destroys_def by (metis fun_upd_apply)
qed

lemma destroys_last:
  assumes ob: "h a = Some ob" "a \<noteq> 0" "a \<notin> D" and last: "\<not> ob_refcount ob - 1 > 0"
    and args: "destroys (object_args ob) (insert a D) (h(a \<mapsto> ob\<lparr>ob_refcount := ob_refcount ob - 1\<rparr>)) K"
    and rest: "\<And>h2. counted D h2 K \<Longrightarrow> dom h2 \<subseteq> dom h - {a} \<Longrightarrow> destroys rest D h2 H"
  shows "destroys (a # rest) D h H"
proof -
  let ?h = "h(a \<mapsto> ob\<lparr>ob_refcount := ob_refcount ob - 1\<rparr>)"
  obtain h2 where h2: "destroy_args (object_args ob) ?h = Some (Inr h2)" "counted (insert a D) h2 K" "kept_data ?h h2"
    "\<forall>d \<in> insert a D. h2 d = ?h d"
    using args unfolding destroys_def by blast
  have k: "kept_data h ?h" using ob(1) by (simp add: kept_data_def)
  have "dom (h2(a := None)) \<subseteq> dom h - {a}" using kept_data_dom [OF kept_data_trans [OF k h2(3)]] by auto
  from rest [OF counted_free [OF h2(2) ob(3)] this] obtain h3 where h3: "destroy_args rest (h2(a := None)) = Some (Inr h3)"
    "counted D h3 H" "kept_data (h2(a := None)) h3" "\<forall>d \<in> D. h3 d = (h2(a := None)) d"
    unfolding destroys_def by blast
  have "destroy_args (a # rest) h = Some (Inr h3)"
    using ob(1,2) last h2(1) h3(1) by (subst destroy_args.simps) simp
  moreover have "kept_data h2 (h2(a := None))" by (simp add: kept_data_def)
  then have "kept_data h h3" using k h2(3) h3(3) kept_data_trans by blast
  moreover have "h3 d = h d" if "d \<in> D" for d
    using that h3(4) h2(4) ob(3) by (metis fun_upd_apply insertCI)
  ultimately show ?thesis using h3(2) unfolding destroys_def by blast
qed

text \<open>An object that loses its last reference is destroyed with fewer objects left.\<close>

lemma destroys_counted: "counted D h (H + mset as) \<Longrightarrow> destroys as D h H"
proof (induction "card (dom h - D)" arbitrary: as h D H rule: less_induct)
  case less
  define c where "c = card (dom h - D)"
  have "card (dom h - D) = c \<Longrightarrow> counted D h (H + mset as) \<Longrightarrow> destroys as D h H" for h
  proof (induction as arbitrary: h)
    case Nil
    then show ?case by (simp add: destroys_nil)
  next
    case (Cons a rest)
    have ca: "counted D h (add_mset a (H + mset rest))" using Cons.prems(2) by (simp add: ac_simps)
    obtain ob where ob: "h a = Some ob" "a \<notin> D" "a \<noteq> 0" using counted_live [OF ca, of a] by force
    have dom: "dom (h(a \<mapsto> x)) = dom h" for x using ob(1) by auto
    show ?case
    proof (cases "ob_refcount ob - 1 > 0")
      case True
      have "destroys rest D (h(a \<mapsto> ob\<lparr>ob_refcount := ob_refcount ob - 1\<rparr>)) H"
        by (rule Cons.IH [OF _ counted_decrement [OF ca, of ob, OF ob(1) True]]) (simp only: dom Cons.prems(1))
      then show ?thesis by (rule destroys_decrement [of h a, OF ob(1,3,2) True])
    next
      case False
      have fin: "finite (dom h - D)" "a \<in> dom h - D" using countedD(1) [OF ca] ob by auto
      then have lt: "card (dom h - insert a D) < c"
        using Cons.prems(1) psubset_card_mono [of "dom h - D" "dom h - insert a D"] by blast
      have "destroys (object_args ob) (insert a D) (h(a \<mapsto> ob\<lparr>ob_refcount := ob_refcount ob - 1\<rparr>)) (H + mset rest)"
        using less.hyps counted_dying [OF ca, of ob, OF ob(1) False] lt dom unfolding c_def by presburger
      moreover have "destroys rest D h2 H" if "counted D h2 (H + mset rest)" "dom h2 \<subseteq> dom h - {a}" for h2
      proof -
        have "dom h2 - D \<subseteq> dom h - insert a D" using that(2) by auto
        then have "card (dom h2 - D) < c" using lt fin(1) by (meson card_mono finite_Diff2 finite_subset le_less_trans Diff_subset countedD(1) [OF ca] finite_Diff)
        then show ?thesis using less.hyps that(1) unfolding c_def by blast
      qed
      ultimately show ?thesis by (rule destroys_last [of h a, OF ob(1,3,2) False])
    qed
  qed
  then show ?case using less.prems by (simp add: c_def)
qed

section \<open>Clients\<close>

text \<open>Which object is part of which other.\<close>

definition edges :: "object_heap \<Rightarrow> (nat \<times> nat) set" where
  "edges h = {(b, a). b \<in> set (args_of h a)}"

lemma kept_data_edges:
  assumes "kept_data h h'" shows "edges h' \<subseteq> edges h"
proof -
  have "set (args_of h' a) \<subseteq> set (args_of h a)" for a
  proof (cases "h' a")
    case (Some ob')
    then obtain ob where "h a = Some ob" "ob_data ob' = ob_data ob" using assms unfolding kept_data_def by blast
    then show ?thesis using Some by (simp add: args_of_def object_args_def)
  qed (simp add: args_of_def)
  then show ?thesis by (auto simp: edges_def)
qed

lemma args_live: "b \<in> set (args_of h a) \<Longrightarrow> a \<in> dom h"
  by (cases "h a") (auto simp: args_of_def)

lemma edges_refcount: "h a = Some ob \<Longrightarrow> edges (h(a \<mapsto> ob\<lparr>ob_refcount := n\<rparr>)) = edges h"
  by (auto simp: edges_def args_of_def)

text \<open>
  A client holds handles: it gets one for a new object and for every further reference, gives
  one away with an argument it pushes, and one with an object it destroys. It pushes arguments
  to functions only that are no part of them, and takes fewer than 2 ^ 32 references.
\<close>

inductive client_step ::
    "(string \<Rightarrow> db_error + idmef_path) \<Rightarrow> object_heap \<times> nat multiset \<Rightarrow> object_heap \<times> nat multiset \<Rightarrow> bool" for path_new where
  creates: "a \<noteq> 0 \<Longrightarrow> h a = None \<Longrightarrow> preludedb_selected_object_new_at path_new a new h = (h', Inr a) \<Longrightarrow>
    client_step path_new (h, H) (h', add_mset a H)"
| references: "h a = Some ob \<Longrightarrow> unat (ob_refcount ob) + 1 < 2 ^ 32 \<Longrightarrow> preludedb_selected_object_ref a h = Inr h' \<Longrightarrow>
    client_step path_new (h, H) (h', add_mset a H)"
| pushes: "a \<in># H \<Longrightarrow> (a, arg) \<notin> (edges h)\<^sup>* \<Longrightarrow> object_push_arg a arg h = Inr h' \<Longrightarrow>
    client_step path_new (h, add_mset arg H) (h', H)"
| destroys: "preludedb_selected_object_destroy a h = Some (Inr h') \<Longrightarrow> client_step path_new (h, add_mset a H) (h', H)"

definition client_ok :: "object_heap \<times> nat multiset \<Rightarrow> bool" where
  "client_ok s \<longleftrightarrow> counted {} (fst s) (snd s) \<and> acyclic (edges (fst s))"

lemma client_ok_empty: "client_ok (Map.empty, {#})"
  by (simp add: client_ok_def counted_def edges_def args_of_def acyclic_def)

lemma created_counted:
  assumes c: "counted {} h H" and a: "a \<noteq> 0" "h a = None" and ob: "ob_refcount ob = 1" "object_args ob = []"
  shows "counted {} (h(a \<mapsto> ob)) (add_mset a H)" "edges (h(a \<mapsto> ob)) = edges h"
proof -
  let ?h = "h(a \<mapsto> ob)"
  have args: "args_of ?h = args_of h" using a(2) ob(2) by (auto simp: fun_eq_iff args_of_def)
  show "edges ?h = edges h" by (simp add: edges_def args)
  have "a \<notin> set (args_of h b)" if "b \<in> dom h" for b using that countedD(7) [OF c, of b a] a(2) by auto
  moreover have "a \<notin># H" using countedD(6) [OF c, of a] a(2) by auto
  ultimately have na: "owners {} h H a = 0" by (intro owners_zero) (auto simp: not_in_iff)
  have aa: "args_of h a = []" using a(2) by (simp add: args_of_def)
  have o: "owners {} ?h (add_mset a H) x = owners {} h H x + (if x = a then 1 else 0)" for x
    using sum.insert [OF countedD(1) [OF c], of a "\<lambda>b. count (mset (args_of h b)) x"] a(2) aa
    by (simp add: owners_def args domIff del: args_of_update)
  show "counted {} ?h (add_mset a H)"
  proof (rule countedI)
    show "finite (dom ?h)" "{} \<subseteq> dom ?h" "0 \<notin> dom ?h" "set_mset (add_mset a H) \<subseteq> dom ?h"
      using countedD(1,3,6) [OF c] a(1) by auto
    show "set (args_of ?h b) \<subseteq> dom ?h" if "b \<in> dom ?h - {}" for b
      using that countedD(7) [OF c, of b] aa unfolding args by auto
    show "unat (ob_refcount ob') = owners {} ?h (add_mset a H) x" if "?h x = Some ob'" for x ob'
      using that o [of x] na ob(1) countedD(4) [OF c, of x ob'] by (cases "x = a") auto
    show "x \<in> {} \<longleftrightarrow> owners {} ?h (add_mset a H) x = 0" if "x \<in> dom ?h" for x
      using that o [of x] na countedD(5) [OF c, of x] by (cases "x = a") auto
  qed
qed

lemma referenced_counted:
  assumes c: "counted {} h H" and ob: "h a = Some ob" and max: "unat (ob_refcount ob) + 1 < 2 ^ 32"
  shows "counted {} (h(a \<mapsto> ob\<lparr>ob_refcount := ob_refcount ob + 1\<rparr>)) (add_mset a H)"
proof (rule countedI)
  let ?h = "h(a \<mapsto> ob\<lparr>ob_refcount := ob_refcount ob + 1\<rparr>)"
  have o: "owners {} ?h (add_mset a H) x = owners {} h H x + (if x = a then 1 else 0)" for x
    unfolding owners_refcount [where h = h and a = a, OF ob] by (simp add: owners_def)
  have dom: "dom ?h = dom h" and args: "args_of ?h = args_of h"
    using ob args_of_some [of h a, OF ob] by (auto simp: fun_eq_iff)
  have rc: "unat (ob_refcount ob + 1) = unat (ob_refcount ob) + 1"
    using max by (simp add: unat_word_ariths)
  show "finite (dom ?h)" "{} \<subseteq> dom ?h" "0 \<notin> dom ?h" unfolding dom using countedD(1,3) [OF c] by auto
  show "set_mset (add_mset a H) \<subseteq> dom ?h" unfolding dom using countedD(6) [OF c] ob by auto
  show "set (args_of ?h b) \<subseteq> dom ?h" if "b \<in> dom ?h - {}" for b
    using countedD(7) [OF c, of b] that unfolding dom args by blast
  show "unat (ob_refcount ob') = owners {} ?h (add_mset a H) x" if "?h x = Some ob'" for x ob'
    using that rc countedD(4) [OF c, of a, OF ob] countedD(4) [OF c, of x ob'] o [of x] by (cases "x = a") auto
  show "x \<in> {} \<longleftrightarrow> owners {} ?h (add_mset a H) x = 0" if "x \<in> dom ?h" for x
    using that countedD(5) [OF c, of x] o [of x] unfolding dom by (cases "x = a") auto
qed

lemma pushed_counted:
  assumes c: "counted {} h (add_mset arg H)" and ob: "h a = Some ob" "ob_data ob = Data_function f args"
    and ac: "acyclic (edges h)" "(a, arg) \<notin> (edges h)\<^sup>*"
  shows "counted {} (h(a \<mapsto> ob\<lparr>ob_data := Data_function f (args @ [arg])\<rparr>)) H"
    "acyclic (edges (h(a \<mapsto> ob\<lparr>ob_data := Data_function f (args @ [arg])\<rparr>)))"
proof -
  let ?h = "h(a \<mapsto> ob\<lparr>ob_data := Data_function f (args @ [arg])\<rparr>)"
  have dom: "dom ?h = dom h" using ob by auto
  have ah: "args_of h a = args" using ob by (simp add: args_of_def object_args_def)
  have args: "args_of ?h b = (if b = a then args_of h a @ [arg] else args_of h b)" for b
    using ah by (simp add: object_args_def)
  have "edges ?h = insert (arg, a) (edges h)" by (auto simp: edges_def args simp del: args_of_update split: if_splits)
  then show "acyclic (edges ?h)" using ac by (simp add: acyclic_insert)
  have "(\<Sum>b \<in> dom h. count (mset (args_of ?h b)) x) =
      (\<Sum>b \<in> dom h. count (mset (args_of h b)) x + (if b = a then (if x = arg then 1 else 0) else 0))" for x
    by (rule sum.cong) (auto simp: args simp del: args_of_update)
  then have o: "owners {} ?h H x = owners {} h (add_mset arg H) x" for x
    unfolding owners_def dom using countedD(1) [OF c] ob(1) by (simp add: sum.distrib domI del: args_of_update)
  have arg: "arg \<in> dom h" using countedD(6) [OF c, of arg] by simp
  show "counted {} ?h H"
  proof (rule countedI)
    show "finite (dom ?h)" "{} \<subseteq> dom ?h" "0 \<notin> dom ?h" unfolding dom using countedD(1,3) [OF c] by auto
    show "set_mset H \<subseteq> dom ?h" unfolding dom using countedD(6) [OF c] by auto
    show "set (args_of ?h b) \<subseteq> dom ?h" if "b \<in> dom ?h - {}" for b
    proof -
      have "set (args_of h b) \<subseteq> dom h" using countedD(7) [OF c, of b] that unfolding dom by blast
      then show ?thesis using arg unfolding dom args by (cases "b = a") simp_all
    qed
    show "unat (ob_refcount ob') = owners {} ?h H x" if at: "?h x = Some ob'" for x ob'
    proof -
      obtain ob0 where "h x = Some ob0" "ob_refcount ob' = ob_refcount ob0" using at ob(1) by (cases "x = a") auto
      then show ?thesis using countedD(4) [OF c] unfolding o by simp
    qed
    show "x \<in> {} \<longleftrightarrow> owners {} ?h H x = 0" if "x \<in> dom ?h" for x
      using that countedD(5) [OF c, of x] o [of x] unfolding dom by auto
  qed
qed

lemma destroyed_counted:
  assumes "counted {} h (add_mset a H)"
  obtains h' where "preludedb_selected_object_destroy a h = Some (Inr h')" "counted {} h' H" "kept_data h h'"
  using destroys_counted [of "{}" h H "[a]"] assms
  unfolding destroys_def preludedb_selected_object_destroy_def by auto

lemma map_sum_eq_Inr: "map_sum f g x = Inr y \<longleftrightarrow> (\<exists>z. x = Inr z \<and> y = g z)"
  by (cases x) auto

lemma client_keeps_ok:
  assumes "client_step path_new s s'" "client_ok s" shows "client_ok s'"
  using assms(1)
proof cases
  case (creates a h new h' H)
  then obtain d where d: "h' = h(a \<mapsto> \<lparr>ob_refcount = 1, ob_data = d\<rparr>)" "object_args \<lparr>ob_refcount = 1, ob_data = d\<rparr> = []"
    by (auto simp: preludedb_selected_object_new_at_def object_args_def map_sum_eq_Inr split: new_object.splits sum.splits)
  then show ?thesis
    using created_counted [of h H a "\<lparr>ob_refcount = 1, ob_data = d\<rparr>"] creates assms(2) by (simp add: client_ok_def)
next
  case (references h a ob h' H)
  then have "h' = h(a \<mapsto> ob\<lparr>ob_refcount := ob_refcount ob + 1\<rparr>)" by (simp add: preludedb_selected_object_ref_def)
  then show ?thesis
    using referenced_counted [of h H a ob] edges_refcount [of h a ob] references assms(2) by (simp add: client_ok_def)
next
  case (pushes a H arg h h')
  then obtain ob f args where "h a = Some ob" "ob_data ob = Data_function f args"
    "h' = h(a \<mapsto> ob\<lparr>ob_data := Data_function f (args @ [arg])\<rparr>)"
    by (auto simp: object_push_arg_def split: option.splits object_content.splits)
  then show ?thesis
    using pushed_counted [of h arg H a ob f args] pushes assms(2) by (simp add: client_ok_def)
next
  case (destroys a h h' H)
  then have c: "counted {} h (add_mset a H)" using assms(2) by (simp add: client_ok_def)
  then show ?thesis
    using destroyed_counted [OF c] kept_data_edges [of h h'] acyclic_subset destroys assms(2)
    by (auto simp: client_ok_def)
qed

lemma reachable_ok: "(client_step path_new)\<^sup>*\<^sup>* (Map.empty, {#}) s \<Longrightarrow> client_ok s"
  by (induction rule: rtranclp_induct) (auto intro: client_keeps_ok client_ok_empty)

text \<open>Without a cycle some object is part of no other.\<close>

lemma no_handles_no_objects:
  assumes c: "counted {} h {#}" and ac: "acyclic (edges h)"
  shows "h = Map.empty"
proof (rule ccontr)
  assume ne: "h \<noteq> Map.empty"
  have "edges h \<subseteq> dom h \<times> dom h" using countedD(7) [OF c] using args_live by (fastforce simp: edges_def)
  then have "finite (edges h)" using countedD(1) [OF c] by (meson finite_SigmaI finite_subset)
  then have "wf ((edges h)\<inverse>)" using ac by (rule finite_acyclic_wf_converse)
  moreover obtain b where "b \<in> dom h" using ne by blast
  ultimately obtain a where a: "a \<in> dom h" "\<And>b. (b, a) \<in> (edges h)\<inverse> \<Longrightarrow> b \<notin> dom h"
    by (metis wfE_min)
  have "a \<notin> set (args_of h b)" if "b \<in> dom h" for b using a(2) [of b] that by (auto simp: edges_def)
  then have "owners {} h {#} a = 0" by (intro owners_zero) auto
  then show False using countedD(5) [OF c a(1)] by simp
qed

end
