(* ===== verification/Spec2Isabelle.thy ===== *)
theory Spec2Isabelle
  imports Db Path_Print Pdb_Version Heartbeat_Store Table_Engine Save_Load Object_Heap
begin

text \<open>
  libpreludedb is an abstraction layer over SQL databases (MySQL, PostgreSQL, SQLite), in which
  IDMEF messages, alerts and heartbeats, are stored in the tables of a "format". The repository
  has one format, the classic one, and a tool, preludedb-admin, which moves messages between
  databases and files. This development is a shallow embedding of that code: a C function is a
  HOL function of the same name, a structure a record, an enum a datatype.

  \<^bold>\<open>The program and the theories.\<close> Below the client lie three layers, and each calls the next
  one through a structure of function pointers.

  \<^item> A database object (src/preludedb.c) hands every operation to its format plugin, with the
    defaults of src/preludedb-plugin-format.c where the plugin lacks it: \<open>Db\<close>. The version
    check of src/preludedb-version.c is in \<open>Pdb_Version\<close>, error values in \<open>Pdb_Error\<close>.
  \<^item> The classic format (src/plugins/format/classic/). It turns IDMEF paths into tables and
    columns, \<open>Classic_Path\<close> (classic-path-resolve.c) over \<open>Classic_Join\<close> (classic-sql-join.c);
    it asks for idents and values, \<open>Classic_Query\<close> (classic.c); and it deletes, inserts and
    retrieves messages: \<open>Classic_Delete\<close>, \<open>Classic_Insert\<close>, \<open>Classic_Get\<close> (classic-delete.c,
    classic-insert.c, classic-get.c). \<open>Idmef\<close> has the messages, \<open>Classic_Schema\<close> the tables that
    sqlite.sql creates.
  \<^item> The SQL layer. \<open>Sql_Core\<close> is the session of src/preludedb-sql.c: connecting, queries,
    transactions, escaping, the log. \<open>Sql_Table\<close> has its result tables with their reference
    counters, \<open>Sql_Fetch\<close> the reading of rows and fields, \<open>Sql_Field\<close> the ten typed
    conversions, \<open>Sql_Criterion\<close> criteria and timestamps. \<open>Sql_Settings\<close> is
    src/preludedb-sql-settings.c, \<open>Sql_Select\<close> the builder of src/preludedb-sql-select.c.
    \<open>Sql_Call\<close> has the combinators for sequences of calls on a session, each of which stops at
    the first error, and what such a sequence sends to the database.
  \<^item> The SQL plugins. \<open>Plugin_Sql\<close> is their interface (src/preludedb-plugin-sql.c);
    \<open>Plugin_Mysql\<close>, \<open>Plugin_Pgsql\<close> and \<open>Plugin_Sqlite\<close> are src/plugins/sql/mysql/mysql.c,
    pgsql/pgsql.c and sqlite3/sqlite3.c; \<open>Sql_Cursor\<close> is the loop that the first and the last
    share.

  Beside the layers there are the paths a client selects, src/preludedb-path-selection.c:
  \<open>Path_Selection\<close> has them as trees, \<open>Object_Heap\<close> as objects in memory with their
  reference counters, and \<open>Path_Lexer\<close> and \<open>Path_Parser\<close> the .l and the .y file that read them.
  \<open>Path_Print\<close> gives the text of a selected path. The tool, preludedb-admin.c, is in \<open>Admin\<close>,
  and \<open>Message_Transfer\<close> and \<open>Save_Load\<close> have what its commands achieve. \<open>Pdb_Prelude\<close> holds the
  shared vocabulary, the pieces of the C library the sources use, and generic lemmas.

  \<^bold>\<open>State.\<close> A function of a session takes the record \<open>sql\<close>, the C structure, and returns it with
  its result. The field \<open>session\<close> stands for everything behind the plugin; for the three plugins
  it is the state of the client library, of a type that is left open. The two status flags are
  booleans, and the recursive mutex is the number of times the calling thread holds it. A result is
  \<open>Inl\<close> of an error or \<open>Inr\<close> of a value; the error \<open>Undefined\<close> marks a branch at which the C
  program has no defined behaviour, such as the call of a pointer that is NULL. Integers that can
  overflow are words (the reference counters have 16 and 32 bits), texts are lists of characters,
  NULL is \<open>None\<close>.

  \<^bold>\<open>Loops.\<close> A loop whose end depends on the database is a \<open>partial_function (option)\<close>, with \<open>None\<close>
  for a loop that never ends: \<open>save_never_ends\<close> shows such a loop, the other properties that
  mention these functions state that they return. The parser of selected paths takes fuel, one
  more than the number of tokens; every nested call consumes a token, so it never runs out,
  which \<open>parser_accepts_the_grammar\<close> includes. The other loops are recursions with a termination
  proof or with structural recursion.

  \<^bold>\<open>Interfaces.\<close> Each is a locale, interpreted on the model of the code.

  \<^item> \<open>sql_backend\<close> (in \<open>Sql_Backend\<close>): what the SQL layer and the format rely on in the text
    builders of a plugin. \<open>my_backend\<close>, \<open>pg_backend\<close> and \<open>lite_backend\<close> are the three plugins.
  \<^item> \<open>cursor\<close>: rows that can only be fetched in order; \<open>mycur\<close> and \<open>litecur\<close> are the cursors of
    MySQL and SQLite.
  \<^item> \<open>sql_literal\<close>: literals from which a string is read back; \<open>hexlit\<close> is the hexadecimal
    literal of the defaults, \<open>quolit\<close> the quoted one of SQLite.
  \<^item> \<open>path_columns\<close>: what the SELECT builder expects of a format; \<open>classic_cols\<close>.
  \<^item> \<open>message_store\<close>: what insertion and retrieval expect of a database, stated over the
    library's own functions. \<open>sqlite_engine\<close> says what is relied on in libsqlite3 on a database
    with the classic schema, and a \<open>sublocale\<close> gives a \<open>message_store\<close> for every such engine.
    \<open>Table_Engine\<close> defines an engine that executes the statements from their text, checks the
    constraints of the schema and rolls back, and \<open>engine\<close> interprets \<open>sqlite_engine\<close> on it.

  \<^bold>\<open>What the lemmas show.\<close>

  \<^item> Archive: \<open>Round_Trip\<close>, \<open>Analyzer_Trip\<close>, \<open>Heartbeat_Trip\<close> and \<open>Heartbeat_Store\<close> follow a
    heartbeat class by class into rows and back; \<open>Owned_Rows\<close> shows that its rows are its own
    and keep the constraints. With SQLite the stored heartbeats form a map from idents to messages
    that insertion updates and retrieval reads. A heartbeat must be storable for that: its texts
    are not empty, since SQLite's plugin reads an empty text as NULL, its numbers fit the
    conversions that read them, and its objects have what the NOT NULL columns ask for.
  \<^item> Transactions: an insertion and a deletion are one transaction, an error rolls it back, the
    lock follows the transaction, and the exception is a connection lost inside of one.
  \<^item> Statements: every inserted row fits the schema, no value ends its literal, the text of
    criteria means the tree of criteria, LIKE patterns match what they should up to two gaps.
  \<^item> Results: on each backend any row and column can be asked for, in any order, and has the
    bytes of the cell; the differences (empty texts, rows behind the end) are stated as well.
  \<^item> Objects: the reference counters of selected objects and of tables are exact, and where the
    counter of a table wraps around.
  \<^item> Selected paths: the parser accepts the language of the grammar, and printing is inverse.
  \<^item> Transfers: a copy or a move is complete when nothing fails, a save whose last message cannot
    be read never ends, a load stops at the end of a transaction.

  \<^bold>\<open>Parameters.\<close> libprelude (paths, criteria, values, times, the constructors of messages), the
  three client libraries and the parts of libc that depend on the locale or the time zone are
  arguments of the definitions that use them. Their documented behaviour enters a theorem as a
  hypothesis, and its witness supplies functions that meet it.

  \<^bold>\<open>Conventions.\<close> The C locale, 64-bit \<open>long\<close>, little-endian numbers in the sizes of a file. An
  IDMEF class is named by its name rather than its number. A buffer whose contents are
  not read after an error is not followed there.

  \<^bold>\<open>Not modelled.\<close>

  \<^item> Failing allocations, and string functions of libprelude that fail only then.
  \<^item> Other threads: the mutex excludes them during a transaction, and the model is the thread
    that holds it.
  \<^item> The scanner and the parser in C that flex and bison generate: their sources are modelled in
    place of them, without the limit of 10000 entries of the stack.
  \<^item> The C++ and Python bindings (src/bindings/), which only call the library and are for the most
    part generated by SWIG, and libmissing, which is gnulib.
  \<^item> In the tool: the command line, help texts, statistics, signal handlers (a signal is the
    initial value of a flag) and the reading of IDMEF from a file.
  \<^item> The regular expression callback that SQLite's plugin registers; for the engine it is a
    parameter.
  \<^item> The map of stored messages is shown for heartbeats. Alerts are inserted and
    retrieved by the definitions, and that their statements form one transaction and fit the schema
    is shown, but not that retrieval gives them back: it does not for the community of an SNMP
    service, which is not stored, or for a file of 2^32 bytes, whose size the reading rejects.
\<close>

section \<open>A concrete session for the witnesses\<close>

text \<open>
  A SQLite library that refuses the statements \<open>bad\<close>, accepts all others and quotes as
  documented, and sessions on it.
\<close>

definition sample_lib :: "string list \<Rightarrow> unit libsqlite" where
  "sample_lib bad = \<lparr>lite_exists = (\<lambda>f. True), lite_open = (\<lambda>f w. (w, Inr ())),
     lite_create_regexp = (\<lambda>w. (w, Inr ())), lite_close = (\<lambda>w. w), lite_quote = double_quotes,
     lite_exec = (\<lambda>w q. (w, if q \<in> set bad then Inl ''no such table'' else Inr ())),
     lite_prepare = (\<lambda>w q. (w, Inl ''no such table'')), lite_version = 3\<rparr>"

lemma sample_lib_quote [simp]: "lite_quote (sample_lib bad) = double_quotes"
  by (simp add: sample_lib_def)

definition session_on :: "unit libsqlite \<Rightarrow> bool \<Rightarrow> bool \<Rightarrow> (unit, sqlite_stmt) sql" where
  "session_on lib connected transaction =
     \<lparr>sql_type = ''sqlite3'', sql_settings = [''file'' \<mapsto> ''db''], sql_plugin = sqlite_plugin lib ''REGEXP'',
      status_connected = connected, status_transaction = transaction, session = (), logfile = None,
      internal_transaction_disabled = False, mutex = (if transaction then 1 else 0), sql_refcount = 1,
      thread_error = None, issued = []\<rparr>"

definition sample_strerror :: "string option \<Rightarrow> db_error \<Rightarrow> string" where
  "sample_strerror m e = ''error''"

lemma session_on_simps [simp]:
  "status_connected (session_on lib c tr) = c" "status_transaction (session_on lib c tr) = tr"
  "\<not> internal_transaction_disabled (session_on lib c tr)" "issued (session_on lib c tr) = []"
  "sql_plugin (session_on lib c tr) = sqlite_plugin lib ''REGEXP''" "sql_refcount (session_on lib c tr) = 1"
  "mutex (session_on lib c tr) = (if tr then 1 else 0)"
  by (simp_all add: session_on_def)

text \<open>The sample library accepts a deletion.\<close>

lemma sample_query:
  assumes "sql_plugin s = sqlite_plugin (sample_lib bad) rx" "status_connected s"
    and "\<not> strncase_eq q ''SELECT'' 6"
  shows "\<exists>s'. preludedb_sql_query s q False =
      (s', if q \<in> set bad then Inl (preludedb_error_verbose PRELUDEDB_ERROR_QUERY ''no such table'')
           else Inr None) \<and> status_connected s' \<and>
    sql_plugin s' = sqlite_plugin (sample_lib bad) rx \<and> status_transaction s' = status_transaction s \<and>
    internal_transaction_disabled s' = internal_transaction_disabled s"
proof -
  have "plugin_query = sqlite_query (sample_lib bad)" if "plugin_query = p_query (sql_plugin s)" for plugin_query
    using that assms(1) by (simp add: sqlite_plugin_def)
  then show ?thesis using assms
    by (simp add: preludedb_sql_query_def assert_connected_def sqlite_query_def sample_lib_def Let_def
        note_error_def preludedb_error_verbose_def update_sql_from_errno_def preludedb_error_check_def)
qed

lemma sample_delete_queries_ok:
  assumes "sql_plugin s = sqlite_plugin (sample_lib []) rx" "status_connected s"
    and "\<forall>q \<in> set qs. \<not> strncase_eq (subst_s q idents) ''SELECT'' 6"
  shows "\<exists>s'. delete_queries s qs idents = (s', Inr ()) \<and> status_connected s' \<and>
    sql_plugin s' = sqlite_plugin (sample_lib []) rx \<and> status_transaction s' = status_transaction s \<and>
    internal_transaction_disabled s' = internal_transaction_disabled s"
  using assms
proof (induction qs arbitrary: s)
  case (Cons q qs)
  then show ?case using sample_query [of s "[]" rx "subst_s q idents"] by fastforce
qed auto

lemma delete_is_no_select:
  assumes "take 7 q = ''DELETE ''"
  shows "\<not> strncase_eq (subst_s q x) ''SELECT'' 6"
proof -
  obtain r where "q = ''DELETE '' @ r" using assms by (metis append_take_drop_id)
  then show ?thesis by (cases r) (auto simp: strncase_eq_def tolower_def Let_def)
qed

lemma alert_queries_delete: "\<forall>q \<in> set delete_alert_queries. take 7 q = ''DELETE ''"
  by (simp add: delete_alert_queries_def)

lemma sample_delete_message_ok:
  assumes "sql_plugin s = sqlite_plugin (sample_lib []) rx" "status_connected s"
    and tr: "\<not> internal_transaction_disabled s \<longrightarrow> \<not> status_transaction s"
    and q: "\<forall>q \<in> set qs. take 7 q = ''DELETE ''"
  shows "snd (delete_message se s qs idents) = Inr ()"
proof -
  have b: "\<not> strncase_eq ''BEGIN'' ''SELECT'' 6" "\<not> strncase_eq ''COMMIT'' ''SELECT'' 6"
    by (simp_all add: strncase_eq_def tolower_def Let_def)
  have p: "sql_plugin (lock s) = sqlite_plugin (sample_lib []) rx" "status_connected (lock s)"
    using assms by simp_all
  obtain s0 where s0: "preludedb_sql_transaction_start s = (s0, Inr ())" "status_connected s0"
    "sql_plugin s0 = sqlite_plugin (sample_lib []) rx"
    "internal_transaction_disabled s0 = internal_transaction_disabled s"
    "\<not> internal_transaction_disabled s \<longrightarrow> status_transaction s0"
    using sample_query [OF p b(1)] assms
    by (cases "internal_transaction_disabled s")
      (auto simp: preludedb_sql_transaction_start_def sql_transaction_start_ext_def)
  obtain s2 where s2: "delete_queries s0 qs idents = (s2, Inr ())" "status_connected s2"
    "sql_plugin s2 = sqlite_plugin (sample_lib []) rx" "status_transaction s2 = status_transaction s0"
    "internal_transaction_disabled s2 = internal_transaction_disabled s0"
    using sample_delete_queries_ok [OF s0(3,2)] q delete_is_no_select by metis
  show ?thesis
    using s0 s2 sample_query [OF s2(3,2) b(2)]
    by (auto simp: delete_message_def preludedb_sql_transaction_end_def sql_transaction_end_ext_def)
qed

section \<open>Transactions\<close>

text \<open>
  C4: On a live connection outside a transaction, a deletion of an alert that succeeds has
  sent the database BEGIN, the DELETE of every table in order, and COMMIT, and nothing else.
\<close>

theorem delete_alert_is_one_transaction:
  assumes "status_connected s" "\<not> status_transaction s" "\<not> internal_transaction_disabled s"
    and "classic_delete_alert se s ident = (s', Inr ())"
  shows "issued s' = issued s @ ''BEGIN'' #
    map (\<lambda>q. subst_s q (ident_condition ident)) delete_alert_queries @ [''COMMIT'']"
  using delete_message_issued [OF assms(1-3)] assms(4)
  by (simp add: classic_delete_alert_def do_delete_alert_def)

theorem delete_alert_is_one_transaction_witness:
  "issued (fst (classic_delete_alert sample_strerror (session_on (sample_lib []) True False) 5)) = ''BEGIN'' #
     map (\<lambda>q. subst_s q (ident_condition 5)) delete_alert_queries @ [''COMMIT'']"
proof -
  let ?s = "session_on (sample_lib []) True False"
  have "snd (classic_delete_alert sample_strerror ?s 5) = Inr ()"
    unfolding classic_delete_alert_def do_delete_alert_def
    using alert_queries_delete by (intro sample_delete_message_ok) simp_all
  then show ?thesis
    using delete_alert_is_one_transaction [of ?s sample_strerror 5
        "fst (classic_delete_alert sample_strerror ?s 5)"]
    by (simp add: prod_eq_iff)
qed

text \<open>
  C10: When a statement of a deletion fails on a connection that stays alive, the deletion
  stops at that statement, sends ROLLBACK, reports an error, and leaves neither a transaction
  nor the lock behind.
\<close>

theorem failed_deletion_rolls_back:
  assumes "status_connected s" "\<not> status_transaction s" "\<not> internal_transaction_disabled s"
    and "preludedb_sql_transaction_start s = (s1, Inr ())"
    and "delete_queries s1 delete_alert_queries (ident_condition ident) = (s2, Inl e)"
    and "status_connected s2" and "classic_delete_alert se s ident = (s', ret)"
  shows "(\<exists>k. 0 < k \<and> k \<le> length delete_alert_queries \<and>
      issued s' = issued s @ ''BEGIN'' #
        map (\<lambda>q. subst_s q (ident_condition ident)) (take k delete_alert_queries) @ [''ROLLBACK'']) \<and>
    \<not> is_ok ret \<and> \<not> status_transaction s' \<and> mutex s' = mutex s"
  using delete_message_failed [OF assms(1-6), of se] delete_message_balanced [OF assms(2,3)] assms(7)
  unfolding classic_delete_alert_def do_delete_alert_def by (metis fst_conv snd_conv)

theorem failed_deletion_rolls_back_witness:
  "let s = session_on (sample_lib [''DELETE FROM Prelude_Action WHERE _message_ident = 5'']) True False;
       (s', ret) = classic_delete_alert sample_strerror s 5
   in \<not> is_ok ret \<and> \<not> status_transaction s' \<and> mutex s' = 0"
proof -
  let ?q = "''DELETE FROM Prelude_Action WHERE _message_ident = 5''"
  let ?s = "session_on (sample_lib [?q]) True False"
  let ?r = "classic_delete_alert sample_strerror ?s 5"
  obtain s1 where s1: "preludedb_sql_transaction_start ?s = (s1, Inr ())" "status_connected s1"
    "sql_plugin s1 = sqlite_plugin (sample_lib [?q]) ''REGEXP''"
    using sample_query [of "lock ?s" "[?q]" "''REGEXP''" "''BEGIN''"]
    by (auto simp: preludedb_sql_transaction_start_def sql_transaction_start_ext_def strncase_eq_def
        tolower_def Let_def)
  have q1: "subst_s (hd delete_alert_queries) (ident_condition 5) = ?q"
    unfolding delete_alert_queries_def list.sel by code_simp
  have ne: "delete_alert_queries = hd delete_alert_queries # tl delete_alert_queries"
    by (simp add: delete_alert_queries_def)
  have ns: "\<not> strncase_eq ?q ''SELECT'' 6" by (simp add: strncase_eq_def tolower_def Let_def)
  obtain s2 where "delete_queries s1 (hd delete_alert_queries # tl delete_alert_queries) (ident_condition 5) =
      (s2, Inl (preludedb_error_verbose PRELUDEDB_ERROR_QUERY ''no such table''))" "status_connected s2"
    using sample_query [OF s1(3,2) ns] q1 by auto
  then show ?thesis
    using failed_deletion_rolls_back [of ?s s1 5 s2 _ sample_strerror "fst ?r" "snd ?r"] s1 ne
    by (simp add: split_beta Let_def)
qed

text \<open>
  C19: Whatever the database answers, and whether the connection holds or not, a deletion
  started outside a transaction leaves the session outside a transaction with the lock held
  as often as before. This holds for one ident and for a list.
\<close>

theorem deletion_releases_the_lock:
  assumes "\<not> status_transaction s" "\<not> internal_transaction_disabled s"
  shows "mutex (fst (classic_delete_alert se s ident)) = mutex s \<and>
      \<not> status_transaction (fst (classic_delete_alert se s ident)) \<and>
    mutex (fst (classic_delete_heartbeat_from_list se s idents)) = mutex s \<and>
      \<not> status_transaction (fst (classic_delete_heartbeat_from_list se s idents))"
  using delete_message_balanced [OF assms]
  by (simp add: classic_delete_alert_def do_delete_alert_def classic_delete_heartbeat_from_list_def
      do_delete_heartbeat_def split_beta Let_def)

theorem deletion_releases_the_lock_witness:
  "mutex (fst (classic_delete_alert sample_strerror (session_on (sample_lib []) False False) 5)) = 0"
  using deletion_releases_the_lock [of "session_on (sample_lib []) False False" sample_strerror 5 "[]"] by simp

text \<open>
  C11: Over any sequence of queries, escapes and transaction calls in which nothing but the
  end or the abort is attempted inside a transaction whose connection is gone, the lock is
  held once more than at the start exactly while a transaction is open.
\<close>

theorem lock_follows_the_transaction:
  assumes "sql_run se s ops = Some s'"
    and "mutex s = base + (if status_transaction s then 1 else 0)"
  shows "mutex s' = base + (if status_transaction s' then 1 else 0)"
  using sql_run_balanced [OF assms(1)] assms(2) by (simp add: lock_balanced_def)

theorem lock_follows_the_transaction_witness:
  "let s' = the (sql_run sample_strerror (session_on (sample_lib []) False False)
      [Transaction_start, Query ''DELETE FROM t'' False, Escape ''x'', Transaction_abort, Transaction_start])
   in mutex s' = 0 + (if status_transaction s' then 1 else 0)"
proof -
  let ?ops = "[Transaction_start, Query ''DELETE FROM t'' False, Escape ''x'', Transaction_abort, Transaction_start]"
  have "sql_run sample_strerror (session_on (sample_lib []) False False) ?ops \<noteq> None" by code_simp
  then show ?thesis
    using lock_follows_the_transaction [of sample_strerror "session_on (sample_lib []) False False" ?ops _ 0] by auto
qed

text \<open>
  C18: A query inside a transaction whose connection was lost reconnects, which clears the
  transaction flag and keeps the lock: from then on both ends of the transaction are refused
  without releasing it. The client's remaining statements run outside any transaction.
\<close>

theorem reconnecting_strands_the_lock:
  assumes "status_transaction s" "\<not> status_connected s" "\<not> internal_transaction_disabled s"
    and "p_open (sql_plugin s) (sql_settings s) (session s) = (w, Inr ())"
    and "preludedb_sql_query s q want = (s', ret)"
  shows "\<not> status_transaction s' \<and> mutex s' = mutex s \<and>
    preludedb_sql_transaction_end s' = (s', Inl (preludedb_error PRELUDEDB_ERROR_NOT_IN_TRANSACTION)) \<and>
    preludedb_sql_transaction_abort se s' = (s', Inl (preludedb_error PRELUDEDB_ERROR_NOT_IN_TRANSACTION))"
proof -
  have "\<not> internal_transaction_disabled s'" using query_frame(4) [of s q want] assms(3,5) by simp
  then show ?thesis
    using reconnect_clears_transaction [OF assms(2,4), of q want] assms(5)
    by (simp add: preludedb_sql_transaction_end_def sql_transaction_end_ext_def
        preludedb_sql_transaction_abort_def sql_transaction_abort_ext_def)
qed

theorem reconnecting_strands_the_lock_witness:
  "mutex (fst (preludedb_sql_query (session_on (sample_lib []) False True) ''DELETE FROM t'' False)) = 1"
proof -
  let ?s = "session_on (sample_lib []) False True"
  have "p_open (sql_plugin ?s) (sql_settings ?s) (session ?s) = ((), Inr ())" by code_simp
  then show ?thesis
    using reconnecting_strands_the_lock [of ?s "()" "''DELETE FROM t''" False
        "fst (preludedb_sql_query ?s ''DELETE FROM t'' False)"
        "snd (preludedb_sql_query ?s ''DELETE FROM t'' False)"] by simp
qed

text \<open>
  C20: A client's own transaction makes the library's inner ones disappear: a deletion inside
  it adds its statements only, and the whole is one BEGIN and one COMMIT, after which the
  lock and the session's mode are as before.
\<close>

theorem client_transaction_wraps_deletion:
  assumes "status_connected s" "\<not> status_transaction s" "\<not> internal_transaction_disabled s"
    and "preludedb_transaction_start s = (s1, Inr ())"
    and "classic_delete_alert se s1 ident = (s2, Inr ())"
    and "preludedb_transaction_end s2 = (s3, ret)"
  shows "issued s3 = issued s @ ''BEGIN'' #
      map (\<lambda>q. subst_s q (ident_condition ident)) delete_alert_queries @ [''COMMIT''] \<and>
    mutex s3 = mutex s \<and> \<not> status_transaction s3 \<and> \<not> internal_transaction_disabled s3"
proof -
  have s1: "issued s1 = issued s @ [''BEGIN'']" "status_transaction s1" "internal_transaction_disabled s1"
    "status_connected s1" "mutex s1 = Suc (mutex s)"
    using transaction_start_connected [OF assms(1,2,4)] by auto
  have s2: "issued s2 = issued s1 @ map (\<lambda>q. subst_s q (ident_condition ident)) delete_alert_queries"
    "status_transaction s2" "mutex s2 = mutex s1" "status_connected s2"
    using delete_message_external [OF s1(4,3)] assms(5) s1(2)
    unfolding classic_delete_alert_def do_delete_alert_def by blast+
  show ?thesis
    using transaction_end_connected [OF s2(4,2)] assms(6) s1 s2 by simp
qed

theorem client_transaction_wraps_deletion_witness:
  "let s1 = fst (preludedb_transaction_start (session_on (sample_lib []) True False));
       s3 = fst (preludedb_transaction_end (fst (classic_delete_alert sample_strerror s1 5)))
   in mutex s3 = 0 \<and> \<not> internal_transaction_disabled s3"
proof -
  let ?s = "session_on (sample_lib []) True False"
  obtain s1 where s1: "preludedb_transaction_start ?s = (s1, Inr ())" "status_connected s1"
    "sql_plugin s1 = sqlite_plugin (sample_lib []) ''REGEXP''" "internal_transaction_disabled s1"
    using sample_query [of "lock ?s" "[]" "''REGEXP''" "''BEGIN''"]
    by (auto simp: preludedb_transaction_start_def sql_transaction_start_ext_def strncase_eq_def
        tolower_def Let_def sql_disable_internal_transaction_def)
  let ?d = "classic_delete_alert sample_strerror s1 5"
  have "snd ?d = Inr ()"
    unfolding classic_delete_alert_def do_delete_alert_def
    using alert_queries_delete s1 by (intro sample_delete_message_ok) simp_all
  then have "?d = (fst ?d, Inr ())" by (simp add: prod_eq_iff)
  then show ?thesis
    using client_transaction_wraps_deletion [of ?s s1 sample_strerror 5 "fst ?d"
        "fst (preludedb_transaction_end (fst ?d))" "snd (preludedb_transaction_end (fst ?d))"] s1(1)
    by (simp add: Let_def)
qed

section \<open>Reading results\<close>

text \<open>Client libraries that answer nothing, for sessions that only read results.\<close>

definition session_with :: "(unit, 'd) preludedb_plugin_sql \<Rightarrow> (unit, 'd) sql" where
  "session_with plugin =
     \<lparr>sql_type = [], sql_settings = Map.empty, sql_plugin = plugin, status_connected = True,
      status_transaction = False, session = (), logfile = None, internal_transaction_disabled = False,
      mutex = 0, sql_refcount = 2, thread_error = None, issued = []\<rparr>"

lemma session_with_plugin [simp]: "sql_plugin (session_with p) = p"
  by (simp add: session_with_def)

definition sample_mysql :: "unit libmysql" where
  "sample_mysql = \<lparr>my_connect = (\<lambda>vs port w. (w, \<lparr>my_code = No_errno, my_message = []\<rparr>, True)),
     my_close = (\<lambda>w. w), my_real_escape = (\<lambda>w s. double_quotes s),
     my_exec = (\<lambda>w q. (w, \<lparr>my_code = No_errno, my_message = []\<rparr>, 0, [Round None 0 (-1)])),
     my_insert_id = (\<lambda>w. (w, 1)), my_server_version = (\<lambda>w. 80000)\<rparr>"

definition sample_pq :: "unit libpq" where
  "sample_pq = \<lparr>pq_login = (\<lambda>vs w. (w, \<lparr>pg_bad = False, pg_message = None\<rparr>)), pq_finish = (\<lambda>w. w),
     pq_exec = (\<lambda>w q. (w, \<lparr>pg_bad = False, pg_message = None\<rparr>, None)),
     pq_escape_string = (\<lambda>w s. Inr (double_quotes s)), pq_escape_bytea = (\<lambda>w s. Some s),
     pq_unescape_bytea = Some, pq_fnumber = (\<lambda>r s. 0), pq_server_version = (\<lambda>w. 90000)\<rparr>"

text \<open>
  C15: With MySQL, any row of a stored result can be asked for first, and any column of it:
  the field has the bytes and the length of the cell, and a NULL cell is reported as none.
\<close>

theorem mysql_result_reads_back:
  assumes "sql_plugin s = mysql_plugin my"
    and "my_pos res = 0" "my_errno res = None" "\<forall>r \<in> set (my_rows res). length r = length (my_fields res)"
    and "i < length (my_rows res)" "length (my_rows res) < 2 ^ 32 - 1"
    and "c < length (my_fields res)" "c < 2 ^ 31"
  shows "\<exists>t t'. preludedb_sql_table_get_row s (preludedb_sql_table_new res) i = (s, t, Inr (Some i)) \<and>
    preludedb_sql_row_get_field s t i (int c) =
      (s, t', Inr (if my_rows res ! i ! c = None then None else Some c)) \<and>
    field_at t' i c = cell_slot (my_rows res ! i ! c)"
proof -
  have w: "mysql_wf res" using assms by (auto simp: mysql_wf_def)
  note h = mycur.holds_new [OF w]
  have d: "tdata (preludedb_sql_table_new res) = res" "\<not> tdone (preludedb_sql_table_new res)"
    by (simp_all add: preludedb_sql_table_new_def)
  obtain t cs ps where t: "preludedb_sql_table_get_row s (preludedb_sql_table_new res) i = (s, t, Inr (Some i))"
    "my_rows res = cs @ ps" "mycur.holds t cs" "i < length cs"
    using mycur.get_row_holds [OF mysql_serves [OF assms(1)] h, of "my_rows res" i] d assms
    by (auto simp: mysql_pending_def NEXT_ROW_def)
  have "length (cs ! i) = length (my_fields res)" using assms(4) t(2,4) by simp
  moreover have "length (cs ! i) = length (my_fields (tdata t))"
    using t(3,4) by (auto simp: mycur.holds_def mysql_good_def)
  ultimately have "c < length (my_fields (tdata t))" using assms(7) by simp
  then show ?thesis
    using mysql_get_field_holds [OF assms(1) t(3,4) _ assms(8)] t by (auto simp: nth_append)
qed

theorem mysql_result_reads_back_witness:
  "let res = \<lparr>my_fields = [''a'', ''b''], my_rows = [[Some ''1'', None], [Some ''2'', Some []]],
              my_pos = 0, my_errno = None\<rparr>
   in \<exists>t t'. preludedb_sql_table_get_row (session_with (mysql_plugin sample_mysql)) (preludedb_sql_table_new res) 1 =
        (session_with (mysql_plugin sample_mysql), t, Inr (Some 1)) \<and>
      preludedb_sql_row_get_field (session_with (mysql_plugin sample_mysql)) t 1 1 =
        (session_with (mysql_plugin sample_mysql), t', Inr (Some 1)) \<and>
      field_at t' 1 1 = Field [] 0"
  using mysql_result_reads_back [of "session_with (mysql_plugin sample_mysql)" sample_mysql
      "\<lparr>my_fields = [''a'', ''b''], my_rows = [[Some ''1'', None], [Some ''2'', Some []]],
        my_pos = 0, my_errno = None\<rparr>" 1 1]
  by (auto simp: cell_slot_def Let_def)

text \<open>
  C16: The same for PostgreSQL, where a row is read by its number without fetching the ones
  before it.
\<close>

theorem pgsql_result_reads_back:
  assumes "sql_plugin s = pgsql_plugin pq" "i < length (pg_tuples res)" "i < 2 ^ 32 - 1"
    and "c < length (pg_fields res)" "c < 2 ^ 31"
  shows "\<exists>t t'. preludedb_sql_table_get_row s (preludedb_sql_table_new res) i = (s, t, Inr (Some i)) \<and>
    preludedb_sql_row_get_field s t i (int c) =
      (s, t', Inr (if pg_tuples res ! i ! c = None then None else Some c)) \<and>
    field_at t' i c = cell_slot (pg_tuples res ! i ! c)"
proof -
  have i: "i < NEXT_ROW" using assms(3) by (simp add: NEXT_ROW_def)
  obtain t r where t: "preludedb_sql_table_get_row s (preludedb_sql_table_new res) i = (s, t, Inr (Some i))"
    "row_at t i = Some r" "row_data r = i" "row_fields r = replicate (length (pg_fields res)) Unset"
    "tdata t = res" "column_count t = 0 \<or> column_count t = length (pg_fields res)"
    using pgsql_get_row_fresh [OF assms(1,2) i] by blast
  show ?thesis
    using pgsql_get_field_fresh [OF assms(1) t(2,3), of c] t assms(4,5) by simp
qed

theorem pgsql_result_reads_back_witness:
  "let res = \<lparr>pg_fields = [''a'', ''b''], pg_tuples = [[Some ''1'', None], [Some ''2'', Some ''x'']]\<rparr>
   in \<exists>t t'. preludedb_sql_table_get_row (session_with (pgsql_plugin sample_pq)) (preludedb_sql_table_new res) 1 =
        (session_with (pgsql_plugin sample_pq), t, Inr (Some 1)) \<and>
      preludedb_sql_row_get_field (session_with (pgsql_plugin sample_pq)) t 1 1 =
        (session_with (pgsql_plugin sample_pq), t', Inr (Some 1)) \<and>
      field_at t' 1 1 = Field ''x'' 1"
  using pgsql_result_reads_back [of "session_with (pgsql_plugin sample_pq)" sample_pq 1
      "\<lparr>pg_fields = [''a'', ''b''], pg_tuples = [[Some ''1'', None], [Some ''2'', Some ''x'']]\<rparr>" 1]
  by (auto simp: cell_slot_def Let_def)

text \<open>
  C21: With SQLite, which cannot count rows in advance, asking for the row count fetches every
  row: the count is the number of rows, and the rows stay in the table in their order, a
  column without bytes standing as NULL.
\<close>

theorem sqlite_row_count_fetches_all:
  assumes "sql_plugin s = sqlite_plugin lib rx" "st_columns st \<noteq> []" "st_end st = SQLITE_DONE" "st_pos st = 0"
    and "\<forall>r \<in> set (st_rows st). length r = length (st_columns st)" "length (st_rows st) < 2 ^ 32 - 1"
  shows "\<exists>s' t. preludedb_sql_table_get_row_count s (preludedb_sql_table_new st) =
      Some (s', t, Inr (length (st_rows st))) \<and>
    (\<forall>i < length (st_rows st). \<exists>row. row_at t i = Some row \<and> row_fields row = map sqlite_slot (st_rows st ! i)) \<and>
    tdone t"
proof -
  let ?t = "preludedb_sql_table_new st"
  have w: "sqlite_wf st" using assms by (auto simp: sqlite_wf_def)
  let ?e = "PRELUDEDB_ENOTSUP ''get_row_count''"
  have pl: "sql_plugin (note_error ?e s) = sqlite_plugin lib rx"
    using assms(1) by (simp add: note_error_def PRELUDEDB_ENOTSUP_def preludedb_error_verbose_def)
  have d: "tdata ?t = st" "\<not> tdone ?t" "row_count ?t = 0" by (simp_all add: preludedb_sql_table_new_def)
  obtain t where t: "fetch_all_rows (note_error ?e s) ?t = Some (note_error ?e s, t)"
    "litecur.holds t (st_rows st)" "tdone t"
    using litecur.fetch_all_holds [OF sqlite_serves [OF pl] litecur.holds_new [OF w], of "st_rows st"] d assms
    by (auto simp: sqlite_pending_def)
  have c: "plugin_sql_get_row_count (sql_plugin s) st = Inl ?e"
    using assms(1) by (simp add: plugin_sql_get_row_count_def sqlite_plugin_def)
  have n: "nrow t = length (st_rows st)" using t(2) by (simp add: litecur.holds_def)
  have r: "preludedb_sql_table_get_row_count s ?t =
      Some (note_error ?e s, t\<lparr>row_count := nrow t\<rparr>, Inr (nrow t))"
    using c t d by (simp add: preludedb_sql_table_get_row_count_def PRELUDEDB_ENOTSUP_def
        preludedb_error_verbose_def)
  show ?thesis
    unfolding r using n t(2,3) by (auto simp: litecur.holds_def sqlite_good_def)
qed

theorem sqlite_row_count_fetches_all_witness:
  "let st = \<lparr>st_columns = [''a'', ''b''], st_rows = [[''1'', ''x''], [''2'', []]], st_pos = 0, st_end = SQLITE_DONE\<rparr>
   in \<exists>s' t. preludedb_sql_table_get_row_count (session_on (sample_lib []) True False) (preludedb_sql_table_new st) =
      Some (s', t, Inr 2)"
  using sqlite_row_count_fetches_all [of "session_on (sample_lib []) True False" "sample_lib []" "''REGEXP''"
      "\<lparr>st_columns = [''a'', ''b''], st_rows = [[''1'', ''x''], [''2'', []]], st_pos = 0, st_end = SQLITE_DONE\<rparr>"]
  by (auto simp: Let_def)

text \<open>
  C17: With SQLite any row and column can be asked for as well, but a column that holds the
  empty string cannot be told from NULL: asking for the field says that there is none, where
  the other backends return it.
\<close>

theorem sqlite_result_reads_back:
  assumes "sql_plugin s = sqlite_plugin lib rx" "st_end st = SQLITE_DONE" "st_pos st = 0"
    and "\<forall>r \<in> set (st_rows st). length r = length (st_columns st)" "length (st_rows st) < 2 ^ 32 - 1"
    and "i < length (st_rows st)" "c < length (st_columns st)" "c < 2 ^ 31"
  shows "\<exists>t t'. preludedb_sql_table_get_row s (preludedb_sql_table_new st) i = (s, t, Inr (Some i)) \<and>
    preludedb_sql_row_get_field s t i (int c) =
      (s, t', Inr (if st_rows st ! i ! c = [] then None else Some c)) \<and>
    field_at t' i c = sqlite_slot (st_rows st ! i ! c)"
proof -
  have w: "sqlite_wf st" using assms by (auto simp: sqlite_wf_def)
  have d: "tdata (preludedb_sql_table_new st) = st" "\<not> tdone (preludedb_sql_table_new st)"
    by (simp_all add: preludedb_sql_table_new_def)
  obtain t cs ps where t: "preludedb_sql_table_get_row s (preludedb_sql_table_new st) i = (s, t, Inr (Some i))"
    "st_rows st = cs @ ps" "litecur.holds t cs" "i < length cs"
    using litecur.get_row_holds [OF sqlite_serves [OF assms(1)] litecur.holds_new [OF w], of "st_rows st" i]
      d assms by (auto simp: sqlite_pending_def NEXT_ROW_def)
  have "length (cs ! i) = length (st_columns st)" using assms(4) t(2,4) by simp
  moreover have "length (cs ! i) = length (st_columns (tdata t))"
    using t(3,4) by (auto simp: litecur.holds_def sqlite_good_def)
  ultimately have "c < length (st_columns (tdata t))" using assms(7) by simp
  then show ?thesis
    using sqlite_get_field_holds [OF assms(1) t(3,4) _ assms(8)] t by (auto simp: nth_append)
qed

theorem sqlite_result_reads_back_witness:
  "let s = session_on (sample_lib []) True False;
       st = \<lparr>st_columns = [''a'', ''b''], st_rows = [[''1'', ''x''], [''2'', []]], st_pos = 0, st_end = SQLITE_DONE\<rparr>
   in \<exists>t t'. preludedb_sql_table_get_row s (preludedb_sql_table_new st) 1 = (s, t, Inr (Some 1)) \<and>
      preludedb_sql_row_get_field s t 1 1 = (s, t', Inr None)"
  using sqlite_result_reads_back [of "session_on (sample_lib []) True False" "sample_lib []" "''REGEXP''"
      "\<lparr>st_columns = [''a'', ''b''], st_rows = [[''1'', ''x''], [''2'', []]], st_pos = 0, st_end = SQLITE_DONE\<rparr>" 1 1]
  by (auto simp: Let_def)



text \<open>
  C23: A negative column counts from the last one. A column outside the result on either side
  is an error, but one that does not compare as PRELUDEDB_ERROR_INDEX: it is made by
  libprelude's constructor, whose error source is another one.
\<close>

theorem columns_count_from_both_ends:
  assumes "preludedb_sql_table_get_column_count (p_get_column_count (sql_plugin s)) t = (t1, n)"
    and "n < 2 ^ 31" "- (2 ^ 31) < k" "k < 2 ^ 31"
  shows "(- int n \<le> k \<and> k < 0 \<longrightarrow>
      preludedb_sql_row_get_field s t i k = preludedb_sql_row_get_field s t i (int n + k)) \<and>
    (k < - int n \<or> int n \<le> k \<longrightarrow>
      (\<exists>e. snd (snd (preludedb_sql_row_get_field s t i k)) = Inl e \<and>
        \<not> preludedb_error_check e PRELUDEDB_ERROR_INDEX))"
proof (intro conjI impI)
  assume k: "- int n \<le> k \<and> k < 0"
  then show "preludedb_sql_row_get_field s t i k = preludedb_sql_row_get_field s t i (int n + k)"
    using assms by (simp add: preludedb_sql_row_get_field_def column_index_def)
next
  assume k: "k < - int n \<or> int n \<le> k"
  have "n \<le> column_index n k"
  proof (cases "k < 0")
    case True
    then have "(int n + k) mod 2 ^ 32 = int n + k + 2 ^ 32"
      using k assms by (intro int_mod_pos_eq [where b = "2 ^ 32" and q = "-1"]) auto
    then show ?thesis using True k assms by (simp add: column_index_def)
  next
    case False
    then show ?thesis using k assms by (simp add: column_index_def)
  qed
  then show "\<exists>e. snd (snd (preludedb_sql_row_get_field s t i k)) = Inl e \<and>
      \<not> preludedb_error_check e PRELUDEDB_ERROR_INDEX"
    using assms by (simp add: preludedb_sql_row_get_field_def Let_def)
qed

theorem columns_count_from_both_ends_witness:
  "let s = session_with (pgsql_plugin sample_pq);
       t = preludedb_sql_table_new \<lparr>pg_fields = [''a'', ''b''], pg_tuples = []\<rparr>
   in preludedb_sql_row_get_field s t 0 (-1) = preludedb_sql_row_get_field s t 0 1"
  using columns_count_from_both_ends [of "session_with (pgsql_plugin sample_pq)"
      "preludedb_sql_table_new \<lparr>pg_fields = [''a'', ''b''], pg_tuples = []\<rparr>" _ 2 "-1" 0]
  by (simp add: Let_def preludedb_sql_table_get_column_count_def preludedb_sql_table_new_def
      pgsql_plugin_def pgsql_get_column_count_def)

section \<open>Tables\<close>

text \<open>
  C24: Over any sequence of legal reference and release calls on a table and its rows, the
  table's counter is the number of its clients plus the rows that clients hold, and a row's
  counter is one more than its clients. The table is freed with the last reference to it or
  to one of its rows, not before and not later, and no row outlives it.
\<close>

theorem table_references_are_exact:
  assumes "table_run (Live t) ext rext ops = Some (st', ext', rext')"
    and "counts_ok t ext rext" "0 < refcount t"
  shows "case st' of
      Live t' \<Rightarrow> unat (refcount t') = ext' + card (held_rows t' rext') \<and>
        (\<forall>i row. row_at t' i = Some row \<longrightarrow> unat (row_refcount row) = 1 + rext' i) \<and>
        (0 < ext' \<or> (\<exists>i. row_at t' i \<noteq> None \<and> 0 < rext' i))
    | Freed d \<Rightarrow> d = [] \<and> ext' = 0 \<and> (\<forall>i. rext' i = 0)"
  using table_run_ok [OF assms(1)] assms(2,3) state_ok_held [of _ ext' rext']
  by (cases st') (auto simp: counts_ok_def)

theorem table_references_are_exact_witness:
  "let t = \<lparr>tdata = (), rows = [Some \<lparr>row_data = 0, row_refcount = 1, row_fields = []\<rparr>], row_count = 0,
            column_count = 0, refcount = 1, tdone = False\<rparr>
   in \<exists>ext' rext'. table_run (Live t) 1 (\<lambda>i. 0) [Row_ref 0, Row_ref 0, Table_destroy, Row_destroy 0, Row_destroy 0] =
        Some (Freed [], ext', rext') \<and> ext' = 0"
proof -
  let ?t = "\<lparr>tdata = (), rows = [Some \<lparr>row_data = 0, row_refcount = 1, row_fields = []\<rparr>], row_count = 0,
            column_count = 0, refcount = 1, tdone = False\<rparr>"
  let ?ops = "[Row_ref 0, Row_ref 0, Table_destroy, Row_destroy 0, Row_destroy 0]"
  have "map_option fst (table_run (Live ?t) 1 (\<lambda>i. 0) ?ops) = Some (Freed [])"
    by (simp add: row_at_def nrow_def preludedb_sql_row_ref_def preludedb_sql_table_ref_def set_row_def
        preludedb_sql_row_destroy_def preludedb_sql_table_destroy_def surviving_rows_def Let_def)
  then obtain ext' rext' where r: "table_run (Live ?t) 1 (\<lambda>i. 0) ?ops = Some (Freed [], ext', rext')"
    by auto
  have "counts_ok ?t 1 (\<lambda>i. 0)"
    by (auto simp: counts_ok_def held_rows_def row_at_def nrow_def split: if_splits)
  then show ?thesis using table_references_are_exact [OF r] r by (auto simp: Let_def)
qed

text \<open>
  C25: The table's counter has 16 bits: a table that was referenced \<open>2 ^ 16\<close> times more than
  it was created is freed by the first release, with every other reference still held.
\<close>

theorem table_reference_counter_wraps:
  "preludedb_sql_table_destroy ((preludedb_sql_table_ref ^^ (2 ^ 16)) (preludedb_sql_table_new d)) = Freed []"
  unfolding table_ref_wraps
  by (simp add: preludedb_sql_table_destroy_def preludedb_sql_table_new_def surviving_rows_def nrow_def)

section \<open>Settings\<close>

text \<open>
  C26: A settings string of quoted pairs with a blank behind each is read back exactly: every
  value, whatever it contains, is the one written, and a later pair wins over an earlier one
  of its name. The accessors give the pair of their key.
\<close>

theorem settings_round_trip:
  assumes "\<forall>(n, v) \<in> set kvs. valid_name n"
  shows "preludedb_sql_settings_new_from_string (settings_text kvs) = Inr (map_of (rev kvs)) \<and>
    settings_get_key k (map_of (rev kvs)) =
      (case map_of (rev kvs) (setting_string k) of Some v \<Rightarrow> Some v | None \<Rightarrow> setting_default k)"
  using set_from_string_settings_text [OF assms, of "[]" Map.empty]
  by (simp add: preludedb_sql_settings_new_from_string_def preludedb_sql_settings_new_def
      settings_get_key_def preludedb_sql_settings_get_def)

theorem settings_round_trip_witness:
  "preludedb_sql_settings_new_from_string (settings_text [(''user'', ''a''), (''pass'', CHR 0x22 # '' x= ''), (''user'', ''b'')]) =
     Inr (map_of [(''user'', ''b''), (''pass'', CHR 0x22 # '' x= ''), (''user'', ''a'')])"
  using settings_round_trip [of "[(''user'', ''a''), (''pass'', CHR 0x22 # '' x= ''), (''user'', ''b'')]" SQL_SETTING_USER]
  by (simp add: valid_name_def name_char_def isalnum_def isalpha_def isdigit_def)

text \<open>
  C27: A string that ends with the closing quote of its last value is rejected, however well
  formed it is: the reader takes the end of the string for a missing quote.
\<close>

theorem quoted_value_at_the_end_rejected:
  assumes "\<forall>(n, v) \<in> set kvs. valid_name n" "valid_name n"
  shows "preludedb_sql_settings_new_from_string (settings_text kvs @ setting_pair n v) =
    Inl (preludedb_error PRELUDEDB_ERROR_INVALID_SETTINGS_STRING)"
proof -
  have "snd (preludedb_sql_settings_set_from_string m (sp @ settings_text kvs @ setting_pair n v)) =
      Inl (preludedb_error PRELUDEDB_ERROR_INVALID_SETTINGS_STRING)" if "sp = [] \<or> sp = '' ''" for m sp
    using set_from_string_quote_at_end [OF assms that] by simp
  from this [of "[]" preludedb_sql_settings_new] show ?thesis
    by (auto simp: preludedb_sql_settings_new_from_string_def split: prod.splits sum.splits)
qed

theorem quoted_value_at_the_end_rejected_witness:
  "preludedb_sql_settings_new_from_string (''type='' @ CHR 0x22 # ''mysql'' @ [CHR 0x22]) =
     Inl (preludedb_error PRELUDEDB_ERROR_INVALID_SETTINGS_STRING)"
  using quoted_value_at_the_end_rejected [of "[]" "''type''" "''mysql''"]
  by (simp add: valid_name_def name_char_def isalnum_def isalpha_def isdigit_def settings_text_def
      setting_pair_def quote_value_def esc_char_def)

section \<open>Fields and errors\<close>

text \<open>
  C28: Each of the eight integer conversions accepts the decimal text of a number exactly when
  the number fits the type, and returns it; any other number is an invalid value.
\<close>

theorem integer_conversions_are_exact:
  "preludedb_sql_field_to_int8 \<lparr>fvalue = dec_int i, flen = l, findex = c\<rparr> =
     (if -128 \<le> i \<and> i \<le> 127 then Inr i else Inl (preludedb_error PRELUDEDB_ERROR_INVALID_VALUE)) \<and>
   preludedb_sql_field_to_uint8 \<lparr>fvalue = dec_int i, flen = l, findex = c\<rparr> =
     (if 0 \<le> i \<and> i \<le> 255 then Inr i else Inl (preludedb_error PRELUDEDB_ERROR_INVALID_VALUE)) \<and>
   preludedb_sql_field_to_int16 \<lparr>fvalue = dec_int i, flen = l, findex = c\<rparr> =
     (if -32768 \<le> i \<and> i \<le> 32767 then Inr i else Inl (preludedb_error PRELUDEDB_ERROR_INVALID_VALUE)) \<and>
   preludedb_sql_field_to_uint16 \<lparr>fvalue = dec_int i, flen = l, findex = c\<rparr> =
     (if 0 \<le> i \<and> i \<le> 65535 then Inr i else Inl (preludedb_error PRELUDEDB_ERROR_INVALID_VALUE)) \<and>
   preludedb_sql_field_to_int32 \<lparr>fvalue = dec_int i, flen = l, findex = c\<rparr> =
     (if - (2 ^ 31) \<le> i \<and> i \<le> 2 ^ 31 - 1 then Inr i else Inl (preludedb_error PRELUDEDB_ERROR_INVALID_VALUE)) \<and>
   preludedb_sql_field_to_uint32 \<lparr>fvalue = dec_int i, flen = l, findex = c\<rparr> =
     (if 0 \<le> i \<and> i \<le> 2 ^ 32 - 1 then Inr i else Inl (preludedb_error PRELUDEDB_ERROR_INVALID_VALUE)) \<and>
   preludedb_sql_field_to_int64 \<lparr>fvalue = dec_int i, flen = l, findex = c\<rparr> =
     (if - (2 ^ 63) \<le> i \<and> i \<le> 2 ^ 63 - 1 then Inr i else Inl (preludedb_error PRELUDEDB_ERROR_INVALID_VALUE)) \<and>
   preludedb_sql_field_to_uint64 \<lparr>fvalue = dec_int i, flen = l, findex = c\<rparr> =
     (if 0 \<le> i \<and> i \<le> 2 ^ 64 - 1 then Inr i else Inl (preludedb_error PRELUDEDB_ERROR_INVALID_VALUE))"
  by (simp add: field_conversions field_to_signed_dec_int field_to_unsigned_dec_int)

text \<open>
  C29: The unsigned conversions reject a leading minus sign but not one behind a blank, which
  then reaches \<open>strtoul\<close>: the text of a negative number comes back as a huge positive one.
\<close>

theorem negative_number_behind_a_blank_accepted:
  assumes "sp \<noteq> []" "\<forall>c \<in> set sp. isspace c" "0 < n" "n < 2 ^ 64"
  shows "preludedb_sql_field_to_uint64 \<lparr>fvalue = sp @ dec_int (- n), flen = l, findex = c\<rparr> = Inr (2 ^ 64 - n) \<and>
    preludedb_sql_field_to_uint64 \<lparr>fvalue = dec_int (- n), flen = l, findex = c\<rparr> =
      Inl (preludedb_error PRELUDEDB_ERROR_INVALID_VALUE)"
  using field_to_unsigned_blank_negative [OF assms(1-3), of 64] field_to_unsigned_dec_int [of 64 "- n"] assms(3,4)
  by (simp add: preludedb_sql_field_to_uint64_def)

theorem negative_number_behind_a_blank_accepted_witness:
  "preludedb_sql_field_to_uint64 \<lparr>fvalue = '' '' @ dec_int (- 1), flen = 3, findex = 0\<rparr> = Inr (2 ^ 64 - 1)"
  using negative_number_behind_a_blank_accepted [of "'' ''" 1 3 0] by (simp add: isspace_def)


section \<open>Escaping\<close>

text \<open>
  C31: A backend without its own binary escape, SQLite here, gets a hexadecimal literal, from
  which every byte string is read back whatever follows the literal, as long as it is not a
  quote.
\<close>

theorem binary_literal_round_trip:
  assumes "status_connected s" "sql_plugin s = sqlite_plugin lib rx" "length input < 2 ^ 62" "no_quote rest"
  shows "\<exists>s' lit. preludedb_sql_escape_binary s (Some input) = (s', Inr lit) \<and>
    read_hex_literal (lit @ rest) = Some (input, rest)"
proof -
  have "p_escape_binary (sql_plugin s) = None" using assms(2) by (simp add: sqlite_plugin_def)
  then have "plugin_sql_escape_binary (sql_plugin (lock s)) (session (lock s)) input = Inr (hex_literal input)"
    using default_escape_is_hex_literal [OF _ assms(3)] by simp
  then show ?thesis
    using assms(1,4) by (auto simp: preludedb_sql_escape_binary_def sql_escape_with_def assert_connected_def
        hexlit.rd_lit)
qed

theorem binary_literal_round_trip_witness:
  "\<exists>lit. snd (preludedb_sql_escape_binary (session_on (sample_lib []) True False) (Some [CHR 0x00, CHR 0x27])) = Inr lit \<and>
    read_hex_literal (lit @ '')'') = Some ([CHR 0x00, CHR 0x27], '')'')"
  using binary_literal_round_trip [of "session_on (sample_lib []) True False" "sample_lib []" "''REGEXP''"
      "[CHR 0x00, CHR 0x27]" "'')''"] by auto

text \<open>
  C32: What SQLite's escape makes of a C string, given that \<open>%q\<close> doubles quotes as documented,
  is a literal from which the string is read back: no value ends its literal early.
\<close>

theorem sqlite_literal_round_trip:
  assumes "status_connected s" "sql_plugin s = sqlite_plugin lib rx" "lite_quote lib = double_quotes"
    and "CHR 0x00 \<notin> set input" "no_quote rest"
  shows "\<exists>s' lit. preludedb_sql_escape s (Some input) = (s', Inr lit) \<and>
    read_quoted_literal (lit @ rest) = Some (input, rest)"
  using sqlite_escape_is_quoted_literal [OF assms(1-4)] quolit.rd_lit [OF assms(5)] by auto

theorem sqlite_literal_round_trip_witness:
  "\<exists>lit. snd (preludedb_sql_escape (session_on (sample_lib []) True False) (Some [CHR 0x27, CHR '';''])) = Inr lit \<and>
    read_quoted_literal (lit @ '')'') = Some ([CHR 0x27, CHR '';''], '')'')"
  using sqlite_literal_round_trip [of "session_on (sample_lib []) True False" "sample_lib []" "''REGEXP''"
      "[CHR 0x27, CHR '';'']" "'')''"] by auto

text \<open>
  C7: An INSERT whose values were escaped sends one statement, and its value list is read
  back as exactly the strings that were escaped: nothing in a value changes the statement.
\<close>

theorem insert_values_round_trip:
  assumes "status_connected s" "sql_plugin s = sqlite_plugin lib rx" "lite_quote lib = double_quotes"
    and "\<forall>x \<in> set xs. CHR 0x00 \<notin> set x \<and> snd (preludedb_sql_escape s (Some x)) = Inr (esc x)"
  shows "issued (fst (preludedb_sql_insert s table columns (join_sep '', '' (map esc xs)))) =
      issued s @ [''INSERT INTO '' @ table @ '' ('' @ columns @ '') VALUES('' @ join_sep '', '' (map esc xs) @ '')''] \<and>
    read_list read_quoted_literal (length xs) (join_sep '', '' (map esc xs) @ '')'') = Some (xs, '')'')"
proof -
  have e: "map esc xs = map quoted_literal xs"
    using assms(4) sqlite_escape_is_quoted_literal [OF assms(1-3)] by fastforce
  show ?thesis
    using query_connected(2) [OF assms(1)] quolit.read_list_join [of "'')''" xs]
    unfolding preludedb_sql_insert_def e by simp
qed

theorem insert_values_round_trip_witness:
  "read_list read_quoted_literal 2 (join_sep '', '' (map quoted_literal [[CHR 0x27], ''b'']) @ '')'') =
     Some ([[CHR 0x27], ''b''], '')'')"
proof -
  let ?s = "session_on (sample_lib []) True False"
  have "\<forall>x \<in> set [[CHR 0x27], ''b'']. CHR 0x00 \<notin> set x \<and>
      snd (preludedb_sql_escape ?s (Some x)) = Inr (quoted_literal x)"
    using sqlite_escape_is_quoted_literal [of ?s "sample_lib []" "''REGEXP''" "[CHR 0x27]"]
      sqlite_escape_is_quoted_literal [of ?s "sample_lib []" "''REGEXP''" "''b''"] by auto
  then show ?thesis
    using insert_values_round_trip [of ?s "sample_lib []" "''REGEXP''" "[[CHR 0x27], ''b'']" quoted_literal]
    by (simp add: numeral_2_eq_2)
qed

section \<open>Criteria\<close>




text \<open>
  C34: On every backend, a criterion becomes the text of a NULL test, or of the comparison
  that the backend builds for the field and the escaped value, appended to what was there;
  a negated operator also lets the rows through whose field is NULL.
\<close>

theorem criterion_has_null_clause:
  assumes "sql_backend (sql_plugin s)"
  shows "snd (preludedb_sql_build_criterion_string lib s out field oper v) =
    (if oper = OPERATOR_NULL then Inr (out @ field @ '' IS NULL'')
     else if oper = OPERATOR_NOT_NULL then Inr (out @ field @ '' IS NOT NULL'')
     else map_sum id (\<lambda>cmp. if op_not oper then out @ ''('' @ field @ '' IS NULL OR '' @ cmp @ '')'' else out @ cmp)
       (snd (build_criterion_value lib s [] field oper v)))"
  by (rule sql_backend.criterion_string_shape [OF assms refl])

definition sample_idmef :: idmef_lib where
  "sample_idmef = \<lparr>value_to_string = (\<lambda>v. Inr ''admin''), gmtime = (\<lambda>t. None), timegm = (\<lambda>t. 0)\<rparr>"

theorem criterion_has_null_clause_witness:
  "snd (preludedb_sql_build_criterion_string sample_idmef (session_on (sample_lib []) True False) ''WHERE '' ''t0.name''
     OPERATOR_NOT_EQUAL (Criterion_value (Value_other 0))) =
   map_sum id (\<lambda>cmp. ''WHERE (t0.name IS NULL OR '' @ cmp @ '')'')
     (snd (build_criterion_value sample_idmef (session_on (sample_lib []) True False) [] ''t0.name''
       OPERATOR_NOT_EQUAL (Criterion_value (Value_other 0))))"
  using criterion_has_null_clause [of "session_on (sample_lib []) True False" sample_idmef "''WHERE ''"
      "''t0.name''" OPERATOR_NOT_EQUAL "Criterion_value (Value_other 0)"]
  by (simp add: lite_backend.sql_backend_axioms op_not_def)

text \<open>
  C35: On every backend, a broken-down time compared for equality becomes the AND of one
  condition for each of its parts that is set, in the order of the table.
\<close>

theorem broken_down_time_is_conjunction:
  assumes "sql_backend plugin"
    and "\<And>ty v. (ty, v) \<in> set (set_constraints lt) \<Longrightarrow>
      plugin_sql_build_time_constraint_string plugin [] field ty OPERATOR_EQUAL v 0 = Inr (txt ty v)"
  shows "build_criterion_broken_down_time plugin out field OPERATOR_EQUAL lt =
      Inr (out @ join_sep '' AND '' (map (\<lambda>(ty, v). txt ty v) (set_constraints lt))) \<and>
    build_criterion_broken_down_time plugin out field OPERATOR_NOT_EQUAL lt =
      Inr (out @ ''NOT('' @ join_sep '' AND '' (map (\<lambda>(ty, v). txt ty v) (set_constraints lt)) @ '')'')"
proof -
  have "build_criterion_broken_down_time_equal plugin o' field OPERATOR_EQUAL lt =
      Inr (o' @ join_sep '' AND '' (map (\<lambda>(ty, v). txt ty v) (set_constraints lt)))" for o'
    unfolding build_criterion_broken_down_time_equal_def set_constraints_def
    by (rule sql_backend.loop_joins [OF assms(1)]) (use assms(2) in \<open>auto simp: set_constraints_def\<close>)
  then show ?thesis
    by (simp add: build_criterion_broken_down_time_def build_criterion_broken_down_time_not_equal_def)
qed

definition sample_time :: tm where
  "sample_time = \<lparr>tm_sec = -1, tm_min = -1, tm_hour = 8, tm_mday = -1, tm_mon = -1, tm_year = 112,
     tm_wday = -1, tm_yday = -1\<rparr>"

theorem broken_down_time_is_conjunction_witness:
  "build_criterion_broken_down_time (sqlite_plugin (sample_lib []) ''REGEXP'') [] ''t'' OPERATOR_EQUAL sample_time =
     Inr (join_sep '' AND '' [strftime_call (CHR ''Y'') ''t'' @ '' + 0 = '' @ dec_int 2012,
       strftime_call (CHR ''H'') ''t'' @ '' + 0 = '' @ dec_int 8])"
proof -
  have set: "set_constraints sample_time = [(TIME_CONSTRAINT_YEAR, 2012), (TIME_CONSTRAINT_HOUR, 8)]"
    by (simp add: set_constraints_def time_constraints_def sample_time_def)
  let ?txt = "\<lambda>ty v. strftime_call (if ty = TIME_CONSTRAINT_YEAR then CHR ''Y'' else CHR ''H'') ''t'' @
      '' + 0 = '' @ dec_int v"
  have h: "plugin_sql_build_time_constraint_string (sqlite_plugin (sample_lib []) ''REGEXP'') [] ''t'' ty
      OPERATOR_EQUAL v 0 = Inr (?txt ty v)" if "(ty, v) \<in> set (set_constraints sample_time)" for ty v
    using that set by (auto simp: backend_dispatch sqlite_plugin_def sqlite_build_time_constraint_string_def
        sqlite_build_time_extract_string_def sqlite_time_buf_def sqlite_get_operator_string_def
        sqlite_operator_table_def)
  have "build_criterion_broken_down_time (sqlite_plugin (sample_lib []) ''REGEXP'') [] ''t'' OPERATOR_EQUAL sample_time =
      Inr ([] @ join_sep '' AND '' (map (\<lambda>(ty, v). ?txt ty v) (set_constraints sample_time)))"
    by (rule broken_down_time_is_conjunction [OF lite_backend.sql_backend_axioms h, THEN conjunct1])
  then show ?thesis using set by simp
qed

text \<open>
  C6: On every backend, the text of a criteria tree is a condition that SQL's precedence
  reads as the tree means, whatever each criterion means: the AND and OR branches keep
  their grouping, every criterion of the tree occurs once and in order with the text built
  for it, and no other reading of the condition exists.
\<close>

theorem criteria_text_means_the_tree:
  assumes "sql_backend (sql_plugin s)"
    and "classic_path_resolve_criteria lib il s join c out = (s', join', Inr out')"
  shows "\<exists>txts. out' = out @ fill_tokens (criteria_tokens c) txts \<and>
    list_all2 (criterion_text lib il (sql_plugin s)) (token_atoms (criteria_tokens c)) txts \<and>
    (\<forall>ev b rest. reads_or (\<lambda>(p, oper, v). ev p oper v) (criteria_tokens c) b rest \<longleftrightarrow>
      b = criteria_holds ev c \<and> rest = [])"
proof -
  obtain txts where "out' = out @ fill_tokens (criteria_tokens c) txts"
    "list_all2 (criterion_text lib il (sql_plugin s)) (token_atoms (criteria_tokens c)) txts"
    using sql_backend.criteria_appends [OF assms(1) refl assms(2)] by blast
  moreover have "reads_or (\<lambda>(p, oper, v). ev p oper v) (criteria_tokens c) b rest \<longleftrightarrow>
      b = criteria_holds ev c \<and> rest = []" for ev b rest
    using reads_or_criteria [of ev c] reads_det(1) [OF reads_or_criteria [of ev c], of b rest] by blast
  ultimately show ?thesis by blast
qed

definition sample_paths :: path_lib where
  "sample_paths = \<lparr>path_compare = (=), path_ncompare = (\<lambda>p q n. take n (path_elems p) = take n (path_elems q))\<rparr>"

definition sample_path :: idmef_path where
  "sample_path = \<lparr>path_elems = [\<lparr>pe_name = ''alert'', pe_class = ''alert'', pe_index = Index_forbidden\<rparr>,
     \<lparr>pe_name = ''messageid'', pe_class = [], pe_index = Index_forbidden\<rparr>], path_type = VALUE_TYPE_STRING\<rparr>"

abbreviation sample_criterion :: "criterion_operator \<Rightarrow> idmef_criteria option \<Rightarrow> idmef_criteria" where
  "sample_criterion oper or_c \<equiv>
     Criteria sample_path oper (Criterion_value (Value_other 0)) or_c None"

theorem criteria_text_means_the_tree_witness:
  "\<exists>txts. ''WHERE ((top_table.messageid IS NULL) OR (top_table.messageid IS NOT NULL))'' =
      ''WHERE '' @ fill_tokens (criteria_tokens (sample_criterion OPERATOR_NULL
        (Some (sample_criterion OPERATOR_NOT_NULL None)))) txts \<and>
    list_all2 (criterion_text sample_paths sample_idmef (sqlite_plugin (sample_lib []) ''REGEXP''))
      (token_atoms (criteria_tokens (sample_criterion OPERATOR_NULL
        (Some (sample_criterion OPERATOR_NOT_NULL None))))) txts \<and>
    (\<forall>ev b rest. reads_or (\<lambda>(p, oper, v). ev p oper v) (criteria_tokens (sample_criterion OPERATOR_NULL
        (Some (sample_criterion OPERATOR_NOT_NULL None)))) b rest \<longleftrightarrow>
      b = criteria_holds ev (sample_criterion OPERATOR_NULL (Some (sample_criterion OPERATOR_NOT_NULL None))) \<and>
      rest = [])"
proof -
  let ?s = "session_on (sample_lib []) True False"
  have be: "sql_backend (sql_plugin ?s)" by (simp add: lite_backend.sql_backend_axioms)
  have ctx: "classic_path_resolve_ctx lib sample_path ctx join [] = (join, Inr ''top_table.messageid'')" for lib ctx join
    by (simp add: classic_path_resolve_ctx_def sample_path_def path_depth_def default_field_name_resolver_def
        path_leaf_def path_name_def)
  have "classic_path_resolve_criteria sample_paths sample_idmef ?s classic_sql_join_new
      (sample_criterion OPERATOR_NULL (Some (sample_criterion OPERATOR_NOT_NULL None))) ''WHERE '' =
      (?s, classic_sql_join_new, Inr ''WHERE ((top_table.messageid IS NULL) OR (top_table.messageid IS NOT NULL))'')"
    by (simp add: classic_path_resolve_criterion_def ctx preludedb_sql_build_criterion_string_def
        lite_backend.op_null lite_backend.op_not_null)
  from criteria_text_means_the_tree [OF be this] show ?thesis by (simp only: session_on_simps)
qed



text \<open>
  C37: A time written as an SQL timestamp and read back is the same time, when the conversion
  between seconds and broken-down time is invertible and the text fits its buffer. The reader
  sees the text without its quotes, as a database returns it.
\<close>

theorem timestamp_round_trip:
  assumes "p_build_timestamp_string plugin = None"
    and "gmtime lib (time_sec t) = Some utc" "length (timestamp_text utc) + 2 < n"
    and "timegm lib \<lparr>tm_sec = tm_sec utc, tm_min = tm_min utc, tm_hour = tm_hour utc, tm_mday = tm_mday utc,
      tm_mon = tm_mon utc, tm_year = tm_year utc, tm_wday = 0, tm_yday = 0\<rparr> = time_sec t"
  shows "\<exists>txt. preludedb_sql_time_to_timestamp plugin lib (Some t) n None None =
      Inr (CHR 0x27 # txt @ [CHR 0x27], None, None) \<and>
    preludedb_sql_time_from_timestamp lib txt (time_gmtoff t) (time_usec t) = Inr t"
  using assms
  by (intro exI [of _ "timestamp_text utc"])
    (simp add: preludedb_sql_time_to_timestamp_def default_timestamp preludedb_sql_time_from_timestamp_def
      scan_timestamp_text)

definition epoch :: tm where
  "epoch = \<lparr>tm_sec = 0, tm_min = 0, tm_hour = 0, tm_mday = 1, tm_mon = 0, tm_year = 70, tm_wday = 4, tm_yday = 0\<rparr>"

definition epoch_idmef :: idmef_lib where
  "epoch_idmef = \<lparr>value_to_string = (\<lambda>v. Inr []), gmtime = (\<lambda>t. if t = 0 then Some epoch else None),
     timegm = (\<lambda>t. 0)\<rparr>"

theorem timestamp_round_trip_witness:
  "\<exists>txt. preludedb_sql_time_to_timestamp (sqlite_plugin (sample_lib []) ''REGEXP'') epoch_idmef
      (Some \<lparr>time_sec = 0, time_usec = 5, time_gmtoff = 3600\<rparr>) 128 None None =
      Inr (CHR 0x27 # txt @ [CHR 0x27], None, None) \<and>
    preludedb_sql_time_from_timestamp epoch_idmef txt 3600 5 =
      Inr \<lparr>time_sec = 0, time_usec = 5, time_gmtoff = 3600\<rparr>"
proof -
  have len: "length (timestamp_text epoch) + 2 < 128" by code_simp
  show ?thesis
    using timestamp_round_trip [of "sqlite_plugin (sample_lib []) ''REGEXP''" epoch_idmef
        "\<lparr>time_sec = 0, time_usec = 5, time_gmtoff = 3600\<rparr>" epoch 128] len
    by (simp add: sqlite_plugin_def epoch_idmef_def)
qed

section \<open>Insertion\<close>

text \<open>
  C3: Inserting a message on a live connection that its backend keeps, outside a
  transaction, sends the database one transaction and nothing else: BEGIN, only INSERTs into
  the format's tables and the question for the last ident, and then COMMIT, or ROLLBACK with
  an error, or nothing but a BEGIN that failed. The lock and the transaction flag are as before.
\<close>

theorem insertion_is_one_transaction:
  assumes "status_connected s" "connection_kept (sql_plugin s)"
    and "\<not> status_transaction s" "\<not> internal_transaction_disabled s"
  shows "mutex (fst (classic_insert se codec (Some message) s)) = mutex s \<and>
    \<not> status_transaction (fst (classic_insert se codec (Some message) s)) \<and>
    (\<exists>qs. (\<forall>q \<in> set qs. insertion_query q) \<and>
      (issued (fst (classic_insert se codec (Some message) s)) = issued s @ [''BEGIN''] \<and>
         \<not> is_ok (snd (classic_insert se codec (Some message) s)) \<or>
       issued (fst (classic_insert se codec (Some message) s)) = issued s @ ''BEGIN'' # qs @ [''COMMIT''] \<or>
       issued (fst (classic_insert se codec (Some message) s)) = issued s @ ''BEGIN'' # qs @ [''ROLLBACK''] \<and>
         \<not> is_ok (snd (classic_insert se codec (Some message) s))))"
  using in_transaction_cases [OF _ assms(3,4) message_insertions] assms(1,2)
  by (simp add: live_def classic_insert_def)

definition sample_codec :: idmef_codec where
  "sample_codec =
     \<lparr>enum_to_string = (\<lambda>e v. if 0 \<le> v then Some (CHR ''e'' # dec_int v) else None),
      enum_to_numeric = (\<lambda>e t. int (dec_value (tl t))), enum_new = (\<lambda>e. 0),
      additional_data_type_of = (\<lambda>v. if v = 0 then Some AD_STRING else if v = 9 then Some AD_BYTE_STRING else None),
      data_to_string = (\<lambda>d. Inr ''data''), print_float = (\<lambda>f. ''0.5''), strto_float = (\<lambda>s. (0, [], False)),
      scan_float = (\<lambda>s. None), time_new_from_string = (\<lambda>s. Inl RawError),
      idmef_times = \<lparr>value_to_string = (\<lambda>v. Inr []), gmtime = (\<lambda>t. if t = 0 then
        Some \<lparr>tm_sec = 0, tm_min = 0, tm_hour = 0, tm_mday = 1, tm_mon = 0, tm_year = 70, tm_wday = 4, tm_yday = 0\<rparr> else None),
        timegm = (\<lambda>t. 0)\<rparr>\<rparr>"

theorem insertion_is_one_transaction_witness:
  "mutex (fst (classic_insert sample_strerror sample_codec (Some MESSAGE_INVALID) (session_on (sample_lib []) True False))) = 0"
  using insertion_is_one_transaction [of "session_on (sample_lib []) True False" sample_strerror sample_codec MESSAGE_INVALID]
  by (simp add: sqlite_keeps_connection)

text \<open>
  C38: Asking for a version a.b.c compares it with the library's number by number: the check
  passes if the library's major, minor or micro number, the first that differs, is greater, or
  if all three are equal and the library is a final release. This holds while the numbers fit
  their bytes; a larger one spills into its neighbour: 0.999.0 is refused by the library 1.0.0.
\<close>

theorem version_check_compares_numbers:
  assumes "version_fits major minor micro level patch" "version_fits (int a) (int b) (int c) LIBPRELUDEDB_RELEASE_LEVEL_FINAL 0"
  shows "preludedb_check_version v (hex_version major minor micro level patch)
      (Some (dec_nat a @ ''.'' @ dec_nat b @ ''.'' @ dec_nat c)) =
     (if int a < major \<or> int a = major \<and> (int b < minor \<or> int b = minor \<and>
        (int c < micro \<or> int c = micro \<and> level = LIBPRELUDEDB_RELEASE_LEVEL_FINAL)) then Some v else None) \<and>
    preludedb_check_version v (hex_version 1 0 0 LIBPRELUDEDB_RELEASE_LEVEL_FINAL 0) (Some ''0.999.0'') = None"
proof -
  have dot: "\<not> isdigit (CHR ''.'')" by (simp add: isdigit_def)
  have num: "strto_scan (dec_nat n @ CHR ''.'' # s) = (False, n, CHR ''.'' # s)" for n s
    using strto_scan_number [OF number_text_dec_int [of "int n"], of "CHR ''.'' # s"] dot by simp
  have "scan_version (dec_nat a @ CHR ''.'' # dec_nat b @ CHR ''.'' # dec_nat c) = Some (int a, int b, int c, [], 0)"
    using not_sym [OF dec_nat_nonempty [of c]] by (simp add: scan_version_def num)
  then have "preludedb_check_version v (hex_version major minor micro level patch)
      (Some (dec_nat a @ ''.'' @ dec_nat b @ ''.'' @ dec_nat c)) =
     (if uint (hex_version (int a) (int b) (int c) LIBPRELUDEDB_RELEASE_LEVEL_FINAL 0) \<le>
        uint (hex_version major minor micro level patch) then Some v else None)"
    by (simp add: preludedb_check_version_def word_le_def)
  moreover have "version_number (int a) (int b) (int c) LIBPRELUDEDB_RELEASE_LEVEL_FINAL 0 \<le>
        version_number major minor micro level patch \<longleftrightarrow>
      int a < major \<or> int a = major \<and> (int b < minor \<or> int b = minor \<and>
        (int c < micro \<or> int c = micro \<and> level = LIBPRELUDEDB_RELEASE_LEVEL_FINAL))"
    using assms by (auto simp: version_fits_def version_number_def)
  moreover have "preludedb_check_version v (hex_version 1 0 0 LIBPRELUDEDB_RELEASE_LEVEL_FINAL 0) (Some ''0.999.0'') = None"
    by code_simp
  ultimately show ?thesis by (simp add: hex_version_sum assms)
qed

theorem version_check_compares_numbers_witness:
  "preludedb_check_version ''5.2.0'' (hex_version 5 2 0 LIBPRELUDEDB_RELEASE_LEVEL_FINAL 0) (Some (dec_nat 5 @ ''.'' @ dec_nat 1 @ ''.'' @ dec_nat 9)) = Some ''5.2.0''"
  using version_check_compares_numbers [of 5 2 0 LIBPRELUDEDB_RELEASE_LEVEL_FINAL 0 5 1 9 "''5.2.0''"]
  by (simp add: version_fits_def)

section \<open>Storing and retrieving heartbeats\<close>

text \<open>
  C2: A heartbeat that was inserted is retrieved as it was. On a connected SQLite session
  outside a transaction, over a database that meets the constraints of the classic schema,
  inserting a heartbeat whose texts are not empty and that keeps within the format's limits
  succeeds under a new ident; the transaction is closed and the lock released. Retrieving that
  ident returns the same message, and the tables differ only by the message's rows.
\<close>

theorem stored_heartbeat_is_retrieved:
  assumes "sqlite_engine lib tbl lit ac"
    and "status_connected s" "sql_plugin s = sqlite_plugin lib rx" "ac (session s)"
    and "\<not> status_transaction s" "\<not> internal_transaction_disabled s"
    and "heartbeat_ok sqlite_storable codec x" "sound (read_tables (tbl (session s)))"
      "no_orphans (CHR ''H'') ''Prelude_Heartbeat'' (read_tables (tbl (session s)))"
      "idents_left (read_tables (tbl (session s)) ''Prelude_Heartbeat'')"
  shows "\<exists>n s' s''. classic_insert se codec (Some (MESSAGE_HEARTBEAT (Some x))) s = (s', Inr ()) \<and>
    \<not> status_transaction s' \<and> mutex s' = mutex s \<and>
    (\<forall>r \<in> set (read_tables (tbl (session s)) ''Prelude_Heartbeat''). cell_at r ''_ident'' \<noteq> Some (dec_nat n)) \<and>
    classic_get_heartbeat codec n s' = Some (s'', Inr (MESSAGE_HEARTBEAT (Some x))) \<and>
    read_tables (tbl (session s'')) = with_heartbeat codec (read_tables (tbl (session s))) n x"
proof -
  obtain n s' where i: "classic_insert se codec (Some (MESSAGE_HEARTBEAT (Some x))) s = (s', Inr ())"
    "sqlite_session lib ac True s'" "mutex s' = mutex s" "\<not> status_transaction s'"
    "read_tables (tbl (session s')) = with_heartbeat codec (read_tables (tbl (session s))) n x"
    "\<forall>r \<in> set (read_tables (tbl (session s)) ''Prelude_Heartbeat''). cell_at r ''_ident'' \<noteq> Some (dec_nat n)"
    by (rule sqlite_engine.heartbeat_insertion [OF assms])
  have st: "heartbeat_stored codec (read_tables (tbl (session s'))) n x"
    unfolding i(5) by (rule heartbeat_stored_new [OF assms(9) i(6)])
  obtain s'' where "classic_get_heartbeat codec n s' = Some (s'', Inr (MESSAGE_HEARTBEAT (Some x)))"
    "read_tables (tbl (session s'')) = read_tables (tbl (session s'))"
    by (rule sqlite_engine.heartbeat_lookup [OF assms(1) i(2) assms(7) st])
  then show ?thesis using i by metis
qed

definition engine_session :: "table_world \<Rightarrow> (table_world, sqlite_stmt) sql" where
  "engine_session w =
     \<lparr>sql_type = ''sqlite3'', sql_settings = [''file'' \<mapsto> ''db''], sql_plugin = sqlite_plugin table_engine ''REGEXP'',
      status_connected = True, status_transaction = False, session = w, logfile = None,
      internal_transaction_disabled = False, mutex = 0, sql_refcount = 1, thread_error = None, issued = []\<rparr>"

lemma engine_session_simps [simp]:
  "status_connected (engine_session w)" "sql_plugin (engine_session w) = sqlite_plugin table_engine ''REGEXP''"
  "session (engine_session w) = w" "\<not> status_transaction (engine_session w)"
  "\<not> internal_transaction_disabled (engine_session w)" "mutex (engine_session w) = 0"
  by (simp_all add: engine_session_def)

definition empty_world :: table_world where
  "empty_world = (\<lambda>T. [], None)"

lemma empty_world_facts:
  "snd empty_world = None" "read_tables (fst empty_world) = (\<lambda>T. [])" "sound (\<lambda>T. [])" "no_orphans pt M (\<lambda>T. [])" "idents_left []"
  by (auto simp: empty_world_def read_tables_def fun_eq_iff no_orphans_def idents_left_def intro!: soundI)

definition sample_heartbeat :: idmef_heartbeat where
  "sample_heartbeat =
     \<lparr>heartbeat_messageid = Some ''m1'', heartbeat_interval = Some 600, heartbeat_analyzers =
        [\<lparr>analyzer_analyzerid = Some ''42'', analyzer_name = Some ''prelude-lml'', analyzer_manufacturer = None,
          analyzer_model = None, analyzer_version = None, analyzer_class = None, analyzer_ostype = None,
          analyzer_osversion = None,
          analyzer_node = Some \<lparr>node_ident = None, node_category = 1, node_location = None, node_name = Some ''host'',
            node_addresses = [\<lparr>address_ident = None, address_category = 2, address_vlan_name = None,
              address_vlan_num = Some 7, address_address = Some ''10.0.0.1'', address_netmask = None\<rparr>]\<rparr>,
          analyzer_process = Some \<lparr>process_ident = None, process_name = Some ''lml'', process_pid = Some 100,
            process_path = None, process_args = [''-d''], process_envs = []\<rparr>\<rparr>],
      heartbeat_create_time = Some \<lparr>time_sec = 0, time_usec = 5, time_gmtoff = 3600\<rparr>, heartbeat_analyzer_time = None,
      heartbeat_additional_data = [\<lparr>ad_type = 0, ad_meaning = Some ''Analyzer status'', ad_data = Data_char_string ''running''\<rparr>]\<rparr>"

lemma sample_enum_ok:
  "enum_ok sqlite_storable sample_codec NODE_CATEGORY 1" "enum_ok sqlite_storable sample_codec ADDRESS_CATEGORY 2"
  "enum_ok sqlite_storable sample_codec ADDITIONAL_DATA_TYPE 0"
  by code_simp+

lemma sample_timestamp:
  "timestamp_text \<lparr>tm_sec = 0, tm_min = 0, tm_hour = 0, tm_mday = 1, tm_mon = 0, tm_year = 70, tm_wday = 4, tm_yday = 0\<rparr> =
    ''1970-01-01 00:00:00''"
  by code_simp

lemma sample_time_ok: "time_ok sqlite_storable sample_codec \<lparr>time_sec = 0, time_usec = 5, time_gmtoff = 3600\<rparr>"
  by (simp add: time_ok_def sample_codec_def sample_timestamp sqlite_storable_def TIMESTAMP_STRING_SIZE_def)

lemma sample_data_of_type:
  "data_of_type sample_codec (additional_data_type_of sample_codec 0) ''running'' = Inr (Data_char_string ''running'')"
  by code_simp

lemma sample_heartbeat_ok: "heartbeat_ok sqlite_storable sample_codec sample_heartbeat"
  by (simp add: heartbeat_ok_def sample_heartbeat_def sample_enum_ok sample_time_ok text_ok_def uint_ok_def analyzer_ok_def
      node_ok_def address_ok_def vlan_ok_def process_ok_def additional_data_ok_def data_bytes_def sample_data_of_type
      sqlite_storable_def)

theorem stored_heartbeat_is_retrieved_witness:
  "\<exists>n s' s''. classic_insert sample_strerror sample_codec (Some (MESSAGE_HEARTBEAT (Some sample_heartbeat)))
      (engine_session empty_world) = (s', Inr ()) \<and>
    classic_get_heartbeat sample_codec n s' = Some (s'', Inr (MESSAGE_HEARTBEAT (Some sample_heartbeat)))"
  using stored_heartbeat_is_retrieved [OF engine.sqlite_engine_axioms, of "engine_session empty_world" "''REGEXP''"
      sample_codec sample_heartbeat sample_strerror] sample_heartbeat_ok empty_world_facts
  by auto

text \<open>
  C1: The stored heartbeats behave as a map from idents to messages. If the tables represent the
  map A, inserting a heartbeat succeeds under an ident that A does not use and leaves tables that
  represent A with this entry added, on a session in the same state, so that insertions can be
  repeated; every entry, the earlier ones and the new one, is then retrieved as it was inserted.
\<close>

theorem archive_refines_map:
  assumes "sqlite_engine lib tbl lit ac"
    and "status_connected s" "sql_plugin s = sqlite_plugin lib rx" "ac (session s)"
    and "\<not> status_transaction s" "\<not> internal_transaction_disabled s"
    and "heartbeat_ok sqlite_storable codec x" "idents_left (read_tables (tbl (session s)) ''Prelude_Heartbeat'')"
    and "archive_of codec (read_tables (tbl (session s))) A"
  shows "\<exists>n s'. classic_insert se codec (Some (MESSAGE_HEARTBEAT (Some x))) s = (s', Inr ()) \<and> A n = None \<and>
    status_connected s' \<and> sql_plugin s' = sqlite_plugin lib rx \<and> ac (session s') \<and> mutex s' = mutex s \<and>
    \<not> status_transaction s' \<and> \<not> internal_transaction_disabled s' \<and>
    archive_of codec (read_tables (tbl (session s'))) (A(n \<mapsto> x)) \<and>
    (\<forall>m y. (A(n \<mapsto> x)) m = Some y \<longrightarrow>
       (\<exists>s''. classic_get_heartbeat codec m s' = Some (s'', Inr (MESSAGE_HEARTBEAT (Some y)))))"
proof -
  obtain n s' where i: "classic_insert se codec (Some (MESSAGE_HEARTBEAT (Some x))) s = (s', Inr ())" "A n = None"
    "status_connected s'" "sql_plugin s' = sqlite_plugin lib rx" "ac (session s')" "mutex s' = mutex s"
    "\<not> status_transaction s'" "\<not> internal_transaction_disabled s'"
    "archive_of codec (read_tables (tbl (session s'))) (A(n \<mapsto> x))"
    by (rule sqlite_engine.archive_insertion [OF assms])
  have "sqlite_session lib ac True s'" unfolding sqlite_session_def using i by blast
  then have "\<exists>s''. classic_get_heartbeat codec m s' = Some (s'', Inr (MESSAGE_HEARTBEAT (Some y)))"
    if "(A(n \<mapsto> x)) m = Some y" for m y
    using sqlite_engine.archive_lookup [OF assms(1) _ i(9) that] by metis
  then show ?thesis using i by blast
qed

theorem archive_refines_map_witness:
  "\<exists>n s'. classic_insert sample_strerror sample_codec (Some (MESSAGE_HEARTBEAT (Some sample_heartbeat)))
      (engine_session empty_world) = (s', Inr ()) \<and>
    archive_of sample_codec (read_tables (fst (session s'))) [n \<mapsto> sample_heartbeat]"
  using archive_refines_map [OF engine.sqlite_engine_axioms, of "engine_session empty_world" "''REGEXP''"
      sample_codec sample_heartbeat "\<lambda>n. None" sample_strerror] sample_heartbeat_ok empty_world_facts archive_empty
  by auto

section \<open>Selected paths\<close>



text \<open>
  C14: A selected path that has a text is read back from it: the nested calls with their
  arguments, the numbers of an \<open>int\<close>, quoted strings without a double quote, the names of the
  time units and the flags in any combination; the text of an IDMEF path is any that libprelude
  reads as the path and that is one token.
\<close>

theorem selected_path_round_trip:
  assumes "has_text path_new ob x"
  shows "preludedb_selected_path_new_string msg path_new (x @ options_text flags) = Inr (preludedb_selected_path_new ob flags)"
  by (rule path_text_read [OF assms])

definition time_path :: idmef_path where
  "time_path =
     \<lparr>path_elems = [\<lparr>pe_name = ''alert'', pe_class = ''alert'', pe_index = Index_forbidden\<rparr>,
        \<lparr>pe_name = ''create_time'', pe_class = ''time'', pe_index = Index_forbidden\<rparr>], path_type = VALUE_TYPE_TIME\<rparr>"

definition time_path_new :: "string \<Rightarrow> db_error + idmef_path" where
  "time_path_new t = (if t = ''alert.create_time'' then Inr time_path else Inl RawError)"

theorem selected_path_round_trip_witness:
  "preludedb_selected_path_new_string (\<lambda>ts rest. ''syntax error'') time_path_new (''max(alert.create_time)/group_by,order_desc'') =
     Inr (preludedb_selected_path_new (Object_function OBJECT_MAX [Object_path time_path])
       \<lparr>group_by = True, order_asc = False, order_desc = True\<rparr>)"
proof -
  have "idmef_text ''alert.create_time''" by code_simp
  then have "has_text time_path_new (Object_path time_path) ''alert.create_time''"
    by (rule path_text) (simp add: time_path_new_def)
  from call_text [OF _ this, of OBJECT_MAX "''max(''"]
  have "has_text time_path_new (Object_function OBJECT_MAX [Object_path time_path]) ''max(alert.create_time)''" by simp
  from selected_path_round_trip [OF this, of "\<lambda>ts rest. ''syntax error''" "\<lparr>group_by = True, order_asc = False, order_desc = True\<rparr>"]
  show ?thesis by (simp add: options_text_def option_words_def del: yylex.simps)
qed

section \<open>Inserted rows and the schema\<close>

text \<open>
  C8: Every statement that inserting a message sends on a live connection fits the schema: an
  INSERT names a table of the classic format and columns that the table has, none twice and
  every NOT NULL column among them, but the ident that the database gives, and it has one value
  for each; what is no INSERT asks for the last ident of alerts or heartbeats.
\<close>

theorem inserted_rows_fit_the_schema:
  assumes "status_connected s" "connection_kept (sql_plugin s)"
  shows "\<exists>qs. issued (fst (insert_message codec message s)) = issued s @ qs \<and> (\<forall>q \<in> set qs. schema_statement q)"
  using inserts_message [of codec message] assms unfolding sends_def live_def by blast

theorem inserted_rows_fit_the_schema_witness:
  "\<exists>qs. issued (fst (insert_message sample_codec (MESSAGE_HEARTBEAT (Some sample_heartbeat)) (session_on (sample_lib []) True False))) = qs \<and>
     (\<forall>q \<in> set qs. schema_statement q)"
  using inserted_rows_fit_the_schema [of "session_on (sample_lib []) True False" sample_codec "MESSAGE_HEARTBEAT (Some sample_heartbeat)"]
  by (simp add: sqlite_keeps_connection session_on_def)

section \<open>Transfers\<close>


text \<open>A format in memory: the session is the list of the messages with their idents.\<close>

definition memory_sql :: "((nat \<times> idmef_message) list, nat list) preludedb_plugin_sql" where
  "memory_sql =
     \<lparr>p_open = (\<lambda>_ w. (w, Inr ())), p_close = (\<lambda>w. w), p_escape = None, p_escape_binary = None, p_unescape_binary = None,
      p_query = (\<lambda>w q want. (w, Inr None)), p_get_column_count = length, p_get_row_count = None,
      p_get_column_name = (\<lambda>d i. None), p_get_column_num = (\<lambda>d n. Inl RawError), p_fetch_row = None, p_fetch_field = None,
      p_build_time_extract_string = None, p_build_time_constraint_string = None, p_build_time_interval_string = None,
      p_build_limit_offset_string = None, p_build_constraint_string = None, p_get_operator_string = (\<lambda>oper. None),
      p_build_timestamp_string = None, p_get_server_version = None, p_get_last_insert_ident = (\<lambda>w. (w, Inl RawError)),
      p_build_time_timezone_string = None\<rparr>"





definition memory_db :: "(nat \<times> idmef_message) list \<Rightarrow> ((nat \<times> idmef_message) list, nat list) preludedb" where
  "memory_db ms =
     \<lparr>db_refcount = 1, format_version = None,
      db_sql = \<lparr>sql_type = ''memory'', sql_settings = (\<lambda>_. None), sql_plugin = memory_sql,
        status_connected = True, status_transaction = False, session = ms, logfile = None,
        internal_transaction_disabled = False, mutex = 0, sql_refcount = 1, thread_error = None, issued = []\<rparr>,
      db_plugin = None\<rparr>"


definition memory_sink_ok :: "((nat \<times> idmef_message) list, nat list) preludedb \<Rightarrow> bool" where
  "memory_sink_ok db \<longleftrightarrow> sql_plugin (db_sql db) = memory_sql"









definition sample_admin :: "int \<Rightarrow> int \<Rightarrow> nat \<Rightarrow> admin" where
  "sample_admin limit offset ept =
     \<lparr>adm_limit = limit, adm_limit_copy = limit, adm_offset = offset, adm_offset_copy = 0, events_per_transaction = ept,
      cur_count = 0, stop_processing = False\<rparr>"


lemma memory_db_session [simp]: "session (db_sql (memory_db ms)) = ms" "memory_sink_ok (memory_db ms)"
  by (simp_all add: memory_db_def memory_sink_ok_def)

lemma sample_admin_simps [simp]:
  "events_per_transaction (sample_admin l k n) = n" "cur_count (sample_admin l k n) = 0" "adm_offset (sample_admin l k n) = k"
  "adm_limit_copy (sample_admin l k n) = l" "adm_limit (sample_admin l k n) = l" "stop_processing (sample_admin l k n) = False"
  by (simp_all add: sample_admin_def)







section \<open>The memory of selected paths\<close>

text \<open>
  C9: The reference counting of selected objects is exact for every client that holds handles,
  creates objects, takes references, pushes arguments to functions they are not part of, and
  destroys. In every state it reaches, each object's counter is the number of handles on it and
  of arguments that point to it, and all of these point to objects that are allocated.
  Destroying a selection of its handles ends without touching freed memory, keeps every object
  that another handle needs as it was, and leaves no object behind when these were all handles.
\<close>

theorem selected_objects_are_counted:
  assumes "(client_step path_new)\<^sup>*\<^sup>* (Map.empty, {#}) (h, mset as + K)"
  shows "(\<forall>a ob. h a = Some ob \<longrightarrow>
      unat (ob_refcount ob) = count (mset as + K) a + (\<Sum>b \<in> dom h. count (mset (args_of h b)) a)) \<and>
    set_mset (mset as + K) \<subseteq> dom h \<and> (\<forall>b \<in> dom h. set (args_of h b) \<subseteq> dom h) \<and>
    (\<exists>h'. preludedb_path_selection_destroy \<lparr>hs_refcount = 1, hs_objects = as\<rparr> h = Some (Inr (h', None)) \<and>
      set_mset K \<subseteq> dom h' \<and> (\<forall>b \<in> dom h'. set (args_of h' b) \<subseteq> dom h') \<and>
      (\<forall>b ob'. h' b = Some ob' \<longrightarrow> (\<exists>ob. h b = Some ob \<and> ob_data ob' = ob_data ob)) \<and> (K = {#} \<longrightarrow> h' = Map.empty))"
proof -
  have ok: "counted {} h (K + mset as)" "acyclic (edges h)"
    using reachable_ok [OF assms] by (simp_all add: client_ok_def ac_simps)
  obtain h' where h': "destroy_args as h = Some (Inr h')" "counted {} h' K" "kept_data h h'"
    using destroys_counted [OF ok(1)] unfolding destroys_def by blast
  have "K = {#} \<Longrightarrow> h' = Map.empty"
    using no_handles_no_objects [of h'] h'(2) acyclic_subset [OF ok(2) kept_data_edges [OF h'(3)]] by simp
  then show ?thesis
    using h' ok(1) by (simp add: preludedb_path_selection_destroy_def counted_def owners_def kept_data_def add.commute)
qed

definition sample_heap :: object_heap where
  "sample_heap =
     [1 \<mapsto> \<lparr>ob_refcount = 1, ob_data = Data_function OBJECT_MAX [2]\<rparr>, 2 \<mapsto> \<lparr>ob_refcount = 2, ob_data = Data_int 7\<rparr>]"

lemma sample_heap_reached: "(client_step path_new)\<^sup>*\<^sup>* (Map.empty, {#}) (sample_heap, mset [1] + {#2#})"
proof -
  let ?f = "\<lparr>ob_refcount = 1, ob_data = Data_function OBJECT_MAX []\<rparr>" and ?i = "\<lparr>ob_refcount = 1, ob_data = Data_int 7\<rparr>"
  have 1: "client_step path_new (Map.empty, {#}) ([1 \<mapsto> ?f], {#1#})"
    by (rule client_step.creates [of 1 _ path_new "New_function OBJECT_MAX"]) (simp_all add: preludedb_selected_object_new_at_def)
  have 2: "client_step path_new ([1 \<mapsto> ?f], {#1#}) ([1 \<mapsto> ?f, 2 \<mapsto> ?i], {#2, 1#})"
    by (rule client_step.creates [of 2 _ path_new "New_int 7"]) (simp_all add: preludedb_selected_object_new_at_def)
  have 3: "client_step path_new ([1 \<mapsto> ?f, 2 \<mapsto> ?i], {#2, 1#}) ([1 \<mapsto> ?f, 2 \<mapsto> ?i\<lparr>ob_refcount := 2\<rparr>], {#2, 2, 1#})"
    by (rule client_step.references [of _ 2 ?i]) (simp_all add: preludedb_selected_object_ref_def)
  have "edges [1 \<mapsto> ?f, 2 \<mapsto> ?i\<lparr>ob_refcount := 2\<rparr>] = {}" by (simp add: edges_def args_of_def object_args_def)
  then have 4: "client_step path_new ([1 \<mapsto> ?f, 2 \<mapsto> ?i\<lparr>ob_refcount := 2\<rparr>], {#2, 2, 1#}) (sample_heap, {#2, 1#})"
    by (intro client_step.pushes [of 1]) (simp_all add: object_push_arg_def sample_heap_def fun_eq_iff)
  show ?thesis
    using r_into_rtranclp [of "client_step path_new", OF 1] 2 3 4 by (simp add: add_mset_commute rtranclp.rtrancl_into_rtrancl)
qed

theorem selected_objects_are_counted_witness:
  "\<exists>h'. preludedb_path_selection_destroy \<lparr>hs_refcount = 1, hs_objects = [1]\<rparr> sample_heap = Some (Inr (h', None)) \<and> 2 \<in> dom h'"
  using selected_objects_are_counted [OF sample_heap_reached [of "\<lambda>t. Inl RawError"]] by auto

end
